(* ===== verification/Prelude.thy ===== *)
theory Prelude
  imports Main "HOL-Library.State_Monad" "HOL-Library.AList"
begin

section \<open>Shared vocabulary of the development\<close>

text \<open>
  What every component of the operator shares and what does not mention Kubernetes: the parts of
  Go's \<^verbatim>\<open>strings\<close>, \<^verbatim>\<open>fmt\<close> and \<^verbatim>\<open>errors\<close> packages the sources call, Go maps with string keys,
  the return values of a reconcile step, and a small weakest-precondition calculus for the state
  monad in which the handlers are written.
\<close>

named_theorems wp_simps \<open>weakest preconditions of the primitives and combinators\<close>
named_theorems go_string_simps \<open>Go string functions\<close>

subsection \<open>Strings\<close>

text \<open>
  A Go string is a sequence of bytes: \<^typ>\<open>string\<close>, a list of bytes. The functions below are the
  ones of package \<^verbatim>\<open>strings\<close> that the operator calls.
\<close>

definition HasPrefix :: "string \<Rightarrow> string \<Rightarrow> bool" where
  "HasPrefix s p \<longleftrightarrow> take (length p) s = p"

definition TrimPrefix :: "string \<Rightarrow> string \<Rightarrow> string" where
  "TrimPrefix s p = (if HasPrefix s p then drop (length p) s else s)"

definition HasSuffix :: "string \<Rightarrow> string \<Rightarrow> bool" where
  "HasSuffix s p \<longleftrightarrow> length p \<le> length s \<and> drop (length s - length p) s = p"

definition TrimSuffix :: "string \<Rightarrow> string \<Rightarrow> string" where
  "TrimSuffix s p = (if HasSuffix s p then take (length s - length p) s else s)"

fun Contains :: "string \<Rightarrow> string \<Rightarrow> bool" where
  "Contains [] p = (p = [])"
| "Contains (c # s) p = (HasPrefix (c # s) p \<or> Contains s p)"

text \<open>\<^verbatim>\<open>strings.Split\<close> with a one-byte separator: never empty, the separator removed.\<close>

fun Split :: "string \<Rightarrow> char \<Rightarrow> string list" where
  "Split [] sep = [[]]"
| "Split (c # s) sep =
     (if c = sep then [] # Split s sep
      else (case Split s sep of [] \<Rightarrow> [[c]] | w # ws \<Rightarrow> (c # w) # ws))"

text \<open>
  \<^verbatim>\<open>strings.SplitN\<close> with a positive bound: at most \<open>n\<close> pieces, the last one unsplit.
  \<^verbatim>\<open>strings.Index\<close> and \<^verbatim>\<open>strings.LastIndex\<close> of a byte; \<open>None\<close> is the \<^verbatim>\<open>-1\<close> of the library.
\<close>

fun SplitN :: "string \<Rightarrow> char \<Rightarrow> nat \<Rightarrow> string list" where
  "SplitN s sep 0 = []"
| "SplitN s sep (Suc 0) = [s]"
| "SplitN [] sep (Suc (Suc n)) = [[]]"
| "SplitN (c # s) sep (Suc (Suc n)) =
     (if c = sep then [] # SplitN s sep (Suc n)
      else (case SplitN s sep (Suc (Suc n)) of [] \<Rightarrow> [[c]] | w # ws \<Rightarrow> (c # w) # ws))"

fun Index :: "string \<Rightarrow> char \<Rightarrow> nat option" where
  "Index [] x = None"
| "Index (c # s) x = (if c = x then Some 0 else map_option Suc (Index s x))"

fun LastIndex :: "string \<Rightarrow> char \<Rightarrow> nat option" where
  "LastIndex [] x = None"
| "LastIndex (c # s) x =
     (case LastIndex s x of
        Some i \<Rightarrow> Some (Suc i)
      | None \<Rightarrow> if c = x then Some 0 else None)"

text \<open>\<^verbatim>\<open>strings.TrimSpace\<close>: the white space of Unicode, each as its UTF-8 bytes.\<close>

definition whiteSpace :: "string list" where
  "whiteSpace = map (map char_of) ([[9], [10], [11], [12], [13], [32], [0xC2, 0x85], [0xC2, 0xA0],
     [0xE1, 0x9A, 0x80]] @ map (\<lambda>i. [0xE2, 0x80, 0x80 + i]) [0..<11]
     @ [[0xE2, 0x80, 0xA8], [0xE2, 0x80, 0xA9], [0xE2, 0x80, 0xAF], [0xE2, 0x81, 0x9F],
        [0xE3, 0x80, 0x80 :: nat]])"

fun dropSpaces :: "string list \<Rightarrow> nat \<Rightarrow> string \<Rightarrow> string" where
  "dropSpaces ws 0 s = s"
| "dropSpaces ws (Suc n) s =
     (case List.find (\<lambda>w. HasPrefix s w) ws of
        None \<Rightarrow> s
      | Some w \<Rightarrow> dropSpaces ws n (drop (length w) s))"

definition TrimSpace :: "string \<Rightarrow> string" where
  "TrimSpace s =
     (let t = dropSpaces whiteSpace (length s) s
      in rev (dropSpaces (map rev whiteSpace) (length t) (rev t)))"

text \<open>\<^verbatim>\<open>strings.Join\<close>.\<close>

fun Join :: "string list \<Rightarrow> string \<Rightarrow> string" where
  "Join [] sep = []"
| "Join [x] sep = x"
| "Join (x # y # ys) sep = x @ sep @ Join (y # ys) sep"

text \<open>
  \<^verbatim>\<open>%q\<close>: quotes and backslashes escaped, control characters escaped, everything else (printable
  ASCII and the bytes of printable runes) as it is.
\<close>

definition hex_digit :: "nat \<Rightarrow> char" where
  "hex_digit n = char_of (if n < 10 then 48 + n else 87 + n)"

definition quote_char :: "char \<Rightarrow> string" where
  "quote_char c =
     (let n = of_char c :: nat in
      if n = 34 \<or> n = 92 then [CHR 0x5C, c]
      else if n = 7 then [CHR 0x5C, CHR ''a'']
      else if n = 8 then [CHR 0x5C, CHR ''b'']
      else if n = 9 then [CHR 0x5C, CHR ''t'']
      else if n = 10 then [CHR 0x5C, CHR ''n'']
      else if n = 11 then [CHR 0x5C, CHR ''v'']
      else if n = 12 then [CHR 0x5C, CHR ''f'']
      else if n = 13 then [CHR 0x5C, CHR ''r'']
      else if n < 32 \<or> n = 127
      then [CHR 0x5C, CHR ''x'', hex_digit (n div 16), hex_digit (n mod 16)]
      else [c])"

definition Quote :: "string \<Rightarrow> string" where
  "Quote s = [CHR 0x22] @ concat (map quote_char s) @ [CHR 0x22]"

text \<open>The digits \<^verbatim>\<open>%d\<close> prints for a non-negative integer.\<close>

definition digit_char :: "nat \<Rightarrow> char" where
  "digit_char n = char_of (48 + n)"

fun show_nat :: "nat \<Rightarrow> string" where
  "show_nat n = (if n < 10 then [digit_char n] else show_nat (n div 10) @ [digit_char (n mod 10)])"

declare show_nat.simps [simp del]

definition show_int :: "int \<Rightarrow> string" where
  "show_int n = (if n < 0 then ''-'' @ show_nat (nat (- n)) else show_nat (nat n))"

lemma TrimPrefix_append [go_string_simps]: "TrimPrefix (p @ s) p = s"
  by (simp add: TrimPrefix_def HasPrefix_def)

lemma HasPrefix_append [go_string_simps]: "HasPrefix (p @ s) p"
  by (simp add: HasPrefix_def)

lemma HasPrefix_iff: "HasPrefix s p \<longleftrightarrow> (\<exists>r. s = p @ r)"
  unfolding HasPrefix_def by (metis append_eq_conv_conj append_take_drop_id)

lemma HasSuffix_append [go_string_simps]: "HasSuffix (s @ p) p"
  by (simp add: HasSuffix_def)

lemma HasSuffix_iff: "HasSuffix s p \<longleftrightarrow> (\<exists>r. s = r @ p)"
proof
  assume "HasSuffix s p"
  then show "\<exists>r. s = r @ p"
    unfolding HasSuffix_def by (metis append_take_drop_id)
next
  assume "\<exists>r. s = r @ p"
  then show "HasSuffix s p" by (auto simp: go_string_simps)
qed

lemma TrimSuffix_append [go_string_simps]: "TrimSuffix (s @ p) p = s"
  by (simp add: TrimSuffix_def HasSuffix_def)

lemma TrimSuffix_id: "\<not> HasSuffix s p \<Longrightarrow> TrimSuffix s p = s"
  by (simp add: TrimSuffix_def)

lemma TrimPrefix_neq:
  assumes "TrimPrefix s p \<noteq> s"
  shows "s = p @ TrimPrefix s p"
  using assms unfolding TrimPrefix_def HasPrefix_def
  by (metis append_take_drop_id)

lemma Split_nonempty [simp]: "Split s sep \<noteq> []"
  by (induction s sep rule: Split.induct) (auto split: list.splits)

lemma Split_no_sep: "sep \<notin> set s \<Longrightarrow> Split s sep = [s]"
  by (induction s) auto

lemma Split_append_sep: "sep \<notin> set t \<Longrightarrow> Split (s @ sep # t) sep = Split s sep @ [t]"
proof (induction s)
  case Nil
  then show ?case by (simp add: Split_no_sep)
next
  case (Cons c s)
  then have "Split (s @ sep # t) sep = Split s sep @ [t]" by simp
  moreover obtain w ws where "Split s sep = w # ws"
    using Split_nonempty [of s sep] by (cases "Split s sep") auto
  ultimately show ?case by simp
qed

lemma Split_append:
  "sep \<notin> set s \<Longrightarrow> Split (s @ sep # t) sep = s # Split t sep"
  by (induction s) auto

lemma SplitN_append:
  "sep \<notin> set s \<Longrightarrow> SplitN (s @ sep # t) sep (Suc (Suc n)) = s # SplitN t sep (Suc n)"
  by (induction s) auto

lemma SplitN_no_sep: "sep \<notin> set s \<Longrightarrow> SplitN s sep (Suc (Suc n)) = [s]"
  by (induction s) auto

lemma Index_append: "x \<notin> set s \<Longrightarrow> Index (s @ x # t) x = Some (length s)"
  by (induction s) auto

lemma Index_None: "Index s x = None \<longleftrightarrow> x \<notin> set s"
  by (induction s) auto

lemma LastIndex_None: "LastIndex s x = None \<longleftrightarrow> x \<notin> set s"
  by (induction s) (auto split: option.splits)

lemma LastIndex_append: "x \<notin> set t \<Longrightarrow> LastIndex (s @ x # t) x = Some (length s)"
  by (induction s) (auto simp: LastIndex_None split: option.splits)

subsection \<open>Go maps with string keys\<close>

text \<open>
  A \<^verbatim>\<open>map[string]string\<close> is an association list read through \<^const>\<open>map_of\<close>; a missing key reads as
  the zero value. A nil map and an empty map read alike, so both are \<open>[]\<close>.
\<close>

type_synonym 'v gomap = "(string \<times> 'v) list"

definition mget :: "string gomap \<Rightarrow> string \<Rightarrow> string" where
  "mget m k = (case map_of m k of None \<Rightarrow> [] | Some v \<Rightarrow> v)"

definition mset_key :: "'v gomap \<Rightarrow> string \<Rightarrow> 'v \<Rightarrow> 'v gomap" where
  "mset_key m k v = AList.update k v m"

text \<open>Equality of two Go maps, as \<^verbatim>\<open>DeepEqual\<close> sees it: the same keys with the same values.\<close>

definition map_eq :: "'v gomap \<Rightarrow> 'v gomap \<Rightarrow> bool" where
  "map_eq m n \<longleftrightarrow> (\<forall>k \<in> set (map fst m) \<union> set (map fst n). map_of m k = map_of n k)"

lemma map_of_mset_key [simp]: "map_of (mset_key m k v) = (map_of m)(k \<mapsto> v)"
  by (simp add: mset_key_def update_conv')

lemma mget_mset_key [simp]: "mget (mset_key m k v) k' = (if k' = k then v else mget m k')"
  by (simp add: mget_def)

lemma map_eq_iff: "map_eq m n \<longleftrightarrow> map_of m = map_of n"
proof
  assume eq: "map_eq m n"
  show "map_of m = map_of n"
  proof
    fix k
    show "map_of m k = map_of n k"
    proof (cases "k \<in> set (map fst m) \<union> set (map fst n)")
      case True
      then show ?thesis using eq by (simp add: map_eq_def)
    next
      case False
      then have "map_of m k = None" "map_of n k = None"
        by (simp_all add: map_of_eq_None_iff)
      then show ?thesis by simp
    qed
  qed
qed (simp add: map_eq_def)

lemma map_eq_refl [simp]: "map_eq m m"
  by (simp add: map_eq_def)

subsection \<open>Errors\<close>

text \<open>
  An \<^verbatim>\<open>error\<close> value carries what the code asks of it: the status reason that
  \<^verbatim>\<open>apierrors.IsNotFound\<close> and its relatives, \<^verbatim>\<open>meta.IsNoMatchError\<close> and \<^verbatim>\<open>errors.Is\<close> on the two
  sentinel errors find by unwrapping, and the text \<^verbatim>\<open>%v\<close> prints. \<^verbatim>\<open>fmt.Errorf\<close> with \<^verbatim>\<open>%w\<close> keeps
  the reason and changes the text; without \<^verbatim>\<open>%w\<close> the reason is lost. A run-time panic (a nil
  dereference), which the controller runtime recovers and reports as the error of the reconcile, is
  an error with reason \<open>Panic\<close>; no handler may catch it.
\<close>

datatype err_reason =
    NotFound | Forbidden | Conflict | AlreadyExists | NoMatch
  | IgnitionSyncPending | DPUClusterNotFound | Panic | OtherReason

record goerror =
  err_reason :: err_reason
  err_msg :: string

definition Errorf :: "string \<Rightarrow> goerror" where
  "Errorf m = \<lparr>err_reason = OtherReason, err_msg = m\<rparr>"

definition panicError :: "string \<Rightarrow> goerror" where
  "panicError m = \<lparr>err_reason = Panic, err_msg = m\<rparr>"

definition wrap :: "string \<Rightarrow> goerror \<Rightarrow> goerror" where
  "wrap m e = e\<lparr>err_msg := m @ '': '' @ err_msg e\<rparr>"

definition IsNotFound :: "goerror \<Rightarrow> bool" where
  "IsNotFound e \<longleftrightarrow> err_reason e = NotFound"

definition IsForbidden :: "goerror \<Rightarrow> bool" where
  "IsForbidden e \<longleftrightarrow> err_reason e = Forbidden"

definition IsConflict :: "goerror \<Rightarrow> bool" where
  "IsConflict e \<longleftrightarrow> err_reason e = Conflict"

definition IsAlreadyExists :: "goerror \<Rightarrow> bool" where
  "IsAlreadyExists e \<longleftrightarrow> err_reason e = AlreadyExists"

definition IsNoMatchError :: "goerror \<Rightarrow> bool" where
  "IsNoMatchError e \<longleftrightarrow> err_reason e = NoMatch"

lemmas err_tests = IsNotFound_def IsForbidden_def IsConflict_def IsAlreadyExists_def
  IsNoMatchError_def

lemma wrap_reason [simp]: "err_reason (wrap m e) = err_reason e"
  by (simp add: wrap_def)

lemma wrap_msg [simp]: "err_msg (wrap m e) = m @ '': '' @ err_msg e"
  by (simp add: wrap_def)

lemma Errorf_reason [simp]: "err_reason (Errorf m) = OtherReason"
  by (simp add: Errorf_def)

lemma Errorf_msg [simp]: "err_msg (Errorf m) = m"
  by (simp add: Errorf_def)

subsection \<open>Results of a reconcile step\<close>

text \<open>
  A step returns \<^verbatim>\<open>(ctrl.Result, error)\<close>. \<open>RequeueAfter\<close> is in seconds. Every caller in the
  operator tests a step the same way, \<^verbatim>\<open>err != nil || result.RequeueAfter > 0\<close>: \<open>stops\<close>.
\<close>

record Result =
  Requeue :: bool
  RequeueAfter :: nat

type_synonym step_result = "Result \<times> goerror option"

definition Done :: Result where
  "Done = \<lparr>Requeue = False, RequeueAfter = 0\<rparr>"

definition After :: "nat \<Rightarrow> Result" where
  "After n = \<lparr>Requeue = False, RequeueAfter = n\<rparr>"

definition RequeueNow :: Result where
  "RequeueNow = \<lparr>Requeue = True, RequeueAfter = 0\<rparr>"

definition ok :: step_result where
  "ok = (Done, None)"

definition failed :: "goerror \<Rightarrow> step_result" where
  "failed e = (Done, Some e)"

definition stops :: "step_result \<Rightarrow> bool" where
  "stops r \<longleftrightarrow> snd r \<noteq> None \<or> 0 < RequeueAfter (fst r)"

lemma RequeueAfter_simps [simp]:
  "RequeueAfter Done = 0" "RequeueAfter (After n) = n" "RequeueAfter RequeueNow = 0"
  by (simp_all add: Done_def After_def RequeueNow_def)

lemma ok_simps [simp]: "fst ok = Done" "snd ok = None"
  by (simp_all add: ok_def)

lemma failed_simps [simp]: "fst (failed e) = Done" "snd (failed e) = Some e"
  by (simp_all add: failed_def)

lemma stops_simps [simp]:
  "\<not> stops ok" "stops (failed e)" "stops (r, Some e)" "stops (After n, None) \<longleftrightarrow> 0 < n"
  "\<not> stops (Done, None)" "\<not> stops (RequeueNow, None)"
  by (simp_all add: stops_def)

lemma failed_neq_ok [simp]: "failed e \<noteq> ok" "ok \<noteq> failed e"
  by (simp_all add: ok_def failed_def)

lemma ok_After [simp]: "ok = (After n, None) \<longleftrightarrow> n = 0" "After m = After n \<longleftrightarrow> m = n"
  by (auto simp: ok_def Done_def After_def)

lemma failed_neq_After [simp]: "failed e \<noteq> (r, None)"
  by (simp add: failed_def)

lemma nth_split: "n < length xs \<Longrightarrow> xs ! n = x \<Longrightarrow> xs = take n xs @ x # drop (Suc n) xs"
  by (metis id_take_nth_drop)

subsection \<open>Weakest preconditions in the state monad\<close>

text \<open>
  \<open>wp m Q s\<close>: running \<open>m\<close> from \<open>s\<close> ends in a value and a state that satisfy \<open>Q\<close>. The handlers are
  total, so this is at once the weakest precondition of partial and of total correctness.
\<close>

definition wp :: "('s, 'a) state \<Rightarrow> ('a \<Rightarrow> 's \<Rightarrow> bool) \<Rightarrow> 's \<Rightarrow> bool" where
  "wp m Q s \<longleftrightarrow> (case run_state m s of (a, s') \<Rightarrow> Q a s')"

text \<open>The rules are equations between predicates on states, so that they apply under a binder.\<close>

lemma wp_return [wp_simps]: "wp (State_Monad.return x) Q = Q x"
  by (rule ext) (simp add: wp_def)

lemma wp_bind [wp_simps]: "wp (State_Monad.bind m f) Q = wp m (\<lambda>a. wp (f a) Q)"
  by (rule ext) (simp add: wp_def split: prod.splits)

lemma wp_get [wp_simps]: "wp State_Monad.get Q = (\<lambda>s. Q s s)"
  by (rule ext) (simp add: wp_def)

lemma wp_set [wp_simps]: "wp (State_Monad.set t) Q = (\<lambda>s. Q () t)"
  by (rule ext) (simp add: wp_def)

lemma wp_if [wp_simps]: "wp (if b then m else n) Q = (if b then wp m Q else wp n Q)"
  by simp

lemma wp_case_sum [wp_simps]:
  "wp (case x of Inl e \<Rightarrow> f e | Inr v \<Rightarrow> g v) Q
    = (case x of Inl e \<Rightarrow> wp (f e) Q | Inr v \<Rightarrow> wp (g v) Q)"
  by (simp split: sum.splits)

lemma wp_case_option [wp_simps]:
  "wp (case x of None \<Rightarrow> m | Some v \<Rightarrow> g v) Q
    = (case x of None \<Rightarrow> wp m Q | Some v \<Rightarrow> wp (g v) Q)"
  by (simp split: option.splits)

lemma wp_case_prod [wp_simps]:
  "wp (case x of (a, b) \<Rightarrow> f a b) Q = (case x of (a, b) \<Rightarrow> wp (f a b) Q)"
  by (simp split: prod.splits)

lemma wp_case_list [wp_simps]:
  "wp (case x of [] \<Rightarrow> m | y # ys \<Rightarrow> g y ys) Q
    = (case x of [] \<Rightarrow> wp m Q | y # ys \<Rightarrow> wp (g y ys) Q)"
  by (simp split: list.splits)

lemma wp_Let [wp_simps]: "wp (let x = t in f x) Q = (let x = t in wp (f x) Q)"
  by (simp add: Let_def)

lemma wp_mono: "wp m P s \<Longrightarrow> (\<And>a s'. P a s' \<Longrightarrow> Q a s') \<Longrightarrow> wp m Q s"
  by (simp add: wp_def split: prod.splits)

lemma wp_conj: "wp m P s \<Longrightarrow> wp m Q s \<Longrightarrow> wp m (\<lambda>a s'. P a s' \<and> Q a s') s"
  by (simp add: wp_def split: prod.splits)

lemma wp_run: "wp m Q s \<Longrightarrow> run_state m s = (a, s') \<Longrightarrow> Q a s'"
  by (simp add: wp_def)

lemma wp_runI: "(\<And>a s'. run_state m s = (a, s') \<Longrightarrow> Q a s') \<Longrightarrow> wp m Q s"
  by (simp add: wp_def split: prod.splits)

lemma wp_seq:
  assumes "wp m P s" and "\<And>a s'. P a s' \<Longrightarrow> wp (f a) Q s'"
  shows "wp (State_Monad.bind m f) Q s"
  using assms by (simp add: wp_simps) (rule wp_mono)

end
