(* ===== verification/Api_Types.thy ===== *)
theory Api_Types
  imports Prelude
begin

section \<open>The operator's own API types and the objects it reads and writes\<close>

text \<open>
  The \<^verbatim>\<open>DPFHCPProvisioner\<close> and \<^verbatim>\<open>DPFHCPProvisionerConfig\<close> resources of \<^verbatim>\<open>api/v1alpha1\<close>, field by
  field, and the Kubernetes, HyperShift, MetalLB and DPF objects the controllers touch, each with
  the fields the code reads or writes. Timestamps that no code path reads
  (\<^verbatim>\<open>LastTransitionTime\<close>, \<^verbatim>\<open>LastUpdateTime\<close>) are left out.
\<close>

subsection \<open>Names and metadata\<close>

datatype NamespacedName = NN (nn_namespace: string) (nn_name: string)

definition nn_string :: "NamespacedName \<Rightarrow> string" where
  "nn_string k = nn_namespace k @ ''/'' @ nn_name k"

record OwnerReference =
  or_apiVersion :: string
  or_kind :: string
  or_name :: string
  or_uid :: string
  or_controller :: bool

record ObjectMeta =
  om_name :: string
  om_namespace :: string
  om_uid :: string
  om_generation :: int
  om_resourceVersion :: string
  om_creationTimestamp :: nat
  om_deletionTimestamp :: "nat option"
  om_finalizers :: "string list"
  om_labels :: "string gomap"
  om_annotations :: "string gomap"
  om_ownerReferences :: "OwnerReference list"

definition newMeta :: "string \<Rightarrow> string \<Rightarrow> ObjectMeta" where
  "newMeta ns n = \<lparr>om_name = n, om_namespace = ns, om_uid = [], om_generation = 0,
     om_resourceVersion = [], om_creationTimestamp = 0, om_deletionTimestamp = None,
     om_finalizers = [], om_labels = [], om_annotations = [], om_ownerReferences = []\<rparr>"

subsection \<open>Status conditions\<close>

datatype ConditionStatus = ConditionTrue | ConditionFalse | ConditionUnknown

record Condition =
  c_type :: string
  c_status :: ConditionStatus
  c_reason :: string
  c_message :: string
  c_observedGeneration :: int

definition mkCond ::
    "string \<Rightarrow> ConditionStatus \<Rightarrow> string \<Rightarrow> string \<Rightarrow> int \<Rightarrow> Condition" where
  "mkCond t s r m g = \<lparr>c_type = t, c_status = s, c_reason = r, c_message = m,
     c_observedGeneration = g\<rparr>"

lemma mkCond_simps [simp]:
  "c_type (mkCond t s r m g) = t" "c_status (mkCond t s r m g) = s"
  "c_reason (mkCond t s r m g) = r" "c_message (mkCond t s r m g) = m"
  "c_observedGeneration (mkCond t s r m g) = g"
  by (simp_all add: mkCond_def)

subsection \<open>Condition types and reasons\<close>

text \<open>The string constants of \<^verbatim>\<open>dpfhcpprovisioner_types.go\<close>, by the names the code gives them.\<close>

definition HostedClusterAvailable :: string where
  "HostedClusterAvailable = ''HostedClusterAvailable''"

definition HostedClusterProgressing :: string where
  "HostedClusterProgressing = ''HostedClusterProgressing''"

definition HostedClusterDegraded :: string where
  "HostedClusterDegraded = ''HostedClusterDegraded''"

definition ValidReleaseImage :: string where
  "ValidReleaseImage = ''ValidReleaseImage''"

definition ValidReleaseInfo :: string where
  "ValidReleaseInfo = ''ValidReleaseInfo''"

definition IgnitionEndpointAvailable :: string where
  "IgnitionEndpointAvailable = ''IgnitionEndpointAvailable''"

definition IgnitionServerValidReleaseInfo :: string where
  "IgnitionServerValidReleaseInfo = ''IgnitionServerValidReleaseInfo''"

definition Ready :: string where
  "Ready = ''Ready''"

definition KubeConfigInjected :: string where
  "KubeConfigInjected = ''KubeConfigInjected''"

definition HostedClusterCleanup :: string where
  "HostedClusterCleanup = ''HostedClusterCleanup''"

definition CSRAutoApprovalActive :: string where
  "CSRAutoApprovalActive = ''CSRAutoApprovalActive''"

definition SecretsValid :: string where
  "SecretsValid = ''SecretsValid''"

definition BlueFieldOCPLayerImageFound :: string where
  "BlueFieldOCPLayerImageFound = ''BlueFieldOCPLayerImageFound''"

definition DPUClusterMissing :: string where
  "DPUClusterMissing = ''DPUClusterMissing''"

definition ClusterTypeValid :: string where
  "ClusterTypeValid = ''ClusterTypeValid''"

definition DPUClusterInUse :: string where
  "DPUClusterInUse = ''DPUClusterInUse''"

definition HostedClusterUpgrading :: string where
  "HostedClusterUpgrading = ''HostedClusterUpgrading''"

definition MetalLBConfigured :: string where
  "MetalLBConfigured = ''MetalLBConfigured''"

definition IgnitionConfigured :: string where
  "IgnitionConfigured = ''IgnitionConfigured''"

lemmas condition_type_defs = HostedClusterAvailable_def HostedClusterProgressing_def HostedClusterDegraded_def ValidReleaseImage_def ValidReleaseInfo_def IgnitionEndpointAvailable_def IgnitionServerValidReleaseInfo_def Ready_def KubeConfigInjected_def HostedClusterCleanup_def CSRAutoApprovalActive_def SecretsValid_def BlueFieldOCPLayerImageFound_def DPUClusterMissing_def ClusterTypeValid_def DPUClusterInUse_def HostedClusterUpgrading_def MetalLBConfigured_def IgnitionConfigured_def

definition ReasonAllComponentsOperational :: string where
  "ReasonAllComponentsOperational = ''AllComponentsOperational''"

definition ReasonHostedClusterNotReady :: string where
  "ReasonHostedClusterNotReady = ''HostedClusterNotReady''"

definition ReasonKubeConfigNotInjected :: string where
  "ReasonKubeConfigNotInjected = ''KubeConfigNotInjected''"

definition ReasonKubeConfigInjected :: string where
  "ReasonKubeConfigInjected = ''Injected''"

definition ReasonKubeConfigPending :: string where
  "ReasonKubeConfigPending = ''KubeconfigPending''"

definition ReasonKubeConfigInjectionFailed :: string where
  "ReasonKubeConfigInjectionFailed = ''InjectionFailed''"

definition ReasonCSRApprovalActive :: string where
  "ReasonCSRApprovalActive = ''Active''"

definition ReasonKubeconfigNotAvailable :: string where
  "ReasonKubeconfigNotAvailable = ''KubeconfigNotAvailable''"

definition ReasonHostedClusterNotReachable :: string where
  "ReasonHostedClusterNotReachable = ''HostedClusterNotReachable''"

definition ReasonUpgradeInProgress :: string where
  "ReasonUpgradeInProgress = ''UpgradeInProgress''"

definition ReasonUpgradeComplete :: string where
  "ReasonUpgradeComplete = ''UpgradeComplete''"

definition ReasonIgnitionGenerated :: string where
  "ReasonIgnitionGenerated = ''IgnitionGenerated''"

definition ReasonIgnitionGenerationFailed :: string where
  "ReasonIgnitionGenerationFailed = ''IgnitionGenerationFailed''"

definition ReasonIgnitionCredentialSyncPending :: string where
  "ReasonIgnitionCredentialSyncPending = ''IgnitionCredentialSyncPending''"

definition ReasonMachineOSURLMissing :: string where
  "ReasonMachineOSURLMissing = ''MachineOSURLMissing''"

definition ReasonDPUDeploymentChanged :: string where
  "ReasonDPUDeploymentChanged = ''DPUDeploymentChanged''"

definition ReasonDependencyDeleted :: string where
  "ReasonDependencyDeleted = ''DependencyDeleted''"

definition ReasonReleaseImageUpdated :: string where
  "ReasonReleaseImageUpdated = ''ReleaseImageUpdated''"

definition ReasonControlPlaneProgressing :: string where
  "ReasonControlPlaneProgressing = ''ControlPlaneProgressing''"

lemmas reason_defs = ReasonAllComponentsOperational_def ReasonHostedClusterNotReady_def ReasonKubeConfigNotInjected_def ReasonKubeConfigInjected_def ReasonKubeConfigPending_def ReasonKubeConfigInjectionFailed_def ReasonCSRApprovalActive_def ReasonKubeconfigNotAvailable_def ReasonHostedClusterNotReachable_def ReasonUpgradeInProgress_def ReasonUpgradeComplete_def ReasonIgnitionGenerated_def ReasonIgnitionGenerationFailed_def ReasonIgnitionCredentialSyncPending_def ReasonMachineOSURLMissing_def ReasonDPUDeploymentChanged_def ReasonDependencyDeleted_def ReasonReleaseImageUpdated_def ReasonControlPlaneProgressing_def

text \<open>Distinct names are distinct types: the rewrite rules that separate the slots of a status.\<close>

lemma condition_types_neq [simp]:
  "HostedClusterAvailable \<noteq> HostedClusterProgressing"
  "HostedClusterAvailable \<noteq> HostedClusterDegraded"
  "HostedClusterAvailable \<noteq> ValidReleaseImage"
  "HostedClusterAvailable \<noteq> ValidReleaseInfo"
  "HostedClusterAvailable \<noteq> IgnitionEndpointAvailable"
  "HostedClusterAvailable \<noteq> IgnitionServerValidReleaseInfo"
  "HostedClusterAvailable \<noteq> Ready"
  "HostedClusterAvailable \<noteq> KubeConfigInjected"
  "HostedClusterAvailable \<noteq> HostedClusterCleanup"
  "HostedClusterAvailable \<noteq> CSRAutoApprovalActive"
  "HostedClusterAvailable \<noteq> SecretsValid"
  "HostedClusterAvailable \<noteq> BlueFieldOCPLayerImageFound"
  "HostedClusterAvailable \<noteq> DPUClusterMissing"
  "HostedClusterAvailable \<noteq> ClusterTypeValid"
  "HostedClusterAvailable \<noteq> DPUClusterInUse"
  "HostedClusterAvailable \<noteq> HostedClusterUpgrading"
  "HostedClusterAvailable \<noteq> MetalLBConfigured"
  "HostedClusterAvailable \<noteq> IgnitionConfigured"
  "HostedClusterProgressing \<noteq> HostedClusterAvailable"
  "HostedClusterProgressing \<noteq> HostedClusterDegraded"
  "HostedClusterProgressing \<noteq> ValidReleaseImage"
  "HostedClusterProgressing \<noteq> ValidReleaseInfo"
  "HostedClusterProgressing \<noteq> IgnitionEndpointAvailable"
  "HostedClusterProgressing \<noteq> IgnitionServerValidReleaseInfo"
  "HostedClusterProgressing \<noteq> Ready"
  "HostedClusterProgressing \<noteq> KubeConfigInjected"
  "HostedClusterProgressing \<noteq> HostedClusterCleanup"
  "HostedClusterProgressing \<noteq> CSRAutoApprovalActive"
  "HostedClusterProgressing \<noteq> SecretsValid"
  "HostedClusterProgressing \<noteq> BlueFieldOCPLayerImageFound"
  "HostedClusterProgressing \<noteq> DPUClusterMissing"
  "HostedClusterProgressing \<noteq> ClusterTypeValid"
  "HostedClusterProgressing \<noteq> DPUClusterInUse"
  "HostedClusterProgressing \<noteq> HostedClusterUpgrading"
  "HostedClusterProgressing \<noteq> MetalLBConfigured"
  "HostedClusterProgressing \<noteq> IgnitionConfigured"
  "HostedClusterDegraded \<noteq> HostedClusterAvailable"
  "HostedClusterDegraded \<noteq> HostedClusterProgressing"
  "HostedClusterDegraded \<noteq> ValidReleaseImage"
  "HostedClusterDegraded \<noteq> ValidReleaseInfo"
  "HostedClusterDegraded \<noteq> IgnitionEndpointAvailable"
  "HostedClusterDegraded \<noteq> IgnitionServerValidReleaseInfo"
  "HostedClusterDegraded \<noteq> Ready"
  "HostedClusterDegraded \<noteq> KubeConfigInjected"
  "HostedClusterDegraded \<noteq> HostedClusterCleanup"
  "HostedClusterDegraded \<noteq> CSRAutoApprovalActive"
  "HostedClusterDegraded \<noteq> SecretsValid"
  "HostedClusterDegraded \<noteq> BlueFieldOCPLayerImageFound"
  "HostedClusterDegraded \<noteq> DPUClusterMissing"
  "HostedClusterDegraded \<noteq> ClusterTypeValid"
  "HostedClusterDegraded \<noteq> DPUClusterInUse"
  "HostedClusterDegraded \<noteq> HostedClusterUpgrading"
  "HostedClusterDegraded \<noteq> MetalLBConfigured"
  "HostedClusterDegraded \<noteq> IgnitionConfigured"
  "ValidReleaseImage \<noteq> HostedClusterAvailable"
  "ValidReleaseImage \<noteq> HostedClusterProgressing"
  "ValidReleaseImage \<noteq> HostedClusterDegraded"
  "ValidReleaseImage \<noteq> ValidReleaseInfo"
  "ValidReleaseImage \<noteq> IgnitionEndpointAvailable"
  "ValidReleaseImage \<noteq> IgnitionServerValidReleaseInfo"
  "ValidReleaseImage \<noteq> Ready"
  "ValidReleaseImage \<noteq> KubeConfigInjected"
  "ValidReleaseImage \<noteq> HostedClusterCleanup"
  "ValidReleaseImage \<noteq> CSRAutoApprovalActive"
  "ValidReleaseImage \<noteq> SecretsValid"
  "ValidReleaseImage \<noteq> BlueFieldOCPLayerImageFound"
  "ValidReleaseImage \<noteq> DPUClusterMissing"
  "ValidReleaseImage \<noteq> ClusterTypeValid"
  "ValidReleaseImage \<noteq> DPUClusterInUse"
  "ValidReleaseImage \<noteq> HostedClusterUpgrading"
  "ValidReleaseImage \<noteq> MetalLBConfigured"
  "ValidReleaseImage \<noteq> IgnitionConfigured"
  "ValidReleaseInfo \<noteq> HostedClusterAvailable"
  "ValidReleaseInfo \<noteq> HostedClusterProgressing"
  "ValidReleaseInfo \<noteq> HostedClusterDegraded"
  "ValidReleaseInfo \<noteq> ValidReleaseImage"
  "ValidReleaseInfo \<noteq> IgnitionEndpointAvailable"
  "ValidReleaseInfo \<noteq> IgnitionServerValidReleaseInfo"
  "ValidReleaseInfo \<noteq> Ready"
  "ValidReleaseInfo \<noteq> KubeConfigInjected"
  "ValidReleaseInfo \<noteq> HostedClusterCleanup"
  "ValidReleaseInfo \<noteq> CSRAutoApprovalActive"
  "ValidReleaseInfo \<noteq> SecretsValid"
  "ValidReleaseInfo \<noteq> BlueFieldOCPLayerImageFound"
  "ValidReleaseInfo \<noteq> DPUClusterMissing"
  "ValidReleaseInfo \<noteq> ClusterTypeValid"
  "ValidReleaseInfo \<noteq> DPUClusterInUse"
  "ValidReleaseInfo \<noteq> HostedClusterUpgrading"
  "ValidReleaseInfo \<noteq> MetalLBConfigured"
  "ValidReleaseInfo \<noteq> IgnitionConfigured"
  "IgnitionEndpointAvailable \<noteq> HostedClusterAvailable"
  "IgnitionEndpointAvailable \<noteq> HostedClusterProgressing"
  "IgnitionEndpointAvailable \<noteq> HostedClusterDegraded"
  "IgnitionEndpointAvailable \<noteq> ValidReleaseImage"
  "IgnitionEndpointAvailable \<noteq> ValidReleaseInfo"
  "IgnitionEndpointAvailable \<noteq> IgnitionServerValidReleaseInfo"
  "IgnitionEndpointAvailable \<noteq> Ready"
  "IgnitionEndpointAvailable \<noteq> KubeConfigInjected"
  "IgnitionEndpointAvailable \<noteq> HostedClusterCleanup"
  "IgnitionEndpointAvailable \<noteq> CSRAutoApprovalActive"
  "IgnitionEndpointAvailable \<noteq> SecretsValid"
  "IgnitionEndpointAvailable \<noteq> BlueFieldOCPLayerImageFound"
  "IgnitionEndpointAvailable \<noteq> DPUClusterMissing"
  "IgnitionEndpointAvailable \<noteq> ClusterTypeValid"
  "IgnitionEndpointAvailable \<noteq> DPUClusterInUse"
  "IgnitionEndpointAvailable \<noteq> HostedClusterUpgrading"
  "IgnitionEndpointAvailable \<noteq> MetalLBConfigured"
  "IgnitionEndpointAvailable \<noteq> IgnitionConfigured"
  "IgnitionServerValidReleaseInfo \<noteq> HostedClusterAvailable"
  "IgnitionServerValidReleaseInfo \<noteq> HostedClusterProgressing"
  "IgnitionServerValidReleaseInfo \<noteq> HostedClusterDegraded"
  "IgnitionServerValidReleaseInfo \<noteq> ValidReleaseImage"
  "IgnitionServerValidReleaseInfo \<noteq> ValidReleaseInfo"
  "IgnitionServerValidReleaseInfo \<noteq> IgnitionEndpointAvailable"
  "IgnitionServerValidReleaseInfo \<noteq> Ready"
  "IgnitionServerValidReleaseInfo \<noteq> KubeConfigInjected"
  "IgnitionServerValidReleaseInfo \<noteq> HostedClusterCleanup"
  "IgnitionServerValidReleaseInfo \<noteq> CSRAutoApprovalActive"
  "IgnitionServerValidReleaseInfo \<noteq> SecretsValid"
  "IgnitionServerValidReleaseInfo \<noteq> BlueFieldOCPLayerImageFound"
  "IgnitionServerValidReleaseInfo \<noteq> DPUClusterMissing"
  "IgnitionServerValidReleaseInfo \<noteq> ClusterTypeValid"
  "IgnitionServerValidReleaseInfo \<noteq> DPUClusterInUse"
  "IgnitionServerValidReleaseInfo \<noteq> HostedClusterUpgrading"
  "IgnitionServerValidReleaseInfo \<noteq> MetalLBConfigured"
  "IgnitionServerValidReleaseInfo \<noteq> IgnitionConfigured"
  "Ready \<noteq> HostedClusterAvailable"
  "Ready \<noteq> HostedClusterProgressing"
  "Ready \<noteq> HostedClusterDegraded"
  "Ready \<noteq> ValidReleaseImage"
  "Ready \<noteq> ValidReleaseInfo"
  "Ready \<noteq> IgnitionEndpointAvailable"
  "Ready \<noteq> IgnitionServerValidReleaseInfo"
  "Ready \<noteq> KubeConfigInjected"
  "Ready \<noteq> HostedClusterCleanup"
  "Ready \<noteq> CSRAutoApprovalActive"
  "Ready \<noteq> SecretsValid"
  "Ready \<noteq> BlueFieldOCPLayerImageFound"
  "Ready \<noteq> DPUClusterMissing"
  "Ready \<noteq> ClusterTypeValid"
  "Ready \<noteq> DPUClusterInUse"
  "Ready \<noteq> HostedClusterUpgrading"
  "Ready \<noteq> MetalLBConfigured"
  "Ready \<noteq> IgnitionConfigured"
  "KubeConfigInjected \<noteq> HostedClusterAvailable"
  "KubeConfigInjected \<noteq> HostedClusterProgressing"
  "KubeConfigInjected \<noteq> HostedClusterDegraded"
  "KubeConfigInjected \<noteq> ValidReleaseImage"
  "KubeConfigInjected \<noteq> ValidReleaseInfo"
  "KubeConfigInjected \<noteq> IgnitionEndpointAvailable"
  "KubeConfigInjected \<noteq> IgnitionServerValidReleaseInfo"
  "KubeConfigInjected \<noteq> Ready"
  "KubeConfigInjected \<noteq> HostedClusterCleanup"
  "KubeConfigInjected \<noteq> CSRAutoApprovalActive"
  "KubeConfigInjected \<noteq> SecretsValid"
  "KubeConfigInjected \<noteq> BlueFieldOCPLayerImageFound"
  "KubeConfigInjected \<noteq> DPUClusterMissing"
  "KubeConfigInjected \<noteq> ClusterTypeValid"
  "KubeConfigInjected \<noteq> DPUClusterInUse"
  "KubeConfigInjected \<noteq> HostedClusterUpgrading"
  "KubeConfigInjected \<noteq> MetalLBConfigured"
  "KubeConfigInjected \<noteq> IgnitionConfigured"
  "HostedClusterCleanup \<noteq> HostedClusterAvailable"
  "HostedClusterCleanup \<noteq> HostedClusterProgressing"
  "HostedClusterCleanup \<noteq> HostedClusterDegraded"
  "HostedClusterCleanup \<noteq> ValidReleaseImage"
  "HostedClusterCleanup \<noteq> ValidReleaseInfo"
  "HostedClusterCleanup \<noteq> IgnitionEndpointAvailable"
  "HostedClusterCleanup \<noteq> IgnitionServerValidReleaseInfo"
  "HostedClusterCleanup \<noteq> Ready"
  "HostedClusterCleanup \<noteq> KubeConfigInjected"
  "HostedClusterCleanup \<noteq> CSRAutoApprovalActive"
  "HostedClusterCleanup \<noteq> SecretsValid"
  "HostedClusterCleanup \<noteq> BlueFieldOCPLayerImageFound"
  "HostedClusterCleanup \<noteq> DPUClusterMissing"
  "HostedClusterCleanup \<noteq> ClusterTypeValid"
  "HostedClusterCleanup \<noteq> DPUClusterInUse"
  "HostedClusterCleanup \<noteq> HostedClusterUpgrading"
  "HostedClusterCleanup \<noteq> MetalLBConfigured"
  "HostedClusterCleanup \<noteq> IgnitionConfigured"
  "CSRAutoApprovalActive \<noteq> HostedClusterAvailable"
  "CSRAutoApprovalActive \<noteq> HostedClusterProgressing"
  "CSRAutoApprovalActive \<noteq> HostedClusterDegraded"
  "CSRAutoApprovalActive \<noteq> ValidReleaseImage"
  "CSRAutoApprovalActive \<noteq> ValidReleaseInfo"
  "CSRAutoApprovalActive \<noteq> IgnitionEndpointAvailable"
  "CSRAutoApprovalActive \<noteq> IgnitionServerValidReleaseInfo"
  "CSRAutoApprovalActive \<noteq> Ready"
  "CSRAutoApprovalActive \<noteq> KubeConfigInjected"
  "CSRAutoApprovalActive \<noteq> HostedClusterCleanup"
  "CSRAutoApprovalActive \<noteq> SecretsValid"
  "CSRAutoApprovalActive \<noteq> BlueFieldOCPLayerImageFound"
  "CSRAutoApprovalActive \<noteq> DPUClusterMissing"
  "CSRAutoApprovalActive \<noteq> ClusterTypeValid"
  "CSRAutoApprovalActive \<noteq> DPUClusterInUse"
  "CSRAutoApprovalActive \<noteq> HostedClusterUpgrading"
  "CSRAutoApprovalActive \<noteq> MetalLBConfigured"
  "CSRAutoApprovalActive \<noteq> IgnitionConfigured"
  "SecretsValid \<noteq> HostedClusterAvailable"
  "SecretsValid \<noteq> HostedClusterProgressing"
  "SecretsValid \<noteq> HostedClusterDegraded"
  "SecretsValid \<noteq> ValidReleaseImage"
  "SecretsValid \<noteq> ValidReleaseInfo"
  "SecretsValid \<noteq> IgnitionEndpointAvailable"
  "SecretsValid \<noteq> IgnitionServerValidReleaseInfo"
  "SecretsValid \<noteq> Ready"
  "SecretsValid \<noteq> KubeConfigInjected"
  "SecretsValid \<noteq> HostedClusterCleanup"
  "SecretsValid \<noteq> CSRAutoApprovalActive"
  "SecretsValid \<noteq> BlueFieldOCPLayerImageFound"
  "SecretsValid \<noteq> DPUClusterMissing"
  "SecretsValid \<noteq> ClusterTypeValid"
  "SecretsValid \<noteq> DPUClusterInUse"
  "SecretsValid \<noteq> HostedClusterUpgrading"
  "SecretsValid \<noteq> MetalLBConfigured"
  "SecretsValid \<noteq> IgnitionConfigured"
  "BlueFieldOCPLayerImageFound \<noteq> HostedClusterAvailable"
  "BlueFieldOCPLayerImageFound \<noteq> HostedClusterProgressing"
  "BlueFieldOCPLayerImageFound \<noteq> HostedClusterDegraded"
  "BlueFieldOCPLayerImageFound \<noteq> ValidReleaseImage"
  "BlueFieldOCPLayerImageFound \<noteq> ValidReleaseInfo"
  "BlueFieldOCPLayerImageFound \<noteq> IgnitionEndpointAvailable"
  "BlueFieldOCPLayerImageFound \<noteq> IgnitionServerValidReleaseInfo"
  "BlueFieldOCPLayerImageFound \<noteq> Ready"
  "BlueFieldOCPLayerImageFound \<noteq> KubeConfigInjected"
  "BlueFieldOCPLayerImageFound \<noteq> HostedClusterCleanup"
  "BlueFieldOCPLayerImageFound \<noteq> CSRAutoApprovalActive"
  "BlueFieldOCPLayerImageFound \<noteq> SecretsValid"
  "BlueFieldOCPLayerImageFound \<noteq> DPUClusterMissing"
  "BlueFieldOCPLayerImageFound \<noteq> ClusterTypeValid"
  "BlueFieldOCPLayerImageFound \<noteq> DPUClusterInUse"
  "BlueFieldOCPLayerImageFound \<noteq> HostedClusterUpgrading"
  "BlueFieldOCPLayerImageFound \<noteq> MetalLBConfigured"
  "BlueFieldOCPLayerImageFound \<noteq> IgnitionConfigured"
  "DPUClusterMissing \<noteq> HostedClusterAvailable"
  "DPUClusterMissing \<noteq> HostedClusterProgressing"
  "DPUClusterMissing \<noteq> HostedClusterDegraded"
  "DPUClusterMissing \<noteq> ValidReleaseImage"
  "DPUClusterMissing \<noteq> ValidReleaseInfo"
  "DPUClusterMissing \<noteq> IgnitionEndpointAvailable"
  "DPUClusterMissing \<noteq> IgnitionServerValidReleaseInfo"
  "DPUClusterMissing \<noteq> Ready"
  "DPUClusterMissing \<noteq> KubeConfigInjected"
  "DPUClusterMissing \<noteq> HostedClusterCleanup"
  "DPUClusterMissing \<noteq> CSRAutoApprovalActive"
  "DPUClusterMissing \<noteq> SecretsValid"
  "DPUClusterMissing \<noteq> BlueFieldOCPLayerImageFound"
  "DPUClusterMissing \<noteq> ClusterTypeValid"
  "DPUClusterMissing \<noteq> DPUClusterInUse"
  "DPUClusterMissing \<noteq> HostedClusterUpgrading"
  "DPUClusterMissing \<noteq> MetalLBConfigured"
  "DPUClusterMissing \<noteq> IgnitionConfigured"
  "ClusterTypeValid \<noteq> HostedClusterAvailable"
  "ClusterTypeValid \<noteq> HostedClusterProgressing"
  "ClusterTypeValid \<noteq> HostedClusterDegraded"
  "ClusterTypeValid \<noteq> ValidReleaseImage"
  "ClusterTypeValid \<noteq> ValidReleaseInfo"
  "ClusterTypeValid \<noteq> IgnitionEndpointAvailable"
  "ClusterTypeValid \<noteq> IgnitionServerValidReleaseInfo"
  "ClusterTypeValid \<noteq> Ready"
  "ClusterTypeValid \<noteq> KubeConfigInjected"
  "ClusterTypeValid \<noteq> HostedClusterCleanup"
  "ClusterTypeValid \<noteq> CSRAutoApprovalActive"
  "ClusterTypeValid \<noteq> SecretsValid"
  "ClusterTypeValid \<noteq> BlueFieldOCPLayerImageFound"
  "ClusterTypeValid \<noteq> DPUClusterMissing"
  "ClusterTypeValid \<noteq> DPUClusterInUse"
  "ClusterTypeValid \<noteq> HostedClusterUpgrading"
  "ClusterTypeValid \<noteq> MetalLBConfigured"
  "ClusterTypeValid \<noteq> IgnitionConfigured"
  "DPUClusterInUse \<noteq> HostedClusterAvailable"
  "DPUClusterInUse \<noteq> HostedClusterProgressing"
  "DPUClusterInUse \<noteq> HostedClusterDegraded"
  "DPUClusterInUse \<noteq> ValidReleaseImage"
  "DPUClusterInUse \<noteq> ValidReleaseInfo"
  "DPUClusterInUse \<noteq> IgnitionEndpointAvailable"
  "DPUClusterInUse \<noteq> IgnitionServerValidReleaseInfo"
  "DPUClusterInUse \<noteq> Ready"
  "DPUClusterInUse \<noteq> KubeConfigInjected"
  "DPUClusterInUse \<noteq> HostedClusterCleanup"
  "DPUClusterInUse \<noteq> CSRAutoApprovalActive"
  "DPUClusterInUse \<noteq> SecretsValid"
  "DPUClusterInUse \<noteq> BlueFieldOCPLayerImageFound"
  "DPUClusterInUse \<noteq> DPUClusterMissing"
  "DPUClusterInUse \<noteq> ClusterTypeValid"
  "DPUClusterInUse \<noteq> HostedClusterUpgrading"
  "DPUClusterInUse \<noteq> MetalLBConfigured"
  "DPUClusterInUse \<noteq> IgnitionConfigured"
  "HostedClusterUpgrading \<noteq> HostedClusterAvailable"
  "HostedClusterUpgrading \<noteq> HostedClusterProgressing"
  "HostedClusterUpgrading \<noteq> HostedClusterDegraded"
  "HostedClusterUpgrading \<noteq> ValidReleaseImage"
  "HostedClusterUpgrading \<noteq> ValidReleaseInfo"
  "HostedClusterUpgrading \<noteq> IgnitionEndpointAvailable"
  "HostedClusterUpgrading \<noteq> IgnitionServerValidReleaseInfo"
  "HostedClusterUpgrading \<noteq> Ready"
  "HostedClusterUpgrading \<noteq> KubeConfigInjected"
  "HostedClusterUpgrading \<noteq> HostedClusterCleanup"
  "HostedClusterUpgrading \<noteq> CSRAutoApprovalActive"
  "HostedClusterUpgrading \<noteq> SecretsValid"
  "HostedClusterUpgrading \<noteq> BlueFieldOCPLayerImageFound"
  "HostedClusterUpgrading \<noteq> DPUClusterMissing"
  "HostedClusterUpgrading \<noteq> ClusterTypeValid"
  "HostedClusterUpgrading \<noteq> DPUClusterInUse"
  "HostedClusterUpgrading \<noteq> MetalLBConfigured"
  "HostedClusterUpgrading \<noteq> IgnitionConfigured"
  "MetalLBConfigured \<noteq> HostedClusterAvailable"
  "MetalLBConfigured \<noteq> HostedClusterProgressing"
  "MetalLBConfigured \<noteq> HostedClusterDegraded"
  "MetalLBConfigured \<noteq> ValidReleaseImage"
  "MetalLBConfigured \<noteq> ValidReleaseInfo"
  "MetalLBConfigured \<noteq> IgnitionEndpointAvailable"
  "MetalLBConfigured \<noteq> IgnitionServerValidReleaseInfo"
  "MetalLBConfigured \<noteq> Ready"
  "MetalLBConfigured \<noteq> KubeConfigInjected"
  "MetalLBConfigured \<noteq> HostedClusterCleanup"
  "MetalLBConfigured \<noteq> CSRAutoApprovalActive"
  "MetalLBConfigured \<noteq> SecretsValid"
  "MetalLBConfigured \<noteq> BlueFieldOCPLayerImageFound"
  "MetalLBConfigured \<noteq> DPUClusterMissing"
  "MetalLBConfigured \<noteq> ClusterTypeValid"
  "MetalLBConfigured \<noteq> DPUClusterInUse"
  "MetalLBConfigured \<noteq> HostedClusterUpgrading"
  "MetalLBConfigured \<noteq> IgnitionConfigured"
  "IgnitionConfigured \<noteq> HostedClusterAvailable"
  "IgnitionConfigured \<noteq> HostedClusterProgressing"
  "IgnitionConfigured \<noteq> HostedClusterDegraded"
  "IgnitionConfigured \<noteq> ValidReleaseImage"
  "IgnitionConfigured \<noteq> ValidReleaseInfo"
  "IgnitionConfigured \<noteq> IgnitionEndpointAvailable"
  "IgnitionConfigured \<noteq> IgnitionServerValidReleaseInfo"
  "IgnitionConfigured \<noteq> Ready"
  "IgnitionConfigured \<noteq> KubeConfigInjected"
  "IgnitionConfigured \<noteq> HostedClusterCleanup"
  "IgnitionConfigured \<noteq> CSRAutoApprovalActive"
  "IgnitionConfigured \<noteq> SecretsValid"
  "IgnitionConfigured \<noteq> BlueFieldOCPLayerImageFound"
  "IgnitionConfigured \<noteq> DPUClusterMissing"
  "IgnitionConfigured \<noteq> ClusterTypeValid"
  "IgnitionConfigured \<noteq> DPUClusterInUse"
  "IgnitionConfigured \<noteq> HostedClusterUpgrading"
  "IgnitionConfigured \<noteq> MetalLBConfigured"
  by (simp_all add: condition_type_defs)

subsection \<open>DPFHCPProvisioner\<close>

record CrossNamespaceRef =
  ref_name :: string
  ref_namespace :: string

datatype AvailabilityPolicy = PolicyUnset | SingleReplica | HighlyAvailable

record ClusterNetworkConfig =
  cn_serviceNetwork :: "string list"
  cn_clusterNetwork :: "string list"
  cn_machineNetwork :: "string list"

record DPFHCPProvisionerSpec =
  sp_dpuClusterRef :: CrossNamespaceRef
  sp_baseDomain :: string
  sp_ocpReleaseImage :: string
  sp_sshKeySecretRef :: string
  sp_pullSecretRef :: string
  sp_etcdStorageClass :: string
  sp_controlPlaneAvailabilityPolicy :: AvailabilityPolicy
  sp_virtualIP :: string
  sp_nodeSelector :: "string gomap"
  sp_flannelEnabled :: "bool option"
  sp_dpuDeploymentRef :: "CrossNamespaceRef option"
  sp_machineOSURL :: string
  sp_networking :: "ClusterNetworkConfig option"

text \<open>\<open>PhaseUnset\<close> is the empty string, the phase of a resource no reconcile has written yet.\<close>

datatype DPFHCPProvisionerPhase =
    PhaseUnset | PhasePending | PhaseWaitingForControlPlane | PhaseGeneratingIgnition
  | PhaseClusterVersionProgressing | PhaseReady | PhaseFailed | PhaseError | PhaseDeleting

record ObjectReference =
  oref_name :: string
  oref_namespace :: string
  oref_kind :: string
  oref_apiVersion :: string

record DPFHCPProvisionerStatus =
  stt_phase :: DPFHCPProvisionerPhase
  stt_conditions :: "Condition list"
  stt_hostedClusterRef :: "ObjectReference option"
  stt_kubeConfigSecretRef :: "string option"
  stt_blueFieldOCPLayerImage :: string

record DPFHCPProvisioner =
  cr_meta :: ObjectMeta
  cr_spec :: DPFHCPProvisionerSpec
  cr_status :: DPFHCPProvisionerStatus

abbreviation cr_name :: "DPFHCPProvisioner \<Rightarrow> string" where
  "cr_name c \<equiv> om_name (cr_meta c)"

abbreviation cr_namespace :: "DPFHCPProvisioner \<Rightarrow> string" where
  "cr_namespace c \<equiv> om_namespace (cr_meta c)"

abbreviation cr_generation :: "DPFHCPProvisioner \<Rightarrow> int" where
  "cr_generation c \<equiv> om_generation (cr_meta c)"

abbreviation cr_phase :: "DPFHCPProvisioner \<Rightarrow> DPFHCPProvisionerPhase" where
  "cr_phase c \<equiv> stt_phase (cr_status c)"

abbreviation cr_conditions :: "DPFHCPProvisioner \<Rightarrow> Condition list" where
  "cr_conditions c \<equiv> stt_conditions (cr_status c)"

abbreviation cr_hostedClusterRef :: "DPFHCPProvisioner \<Rightarrow> ObjectReference option" where
  "cr_hostedClusterRef c \<equiv> stt_hostedClusterRef (cr_status c)"

definition cr_key :: "DPFHCPProvisioner \<Rightarrow> NamespacedName" where
  "cr_key c = NN (cr_namespace c) (cr_name c)"

definition set_phase :: "DPFHCPProvisionerPhase \<Rightarrow> DPFHCPProvisioner \<Rightarrow> DPFHCPProvisioner" where
  "set_phase p c = c\<lparr>cr_status := (cr_status c)\<lparr>stt_phase := p\<rparr>\<rparr>"

definition set_conditions :: "Condition list \<Rightarrow> DPFHCPProvisioner \<Rightarrow> DPFHCPProvisioner" where
  "set_conditions cs c = c\<lparr>cr_status := (cr_status c)\<lparr>stt_conditions := cs\<rparr>\<rparr>"

definition set_hostedClusterRef ::
    "ObjectReference option \<Rightarrow> DPFHCPProvisioner \<Rightarrow> DPFHCPProvisioner" where
  "set_hostedClusterRef r c = c\<lparr>cr_status := (cr_status c)\<lparr>stt_hostedClusterRef := r\<rparr>\<rparr>"

definition set_kubeConfigSecretRef ::
    "string option \<Rightarrow> DPFHCPProvisioner \<Rightarrow> DPFHCPProvisioner" where
  "set_kubeConfigSecretRef r c = c\<lparr>cr_status := (cr_status c)\<lparr>stt_kubeConfigSecretRef := r\<rparr>\<rparr>"

definition set_blueFieldOCPLayerImage :: "string \<Rightarrow> DPFHCPProvisioner \<Rightarrow> DPFHCPProvisioner" where
  "set_blueFieldOCPLayerImage i c =
     c\<lparr>cr_status := (cr_status c)\<lparr>stt_blueFieldOCPLayerImage := i\<rparr>\<rparr>"

lemmas set_status_defs = set_phase_def set_conditions_def set_hostedClusterRef_def
  set_kubeConfigSecretRef_def set_blueFieldOCPLayerImage_def

lemma set_phase_simps [simp]:
  "cr_meta (set_phase p c) = cr_meta c" "cr_spec (set_phase p c) = cr_spec c"
  "stt_phase (cr_status (set_phase p c)) = p"
  "stt_conditions (cr_status (set_phase p c)) = cr_conditions c"
  "stt_hostedClusterRef (cr_status (set_phase p c)) = cr_hostedClusterRef c"
  "stt_kubeConfigSecretRef (cr_status (set_phase p c)) = stt_kubeConfigSecretRef (cr_status c)"
  "stt_blueFieldOCPLayerImage (cr_status (set_phase p c)) = stt_blueFieldOCPLayerImage (cr_status c)"
  by (simp_all add: set_phase_def)

lemma set_conditions_simps [simp]:
  "cr_meta (set_conditions cs c) = cr_meta c" "cr_spec (set_conditions cs c) = cr_spec c"
  "stt_phase (cr_status (set_conditions cs c)) = cr_phase c"
  "stt_conditions (cr_status (set_conditions cs c)) = cs"
  "stt_hostedClusterRef (cr_status (set_conditions cs c)) = cr_hostedClusterRef c"
  "stt_kubeConfigSecretRef (cr_status (set_conditions cs c)) = stt_kubeConfigSecretRef (cr_status c)"
  "stt_blueFieldOCPLayerImage (cr_status (set_conditions cs c)) =
     stt_blueFieldOCPLayerImage (cr_status c)"
  by (simp_all add: set_conditions_def)

lemma set_hostedClusterRef_simps [simp]:
  "cr_meta (set_hostedClusterRef r c) = cr_meta c" "cr_spec (set_hostedClusterRef r c) = cr_spec c"
  "stt_phase (cr_status (set_hostedClusterRef r c)) = cr_phase c"
  "stt_conditions (cr_status (set_hostedClusterRef r c)) = cr_conditions c"
  "stt_hostedClusterRef (cr_status (set_hostedClusterRef r c)) = r"
  by (simp_all add: set_hostedClusterRef_def)

lemma set_kubeConfigSecretRef_simps [simp]:
  "cr_meta (set_kubeConfigSecretRef r c) = cr_meta c"
  "cr_spec (set_kubeConfigSecretRef r c) = cr_spec c"
  "stt_phase (cr_status (set_kubeConfigSecretRef r c)) = cr_phase c"
  "stt_conditions (cr_status (set_kubeConfigSecretRef r c)) = cr_conditions c"
  "stt_hostedClusterRef (cr_status (set_kubeConfigSecretRef r c)) = cr_hostedClusterRef c"
  "stt_kubeConfigSecretRef (cr_status (set_kubeConfigSecretRef r c)) = r"
  by (simp_all add: set_kubeConfigSecretRef_def)

lemma set_blueFieldOCPLayerImage_simps [simp]:
  "cr_meta (set_blueFieldOCPLayerImage i c) = cr_meta c"
  "cr_spec (set_blueFieldOCPLayerImage i c) = cr_spec c"
  "stt_phase (cr_status (set_blueFieldOCPLayerImage i c)) = cr_phase c"
  "stt_conditions (cr_status (set_blueFieldOCPLayerImage i c)) = cr_conditions c"
  "stt_hostedClusterRef (cr_status (set_blueFieldOCPLayerImage i c)) = cr_hostedClusterRef c"
  "stt_blueFieldOCPLayerImage (cr_status (set_blueFieldOCPLayerImage i c)) = i"
  by (simp_all add: set_blueFieldOCPLayerImage_def)

text \<open>\<^verbatim>\<open>ShouldExposeThroughLoadBalancer\<close> and \<^verbatim>\<open>IsVIPRequired\<close>.\<close>

definition ShouldExposeThroughLoadBalancer :: "DPFHCPProvisioner \<Rightarrow> bool" where
  "ShouldExposeThroughLoadBalancer p =
     (if sp_controlPlaneAvailabilityPolicy (cr_spec p) = HighlyAvailable then True
      else if sp_controlPlaneAvailabilityPolicy (cr_spec p) = SingleReplica
              \<and> sp_virtualIP (cr_spec p) \<noteq> [] then True
      else False)"

definition IsVIPRequired :: "DPFHCPProvisioner \<Rightarrow> bool" where
  "IsVIPRequired p = (sp_controlPlaneAvailabilityPolicy (cr_spec p) = HighlyAvailable)"

subsection \<open>DPFHCPProvisionerConfig\<close>

record OperatorConfig =
  cfg_blueFieldOCPLayerRepo :: string
  cfg_disableMetalLB :: bool
  cfg_manageDPUServiceTemplates :: bool
  cfg_dpuServicesImagePullSecret :: string
  cfg_ovsHugepagesSize :: string
  cfg_ovsHugepagesAmount :: int

end
