(* ===== verification/Kube_Objects.thy ===== *)
theory Kube_Objects
  imports Api_Types
begin

section \<open>Objects of the management and hosted clusters\<close>

text \<open>
  The foreign objects the controllers read and write. A record holds the fields the code touches;
  what the code never looks at is not represented, so a model object stands for all real objects
  that agree on these fields.
\<close>

subsection \<open>Core objects\<close>

record Secret =
  sec_meta :: ObjectMeta
  sec_type :: string
  sec_data :: "string gomap"

record ConfigMap =
  cm_meta :: ObjectMeta
  cm_data :: "string gomap"

record Node =
  n_name :: string
  n_addresses :: "(string \<times> string) list"

record Service =
  svc_nodePorts :: "int list"

subsection \<open>HyperShift\<close>

record ControlPlaneUpdateHistory =
  ch_state :: string
  ch_version :: string
  ch_image :: string

record ControlPlaneVersionStatus =
  cpv_desired :: string
  cpv_history :: "ControlPlaneUpdateHistory list"
  cpv_observedGeneration :: int

datatype PublishingType = LoadBalancer | Route | NodePort string

type_synonym ServicePublishingStrategyMapping = "string \<times> PublishingType"

record ClusterNetworking =
  net_type :: string
  net_service :: "string list"
  net_cluster :: "string list"
  net_machine :: "string list"
  net_allocateNodeCIDRs :: "string option"

record HostedClusterSpec =
  hcs_releaseImage :: string
  hcs_pullSecret :: string
  hcs_sshKey :: string
  hcs_baseDomain :: string
  hcs_etcdStorageClass :: "string option"
  hcs_etcdSize :: string
  hcs_networking :: ClusterNetworking
  hcs_platform :: string
  hcs_availability :: AvailabilityPolicy
  hcs_infraID :: string
  hcs_activeKey :: string
  hcs_services :: "ServicePublishingStrategyMapping list"
  hcs_disabledCapabilities :: "string list"
  hcs_nodeSelector :: "string gomap"

record HostedClusterStatus =
  hct_conditions :: "Condition list"
  hct_controlPlaneVersion :: ControlPlaneVersionStatus
  hct_ignitionEndpoint :: string

record HostedCluster =
  hc_meta :: ObjectMeta
  hc_spec :: HostedClusterSpec
  hc_status :: HostedClusterStatus

definition emptyHostedClusterStatus :: HostedClusterStatus where
  "emptyHostedClusterStatus = \<lparr>hct_conditions = [],
     hct_controlPlaneVersion = \<lparr>cpv_desired = [], cpv_history = [], cpv_observedGeneration = 0\<rparr>,
     hct_ignitionEndpoint = []\<rparr>"

record NodePool =
  np_meta :: ObjectMeta
  np_clusterName :: string
  np_replicas :: int
  np_upgradeType :: string
  np_platform :: string
  np_releaseImage :: string

subsection \<open>MetalLB\<close>

record IPAddressPool =
  pool_meta :: ObjectMeta
  pool_addresses :: "string list"
  pool_allocateNamespaces :: "string list option"
  pool_autoAssign :: "bool option"

record L2Advertisement =
  l2_meta :: ObjectMeta
  l2_ipAddressPools :: "string list"

subsection \<open>DPF\<close>

record DPUCluster =
  dc_meta :: ObjectMeta
  dc_type :: string
  dc_kubeconfig :: string

record DPUDeployment =
  dd_meta :: ObjectMeta
  dd_flavor :: "string option"
  dd_bfb :: "string option"

record ConfigFile =
  cf_path :: string
  cf_operation :: string
  cf_raw :: "string option"
  cf_permissions :: string

text \<open>\<open>df_rest\<close> stands for the fields of a \<^verbatim>\<open>DPUFlavor\<close> spec that are only serialised.\<close>

record DPUFlavor =
  df_meta :: ObjectMeta
  df_dpuMode :: string
  df_ovsScript :: string
  df_configFiles :: "ConfigFile list"
  df_rest :: string

record RegistryConfiguration =
  reg_loadBalancerAddress :: "string option"
  reg_address :: "string option"

record ProvisioningController =
  pc_installViaRedfish :: bool
  pc_registry :: "RegistryConfiguration option"

text \<open>
  \<open>oc_controlPlaneMTU\<close>: the outer option is the \<^verbatim>\<open>Networking\<close> pointer, the inner one the
  \<^verbatim>\<open>ControlPlaneMTU\<close> pointer.
\<close>

record DPFOperatorConfig =
  oc_namespace :: string
  oc_version :: "string option"
  oc_deploymentMode :: string
  oc_controlPlaneMTU :: "int option option"
  oc_provisioningController :: "ProvisioningController option"

record DPU =
  dpu_name :: string
  dpu_phase :: string

text \<open>
  A service template. CPU is in thousandths of a core, memory and storage in bytes; \<open>tpl_specRest\<close>
  stands for the fields of the spec that the operator leaves at their zero values.
\<close>

record DPUServiceTemplate =
  tpl_meta :: ObjectMeta
  tpl_deploymentServiceName :: string
  tpl_repoURL :: string
  tpl_chart :: string
  tpl_version :: string
  tpl_values :: "string option"
  tpl_resourceRequirements :: "int gomap"
  tpl_specRest :: string

subsection \<open>OpenShift\<close>

text \<open>A DaemonSet of the management cluster: name and image of its containers, and its rollout.\<close>

record WorkloadDaemonSet =
  wds_generation :: int
  wds_containers :: "(string \<times> string) list"
  wds_observedGeneration :: int
  wds_updatedNumberScheduled :: int
  wds_desiredNumberScheduled :: int
  wds_numberAvailable :: int

record ClusterVersion =
  cv_desiredVersion :: string
  cv_desiredImage :: string

text \<open>
  The file system of an image as the tar stream its reader sees: the entries with the outcome of
  reading each, and how the stream ends (\<open>None\<close> is \<^verbatim>\<open>io.EOF\<close>).
\<close>

record TarStream =
  tar_entries :: "(string \<times> (goerror + string)) list"
  tar_end :: "goerror option"

subsection \<open>Certificate signing requests of a hosted cluster\<close>

record CSRCondition =
  csrc_type :: string
  csrc_status :: ConditionStatus
  csrc_reason :: string
  csrc_message :: string

record CSR =
  csr_name :: string
  csr_signerName :: string
  csr_username :: string
  csr_groups :: "string list"
  csr_usages :: "string list"
  csr_request :: string
  csr_conditions :: "CSRCondition list"

text \<open>An X.509 certificate request, and an IP address as its bytes (\<open>[]\<close> is Go's nil).\<close>

record CertificateRequest =
  x_commonName :: string
  x_organization :: "string list"
  x_dnsNames :: "string list"
  x_ipAddresses :: "nat list list"
  x_emailAddresses :: "string list"
  x_uris :: "string list"

text \<open>A clientset for a hosted cluster: the server it talks to and the kubeconfig it came from.\<close>

record HostedClient =
  hcl_server :: string
  hcl_kubeconfig :: string

text \<open>
  The reservation DaemonSet of the hosted cluster: its labels, its selector, the pod template and
  everything the operator never writes (\<open>ds_rest\<close>). A template is replaced as a whole, so the fields
  of it that the operator leaves to the server's defaults are a field too (\<open>pt_rest\<close>, empty when the
  operator builds the template).
\<close>

record PodTemplate =
  pt_labels :: "string gomap"
  pt_priorityClass :: string
  pt_tolerations :: "string list"
  pt_containerName :: string
  pt_image :: string
  pt_requests :: "(string \<times> int) list"
  pt_limits :: "(string \<times> int) list"
  pt_rest :: string

record DaemonSet =
  ds_labels :: "string gomap"
  ds_selector :: "string gomap"
  ds_template :: PodTemplate
  ds_rest :: string

subsection \<open>Registry references and kubeconfigs\<close>

text \<open>What \<^verbatim>\<open>name.ParseReference\<close> makes of an image reference.\<close>

record ImageRef =
  ir_string :: string
  ir_repository :: string
  ir_registry :: string

text \<open>A parsed kubeconfig: the contexts with the cluster each names, the clusters with their server.\<close>

record Kubeconfig =
  kc_currentContext :: string
  kc_contexts :: "string gomap"
  kc_clusters :: "string gomap"
  kc_rest :: string

subsection \<open>Ignition configurations\<close>

record Resource =
  r_source :: "string option"
  r_compression :: "string option"

record IgnFile =
  f_path :: string
  f_overwrite :: "bool option"
  f_mode :: "int option"
  f_contents :: Resource
  f_append :: "Resource list"

record IgnUnit =
  u_name :: string
  u_enabled :: "bool option"
  u_contents :: "string option"

text \<open>
  A user of \<^verbatim>\<open>passwd\<close> with its authorised keys; \<open>ig_rest\<close> stands for the sections of a
  configuration that the operator carries along untouched.
\<close>

record IgnConfig =
  ig_version :: string
  ig_kernelShouldExist :: "string list"
  ig_passwdUsers :: "(string \<times> string list) list"
  ig_passwdGroups :: "string list"
  ig_files :: "IgnFile list"
  ig_links :: "(string \<times> string) list"
  ig_units :: "IgnUnit list"
  ig_rest :: string

datatype json =
    JNull | JBool bool | JNum string | JStr string | JArr "json list"
  | JObj "(string \<times> json) list"

end
