(* ===== verification/Kube_API.thy ===== *)
theory Kube_API
  imports Kube_Objects
begin

section \<open>The API servers as an unconstrained environment\<close>

text \<open>
  The operator is a client of services whose code is not part of it: the Kubernetes API server of
  the management cluster, the API servers of hosted clusters, a container registry, the ignition
  server and the system's randomness. They are a parameter of the model, an environment \<open>E\<close>. Every
  request the operator makes is a value of type \<open>call\<close>; the environment answers a request as a
  function of the whole history of requests before it. Nothing is assumed of these functions, so a
  theorem that holds for every \<open>E\<close> holds whatever the servers answer, whatever other clients do
  between two requests, and wherever a request fails. A server with a store is one instance.

  A successful \<^verbatim>\<open>Status().Update\<close> leaves the object in memory as it was sent (the reply differs in
  the resource version only, which the operator never reads).
\<close>

subsection \<open>Requests\<close>

datatype (plugins only: code size) call =
  \<comment> \<open>management cluster\<close>
    GetCR NamespacedName | ListCRs | UpdateCR DPFHCPProvisioner | UpdateCRStatus DPFHCPProvisioner
  | GetConfig string
  | GetDPUCluster NamespacedName | UpdateDPUCluster DPUCluster
  | GetSecret NamespacedName | ListSecrets "string option" "string gomap"
  | CreateSecret Secret | UpdateSecret Secret | DeleteSecret Secret
  | GetHC NamespacedName | CreateHC HostedCluster | UpdateHC HostedCluster | DeleteHC HostedCluster
  | GetNP NamespacedName | CreateNP NodePool | UpdateNP NodePool | DeleteNP NodePool
  | GetPool NamespacedName | CreatePool IPAddressPool | UpdatePool IPAddressPool
  | DeletePool IPAddressPool
  | GetL2 NamespacedName | CreateL2 L2Advertisement | UpdateL2 L2Advertisement
  | DeleteL2 L2Advertisement
  | GetCM NamespacedName | CreateCM ConfigMap | UpdateCM ConfigMap | DeleteCM ConfigMap
  | GetDPUDeployment NamespacedName | GetDPUFlavor NamespacedName
  | ListNodes | GetService NamespacedName | ListDPFOperatorConfigs | ListDPUs string
  | ReadCM NamespacedName | GetDaemonSet NamespacedName | GetClusterVersion string
  | GetTemplate NamespacedName | ListTemplates string "string gomap"
  | CreateTemplate DPUServiceTemplate | UpdateTemplate DPUServiceTemplate
  | DeleteTemplate DPUServiceTemplate
  \<comment> \<open>hosted cluster\<close>
  | HostedServerVersion HostedClient | HostedListCSRs HostedClient
  | HostedApproveCSR HostedClient CSR | HostedListNodes HostedClient
  | HostedGetNamespace HostedClient string
  | HostedCreateNamespace HostedClient string "string gomap"
  | HostedUpdateNamespace HostedClient string "string gomap"
  | HostedGetDaemonSet HostedClient string string
  | HostedCreateDaemonSet HostedClient string string DaemonSet
  | HostedUpdateDaemonSet HostedClient string string DaemonSet
  | HostedDeleteDaemonSet HostedClient string string
  \<comment> \<open>registry (with the credentials sent, if any), ignition server, randomness\<close>
  | RegistryHead ImageRef "string option" | RegistryGet ImageRef "string option"
  | RegistryImage ImageRef "string option" | RegistryConfigFile ImageRef "string option"
  | RegistryExtract ImageRef "string option"
  | HttpGet string string string
  | RandBytes nat | RandString nat
  \<comment> \<open>recorded events\<close>
  | Event string string string

text \<open>The requests that change the state of a cluster; events and reads do not.\<close>

fun is_write :: "call \<Rightarrow> bool" where
  "is_write (UpdateCR _) = True" | "is_write (UpdateCRStatus _) = True"
| "is_write (UpdateDPUCluster _) = True"
| "is_write (CreateSecret _) = True" | "is_write (UpdateSecret _) = True"
| "is_write (DeleteSecret _) = True"
| "is_write (CreateHC _) = True" | "is_write (UpdateHC _) = True" | "is_write (DeleteHC _) = True"
| "is_write (CreateNP _) = True" | "is_write (UpdateNP _) = True" | "is_write (DeleteNP _) = True"
| "is_write (CreatePool _) = True" | "is_write (UpdatePool _) = True"
| "is_write (DeletePool _) = True"
| "is_write (CreateL2 _) = True" | "is_write (UpdateL2 _) = True" | "is_write (DeleteL2 _) = True"
| "is_write (CreateCM _) = True" | "is_write (UpdateCM _) = True" | "is_write (DeleteCM _) = True"
| "is_write (CreateTemplate _) = True" | "is_write (UpdateTemplate _) = True"
| "is_write (DeleteTemplate _) = True"
| "is_write (HostedApproveCSR _ _) = True"
| "is_write (HostedCreateNamespace _ _ _) = True" | "is_write (HostedUpdateNamespace _ _ _) = True"
| "is_write (HostedCreateDaemonSet _ _ _ _) = True"
| "is_write (HostedUpdateDaemonSet _ _ _ _) = True"
| "is_write (HostedDeleteDaemonSet _ _ _) = True"
| "is_write _ = False"

subsection \<open>Replies\<close>

type_synonym history = "call list"

record mgmt_api =
  a_getCR :: "history \<Rightarrow> NamespacedName \<Rightarrow> goerror + DPFHCPProvisioner"
  a_listCRs :: "history \<Rightarrow> goerror + DPFHCPProvisioner list"
  a_getConfig :: "history \<Rightarrow> string \<Rightarrow> goerror + OperatorConfig"
  a_getDPUCluster :: "history \<Rightarrow> NamespacedName \<Rightarrow> goerror + DPUCluster"
  a_getSecret :: "history \<Rightarrow> NamespacedName \<Rightarrow> goerror + Secret"
  a_listSecrets :: "history \<Rightarrow> string option \<Rightarrow> string gomap \<Rightarrow> goerror + Secret list"
  a_getHC :: "history \<Rightarrow> NamespacedName \<Rightarrow> goerror + HostedCluster"
  a_getNP :: "history \<Rightarrow> NamespacedName \<Rightarrow> goerror + NodePool"
  a_getPool :: "history \<Rightarrow> NamespacedName \<Rightarrow> goerror + IPAddressPool"
  a_getL2 :: "history \<Rightarrow> NamespacedName \<Rightarrow> goerror + L2Advertisement"
  a_getCM :: "history \<Rightarrow> NamespacedName \<Rightarrow> goerror + ConfigMap"
  a_getDPUDeployment :: "history \<Rightarrow> NamespacedName \<Rightarrow> goerror + DPUDeployment"
  a_getDPUFlavor :: "history \<Rightarrow> NamespacedName \<Rightarrow> goerror + DPUFlavor"
  a_listNodes :: "history \<Rightarrow> goerror + Node list"
  a_getService :: "history \<Rightarrow> NamespacedName \<Rightarrow> goerror + Service"
  a_listDPFOperatorConfigs :: "history \<Rightarrow> goerror + DPFOperatorConfig list"
  a_listDPUs :: "history \<Rightarrow> string \<Rightarrow> goerror + DPU list"
  a_readCM :: "history \<Rightarrow> NamespacedName \<Rightarrow> goerror + ConfigMap"
  a_getDaemonSet :: "history \<Rightarrow> NamespacedName \<Rightarrow> goerror + WorkloadDaemonSet"
  a_getClusterVersion :: "history \<Rightarrow> string \<Rightarrow> goerror + ClusterVersion"
  a_getTemplate :: "history \<Rightarrow> NamespacedName \<Rightarrow> goerror + DPUServiceTemplate"
  a_listTemplates :: "history \<Rightarrow> string \<Rightarrow> string gomap \<Rightarrow> goerror + DPUServiceTemplate list"
  a_write :: "history \<Rightarrow> call \<Rightarrow> goerror option"

record services =
  s_hostedServerVersion :: "history \<Rightarrow> HostedClient \<Rightarrow> goerror option"
  s_hostedListCSRs :: "history \<Rightarrow> HostedClient \<Rightarrow> goerror + CSR list"
  s_hostedListNodes :: "history \<Rightarrow> HostedClient \<Rightarrow> goerror + string list"
  s_hostedGetNamespace :: "history \<Rightarrow> HostedClient \<Rightarrow> string \<Rightarrow> goerror + string gomap"
  s_hostedGetDaemonSet :: "history \<Rightarrow> HostedClient \<Rightarrow> string \<Rightarrow> string \<Rightarrow> goerror + DaemonSet"
  s_registryHead :: "history \<Rightarrow> ImageRef \<Rightarrow> string option \<Rightarrow> goerror + bool"
  s_registryGet :: "history \<Rightarrow> ImageRef \<Rightarrow> string option \<Rightarrow> goerror option"
  s_registryImage :: "history \<Rightarrow> ImageRef \<Rightarrow> string option \<Rightarrow> goerror option"
  s_registryConfigFile :: "history \<Rightarrow> ImageRef \<Rightarrow> string option \<Rightarrow> goerror + string gomap"
  s_registryExtract :: "history \<Rightarrow> ImageRef \<Rightarrow> string option \<Rightarrow> TarStream"
  s_httpGet :: "history \<Rightarrow> string \<Rightarrow> string \<Rightarrow> string \<Rightarrow> goerror + (nat \<times> (goerror + string))"
  s_randBytes :: "history \<Rightarrow> nat \<Rightarrow> goerror + string"
  s_randString :: "history \<Rightarrow> nat \<Rightarrow> string"

text \<open>
  Pure library functions that the operator only calls: JSON, YAML, PEM and X.509 decoding, gzip,
  image references, kubeconfig loading, semantic versions, ignition's own merge and validation, and
  the contents of the files embedded in the binary.
\<close>

record codecs =
  k_unmarshalDockerConfig :: "string \<Rightarrow> goerror + string gomap"
  k_parseReference :: "string \<Rightarrow> goerror + ImageRef"
  k_pemDecode :: "string \<Rightarrow> (string \<times> string) option"
  k_parseCertificateRequest :: "string \<Rightarrow> goerror + CertificateRequest"
  k_loadKubeconfig :: "string \<Rightarrow> goerror + Kubeconfig"
  k_clientConfig :: "Kubeconfig \<Rightarrow> goerror option"
  k_newClientset :: "Kubeconfig \<Rightarrow> goerror option"
  k_appendCerts :: "string \<Rightarrow> bool"
  k_newRequest :: "string \<Rightarrow> goerror option"
  k_unmarshalIgnition :: "string \<Rightarrow> goerror + IgnConfig"
  k_marshalIgnition :: "IgnConfig \<Rightarrow> goerror + string"
  k_unmarshalJSON :: "string \<Rightarrow> goerror + json"
  k_marshalJSON :: "json \<Rightarrow> goerror + string"
  k_parseJSON :: "string \<Rightarrow> goerror + json"
  k_unmarshalImageReferences :: "string \<Rightarrow> goerror + (string \<times> string) list"
  k_flavorJSON :: "DPUFlavor \<Rightarrow> goerror + string"
  k_flavorYAML :: "DPUFlavor \<Rightarrow> goerror + string"
  k_gzip :: "string \<Rightarrow> goerror + string"
  k_gunzip :: "string \<Rightarrow> goerror + string"
  k_renderTemplate :: "string \<Rightarrow> bool \<Rightarrow> goerror + string"
  k_mergeIgnition :: "IgnConfig \<Rightarrow> IgnConfig \<Rightarrow> IgnConfig"
  k_semverMajor :: "string \<Rightarrow> goerror + nat"
  k_validateIgnition :: "IgnConfig \<Rightarrow> string \<Rightarrow> string option"
  k_embedFile :: "string \<Rightarrow> string"

record env =
  mgmt :: mgmt_api
  srv :: services
  cod :: codecs

subsection \<open>The state of a reconcile\<close>

text \<open>
  \<open>st_cr\<close> is the object the handlers share through the pointer \<^verbatim>\<open>cr\<close>; \<open>st_history\<close> the requests
  made so far, newest first; the rest are the fields of the long-lived Go objects that a reconcile
  reads and writes: \<^verbatim>\<open>ignitionReconciled\<close> of the reconciler, \<^verbatim>\<open>Repository\<close> of the image lookup and
  the client cache of the hosted-cluster client manager, and the pause-image cache of the hugepages
  manager.
\<close>

record st =
  st_cr :: DPFHCPProvisioner
  st_history :: history
  st_ignitionReconciled :: bool
  st_repository :: string
  st_hcClients :: "HostedClient gomap"
  st_pauseImages :: "string gomap"

type_synonym 'a io = "(st, 'a) state"

definition request :: "call \<Rightarrow> (history \<Rightarrow> 'a) \<Rightarrow> 'a io" where
  "request c reply = do {
     s \<leftarrow> State_Monad.get;
     _ \<leftarrow> State_Monad.set (s\<lparr>st_history := c # st_history s\<rparr>);
     State_Monad.return (reply (st_history s))
   }"

text \<open>\<open>with_cr f\<close> runs \<open>f\<close> on the object as it is now.\<close>

definition with_cr :: "(DPFHCPProvisioner \<Rightarrow> 'a io) \<Rightarrow> 'a io" where
  "with_cr f = do { s \<leftarrow> State_Monad.get; f (st_cr s) }"

definition modify_cr :: "(DPFHCPProvisioner \<Rightarrow> DPFHCPProvisioner) \<Rightarrow> unit io" where
  "modify_cr f = do { s \<leftarrow> State_Monad.get; State_Monad.set (s\<lparr>st_cr := f (st_cr s)\<rparr>) }"

definition modify_st :: "(st \<Rightarrow> st) \<Rightarrow> unit io" where
  "modify_st f = do { s \<leftarrow> State_Monad.get; State_Monad.set (f s) }"

lemma wp_request [wp_simps]:
  "wp (request c reply) Q = (\<lambda>s. Q (reply (st_history s)) (s\<lparr>st_history := c # st_history s\<rparr>))"
  by (simp add: request_def wp_simps)

lemma wp_with_cr [wp_simps]: "wp (with_cr f) Q = (\<lambda>s. wp (f (st_cr s)) Q s)"
  by (simp add: with_cr_def wp_simps)

lemma wp_modify_cr [wp_simps]: "wp (modify_cr f) Q = (\<lambda>s. Q () (s\<lparr>st_cr := f (st_cr s)\<rparr>))"
  by (simp add: modify_cr_def wp_simps)

lemma wp_modify_st [wp_simps]: "wp (modify_st f) Q = (\<lambda>s. Q () (f s))"
  by (simp add: modify_st_def wp_simps)

subsection \<open>The client operations\<close>

definition getCR :: "env \<Rightarrow> NamespacedName \<Rightarrow> (goerror + DPFHCPProvisioner) io" where
  "getCR E k = request (GetCR k) (\<lambda>h. a_getCR (mgmt E) h k)"

definition listCRs :: "env \<Rightarrow> (goerror + DPFHCPProvisioner list) io" where
  "listCRs E = request ListCRs (\<lambda>h. a_listCRs (mgmt E) h)"

definition getConfig :: "env \<Rightarrow> string \<Rightarrow> (goerror + OperatorConfig) io" where
  "getConfig E n = request (GetConfig n) (\<lambda>h. a_getConfig (mgmt E) h n)"

definition getDPUCluster :: "env \<Rightarrow> NamespacedName \<Rightarrow> (goerror + DPUCluster) io" where
  "getDPUCluster E k = request (GetDPUCluster k) (\<lambda>h. a_getDPUCluster (mgmt E) h k)"

definition getSecret :: "env \<Rightarrow> NamespacedName \<Rightarrow> (goerror + Secret) io" where
  "getSecret E k = request (GetSecret k) (\<lambda>h. a_getSecret (mgmt E) h k)"

definition listSecrets ::
    "env \<Rightarrow> string option \<Rightarrow> string gomap \<Rightarrow> (goerror + Secret list) io" where
  "listSecrets E ns sel = request (ListSecrets ns sel) (\<lambda>h. a_listSecrets (mgmt E) h ns sel)"

definition getHC :: "env \<Rightarrow> NamespacedName \<Rightarrow> (goerror + HostedCluster) io" where
  "getHC E k = request (GetHC k) (\<lambda>h. a_getHC (mgmt E) h k)"

definition getNP :: "env \<Rightarrow> NamespacedName \<Rightarrow> (goerror + NodePool) io" where
  "getNP E k = request (GetNP k) (\<lambda>h. a_getNP (mgmt E) h k)"

definition getPool :: "env \<Rightarrow> NamespacedName \<Rightarrow> (goerror + IPAddressPool) io" where
  "getPool E k = request (GetPool k) (\<lambda>h. a_getPool (mgmt E) h k)"

definition getL2 :: "env \<Rightarrow> NamespacedName \<Rightarrow> (goerror + L2Advertisement) io" where
  "getL2 E k = request (GetL2 k) (\<lambda>h. a_getL2 (mgmt E) h k)"

definition getCM :: "env \<Rightarrow> NamespacedName \<Rightarrow> (goerror + ConfigMap) io" where
  "getCM E k = request (GetCM k) (\<lambda>h. a_getCM (mgmt E) h k)"

definition getDPUDeployment :: "env \<Rightarrow> NamespacedName \<Rightarrow> (goerror + DPUDeployment) io" where
  "getDPUDeployment E k = request (GetDPUDeployment k) (\<lambda>h. a_getDPUDeployment (mgmt E) h k)"

definition getDPUFlavor :: "env \<Rightarrow> NamespacedName \<Rightarrow> (goerror + DPUFlavor) io" where
  "getDPUFlavor E k = request (GetDPUFlavor k) (\<lambda>h. a_getDPUFlavor (mgmt E) h k)"

definition listNodes :: "env \<Rightarrow> (goerror + Node list) io" where
  "listNodes E = request ListNodes (\<lambda>h. a_listNodes (mgmt E) h)"

definition getService :: "env \<Rightarrow> NamespacedName \<Rightarrow> (goerror + Service) io" where
  "getService E k = request (GetService k) (\<lambda>h. a_getService (mgmt E) h k)"

definition listDPFOperatorConfigs :: "env \<Rightarrow> (goerror + DPFOperatorConfig list) io" where
  "listDPFOperatorConfigs E =
     request ListDPFOperatorConfigs (\<lambda>h. a_listDPFOperatorConfigs (mgmt E) h)"

definition listDPUs :: "env \<Rightarrow> string \<Rightarrow> (goerror + DPU list) io" where
  "listDPUs E ns = request (ListDPUs ns) (\<lambda>h. a_listDPUs (mgmt E) h ns)"

text \<open>
  \<^verbatim>\<open>readCM\<close> is a read through the manager's API reader, past the cache of the client.
\<close>

definition readCM :: "env \<Rightarrow> NamespacedName \<Rightarrow> (goerror + ConfigMap) io" where
  "readCM E k = request (ReadCM k) (\<lambda>h. a_readCM (mgmt E) h k)"

definition getDaemonSet :: "env \<Rightarrow> NamespacedName \<Rightarrow> (goerror + WorkloadDaemonSet) io" where
  "getDaemonSet E k = request (GetDaemonSet k) (\<lambda>h. a_getDaemonSet (mgmt E) h k)"

definition getClusterVersion :: "env \<Rightarrow> string \<Rightarrow> (goerror + ClusterVersion) io" where
  "getClusterVersion E n = request (GetClusterVersion n) (\<lambda>h. a_getClusterVersion (mgmt E) h n)"

definition getTemplate :: "env \<Rightarrow> NamespacedName \<Rightarrow> (goerror + DPUServiceTemplate) io" where
  "getTemplate E k = request (GetTemplate k) (\<lambda>h. a_getTemplate (mgmt E) h k)"

definition listTemplates ::
    "env \<Rightarrow> string \<Rightarrow> string gomap \<Rightarrow> (goerror + DPUServiceTemplate list) io" where
  "listTemplates E ns sel =
     request (ListTemplates ns sel) (\<lambda>h. a_listTemplates (mgmt E) h ns sel)"

text \<open>Hosted clusters, the registry, the ignition server and the random sources.\<close>

definition hostedServerVersion :: "env \<Rightarrow> HostedClient \<Rightarrow> goerror option io" where
  "hostedServerVersion E c =
     request (HostedServerVersion c) (\<lambda>h. s_hostedServerVersion (srv E) h c)"

definition hostedListCSRs :: "env \<Rightarrow> HostedClient \<Rightarrow> (goerror + CSR list) io" where
  "hostedListCSRs E c = request (HostedListCSRs c) (\<lambda>h. s_hostedListCSRs (srv E) h c)"

definition hostedListNodes :: "env \<Rightarrow> HostedClient \<Rightarrow> (goerror + string list) io" where
  "hostedListNodes E c = request (HostedListNodes c) (\<lambda>h. s_hostedListNodes (srv E) h c)"

definition hostedGetNamespace ::
    "env \<Rightarrow> HostedClient \<Rightarrow> string \<Rightarrow> (goerror + string gomap) io" where
  "hostedGetNamespace E c n =
     request (HostedGetNamespace c n) (\<lambda>h. s_hostedGetNamespace (srv E) h c n)"

definition hostedGetDaemonSet ::
    "env \<Rightarrow> HostedClient \<Rightarrow> string \<Rightarrow> string \<Rightarrow> (goerror + DaemonSet) io" where
  "hostedGetDaemonSet E c ns n =
     request (HostedGetDaemonSet c ns n) (\<lambda>h. s_hostedGetDaemonSet (srv E) h c ns n)"

definition registryHead :: "env \<Rightarrow> ImageRef \<Rightarrow> string option \<Rightarrow> (goerror + bool) io" where
  "registryHead E r a = request (RegistryHead r a) (\<lambda>h. s_registryHead (srv E) h r a)"

definition registryGet :: "env \<Rightarrow> ImageRef \<Rightarrow> string option \<Rightarrow> goerror option io" where
  "registryGet E r a = request (RegistryGet r a) (\<lambda>h. s_registryGet (srv E) h r a)"

definition registryImage :: "env \<Rightarrow> ImageRef \<Rightarrow> string option \<Rightarrow> goerror option io" where
  "registryImage E r a = request (RegistryImage r a) (\<lambda>h. s_registryImage (srv E) h r a)"

definition registryConfigFile ::
    "env \<Rightarrow> ImageRef \<Rightarrow> string option \<Rightarrow> (goerror + string gomap) io" where
  "registryConfigFile E r a =
     request (RegistryConfigFile r a) (\<lambda>h. s_registryConfigFile (srv E) h r a)"

definition registryExtract :: "env \<Rightarrow> ImageRef \<Rightarrow> string option \<Rightarrow> TarStream io" where
  "registryExtract E r a = request (RegistryExtract r a) (\<lambda>h. s_registryExtract (srv E) h r a)"

definition httpGet ::
    "env \<Rightarrow> string \<Rightarrow> string \<Rightarrow> string \<Rightarrow> (goerror + (nat \<times> (goerror + string))) io" where
  "httpGet E url auth ca = request (HttpGet url auth ca) (\<lambda>h. s_httpGet (srv E) h url auth ca)"

definition randBytes :: "env \<Rightarrow> nat \<Rightarrow> (goerror + string) io" where
  "randBytes E n = request (RandBytes n) (\<lambda>h. s_randBytes (srv E) h n)"

definition randString :: "env \<Rightarrow> nat \<Rightarrow> string io" where
  "randString E n = request (RandString n) (\<lambda>h. s_randString (srv E) h n)"

text \<open>Create, update and delete: the request carries the object, the reply is nil or an error.\<close>

definition apiWrite :: "env \<Rightarrow> call \<Rightarrow> goerror option io" where
  "apiWrite E c = request c (\<lambda>h. a_write (mgmt E) h c)"

definition updateStatus :: "env \<Rightarrow> goerror option io" where
  "updateStatus E = with_cr (\<lambda>c. apiWrite E (UpdateCRStatus c))"

text \<open>\<^verbatim>\<open>Recorder.Event\<close>: fire and forget.\<close>

definition event :: "string \<Rightarrow> string \<Rightarrow> string \<Rightarrow> unit io" where
  "event ty reason msg = request (Event ty reason msg) (\<lambda>_. ())"

lemmas client_defs = getCR_def listCRs_def getConfig_def getDPUCluster_def getSecret_def
  listSecrets_def getHC_def getNP_def getPool_def getL2_def getCM_def getDPUDeployment_def
  getDPUFlavor_def listNodes_def getService_def listDPFOperatorConfigs_def listDPUs_def
  hostedServerVersion_def hostedListCSRs_def hostedListNodes_def hostedGetNamespace_def
  hostedGetDaemonSet_def registryHead_def registryGet_def registryImage_def registryConfigFile_def
  registryExtract_def readCM_def getDaemonSet_def getClusterVersion_def getTemplate_def
  listTemplates_def httpGet_def randBytes_def randString_def
  apiWrite_def updateStatus_def event_def

lemmas client_wp = client_defs wp_simps

subsection \<open>The chain of steps of a reconcile\<close>

text \<open>
  \<^verbatim>\<open>if result, err := step(); err != nil || result.RequeueAfter > 0 { return result, err }\<close>,
  then the rest of the function.
\<close>

definition stage :: "step_result io \<Rightarrow> step_result io \<Rightarrow> step_result io" where
  "stage m k = do { r \<leftarrow> m; if stops r then State_Monad.return r else k }"

lemma wp_stage [wp_simps]:
  "wp (stage m k) Q = wp m (\<lambda>r. if stops r then Q r else wp k Q)"
  by (simp add: stage_def wp_simps cong: if_cong)

end
