(* ===== verification/Kube_Meta.thy ===== *)
theory Kube_Meta
  imports Kube_API
begin

section \<open>Helpers of the Kubernetes libraries and the footprint of a step\<close>

text \<open>
  The functions of the vendored libraries that the operator's logic rests on
  (\<^verbatim>\<open>meta.SetStatusCondition\<close>, \<^verbatim>\<open>metav1.IsControlledBy\<close>, the finalizer helpers and
  \<^verbatim>\<open>SetControllerReference\<close> of \<^verbatim>\<open>controllerutil\<close>, \<^verbatim>\<open>client.IgnoreNotFound\<close>), translated from their
  sources under \<^verbatim>\<open>vendor/\<close>; the interface of a store of conditions; and the notion the component
  theories share: which parts of the resource a step may write and which requests it may issue.
\<close>

subsection \<open>Status conditions\<close>

fun FindStatusCondition :: "Condition list \<Rightarrow> string \<Rightarrow> Condition option" where
  "FindStatusCondition [] t = None"
| "FindStatusCondition (c # cs) t = (if c_type c = t then Some c else FindStatusCondition cs t)"

text \<open>The assignments through the pointer \<^verbatim>\<open>existingCondition\<close>: the first match is overwritten.\<close>

fun assign_first :: "Condition \<Rightarrow> Condition list \<Rightarrow> Condition list" where
  "assign_first n [] = []"
| "assign_first n (c # cs) =
     (if c_type c = c_type n
      then c\<lparr>c_status := c_status n, c_reason := c_reason n, c_message := c_message n,
             c_observedGeneration := c_observedGeneration n\<rparr> # cs
      else c # assign_first n cs)"

definition SetStatusCondition :: "Condition list \<Rightarrow> Condition \<Rightarrow> Condition list \<times> bool" where
  "SetStatusCondition cs n =
     (case FindStatusCondition cs (c_type n) of
        None \<Rightarrow> (cs @ [n], True)
      | Some old \<Rightarrow>
          (assign_first n cs,
           c_status old \<noteq> c_status n \<or> c_reason old \<noteq> c_reason n \<or> c_message old \<noteq> c_message n
             \<or> c_observedGeneration old \<noteq> c_observedGeneration n))"

text \<open>The interface the controllers rely on: looking a type up after a condition was stored.\<close>

locale condition_store =
  fixes find :: "'s \<Rightarrow> string \<Rightarrow> Condition option"
    and put :: "Condition \<Rightarrow> 's \<Rightarrow> 's"
  assumes find_put_same: "find (put c s) (c_type c) = Some c"
    and find_put_other: "t \<noteq> c_type c \<Longrightarrow> find (put c s) t = find s t"
begin

lemma find_put: "find (put c s) t = (if t = c_type c then Some c else find s t)"
  by (simp add: find_put_same find_put_other)

lemma find_puts_notin: "t \<notin> c_type ` set cs \<Longrightarrow> find (fold put cs s) t = find s t"
  by (induction cs arbitrary: s) (auto simp: find_put)

lemma find_puts:
  "distinct (map c_type cs) \<Longrightarrow> c \<in> set cs \<Longrightarrow> find (fold put cs s) (c_type c) = Some c"
proof (induction cs arbitrary: s)
  case Nil
  then show ?case by simp
next
  case (Cons d cs)
  show ?case
  proof (cases "c = d")
    case True
    with Cons.prems(1) have "c_type c \<notin> c_type ` set cs" by simp
    then show ?thesis using True by (simp add: find_puts_notin find_put_same)
  next
    case False
    with Cons show ?thesis by simp
  qed
qed

text \<open>Storing twice under one type is storing once, as far as lookups can tell.\<close>

lemma find_put_put: "c_type c = c_type d \<Longrightarrow> find (put c (put d s)) t = find (put c s) t"
  by (simp add: find_put)

end

lemma FindStatusCondition_type: "FindStatusCondition cs t = Some c \<Longrightarrow> c_type c = t"
  by (induction cs) (auto split: if_splits)

lemma FindStatusCondition_append:
  "FindStatusCondition (cs @ ds) t =
     (case FindStatusCondition cs t of None \<Rightarrow> FindStatusCondition ds t | Some c \<Rightarrow> Some c)"
  by (induction cs) auto

lemma FindStatusCondition_assign:
  "FindStatusCondition (assign_first n cs) t =
     (if t = c_type n then map_option (\<lambda>_. n) (FindStatusCondition cs t)
      else FindStatusCondition cs t)"
  by (induction cs) auto

abbreviation putCondition :: "Condition \<Rightarrow> Condition list \<Rightarrow> Condition list" where
  "putCondition c cs \<equiv> fst (SetStatusCondition cs c)"

interpretation conds: condition_store FindStatusCondition putCondition
  by unfold_locales
    (auto simp: SetStatusCondition_def FindStatusCondition_assign FindStatusCondition_append
      split: option.splits)

lemma SetStatusCondition_changed:
  "snd (SetStatusCondition cs n) \<longleftrightarrow> FindStatusCondition cs (c_type n) \<noteq> Some n"
proof (cases "FindStatusCondition cs (c_type n)")
  case None
  then show ?thesis by (simp add: SetStatusCondition_def)
next
  case (Some old)
  then have "c_type old = c_type n" by (rule FindStatusCondition_type)
  then show ?thesis using Some by (auto simp: SetStatusCondition_def)
qed

lemma assign_first_types: "map c_type (assign_first n cs) = map c_type cs"
  by (induction cs) auto

lemma FindStatusCondition_None: "FindStatusCondition cs t = None \<longleftrightarrow> t \<notin> c_type ` set cs"
  by (induction cs) auto

text \<open>No type is ever duplicated: the well-formedness of a condition list.\<close>

lemma SetStatusCondition_distinct:
  "distinct (map c_type cs) \<Longrightarrow> distinct (map c_type (putCondition n cs))"
  by (auto simp: SetStatusCondition_def assign_first_types FindStatusCondition_None
      split: option.splits)

lemma assign_first_same: "FindStatusCondition cs (c_type n) = Some n \<Longrightarrow> assign_first n cs = cs"
  by (induction cs) auto

lemma SetStatusCondition_unchanged:
  assumes "\<not> snd (SetStatusCondition cs n)"
  shows "putCondition n cs = cs"
proof -
  from assms have "FindStatusCondition cs (c_type n) = Some n"
    by (simp add: SetStatusCondition_changed)
  then show ?thesis by (simp add: SetStatusCondition_def assign_first_same)
qed

text \<open>The same on a resource.\<close>

definition findCond :: "DPFHCPProvisioner \<Rightarrow> string \<Rightarrow> Condition option" where
  "findCond c t = FindStatusCondition (cr_conditions c) t"

definition putCond :: "Condition \<Rightarrow> DPFHCPProvisioner \<Rightarrow> DPFHCPProvisioner" where
  "putCond n c = set_conditions (putCondition n (cr_conditions c)) c"

interpretation crconds: condition_store findCond putCond
  by unfold_locales (simp_all add: findCond_def putCond_def conds.find_put)

lemma putCond_simps [simp]:
  "cr_meta (putCond n c) = cr_meta c" "cr_spec (putCond n c) = cr_spec c"
  "stt_phase (cr_status (putCond n c)) = cr_phase c"
  "stt_hostedClusterRef (cr_status (putCond n c)) = cr_hostedClusterRef c"
  "stt_kubeConfigSecretRef (cr_status (putCond n c)) = stt_kubeConfigSecretRef (cr_status c)"
  "stt_blueFieldOCPLayerImage (cr_status (putCond n c)) = stt_blueFieldOCPLayerImage (cr_status c)"
  by (simp_all add: putCond_def)

lemma findCond_set_simps [simp]:
  "findCond (set_phase p c) t = findCond c t"
  "findCond (set_hostedClusterRef r c) t = findCond c t"
  "findCond (set_kubeConfigSecretRef k c) t = findCond c t"
  "findCond (set_blueFieldOCPLayerImage i c) t = findCond c t"
  by (simp_all add: findCond_def)

lemma findCond_putCond: "findCond (putCond n c) t = (if t = c_type n then Some n else findCond c t)"
  by (rule crconds.find_put)

text \<open>\<^verbatim>\<open>cond != nil && cond.Status == ConditionTrue\<close>, and with \<^verbatim>\<open>ConditionFalse\<close>.\<close>

definition condTrue :: "DPFHCPProvisioner \<Rightarrow> string \<Rightarrow> bool" where
  "condTrue c t = (case findCond c t of None \<Rightarrow> False | Some x \<Rightarrow> c_status x = ConditionTrue)"

definition condFalse :: "DPFHCPProvisioner \<Rightarrow> string \<Rightarrow> bool" where
  "condFalse c t = (case findCond c t of None \<Rightarrow> False | Some x \<Rightarrow> c_status x = ConditionFalse)"

lemma condTrue_putCond:
  "condTrue (putCond n c) t = (if t = c_type n then c_status n = ConditionTrue else condTrue c t)"
  by (simp add: condTrue_def findCond_putCond)

lemma condFalse_putCond:
  "condFalse (putCond n c) t = (if t = c_type n then c_status n = ConditionFalse else condFalse c t)"
  by (simp add: condFalse_def findCond_putCond)

lemma cond_set_simps [simp]:
  "condTrue (set_phase p c) t = condTrue c t" "condFalse (set_phase p c) t = condFalse c t"
  "condTrue (set_hostedClusterRef r c) t = condTrue c t"
  "condTrue (set_kubeConfigSecretRef k c) t = condTrue c t"
  "condTrue (set_blueFieldOCPLayerImage i c) t = condTrue c t"
  "condFalse (set_hostedClusterRef r c) t = condFalse c t"
  "condFalse (set_kubeConfigSecretRef k c) t = condFalse c t"
  "condFalse (set_blueFieldOCPLayerImage i c) t = condFalse c t"
  by (simp_all add: condTrue_def condFalse_def)

lemma condTrue_not_condFalse: "condTrue c t \<Longrightarrow> \<not> condFalse c t"
  by (auto simp: condTrue_def condFalse_def split: option.splits)

text \<open>\<^verbatim>\<open>meta.SetStatusCondition(&cr.Status.Conditions, n)\<close> in a handler; the value is \<^verbatim>\<open>changed\<close>.\<close>

definition setCondition :: "Condition \<Rightarrow> bool io" where
  "setCondition n = with_cr (\<lambda>c. do {
     _ \<leftarrow> modify_cr (putCond n);
     State_Monad.return (snd (SetStatusCondition (cr_conditions c) n))
   })"

lemma wp_setCondition [wp_simps]:
  "wp (setCondition n) Q = (\<lambda>s. Q (findCond (st_cr s) (c_type n) \<noteq> Some n)
     (s\<lparr>st_cr := putCond n (st_cr s)\<rparr>))"
  by (simp add: setCondition_def wp_simps SetStatusCondition_changed findCond_def)

text \<open>Set a condition, emit an event when it changed.\<close>

definition setConditionEvent :: "Condition \<Rightarrow> string \<Rightarrow> string \<Rightarrow> string \<Rightarrow> unit io" where
  "setConditionEvent n ty reason msg = do {
     changed \<leftarrow> setCondition n;
     if changed then event ty reason msg else State_Monad.return ()
   }"

subsection \<open>Ownership\<close>

fun GetControllerOf :: "OwnerReference list \<Rightarrow> OwnerReference option" where
  "GetControllerOf [] = None"
| "GetControllerOf (r # rs) = (if or_controller r then Some r else GetControllerOf rs)"

definition IsControlledBy :: "ObjectMeta \<Rightarrow> ObjectMeta \<Rightarrow> bool" where
  "IsControlledBy obj owner =
     (case GetControllerOf (om_ownerReferences obj) of
        None \<Rightarrow> False
      | Some r \<Rightarrow> or_uid r = om_uid owner)"

text \<open>
  \<^verbatim>\<open>SetControllerReference\<close> for an owner of kind DPFHCPProvisioner. \<^verbatim>\<open>referSameObject\<close> compares API
  group, kind and name; the group is what precedes the slash of the API version.
\<close>

definition provisionerApiVersion :: string where
  "provisionerApiVersion = ''provisioning.dpu.hcp.io/v1alpha1''"

definition apiGroup :: "string \<Rightarrow> string option" where
  "apiGroup v = (case Split v (CHR ''/'') of
     [ver] \<Rightarrow> Some [] | [g, ver] \<Rightarrow> Some g | _ \<Rightarrow> None)"

definition referSameObject :: "OwnerReference \<Rightarrow> OwnerReference \<Rightarrow> bool" where
  "referSameObject a b =
     (case apiGroup (or_apiVersion a) of
        None \<Rightarrow> False
      | Some ga \<Rightarrow>
          (case apiGroup (or_apiVersion b) of
             None \<Rightarrow> False
           | Some gb \<Rightarrow> ga = gb \<and> or_kind a = or_kind b \<and> or_name a = or_name b))"

definition ownerRefFor :: "ObjectMeta \<Rightarrow> OwnerReference" where
  "ownerRefFor owner = \<lparr>or_apiVersion = provisionerApiVersion, or_kind = ''DPFHCPProvisioner'',
     or_name = om_name owner, or_uid = om_uid owner, or_controller = True\<rparr>"

fun upsertOwnerRef :: "OwnerReference \<Rightarrow> OwnerReference list \<Rightarrow> OwnerReference list" where
  "upsertOwnerRef r [] = [r]"
| "upsertOwnerRef r (x # xs) = (if referSameObject x r then r # xs else x # upsertOwnerRef r xs)"

definition SetControllerReference :: "ObjectMeta \<Rightarrow> ObjectMeta \<Rightarrow> goerror + ObjectMeta" where
  "SetControllerReference owner obj =
     (if om_namespace owner \<noteq> [] \<and> om_namespace obj = [] then
        Inl (Errorf (''cluster-scoped resource must not have a namespace-scoped owner, owner's namespace ''
          @ om_namespace owner))
      else if om_namespace owner \<noteq> [] \<and> om_namespace owner \<noteq> om_namespace obj then
        Inl (Errorf (''cross-namespace owner references are disallowed, owner's namespace ''
          @ om_namespace owner @ '', obj's namespace '' @ om_namespace obj))
      else
        (case GetControllerOf (om_ownerReferences obj) of
           Some r \<Rightarrow>
             if \<not> referSameObject r (ownerRefFor owner)
             then Inl (Errorf (''Object '' @ om_namespace obj @ ''/'' @ om_name obj
               @ '' is already owned by another '' @ or_kind r @ '' controller '' @ or_name r))
             else Inr (obj\<lparr>om_ownerReferences :=
               upsertOwnerRef (ownerRefFor owner) (om_ownerReferences obj)\<rparr>)
         | None \<Rightarrow> Inr (obj\<lparr>om_ownerReferences :=
             upsertOwnerRef (ownerRefFor owner) (om_ownerReferences obj)\<rparr>)))"

lemma SetControllerReference_newMeta:
  assumes "om_namespace owner = ns"
  shows "SetControllerReference owner (newMeta ns n) =
    Inr ((newMeta ns n)\<lparr>om_ownerReferences := [ownerRefFor owner]\<rparr>)"
  using assms by (simp add: SetControllerReference_def newMeta_def)

lemma SetControllerReference_controls:
  assumes "om_ownerReferences obj = []" and "SetControllerReference owner obj = Inr obj'"
  shows "IsControlledBy obj' owner"
  using assms
  by (auto simp: SetControllerReference_def IsControlledBy_def ownerRefFor_def split: if_splits)

subsection \<open>Finalizers and errors\<close>

definition ContainsFinalizer :: "ObjectMeta \<Rightarrow> string \<Rightarrow> bool" where
  "ContainsFinalizer m f = (f \<in> set (om_finalizers m))"

definition AddFinalizer :: "ObjectMeta \<Rightarrow> string \<Rightarrow> ObjectMeta" where
  "AddFinalizer m f =
     (if f \<in> set (om_finalizers m) then m else m\<lparr>om_finalizers := om_finalizers m @ [f]\<rparr>)"

definition RemoveFinalizer :: "ObjectMeta \<Rightarrow> string \<Rightarrow> ObjectMeta" where
  "RemoveFinalizer m f = m\<lparr>om_finalizers := filter (\<lambda>x. x \<noteq> f) (om_finalizers m)\<rparr>"

definition IgnoreNotFound :: "goerror \<Rightarrow> goerror option" where
  "IgnoreNotFound e = (if IsNotFound e then None else Some e)"

subsection \<open>The footprint of a step\<close>

text \<open>
  A slot is a part of a resource's status that a step may write. \<open>agree_outside W\<close> relates two
  versions of a resource that have the same metadata and spec and differ in slots of \<open>W\<close> only.
  \<open>footprint M S W P m\<close>: run on a resource with metadata \<open>M\<close> and spec \<open>S\<close>, \<open>m\<close> writes only slots in
  \<open>W\<close> and issues only requests that satisfy \<open>P\<close>, whatever the environment replies.
\<close>

datatype slot = CondSlot string | PhaseSlot | HostedClusterRefSlot | KubeConfigRefSlot | ImageSlot

definition agree_outside :: "slot set \<Rightarrow> DPFHCPProvisioner \<Rightarrow> DPFHCPProvisioner \<Rightarrow> bool" where
  "agree_outside W c d \<longleftrightarrow>
     cr_meta d = cr_meta c \<and> cr_spec d = cr_spec c
     \<and> (\<forall>t. CondSlot t \<notin> W \<longrightarrow> findCond d t = findCond c t)
     \<and> (PhaseSlot \<notin> W \<longrightarrow> cr_phase d = cr_phase c)
     \<and> (HostedClusterRefSlot \<notin> W \<longrightarrow> cr_hostedClusterRef d = cr_hostedClusterRef c)
     \<and> (KubeConfigRefSlot \<notin> W \<longrightarrow>
          stt_kubeConfigSecretRef (cr_status d) = stt_kubeConfigSecretRef (cr_status c))
     \<and> (ImageSlot \<notin> W \<longrightarrow>
          stt_blueFieldOCPLayerImage (cr_status d) = stt_blueFieldOCPLayerImage (cr_status c))"

definition issued :: "(call \<Rightarrow> bool) \<Rightarrow> history \<Rightarrow> history \<Rightarrow> bool" where
  "issued P h h' \<longleftrightarrow> (\<exists>cs. h' = cs @ h \<and> (\<forall>c \<in> set cs. P c))"

definition footprint ::
    "ObjectMeta \<Rightarrow> DPFHCPProvisionerSpec \<Rightarrow> slot set \<Rightarrow> (call \<Rightarrow> bool) \<Rightarrow> 'a io \<Rightarrow> bool" where
  "footprint M S W P m \<longleftrightarrow>
     (\<forall>s. cr_meta (st_cr s) = M \<longrightarrow> cr_spec (st_cr s) = S \<longrightarrow>
        wp m (\<lambda>_ s'. agree_outside W (st_cr s) (st_cr s')
               \<and> issued P (st_history s) (st_history s')) s)"

named_theorems footprint_intros \<open>compositional rules for footprints\<close>

lemma agree_outside_refl [simp]: "agree_outside W c c"
  by (simp add: agree_outside_def)

lemma agree_outside_trans:
  "agree_outside W c d \<Longrightarrow> agree_outside W d e \<Longrightarrow> agree_outside W c e"
  by (auto simp: agree_outside_def)

lemma agree_outside_mono: "W \<subseteq> V \<Longrightarrow> agree_outside W c d \<Longrightarrow> agree_outside V c d"
  by (auto simp: agree_outside_def)

lemma agree_outside_meta: "agree_outside W c d \<Longrightarrow> cr_meta d = cr_meta c \<and> cr_spec d = cr_spec c"
  by (simp add: agree_outside_def)

lemma agree_outside_cond: "agree_outside W c d \<Longrightarrow> CondSlot t \<notin> W \<Longrightarrow> findCond d t = findCond c t"
  by (simp add: agree_outside_def)

lemma agree_outside_condTrue:
  "agree_outside W c d \<Longrightarrow> CondSlot t \<notin> W \<Longrightarrow> condTrue d t = condTrue c t"
  by (simp add: condTrue_def agree_outside_cond)

lemma agree_outside_condFalse:
  "agree_outside W c d \<Longrightarrow> CondSlot t \<notin> W \<Longrightarrow> condFalse d t = condFalse c t"
  by (simp add: condFalse_def agree_outside_cond)

lemma issued_refl [simp]: "issued P h h"
  by (simp add: issued_def)

lemma issued_Cons [simp]: "P c \<Longrightarrow> issued P h (c # h)"
  unfolding issued_def by (rule exI [of _ "[c]"]) simp

lemma issued_trans: "issued P h h' \<Longrightarrow> issued P h' h'' \<Longrightarrow> issued P h h''"
  unfolding issued_def by (metis append.assoc set_append Un_iff)

lemma issued_Cons_before: "P c \<Longrightarrow> issued P (c # h) h' \<Longrightarrow> issued P h h'"
  by (rule issued_trans [OF issued_Cons])

lemma issued_mono: "(\<And>c. P c \<Longrightarrow> Q c) \<Longrightarrow> issued P h h' \<Longrightarrow> issued Q h h'"
  by (auto simp: issued_def)

lemma issued_member: "issued P h h' \<Longrightarrow> c \<in> set h' \<Longrightarrow> c \<in> set h \<or> P c"
  by (auto simp: issued_def)

lemma footprintD:
  "footprint M S W P m \<Longrightarrow> cr_meta (st_cr s) = M \<Longrightarrow> cr_spec (st_cr s) = S \<Longrightarrow>
   wp m (\<lambda>_ s'. agree_outside W (st_cr s) (st_cr s') \<and> issued P (st_history s) (st_history s')) s"
  by (simp add: footprint_def)

lemma footprint_run:
  assumes "footprint (cr_meta (st_cr s)) (cr_spec (st_cr s)) W P m" and "run_state m s = (a, s')"
  shows "agree_outside W (st_cr s) (st_cr s') \<and> issued P (st_history s) (st_history s')"
  using footprintD [OF assms(1) refl refl] assms(2) by (rule wp_run)

lemma footprint_mono:
  assumes "footprint M S W P m" and "W \<subseteq> V" and "\<And>c. P c \<Longrightarrow> Q c"
  shows "footprint M S V Q m"
  unfolding footprint_def
proof (intro allI impI)
  fix s :: st assume "cr_meta (st_cr s) = M" "cr_spec (st_cr s) = S"
  with assms(1) have "wp m (\<lambda>_ s'. agree_outside W (st_cr s) (st_cr s')
      \<and> issued P (st_history s) (st_history s')) s"
    by (rule footprintD)
  then show "wp m (\<lambda>_ s'. agree_outside V (st_cr s) (st_cr s')
      \<and> issued Q (st_history s) (st_history s')) s"
    using assms(2,3) by (elim wp_mono) (blast intro: agree_outside_mono issued_mono)
qed

lemma footprint_return [footprint_intros]: "footprint M S W P (State_Monad.return x)"
  by (simp add: footprint_def wp_simps)

lemma footprint_bind [footprint_intros]:
  assumes "footprint M S W P m" and "\<And>a. footprint M S W P (f a)"
  shows "footprint M S W P (State_Monad.bind m f)"
  unfolding footprint_def
proof (intro allI impI)
  fix s :: st assume s: "cr_meta (st_cr s) = M" "cr_spec (st_cr s) = S"
  show "wp (State_Monad.bind m f) (\<lambda>_ s'. agree_outside W (st_cr s) (st_cr s')
      \<and> issued P (st_history s) (st_history s')) s"
  proof (rule wp_seq [OF footprintD [OF assms(1) s]])
    fix a and s' :: st
    assume s': "agree_outside W (st_cr s) (st_cr s') \<and> issued P (st_history s) (st_history s')"
    with s have "cr_meta (st_cr s') = M" "cr_spec (st_cr s') = S"
      by (auto dest: agree_outside_meta)
    then have "wp (f a) (\<lambda>_ t. agree_outside W (st_cr s') (st_cr t)
        \<and> issued P (st_history s') (st_history t)) s'"
      by (rule footprintD [OF assms(2)])
    then show "wp (f a) (\<lambda>_ t. agree_outside W (st_cr s) (st_cr t)
        \<and> issued P (st_history s) (st_history t)) s'"
      by (rule wp_mono) (use s' in \<open>blast intro: agree_outside_trans issued_trans\<close>)
  qed
qed

lemma footprint_with_cr [footprint_intros]:
  "(\<And>c. cr_meta c = M \<Longrightarrow> cr_spec c = S \<Longrightarrow> footprint M S W P (f c)) \<Longrightarrow>
   footprint M S W P (with_cr f)"
  by (simp add: footprint_def wp_simps)

lemma footprint_if [footprint_intros]:
  "(b \<Longrightarrow> footprint M S W P m) \<Longrightarrow> (\<not> b \<Longrightarrow> footprint M S W P n) \<Longrightarrow>
   footprint M S W P (if b then m else n)"
  by simp

lemma footprint_case_sum [footprint_intros]:
  "(\<And>e. x = Inl e \<Longrightarrow> footprint M S W P (f e)) \<Longrightarrow> (\<And>v. x = Inr v \<Longrightarrow> footprint M S W P (g v)) \<Longrightarrow>
   footprint M S W P (case x of Inl e \<Rightarrow> f e | Inr v \<Rightarrow> g v)"
  by (simp split: sum.splits)

lemma footprint_case_option [footprint_intros]:
  "(x = None \<Longrightarrow> footprint M S W P m) \<Longrightarrow> (\<And>v. x = Some v \<Longrightarrow> footprint M S W P (g v)) \<Longrightarrow>
   footprint M S W P (case x of None \<Rightarrow> m | Some v \<Rightarrow> g v)"
  by (simp split: option.splits)

lemma footprint_case_list [footprint_intros]:
  "(x = [] \<Longrightarrow> footprint M S W P m) \<Longrightarrow> (\<And>y ys. x = y # ys \<Longrightarrow> footprint M S W P (g y ys)) \<Longrightarrow>
   footprint M S W P (case x of [] \<Rightarrow> m | y # ys \<Rightarrow> g y ys)"
  by (simp split: list.splits)

lemma footprint_case_prod [footprint_intros]:
  "(\<And>a b. x = (a, b) \<Longrightarrow> footprint M S W P (f a b)) \<Longrightarrow>
   footprint M S W P (case x of (a, b) \<Rightarrow> f a b)"
  by (simp split: prod.splits)

lemma footprint_Let [footprint_intros]:
  "(\<And>x. x = t \<Longrightarrow> footprint M S W P (f x)) \<Longrightarrow> footprint M S W P (let x = t in f x)"
  by (simp add: Let_def)

lemma footprint_stage [footprint_intros]:
  "footprint M S W P m \<Longrightarrow> footprint M S W P k \<Longrightarrow> footprint M S W P (stage m k)"
  unfolding stage_def by (intro footprint_intros)

lemma footprint_request [footprint_intros]: "P c \<Longrightarrow> footprint M S W P (request c r)"
  by (simp add: footprint_def wp_simps)

lemma footprint_modify_cr:
  "(\<And>c. cr_meta c = M \<Longrightarrow> cr_spec c = S \<Longrightarrow> agree_outside W c (f c)) \<Longrightarrow>
   footprint M S W P (modify_cr f)"
  by (simp add: footprint_def wp_simps)

lemma footprint_setters [footprint_intros]:
  "PhaseSlot \<in> W \<Longrightarrow> footprint M S W P (modify_cr (set_phase p))"
  "HostedClusterRefSlot \<in> W \<Longrightarrow> footprint M S W P (modify_cr (set_hostedClusterRef r))"
  "KubeConfigRefSlot \<in> W \<Longrightarrow> footprint M S W P (modify_cr (set_kubeConfigSecretRef k))"
  "ImageSlot \<in> W \<Longrightarrow> footprint M S W P (modify_cr (set_blueFieldOCPLayerImage i))"
  "CondSlot (c_type n) \<in> W \<Longrightarrow> footprint M S W P (modify_cr (putCond n))"
  by (rule footprint_modify_cr; auto simp: agree_outside_def findCond_def
      set_status_defs putCond_def conds.find_put)+

lemma footprint_modify_st [footprint_intros]:
  "(\<And>s. st_cr (f s) = st_cr s \<and> st_history (f s) = st_history s) \<Longrightarrow>
   footprint M S W P (modify_st f)"
  by (simp add: footprint_def wp_simps)

lemma footprint_setCondition [footprint_intros]:
  "CondSlot (c_type n) \<in> W \<Longrightarrow> footprint M S W P (setCondition n)"
  unfolding setCondition_def by (intro footprint_intros)

lemma footprint_event [footprint_intros]:
  "P (Event ty r m) \<Longrightarrow> footprint M S W P (event ty r m)"
  unfolding event_def by (intro footprint_intros)

lemma footprint_setConditionEvent [footprint_intros]:
  "CondSlot (c_type n) \<in> W \<Longrightarrow> P (Event ty r m) \<Longrightarrow>
   footprint M S W P (setConditionEvent n ty r m)"
  unfolding setConditionEvent_def by (intro footprint_intros)

lemma footprint_apiWrite [footprint_intros]: "P c \<Longrightarrow> footprint M S W P (apiWrite E c)"
  unfolding apiWrite_def by (intro footprint_intros)

lemma footprint_updateStatus [footprint_intros]:
  "(\<And>c. cr_meta c = M \<Longrightarrow> cr_spec c = S \<Longrightarrow> P (UpdateCRStatus c)) \<Longrightarrow>
   footprint M S W P (updateStatus E)"
  unfolding updateStatus_def by (intro footprint_intros)

lemma footprint_reads [footprint_intros]:
  "P (GetCR k) \<Longrightarrow> footprint M S W P (getCR E k)"
  "P ListCRs \<Longrightarrow> footprint M S W P (listCRs E)"
  "P (GetConfig n) \<Longrightarrow> footprint M S W P (getConfig E n)"
  "P (GetDPUCluster k) \<Longrightarrow> footprint M S W P (getDPUCluster E k)"
  "P (GetSecret k) \<Longrightarrow> footprint M S W P (getSecret E k)"
  "P (ListSecrets ns l) \<Longrightarrow> footprint M S W P (listSecrets E ns l)"
  "P (GetHC k) \<Longrightarrow> footprint M S W P (getHC E k)"
  "P (GetNP k) \<Longrightarrow> footprint M S W P (getNP E k)"
  "P (GetPool k) \<Longrightarrow> footprint M S W P (getPool E k)"
  "P (GetL2 k) \<Longrightarrow> footprint M S W P (getL2 E k)"
  "P (GetCM k) \<Longrightarrow> footprint M S W P (getCM E k)"
  "P (GetDPUDeployment k) \<Longrightarrow> footprint M S W P (getDPUDeployment E k)"
  "P (GetDPUFlavor k) \<Longrightarrow> footprint M S W P (getDPUFlavor E k)"
  "P ListNodes \<Longrightarrow> footprint M S W P (listNodes E)"
  "P (GetService k) \<Longrightarrow> footprint M S W P (getService E k)"
  "P ListDPFOperatorConfigs \<Longrightarrow> footprint M S W P (listDPFOperatorConfigs E)"
  "P (ListDPUs n) \<Longrightarrow> footprint M S W P (listDPUs E n)"
  "P (HostedServerVersion c) \<Longrightarrow> footprint M S W P (hostedServerVersion E c)"
  "P (HostedListCSRs c) \<Longrightarrow> footprint M S W P (hostedListCSRs E c)"
  "P (HostedListNodes c) \<Longrightarrow> footprint M S W P (hostedListNodes E c)"
  "P (HostedGetNamespace c n) \<Longrightarrow> footprint M S W P (hostedGetNamespace E c n)"
  "P (HostedGetDaemonSet c nsp n) \<Longrightarrow> footprint M S W P (hostedGetDaemonSet E c nsp n)"
  "P (RegistryHead r a) \<Longrightarrow> footprint M S W P (registryHead E r a)"
  "P (RegistryGet r a) \<Longrightarrow> footprint M S W P (registryGet E r a)"
  "P (RegistryImage r a) \<Longrightarrow> footprint M S W P (registryImage E r a)"
  "P (RegistryConfigFile r a) \<Longrightarrow> footprint M S W P (registryConfigFile E r a)"
  "P (RegistryExtract r a) \<Longrightarrow> footprint M S W P (registryExtract E r a)"
  "P (ReadCM k) \<Longrightarrow> footprint M S W P (readCM E k)"
  "P (GetDaemonSet k) \<Longrightarrow> footprint M S W P (getDaemonSet E k)"
  "P (GetClusterVersion n) \<Longrightarrow> footprint M S W P (getClusterVersion E n)"
  "P (GetTemplate k) \<Longrightarrow> footprint M S W P (getTemplate E k)"
  "P (ListTemplates n l) \<Longrightarrow> footprint M S W P (listTemplates E n l)"
  "P (HttpGet u ah ca) \<Longrightarrow> footprint M S W P (httpGet E u ah ca)"
  "P (RandBytes len) \<Longrightarrow> footprint M S W P (randBytes E len)"
  "P (RandString len) \<Longrightarrow> footprint M S W P (randString E len)"
  unfolding client_defs by (intro footprint_intros; simp)+

end
