(* ===== verification/Common.thy ===== *)
theory Common
  imports Kube_Meta
begin

section \<open>Helpers of internal/common\<close>

text \<open>
  The package \<^verbatim>\<open>internal/common\<close>: the operator configuration, the singleton DPF configuration and its
  version, ownership labels of objects in other namespaces, the OCP version in a release image
  reference, and registry credentials. The lemmas say what an image reference is taken apart into
  and when a label set counts as owned.
\<close>

subsection \<open>Constants\<close>

definition DefaultConfigName :: string where
  "DefaultConfigName = ''default''"

definition AnnotationPrefix :: string where
  "AnnotationPrefix = ''dpfhcpprovisioner.dpu.hcp.io/''"

definition LabelManagedBy :: string where
  "LabelManagedBy = AnnotationPrefix @ ''managed''"

definition LabelDPFHCPProvisionerName :: string where
  "LabelDPFHCPProvisionerName = ''dpfhcpprovisioner.dpu.hcp.io/name''"

definition LabelDPFHCPProvisionerNamespace :: string where
  "LabelDPFHCPProvisionerNamespace = ''dpfhcpprovisioner.dpu.hcp.io/namespace''"

definition OpenshiftOperatorsNamespace :: string where
  "OpenshiftOperatorsNamespace = ''openshift-operators''"

lemma ownership_labels_neq [simp]:
  "LabelDPFHCPProvisionerName \<noteq> LabelDPFHCPProvisionerNamespace"
  "LabelDPFHCPProvisionerNamespace \<noteq> LabelDPFHCPProvisionerName"
  by (simp_all add: LabelDPFHCPProvisionerName_def LabelDPFHCPProvisionerNamespace_def)

subsection \<open>Configuration\<close>

definition LoadOperatorConfigFromCR :: "env \<Rightarrow> (goerror + OperatorConfig option) io" where
  "LoadOperatorConfigFromCR E = do {
     r \<leftarrow> getConfig E DefaultConfigName;
     State_Monad.return (case r of
       Inl e \<Rightarrow> if IsNotFound e then Inr None else Inl e
     | Inr cfg \<Rightarrow> Inr (Some cfg))
   }"

definition GetSingletonDPFOperatorConfig :: "env \<Rightarrow> (goerror + DPFOperatorConfig) io" where
  "GetSingletonDPFOperatorConfig E = do {
     r \<leftarrow> listDPFOperatorConfigs E;
     State_Monad.return (case r of
       Inl e \<Rightarrow> Inl (wrap ''listing DPFOperatorConfig'' e)
     | Inr [c] \<Rightarrow> Inr c
     | Inr cs \<Rightarrow> Inl (Errorf (''expected exactly one DPFOperatorConfig, found ''
                  @ show_nat (length cs))))
   }"

definition GetDPFVersion :: "env \<Rightarrow> (goerror + string) io" where
  "GetDPFVersion E = do {
     r \<leftarrow> GetSingletonDPFOperatorConfig E;
     State_Monad.return (case r of
       Inl e \<Rightarrow> Inl e
     | Inr c \<Rightarrow>
         (case oc_version c of
            None \<Rightarrow> Inl (Errorf ''DPFOperatorConfig.status.version is not set'')
          | Some v \<Rightarrow> if v = [] then Inl (Errorf ''DPFOperatorConfig.status.version is not set'')
                      else Inr v))
   }"

definition DPFMajorMinorFromVersion :: "string \<Rightarrow> goerror + string" where
  "DPFMajorMinorFromVersion version =
     (case SplitN (TrimPrefix version ''v'') (CHR ''.'') 3 of
        a # b # _ \<Rightarrow> Inr (a @ ''.'' @ b)
      | _ \<Rightarrow> Inl (Errorf (''DPF version '' @ Quote version
                  @ '' does not contain a minor component'')))"

subsection \<open>Ownership labels\<close>

definition IsOwnedByProvisioner :: "string gomap \<Rightarrow> string \<Rightarrow> string \<Rightarrow> bool" where
  "IsOwnedByProvisioner labels name ns =
     (if labels = [] then False
      else mget labels LabelDPFHCPProvisionerName = name
         \<and> mget labels LabelDPFHCPProvisionerNamespace = ns)"

subsection \<open>Release images\<close>

definition archSuffixes :: "string list" where
  "archSuffixes = [''-multi'', ''-amd64'', ''-arm64'', ''-ppc64le'', ''-s390x'', ''-x86_64'']"

definition ExtractOCPVersion :: "string \<Rightarrow> goerror + string" where
  "ExtractOCPVersion ocpReleaseImage =
     (let parts = Split ocpReleaseImage (CHR '':'') in
      if length parts < 2 then Inl (Errorf ''missing tag separator ':' in image URL'')
      else let tag = last parts in
      if tag = [] then Inl (Errorf ''empty tag in image URL'')
      else let version = fold (\<lambda>suffix v. TrimSuffix v suffix) archSuffixes tag in
      if version = []
      then Inl (Errorf (''extracted version is empty after processing tag: '' @ tag))
      else Inr version)"

text \<open>The registry part: up to \<^verbatim>\<open>@\<close> if that comes late enough, else up to the last colon.\<close>

definition releaseRegistry :: "string \<Rightarrow> string" where
  "releaseRegistry img =
     (case Index img (CHR ''@'') of
        Some (Suc i) \<Rightarrow> take (Suc i) img
      | _ \<Rightarrow> (case LastIndex img (CHR '':'') of
                Some (Suc i) \<Rightarrow> take (Suc i) img
              | _ \<Rightarrow> img))"

definition Aarch64ReleaseImage :: "string \<Rightarrow> string \<Rightarrow> string" where
  "Aarch64ReleaseImage releaseImage version =
     releaseRegistry releaseImage @ '':'' @ version @ ''-aarch64''"

subsection \<open>JSON objects\<close>

text \<open>Unmarshalling into a \<^verbatim>\<open>map[string]any\<close> accepts an object, and null as the nil map.\<close>

definition asObject :: "json \<Rightarrow> goerror + (string \<times> json) list" where
  "asObject j = (case j of
     JObj m \<Rightarrow> Inr m
   | JNull \<Rightarrow> Inr []
   | _ \<Rightarrow> Inl (Errorf ''json: cannot unmarshal into Go value of type map[string]interface {}''))"

subsection \<open>Registry credentials\<close>

text \<open>A keychain is the map of credentials; \<open>None\<close> is \<^verbatim>\<open>authn.Anonymous\<close>.\<close>

definition Resolve :: "string gomap \<Rightarrow> ImageRef \<Rightarrow> string option" where
  "Resolve auths target =
     (case map_of auths (ir_repository target) of
        Some a \<Rightarrow> Some a
      | None \<Rightarrow> map_of auths (ir_registry target))"

definition NewKeychainFromDockerConfig :: "env \<Rightarrow> string \<Rightarrow> goerror + string gomap" where
  "NewKeychainFromDockerConfig E dockerConfigJSON =
     (case k_unmarshalDockerConfig (cod E) dockerConfigJSON of
        Inl e \<Rightarrow> Inl (wrap ''failed to unmarshal docker config'' e)
      | Inr auths \<Rightarrow> Inr auths)"

definition KeychainFromPullSecret ::
    "env \<Rightarrow> string \<Rightarrow> string \<Rightarrow> (goerror + string gomap) io" where
  "KeychainFromPullSecret E name ns = do {
     r \<leftarrow> getSecret E (NN ns name);
     State_Monad.return (case r of
       Inl e \<Rightarrow> Inl (wrap (''getting secret '' @ ns @ ''/'' @ name) e)
     | Inr secret \<Rightarrow>
         (case map_of (sec_data secret) ''.dockerconfigjson'' of
            None \<Rightarrow> Inl (Errorf (''secret '' @ ns @ ''/'' @ name @ '' missing key ''
                      @ Quote ''.dockerconfigjson''))
          | Some d \<Rightarrow> NewKeychainFromDockerConfig E d))
   }"

definition IsMultiArchReleaseImage :: "env \<Rightarrow> string \<Rightarrow> string gomap \<Rightarrow> bool io" where
  "IsMultiArchReleaseImage E img keychain =
     (if HasSuffix img ''-multi'' then State_Monad.return True
      else (case k_parseReference (cod E) img of
              Inl _ \<Rightarrow> State_Monad.return False
            | Inr ref \<Rightarrow> do {
                r \<leftarrow> registryHead E ref (Resolve keychain ref);
                State_Monad.return (case r of Inl _ \<Rightarrow> False | Inr isIndex \<Rightarrow> isIndex)
              }))"

subsection \<open>Facts\<close>

lemma wp_LoadOperatorConfigFromCR [wp_simps]:
  "wp (LoadOperatorConfigFromCR E) Q = (\<lambda>s.
     Q (case a_getConfig (mgmt E) (st_history s) DefaultConfigName of
          Inl e \<Rightarrow> if IsNotFound e then Inr None else Inl e
        | Inr cfg \<Rightarrow> Inr (Some cfg))
       (s\<lparr>st_history := GetConfig DefaultConfigName # st_history s\<rparr>))"
  by (simp add: LoadOperatorConfigFromCR_def client_wp)

text \<open>A label set with both labels set to a non-empty owner is owned by that owner alone.\<close>

lemma IsOwnedByProvisioner_unique:
  "IsOwnedByProvisioner l n ns \<Longrightarrow> IsOwnedByProvisioner l n' ns' \<Longrightarrow> n = n' \<and> ns = ns'"
  by (auto simp: IsOwnedByProvisioner_def split: if_splits)

lemma IsOwnedByProvisioner_labelled:
  "IsOwnedByProvisioner
     (mset_key (mset_key l LabelDPFHCPProvisionerName n) LabelDPFHCPProvisionerNamespace ns) n ns"
proof -
  have "mset_key (mset_key l LabelDPFHCPProvisionerName n) LabelDPFHCPProvisionerNamespace ns \<noteq> []"
    unfolding mset_key_def by (metis list.discI update_nonempty update_nonempty)
  then show ?thesis by (simp add: IsOwnedByProvisioner_def)
qed

lemma version_untrimmed:
  "(\<And>suf. suf \<in> set sufs \<Longrightarrow> \<not> HasSuffix v suf) \<Longrightarrow> fold (\<lambda>suffix v. TrimSuffix v suffix) sufs v = v"
  by (induction sufs) (simp_all add: TrimSuffix_id)

text \<open>The version of a reference is its tag, up to architecture suffixes.\<close>

lemma ExtractOCPVersion_tag:
  assumes "CHR '':'' \<notin> set tag" and "tag \<noteq> []"
    and "\<And>suf. suf \<in> set archSuffixes \<Longrightarrow> \<not> HasSuffix tag suf"
  shows "ExtractOCPVersion (repo @ '':'' @ tag) = Inr tag"
  using assms version_untrimmed [of archSuffixes tag]
  by (simp add: ExtractOCPVersion_def Split_append_sep Let_def)

lemma releaseRegistry_tag:
  assumes "CHR ''@'' \<notin> set repo \<union> set tag" and "CHR '':'' \<notin> set tag" and "repo \<noteq> []"
  shows "releaseRegistry (repo @ '':'' @ tag) = repo"
proof -
  obtain n where n: "length repo = Suc n"
    using assms(3) by (cases repo) auto
  have "Index (repo @ '':'' @ tag) (CHR ''@'') = None"
    using assms(1) by (auto simp: Index_None)
  moreover have "LastIndex (repo @ '':'' @ tag) (CHR '':'') = Some (Suc n)"
    using LastIndex_append [OF assms(2), of repo] n by simp
  ultimately show ?thesis
    using n by (simp add: releaseRegistry_def)
qed

lemma footprint_common [footprint_intros]:
  "P (GetConfig DefaultConfigName) \<Longrightarrow> footprint M S W P (LoadOperatorConfigFromCR E)"
  "P ListDPFOperatorConfigs \<Longrightarrow> footprint M S W P (GetSingletonDPFOperatorConfig E)"
  "P (GetSecret (NN ns n)) \<Longrightarrow> footprint M S W P (KeychainFromPullSecret E n ns)"
  "(\<And>r a. P (RegistryHead r a)) \<Longrightarrow> footprint M S W P (IsMultiArchReleaseImage E i kc)"
  unfolding LoadOperatorConfigFromCR_def GetSingletonDPFOperatorConfig_def
    KeychainFromPullSecret_def IsMultiArchReleaseImage_def
  by (intro footprint_intros; simp)+

end
