(* ===== verification/Steps.thy ===== *)
theory Steps
  imports Common
begin

section \<open>The contract of a reconcile step\<close>

text \<open>
  The main controller calls its features one after the other on one shared resource. What it relies
  on is the same for each of them: a feature writes only its own conditions and status fields, and
  it sends only requests of certain kinds. That contract is the locale \<open>reconcile_step\<close>; each
  feature theory interprets it on the feature's own definition. \<open>report\<close> is the tail that the
  validators share: set a condition, emit an event if it changed, write the status.
\<close>

declare client_defs [wp_simps]

text \<open>\<open>sq s\<close> is what the format \<^verbatim>\<open>'%s'\<close> prints for \<open>s\<close>.\<close>

definition sq :: "string \<Rightarrow> string" where
  "sq s = [CHR 0x27] @ s @ [CHR 0x27]"

definition EventTypeNormal :: string where
  "EventTypeNormal = ''Normal''"

definition EventTypeWarning :: string where
  "EventTypeWarning = ''Warning''"

definition done_or_failed :: "goerror option \<Rightarrow> step_result" where
  "done_or_failed r = (case r of None \<Rightarrow> ok | Some e \<Rightarrow> failed e)"

lemma done_or_failed_simps [simp]:
  "done_or_failed None = ok" "done_or_failed (Some e) = failed e"
  by (simp_all add: done_or_failed_def)

lemma done_or_failed_stops [simp]: "stops (done_or_failed r) \<longleftrightarrow> r \<noteq> None"
  by (cases r) simp_all

lemma done_or_failed_After [simp]:
  "(After n, None) = done_or_failed w \<longleftrightarrow> n = 0 \<and> w = None"
  "done_or_failed w = (After n, None) \<longleftrightarrow> n = 0 \<and> w = None"
  by (cases w; auto simp: ok_def failed_def After_def Done_def)+

definition report ::
    "env \<Rightarrow> Condition \<Rightarrow> string \<Rightarrow> string \<Rightarrow> string \<Rightarrow> step_result io" where
  "report E condition eventType reason message = do {
     _ \<leftarrow> setConditionEvent condition eventType reason message;
     r \<leftarrow> updateStatus E;
     State_Monad.return (done_or_failed r)
   }"

text \<open>Reading a field of a long-lived object.\<close>

definition gets :: "(st \<Rightarrow> 'a) \<Rightarrow> 'a io" where
  "gets f = do { s \<leftarrow> State_Monad.get; State_Monad.return (f s) }"

lemma wp_gets [wp_simps]: "wp (gets f) Q = (\<lambda>s. Q (f s) s)"
  by (simp add: gets_def wp_simps)

lemma footprint_gets [footprint_intros]: "footprint M S W P (gets f)"
  by (simp add: footprint_def wp_simps)

text \<open>The history after the event that announces \<open>n\<close>, if it is news.\<close>

definition announced :: "DPFHCPProvisioner \<Rightarrow> Condition \<Rightarrow> call \<Rightarrow> history \<Rightarrow> history" where
  "announced c n ev h = (if findCond c (c_type n) = Some n then h else ev # h)"

lemma wp_setConditionEvent [wp_simps]:
  "wp (setConditionEvent n ty r m) Q = (\<lambda>s.
     Q () (s\<lparr>st_cr := putCond n (st_cr s),
             st_history := announced (st_cr s) n (Event ty r m) (st_history s)\<rparr>))"
  by (rule ext) (simp add: setConditionEvent_def wp_simps announced_def)

lemma wp_report [wp_simps]:
  "wp (report E n ty r m) Q = (\<lambda>s.
     Q (done_or_failed (a_write (mgmt E) (announced (st_cr s) n (Event ty r m) (st_history s))
          (UpdateCRStatus (putCond n (st_cr s)))))
       (s\<lparr>st_cr := putCond n (st_cr s),
          st_history := UpdateCRStatus (putCond n (st_cr s))
            # announced (st_cr s) n (Event ty r m) (st_history s)\<rparr>))"
  by (rule ext) (simp add: report_def wp_simps)

lemma set_announced: "set h \<subseteq> set (announced c n ev h)" "set (announced c n ev h) \<subseteq> insert ev (set h)"
  by (auto simp: announced_def)

lemma footprint_report [footprint_intros]:
  "CondSlot (c_type n) \<in> W \<Longrightarrow> P (Event ty r m) \<Longrightarrow>
   (\<And>c. cr_meta c = M \<Longrightarrow> cr_spec c = S \<Longrightarrow> P (UpdateCRStatus c)) \<Longrightarrow>
   footprint M S W P (report E n ty r m)"
  unfolding report_def by (intro footprint_intros)

text \<open>
  \<open>sets t v m\<close>: all that \<open>m\<close> does to the resource is to give condition \<open>t\<close> the status \<open>v\<close>.
\<close>

definition sets :: "string \<Rightarrow> ConditionStatus \<Rightarrow> 'a io \<Rightarrow> bool" where
  "sets t v m \<longleftrightarrow> (\<forall>s. wp m (\<lambda>_ s'.
     (\<exists>n. c_type n = t \<and> c_status n = v \<and> st_cr s' = putCond n (st_cr s))
     \<and> (\<exists>later. st_history s' = later @ st_history s)) s)"

named_theorems sets_intros \<open>steps that only set one condition\<close>

lemma sets_wp: "sets t v m \<Longrightarrow>
  (\<And>r n s' later. c_type n = t \<Longrightarrow> c_status n = v \<Longrightarrow> st_cr s' = putCond n (st_cr s) \<Longrightarrow>
    st_history s' = later @ st_history s \<Longrightarrow> Q r s') \<Longrightarrow> wp m Q s"
  unfolding sets_def by (erule allE [of _ s]) (erule wp_mono, auto)

lemma sets_with_cr [sets_intros]: "(\<And>c. sets t v (f c)) \<Longrightarrow> sets t v (with_cr f)"
  by (simp add: sets_def wp_simps)

lemma sets_report [sets_intros]:
  "c_type n = t \<Longrightarrow> c_status n = v \<Longrightarrow> sets t v (report E n ty r m)"
  by (auto simp: sets_def wp_simps announced_def)

text \<open>
  \<open>answered reply c h x\<close>: somewhere in the history \<open>h\<close> request \<open>c\<close> was sent and the answer was \<open>x\<close>.
\<close>

definition answered :: "(history \<Rightarrow> 'a) \<Rightarrow> call \<Rightarrow> history \<Rightarrow> 'a \<Rightarrow> bool" where
  "answered reply c h x \<longleftrightarrow> (\<exists>later earlier. h = later @ c # earlier \<and> reply earlier = x)"

lemma answered_Cons: "reply h = x \<Longrightarrow> answered reply c (c # h) x"
  unfolding answered_def by blast

lemma answered_later: "answered reply c h x \<Longrightarrow> answered reply c (later @ h) x"
  unfolding answered_def by (metis append.assoc)

lemma answered_later1: "answered reply c h x \<Longrightarrow> answered reply c (d # h) x"
  using answered_later [of reply c h x "[d]"] by simp

lemma answered_append: "reply h = x \<Longrightarrow> answered reply c (later @ c # h) x"
  by (intro answered_later answered_Cons)

lemma find_SomeD: "List.find P xs = Some x \<Longrightarrow> x \<in> set xs \<and> P x"
  by (auto simp: find_Some_iff)

lemma wp_stageI:
  assumes "wp m (\<lambda>r s'. if stops r then Q r s' else R s') s" and "\<And>s'. R s' \<Longrightarrow> wp k Q s'"
  shows "wp (stage m k) Q s"
  unfolding wp_stage using assms(1) by (rule wp_mono) (auto split: if_splits intro: assms(2))

subsection \<open>Fallible computations\<close>

definition bindE :: "(goerror + 'a) io \<Rightarrow> ('a \<Rightarrow> (goerror + 'b) io) \<Rightarrow> (goerror + 'b) io" where
  "bindE m f = do { r \<leftarrow> m; (case r of Inl e \<Rightarrow> State_Monad.return (Inl e) | Inr v \<Rightarrow> f v) }"

definition wrapE :: "string \<Rightarrow> (goerror + 'a) io \<Rightarrow> (goerror + 'a) io" where
  "wrapE msg m = do {
     r \<leftarrow> m; State_Monad.return (case r of Inl e \<Rightarrow> Inl (wrap msg e) | Inr v \<Rightarrow> Inr v) }"

definition failE :: "goerror \<Rightarrow> (goerror + 'a) io" where
  "failE e = State_Monad.return (Inl e)"

definition pureE :: "goerror + 'a \<Rightarrow> (goerror + 'a) io" where
  "pureE r = State_Monad.return r"

lemma wp_bindE [wp_simps]:
  "wp (bindE m f) Q = wp m (\<lambda>r. case r of Inl e \<Rightarrow> Q (Inl e) | Inr v \<Rightarrow> wp (f v) Q)"
  by (simp add: bindE_def wp_simps cong: sum.case_cong)

lemma wp_wrapE [wp_simps]:
  "wp (wrapE msg m) Q = wp m (\<lambda>r. Q (case r of Inl e \<Rightarrow> Inl (wrap msg e) | Inr v \<Rightarrow> Inr v))"
  by (simp add: wrapE_def wp_simps)

lemma wp_failE [wp_simps]: "wp (failE e) Q = Q (Inl e)"
  by (simp add: failE_def wp_simps)

lemma wp_pureE [wp_simps]: "wp (pureE r) Q = Q r"
  by (simp add: pureE_def wp_simps)

lemma footprint_E [footprint_intros]:
  "footprint M S W P m \<Longrightarrow> (\<And>v. footprint M S W P (f v)) \<Longrightarrow> footprint M S W P (bindE m f)"
  "footprint M S W P m' \<Longrightarrow> footprint M S W P (wrapE msg m')"
  "footprint M S W P (failE e)"
  "footprint M S W P (pureE r)"
  unfolding bindE_def wrapE_def failE_def pureE_def by (intro footprint_intros; assumption)+

subsection \<open>The locale\<close>

text \<open>
  \<open>step\<close> is a feature of the controller, \<open>slots\<close> the parts of the status it writes and \<open>allowed\<close> the
  requests it may send for a resource with the given metadata and spec.
\<close>

locale reconcile_step =
  fixes step :: "env \<Rightarrow> 'a io"
    and slots :: "slot set"
    and allowed :: "ObjectMeta \<Rightarrow> DPFHCPProvisionerSpec \<Rightarrow> call \<Rightarrow> bool"
  assumes step_footprint: "footprint M S slots (allowed M S) (step E)"
begin

lemma run_footprint:
  assumes "run_state (step E) s = (r, s')"
  shows "agree_outside slots (st_cr s) (st_cr s')
    \<and> issued (allowed (cr_meta (st_cr s)) (cr_spec (st_cr s))) (st_history s) (st_history s')"
  using step_footprint assms by (rule footprint_run)

lemma keeps_spec:
  assumes "run_state (step E) s = (r, s')"
  shows "cr_spec (st_cr s') = cr_spec (st_cr s)" and "cr_meta (st_cr s') = cr_meta (st_cr s)"
  using run_footprint [OF assms] by (auto dest: agree_outside_meta)

lemma keeps_condition:
  assumes "run_state (step E) s = (r, s')" and "CondSlot t \<notin> slots"
  shows "findCond (st_cr s') t = findCond (st_cr s) t"
  using run_footprint [OF assms(1)] assms(2) by (auto dest: agree_outside_cond)

lemma keeps_phase:
  assumes "run_state (step E) s = (r, s')" and "PhaseSlot \<notin> slots"
  shows "cr_phase (st_cr s') = cr_phase (st_cr s)"
  using run_footprint [OF assms(1)] assms(2) by (simp add: agree_outside_def)

lemma requests_allowed:
  assumes "run_state (step E) s = (r, s')" and "c \<in> set (st_history s')"
  shows "c \<in> set (st_history s) \<or> allowed (cr_meta (st_cr s)) (cr_spec (st_cr s)) c"
  using run_footprint [OF assms(1)] assms(2) by (auto dest: issued_member)

lemma keeps_history:
  assumes "run_state (step E) s = (r, s')"
  shows "set (st_history s) \<subseteq> set (st_history s')"
  using run_footprint [OF assms] by (auto simp: issued_def)

text \<open>The requests of the step alone, in the order of the history.\<close>

lemma requests_of:
  assumes "run_state (step E) s = (r, s')"
  obtains cs where "st_history s' = cs @ st_history s"
    and "\<forall>c \<in> set cs. allowed (cr_meta (st_cr s)) (cr_spec (st_cr s)) c"
  using run_footprint [OF assms] by (auto simp: issued_def)

lemma footprint_within:
  assumes "slots \<subseteq> W" and "\<And>c. allowed M S c \<Longrightarrow> P c"
  shows "footprint M S W P (step E)"
  using step_footprint assms by (rule footprint_mono)

end

text \<open>Reads, events and status writes of this resource: what a pure validation sends.\<close>

fun observes :: "ObjectMeta \<Rightarrow> DPFHCPProvisionerSpec \<Rightarrow> call \<Rightarrow> bool" where
  "observes M S (UpdateCRStatus c) = (cr_meta c = M \<and> cr_spec c = S)"
| "observes M S c = (\<not> is_write c)"

end
