(* ===== verification/Scenario.thy ===== *)
theory Scenario
  imports Steps
begin

section \<open>Concrete environments and resources\<close>

text \<open>
  The instances on which the theorems are exercised: an environment in which every lookup misses,
  every list is empty and every write succeeds, a plain resource, and the state of a reconcile that
  is about to start on it. Instances for one component update fields of these.
\<close>

definition notFoundErr :: goerror where
  "notFoundErr = \<lparr>err_reason = NotFound, err_msg = ''not found''\<rparr>"

definition emptyMgmt :: mgmt_api where
  "emptyMgmt = \<lparr>
     a_getCR = (\<lambda>_ _. Inl notFoundErr), a_listCRs = (\<lambda>_. Inr []),
     a_getConfig = (\<lambda>_ _. Inl notFoundErr), a_getDPUCluster = (\<lambda>_ _. Inl notFoundErr),
     a_getSecret = (\<lambda>_ _. Inl notFoundErr), a_listSecrets = (\<lambda>_ _ _. Inr []),
     a_getHC = (\<lambda>_ _. Inl notFoundErr), a_getNP = (\<lambda>_ _. Inl notFoundErr),
     a_getPool = (\<lambda>_ _. Inl notFoundErr), a_getL2 = (\<lambda>_ _. Inl notFoundErr),
     a_getCM = (\<lambda>_ _. Inl notFoundErr), a_getDPUDeployment = (\<lambda>_ _. Inl notFoundErr),
     a_getDPUFlavor = (\<lambda>_ _. Inl notFoundErr), a_listNodes = (\<lambda>_. Inr []),
     a_getService = (\<lambda>_ _. Inl notFoundErr), a_listDPFOperatorConfigs = (\<lambda>_. Inr []),
     a_listDPUs = (\<lambda>_ _. Inr []), a_readCM = (\<lambda>_ _. Inl notFoundErr),
     a_getDaemonSet = (\<lambda>_ _. Inl notFoundErr), a_getClusterVersion = (\<lambda>_ _. Inl notFoundErr),
     a_getTemplate = (\<lambda>_ _. Inl notFoundErr), a_listTemplates = (\<lambda>_ _ _. Inr []), a_write = (\<lambda>_ _. None)\<rparr>"

definition emptyServices :: services where
  "emptyServices = \<lparr>
     s_hostedServerVersion = (\<lambda>_ _. None), s_hostedListCSRs = (\<lambda>_ _. Inr []),
     s_hostedListNodes = (\<lambda>_ _. Inr []), s_hostedGetNamespace = (\<lambda>_ _ _. Inl notFoundErr),
     s_hostedGetDaemonSet = (\<lambda>_ _ _ _. Inl notFoundErr), s_registryHead = (\<lambda>_ _ _. Inr False),
     s_registryGet = (\<lambda>_ _ _. Some notFoundErr), s_registryImage = (\<lambda>_ _ _. Some notFoundErr),
     s_registryConfigFile = (\<lambda>_ _ _. Inl notFoundErr),
     s_registryExtract = (\<lambda>_ _ _. \<lparr>tar_entries = [], tar_end = None\<rparr>),
     s_httpGet = (\<lambda>_ _ _ _. Inl notFoundErr), s_randBytes = (\<lambda>_ n. Inr (replicate n CHR ''r'')),
     s_randString = (\<lambda>_ n. replicate n CHR ''x'')\<rparr>"

definition emptyCodecs :: codecs where
  "emptyCodecs = \<lparr>
     k_unmarshalDockerConfig = (\<lambda>_. Inr []),
     k_parseReference = (\<lambda>s. Inr \<lparr>ir_string = s, ir_repository = s, ir_registry = s\<rparr>),
     k_pemDecode = (\<lambda>_. None), k_parseCertificateRequest = (\<lambda>_. Inl notFoundErr),
     k_loadKubeconfig = (\<lambda>_. Inl notFoundErr), k_clientConfig = (\<lambda>_. None),
     k_newClientset = (\<lambda>_. None),
     k_appendCerts = (\<lambda>_. True), k_newRequest = (\<lambda>_. None), k_unmarshalIgnition = (\<lambda>_. Inl notFoundErr),
     k_marshalIgnition = (\<lambda>_. Inr []), k_unmarshalJSON = (\<lambda>_. Inl notFoundErr),
     k_marshalJSON = (\<lambda>_. Inr []), k_parseJSON = (\<lambda>_. Inl notFoundErr),
     k_unmarshalImageReferences = (\<lambda>_. Inr []), k_flavorJSON = (\<lambda>_. Inr []), k_flavorYAML = (\<lambda>_. Inr []),
     k_gzip = (\<lambda>s. Inr s),
     k_gunzip = (\<lambda>s. Inr s), k_renderTemplate = (\<lambda>t z. Inr t), k_mergeIgnition = (\<lambda>a b. b), k_semverMajor = (\<lambda>_. Inr 3),
     k_validateIgnition = (\<lambda>_ _. None), k_embedFile = (\<lambda>_. [])\<rparr>"

definition emptyEnv :: env where
  "emptyEnv = \<lparr>mgmt = emptyMgmt, srv = emptyServices, cod = emptyCodecs\<rparr>"

definition sampleSpec :: DPFHCPProvisionerSpec where
  "sampleSpec = \<lparr>
     sp_dpuClusterRef = \<lparr>ref_name = ''dpu'', ref_namespace = ''dpf''\<rparr>,
     sp_baseDomain = ''example.com'', sp_ocpReleaseImage = ''quay.io/ocp:4.19.0-multi'',
     sp_sshKeySecretRef = ''ssh'', sp_pullSecretRef = ''pull'', sp_etcdStorageClass = ''fast'',
     sp_controlPlaneAvailabilityPolicy = HighlyAvailable, sp_virtualIP = ''10.0.0.5'',
     sp_nodeSelector = [], sp_flannelEnabled = None, sp_dpuDeploymentRef = None,
     sp_machineOSURL = [], sp_networking = None\<rparr>"

definition sampleCR :: DPFHCPProvisioner where
  "sampleCR = \<lparr>
     cr_meta = (newMeta ''clusters'' ''hcp'')\<lparr>om_uid := ''u1'', om_generation := 1\<rparr>,
     cr_spec = sampleSpec,
     cr_status = \<lparr>stt_phase = PhaseUnset, stt_conditions = [], stt_hostedClusterRef = None,
       stt_kubeConfigSecretRef = None, stt_blueFieldOCPLayerImage = []\<rparr>\<rparr>"

definition startState :: "DPFHCPProvisioner \<Rightarrow> st" where
  "startState c = \<lparr>st_cr = c, st_history = [], st_ignitionReconciled = False, st_repository = [],
     st_hcClients = [], st_pauseImages = []\<rparr>"

lemma startState_simps [simp]:
  "st_cr (startState c) = c" "st_history (startState c) = []"
  "st_ignitionReconciled (startState c) = False" "st_repository (startState c) = []"
  "st_hcClients (startState c) = []" "st_pauseImages (startState c) = []"
  by (simp_all add: startState_def)

lemmas env_defs = emptyEnv_def emptyMgmt_def emptyServices_def emptyCodecs_def

lemmas sample_defs = sampleCR_def sampleSpec_def startState_def newMeta_def

end
