(* ===== verification/DPUCluster_Validation.thy ===== *)
theory DPUCluster_Validation
  imports Scenario
begin

section \<open>Validation of the referenced DPUCluster\<close>

text \<open>
  \<^verbatim>\<open>internal/controller/dpucluster/validator.go\<close>: the DPUCluster a resource refers to must exist, must
  not be of type kamaji and must not be referenced by another DPFHCPProvisioner. Every handler of the
  file is a definition; the lemmas relate the three conditions the validator leaves behind to what
  the API server answered.
\<close>

definition KamajiCluster :: string where
  "KamajiCluster = ''kamaji''"

definition dpuClusterKey :: "DPFHCPProvisioner \<Rightarrow> NamespacedName" where
  "dpuClusterKey cr =
     NN (ref_namespace (sp_dpuClusterRef (cr_spec cr))) (ref_name (sp_dpuClusterRef (cr_spec cr)))"

abbreviation dc_name :: "DPUCluster \<Rightarrow> string" where
  "dc_name d \<equiv> om_name (dc_meta d)"

abbreviation dc_namespace :: "DPUCluster \<Rightarrow> string" where
  "dc_namespace d \<equiv> om_namespace (dc_meta d)"

subsection \<open>Cluster type\<close>

definition handleClusterTypeInvalid :: "env \<Rightarrow> DPUCluster \<Rightarrow> step_result io" where
  "handleClusterTypeInvalid E dpuCluster = with_cr (\<lambda>cr.
     let message = ''DPUCluster '' @ sq (dc_name dpuCluster) @ '' has unsupported type ''
           @ sq (dc_type dpuCluster)
           @ ''. This operator only supports non-Kamaji cluster types''
     in report E (mkCond ClusterTypeValid ConditionFalse ''ClusterTypeUnsupported'' message
                   (cr_generation cr))
          EventTypeWarning ''ClusterTypeUnsupported'' message)"

definition handleClusterTypeValid :: "env \<Rightarrow> DPUCluster \<Rightarrow> step_result io" where
  "handleClusterTypeValid E dpuCluster = with_cr (\<lambda>cr.
     let message = ''DPUCluster type '' @ sq (dc_type dpuCluster) @ '' is supported''
     in report E (mkCond ClusterTypeValid ConditionTrue ''ClusterTypeValid'' message
                   (cr_generation cr))
          EventTypeNormal ''ClusterTypeValid'' message)"

definition validateClusterType :: "env \<Rightarrow> DPUCluster \<Rightarrow> step_result io" where
  "validateClusterType E dpuCluster =
     (if dc_type dpuCluster = KamajiCluster then handleClusterTypeInvalid E dpuCluster
      else handleClusterTypeValid E dpuCluster)"

subsection \<open>Exclusivity\<close>

definition handleDPUClusterInUse ::
    "env \<Rightarrow> DPUCluster \<Rightarrow> DPFHCPProvisioner \<Rightarrow> step_result io" where
  "handleDPUClusterInUse E dpuCluster conflicting = with_cr (\<lambda>cr.
     let message = ''DPUCluster '' @ sq (dc_namespace dpuCluster @ ''/'' @ dc_name dpuCluster)
           @ '' is already in use by DPFHCPProvisioner '' @ sq (cr_namespace conflicting @ ''/''
           @ cr_name conflicting)
           @ ''. Each DPUCluster can only be referenced by one DPFHCPProvisioner''
     in report E (mkCond DPUClusterInUse ConditionTrue ''DPUClusterInUse'' message
                   (cr_generation cr))
          EventTypeWarning ''DPUClusterInUse'' message)"

definition handleDPUClusterAvailable :: "env \<Rightarrow> DPUCluster \<Rightarrow> step_result io" where
  "handleDPUClusterAvailable E dpuCluster = with_cr (\<lambda>cr.
     let message = ''DPUCluster '' @ sq (dc_namespace dpuCluster @ ''/'' @ dc_name dpuCluster)
           @ '' is available (not in use by another DPFHCPProvisioner)''
     in report E (mkCond DPUClusterInUse ConditionFalse ''DPUClusterAvailable'' message
                   (cr_generation cr))
          EventTypeNormal ''DPUClusterAvailable'' message)"

text \<open>The test of the loop body: another provisioner that refers to this DPUCluster.\<close>

definition conflicts :: "DPFHCPProvisioner \<Rightarrow> DPUCluster \<Rightarrow> DPFHCPProvisioner \<Rightarrow> bool" where
  "conflicts cr dpuCluster p \<longleftrightarrow>
     \<not> (cr_namespace p = cr_namespace cr \<and> cr_name p = cr_name cr)
     \<and> ref_name (sp_dpuClusterRef (cr_spec p)) = dc_name dpuCluster
     \<and> ref_namespace (sp_dpuClusterRef (cr_spec p)) = dc_namespace dpuCluster"

definition validateDPUClusterExclusivity :: "env \<Rightarrow> DPUCluster \<Rightarrow> step_result io" where
  "validateDPUClusterExclusivity E dpuCluster = with_cr (\<lambda>cr. do {
     l \<leftarrow> listCRs E;
     case l of
       Inl e \<Rightarrow> State_Monad.return (RequeueNow, Some e)
     | Inr items \<Rightarrow>
         (case List.find (conflicts cr dpuCluster) items of
            Some p \<Rightarrow> handleDPUClusterInUse E dpuCluster p
          | None \<Rightarrow> handleDPUClusterAvailable E dpuCluster)
   })"

subsection \<open>Existence\<close>

definition handleDPUClusterMissing :: "env \<Rightarrow> step_result io" where
  "handleDPUClusterMissing E = with_cr (\<lambda>cr.
     let name = ref_name (sp_dpuClusterRef (cr_spec cr));
         ns = ref_namespace (sp_dpuClusterRef (cr_spec cr));
         (message, reason) =
           (if condFalse cr DPUClusterMissing
            then (''Referenced DPUCluster '' @ sq name @ '' in namespace '' @ sq ns
                   @ '' has been deleted. Please delete this DPFHCPProvisioner to clean up'',
                  ''DPUClusterDeleted'')
            else (''Referenced DPUCluster '' @ sq name @ '' not found in namespace '' @ sq ns,
                  ''DPUClusterNotFound''))
     in report E (mkCond DPUClusterMissing ConditionTrue reason message (cr_generation cr))
          EventTypeWarning reason message)"

definition handleDPUClusterAccessDenied :: "env \<Rightarrow> goerror \<Rightarrow> step_result io" where
  "handleDPUClusterAccessDenied E err = with_cr (\<lambda>cr.
     let message = ''Operator lacks RBAC permissions to access DPUCluster ''
           @ sq (ref_name (sp_dpuClusterRef (cr_spec cr))) @ '' in namespace ''
           @ sq (ref_namespace (sp_dpuClusterRef (cr_spec cr))) @ '': '' @ err_msg err
     in report E (mkCond DPUClusterMissing ConditionTrue ''DPUClusterAccessDenied'' message
                   (cr_generation cr))
          EventTypeWarning ''DPUClusterAccessDenied'' message)"

definition handleDPUClusterFound :: "env \<Rightarrow> DPUCluster \<Rightarrow> step_result io" where
  "handleDPUClusterFound E dpuCluster = with_cr (\<lambda>cr.
     let message = ''DPUCluster '' @ sq (dc_name dpuCluster) @ '' found in namespace ''
           @ sq (dc_namespace dpuCluster)
     in report E (mkCond DPUClusterMissing ConditionFalse ''DPUClusterFound'' message
                   (cr_generation cr))
          EventTypeNormal ''DPUClusterFound'' message)"

definition ValidateDPUCluster :: "env \<Rightarrow> step_result io" where
  "ValidateDPUCluster E = with_cr (\<lambda>cr. do {
     r \<leftarrow> getDPUCluster E (dpuClusterKey cr);
     case r of
       Inl e \<Rightarrow>
         if IsNotFound e then handleDPUClusterMissing E
         else if IsForbidden e then handleDPUClusterAccessDenied E e
         else State_Monad.return (RequeueNow, Some e)
     | Inr dpuCluster \<Rightarrow>
         stage (validateClusterType E dpuCluster)
           (stage (validateDPUClusterExclusivity E dpuCluster)
             (handleDPUClusterFound E dpuCluster))
   })"

lemmas dpucluster_defs = ValidateDPUCluster_def validateClusterType_def
  validateDPUClusterExclusivity_def handleClusterTypeInvalid_def handleClusterTypeValid_def
  handleDPUClusterInUse_def handleDPUClusterAvailable_def handleDPUClusterMissing_def
  handleDPUClusterAccessDenied_def handleDPUClusterFound_def

interpretation dpucluster_step:
    reconcile_step ValidateDPUCluster
      "{CondSlot DPUClusterMissing, CondSlot ClusterTypeValid, CondSlot DPUClusterInUse}" observes
  by unfold_locales (unfold dpucluster_defs Let_def, intro footprint_intros; simp)

subsection \<open>What the validator concludes\<close>

text \<open>The three conditions under which a resource counts as validated.\<close>

definition dpucluster_accepted :: "DPFHCPProvisioner \<Rightarrow> bool" where
  "dpucluster_accepted cr \<longleftrightarrow>
     condFalse cr DPUClusterMissing \<and> condTrue cr ClusterTypeValid \<and> condFalse cr DPUClusterInUse"

lemma sets_dpucluster:
  "sets ClusterTypeValid ConditionFalse (handleClusterTypeInvalid E d)"
  "sets ClusterTypeValid ConditionTrue (handleClusterTypeValid E d)"
  "sets DPUClusterInUse ConditionTrue (handleDPUClusterInUse E d p)"
  "sets DPUClusterInUse ConditionFalse (handleDPUClusterAvailable E d)"
  "sets DPUClusterMissing ConditionTrue (handleDPUClusterMissing E)"
  "sets DPUClusterMissing ConditionTrue (handleDPUClusterAccessDenied E e)"
  "sets DPUClusterMissing ConditionFalse (handleDPUClusterFound E d)"
  unfolding handleClusterTypeInvalid_def handleClusterTypeValid_def handleDPUClusterInUse_def
    handleDPUClusterAvailable_def handleDPUClusterMissing_def handleDPUClusterAccessDenied_def
    handleDPUClusterFound_def
  by (simp_all add: Let_def sets_intros split: if_splits)

lemma sets_validateClusterType:
  "sets ClusterTypeValid (if dc_type d = KamajiCluster then ConditionFalse else ConditionTrue)
     (validateClusterType E d)"
  by (simp add: validateClusterType_def sets_dpucluster)

lemma wp_validateDPUClusterExclusivity:
  assumes "\<And>e. Q (RequeueNow, Some e) (s\<lparr>st_history := ListCRs # st_history s\<rparr>)"
    and "\<And>items r n s' later. a_listCRs (mgmt E) (st_history s) = Inr items \<Longrightarrow>
      c_type n = DPUClusterInUse \<Longrightarrow>
      c_status n = (if \<exists>p \<in> set items. conflicts (st_cr s) d p then ConditionTrue
                    else ConditionFalse) \<Longrightarrow>
      st_cr s' = putCond n (st_cr s) \<Longrightarrow> st_history s' = later @ ListCRs # st_history s \<Longrightarrow> Q r s'"
  shows "wp (validateDPUClusterExclusivity E d) Q s"
  unfolding validateDPUClusterExclusivity_def
  by (auto simp: wp_simps find_None_iff split: sum.splits option.splits dest!: find_SomeD
      intro!: sets_wp [OF sets_dpucluster(3)] sets_wp [OF sets_dpucluster(4)] assms)

lemma ValidateDPUCluster_wp:
  "wp (ValidateDPUCluster E) (\<lambda>r s'. \<not> stops r \<longrightarrow>
     (case a_getDPUCluster (mgmt E) (st_history s) (dpuClusterKey (st_cr s)) of
        Inl e \<Rightarrow> (IsNotFound e \<or> IsForbidden e) \<and> condTrue (st_cr s') DPUClusterMissing
      | Inr d \<Rightarrow>
          condFalse (st_cr s') DPUClusterMissing
          \<and> condTrue (st_cr s') ClusterTypeValid = (dc_type d \<noteq> KamajiCluster)
          \<and> (\<exists>items. answered (a_listCRs (mgmt E)) ListCRs (st_history s') (Inr items)
               \<and> condFalse (st_cr s') DPUClusterInUse
                   = (\<forall>p \<in> set items. \<not> conflicts (st_cr s) d p)))) s"
  (is "wp _ ?Q s")
proof (cases "a_getDPUCluster (mgmt E) (st_history s) (dpuClusterKey (st_cr s))")
  case (Inl e)
  then show ?thesis
    by (auto simp: ValidateDPUCluster_def wp_simps condTrue_putCond
        intro!: sets_wp [OF sets_dpucluster(5)] sets_wp [OF sets_dpucluster(6)])
next
  case (Inr d)
  let ?s = "s\<lparr>st_history := GetDPUCluster (dpuClusterKey (st_cr s)) # st_history s\<rparr>"
  let ?R = "\<lambda>s' :: st. condTrue (st_cr s') ClusterTypeValid = (dc_type d \<noteq> KamajiCluster)
      \<and> conflicts (st_cr s') d = conflicts (st_cr s) d"
  let ?R' = "\<lambda>s' :: st. condTrue (st_cr s') ClusterTypeValid = (dc_type d \<noteq> KamajiCluster)
      \<and> (\<exists>items. answered (a_listCRs (mgmt E)) ListCRs (st_history s') (Inr items)
           \<and> condFalse (st_cr s') DPUClusterInUse
               = (\<forall>p \<in> set items. \<not> conflicts (st_cr s) d p))"
  have conf: "conflicts (putCond n c) d = conflicts c d" for n c
    by (rule ext) (simp add: conflicts_def)
  have "wp (stage (validateClusterType E d)
      (stage (validateDPUClusterExclusivity E d) (handleDPUClusterFound E d))) ?Q ?s"
  proof (rule wp_stageI [where R = ?R], rule sets_wp [OF sets_validateClusterType])
    fix s1 assume s1: "?R s1"
    show "wp (stage (validateDPUClusterExclusivity E d) (handleDPUClusterFound E d)) ?Q s1"
    proof (rule wp_stageI [where R = ?R'], rule wp_validateDPUClusterExclusivity)
      fix s2 assume "?R' s2"
      then show "wp (handleDPUClusterFound E d) ?Q s2"
        by (intro sets_wp [OF sets_dpucluster(7)])
          (auto simp: Inr condTrue_putCond condFalse_putCond intro: answered_later)
    qed (use s1 in \<open>auto simp: condTrue_putCond condFalse_putCond intro!: exI answered_append
        split: if_splits\<close>)
  qed (auto simp: condTrue_putCond conf split: if_splits)
  then show ?thesis
    by (simp add: ValidateDPUCluster_def wp_simps Inr)
qed

text \<open>
  C20: When the validator lets the reconcile go on, its three conditions say what the API server
  answered. If the DPUCluster was not found or access was denied, \<^verbatim>\<open>DPUClusterMissing\<close> is True. If
  it was found, \<^verbatim>\<open>DPUClusterMissing\<close> is False, \<^verbatim>\<open>ClusterTypeValid\<close> is True exactly for a type other
  than kamaji, and \<^verbatim>\<open>DPUClusterInUse\<close> is False exactly when no other provisioner in the list
  the server returned refers to this DPUCluster. Any other lookup error stops the reconcile.
\<close>

theorem ValidateDPUCluster_verdict:
  assumes "run_state (ValidateDPUCluster E) s = (r, s')" and "\<not> stops r"
  shows "case a_getDPUCluster (mgmt E) (st_history s) (dpuClusterKey (st_cr s)) of
        Inl e \<Rightarrow> (IsNotFound e \<or> IsForbidden e) \<and> condTrue (st_cr s') DPUClusterMissing
      | Inr d \<Rightarrow>
          condFalse (st_cr s') DPUClusterMissing
          \<and> condTrue (st_cr s') ClusterTypeValid = (dc_type d \<noteq> KamajiCluster)
          \<and> (\<exists>items. answered (a_listCRs (mgmt E)) ListCRs (st_history s') (Inr items)
               \<and> condFalse (st_cr s') DPUClusterInUse
                   = (\<forall>p \<in> set items. \<not> conflicts (st_cr s) d p))"
  using wp_run [OF ValidateDPUCluster_wp assms(1)] assms(2) by simp

text \<open>A DPUCluster of a supported type that a second provisioner already refers to.\<close>

definition sampleDPUCluster :: DPUCluster where
  "sampleDPUCluster = \<lparr>dc_meta = newMeta ''dpf'' ''dpu'', dc_type = ''static'', dc_kubeconfig = []\<rparr>"

definition sharedEnv :: env where
  "sharedEnv = emptyEnv\<lparr>mgmt := emptyMgmt\<lparr>
     a_getDPUCluster := (\<lambda>_ _. Inr sampleDPUCluster),
     a_listCRs := (\<lambda>_. Inr [sampleCR, sampleCR\<lparr>cr_meta := newMeta ''clusters'' ''other''\<rparr>])\<rparr>\<rparr>"

theorem ValidateDPUCluster_verdict_witness:
  "let (r, s') = run_state (ValidateDPUCluster sharedEnv) (startState sampleCR) in
     \<not> stops r \<and> condFalse (st_cr s') DPUClusterMissing \<and> condTrue (st_cr s') ClusterTypeValid"
proof -
  obtain r s' where run: "run_state (ValidateDPUCluster sharedEnv) (startState sampleCR) = (r, s')"
    by (rule prod.exhaust)
  moreover have "\<not> stops (fst (run_state (ValidateDPUCluster sharedEnv) (startState sampleCR)))"
    by code_simp
  ultimately have ns: "\<not> stops r" by simp
  have "a_getDPUCluster (mgmt sharedEnv) h k = Inr sampleDPUCluster"
      and "dc_type sampleDPUCluster \<noteq> KamajiCluster" for h k
    by (simp_all add: sharedEnv_def sampleDPUCluster_def KamajiCluster_def)
  with ValidateDPUCluster_verdict [OF run ns] ns run show ?thesis by simp
qed

end
