(* ===== verification/Secrets_Validation.thy ===== *)
theory Secrets_Validation
  imports Scenario
begin

section \<open>Validation of the referenced secrets\<close>

text \<open>
  \<^verbatim>\<open>internal/controller/secrets/validator.go\<close>: the SSH key secret and the pull secret must exist in the
  namespace of the resource and carry the keys the operator reads. The validator looks at the SSH key
  first and stops at the first problem; \<open>ValidateSecrets_wp\<close> says what its condition then means.
\<close>

definition SSHPublicKeySecretKey :: string where
  "SSHPublicKeySecretKey = ''id_rsa.pub''"

definition PullSecretKey :: string where
  "PullSecretKey = ''.dockerconfigjson''"

definition handleSSHKeySecretMissing :: "env \<Rightarrow> step_result io" where
  "handleSSHKeySecretMissing E = with_cr (\<lambda>cr.
     let message = ''SSH key secret '' @ sq (sp_sshKeySecretRef (cr_spec cr))
           @ '' not found in namespace '' @ sq (cr_namespace cr)
     in report E (mkCond SecretsValid ConditionFalse ''SSHKeySecretMissing'' message (cr_generation cr))
          EventTypeWarning ''SSHKeySecretMissing'' message)"

definition handleSSHKeySecretInvalid :: "env \<Rightarrow> step_result io" where
  "handleSSHKeySecretInvalid E = with_cr (\<lambda>cr.
     let message = ''SSH key secret '' @ sq (sp_sshKeySecretRef (cr_spec cr))
           @ '' is missing required key '' @ sq SSHPublicKeySecretKey
     in report E (mkCond SecretsValid ConditionFalse ''SSHKeySecretInvalid'' message (cr_generation cr))
          EventTypeWarning ''SSHKeySecretInvalid'' message)"

definition handlePullSecretMissing :: "env \<Rightarrow> step_result io" where
  "handlePullSecretMissing E = with_cr (\<lambda>cr.
     let message = ''Pull secret '' @ sq (sp_pullSecretRef (cr_spec cr))
           @ '' not found in namespace '' @ sq (cr_namespace cr)
     in report E (mkCond SecretsValid ConditionFalse ''PullSecretMissing'' message (cr_generation cr))
          EventTypeWarning ''PullSecretMissing'' message)"

definition handlePullSecretInvalid :: "env \<Rightarrow> step_result io" where
  "handlePullSecretInvalid E = with_cr (\<lambda>cr.
     let message = ''Pull secret '' @ sq (sp_pullSecretRef (cr_spec cr))
           @ '' is missing required key '' @ sq PullSecretKey
     in report E (mkCond SecretsValid ConditionFalse ''PullSecretInvalid'' message (cr_generation cr))
          EventTypeWarning ''PullSecretInvalid'' message)"

definition handleSecretsAccessDenied :: "env \<Rightarrow> string \<Rightarrow> goerror \<Rightarrow> step_result io" where
  "handleSecretsAccessDenied E secretType err = with_cr (\<lambda>cr.
     let message = ''Operator lacks RBAC permissions to access '' @ secretType
           @ '' in namespace '' @ sq (cr_namespace cr) @ '': '' @ err_msg err
     in report E (mkCond SecretsValid ConditionFalse ''SecretsAccessDenied'' message (cr_generation cr))
          EventTypeWarning ''SecretsAccessDenied'' message)"

definition handleSecretsValid :: "env \<Rightarrow> step_result io" where
  "handleSecretsValid E = with_cr (\<lambda>cr.
     let message = ''Both SSH key secret '' @ sq (sp_sshKeySecretRef (cr_spec cr))
           @ '' and pull secret '' @ sq (sp_pullSecretRef (cr_spec cr)) @ '' are valid''
     in report E (mkCond SecretsValid ConditionTrue ''SecretsValid'' message (cr_generation cr))
          EventTypeNormal ''SecretsValid'' message)"

definition ValidateSecrets :: "env \<Rightarrow> step_result io" where
  "ValidateSecrets E = with_cr (\<lambda>cr. do {
     r \<leftarrow> getSecret E (NN (cr_namespace cr) (sp_sshKeySecretRef (cr_spec cr)));
     case r of
       Inl e \<Rightarrow>
         if IsNotFound e then handleSSHKeySecretMissing E
         else if IsForbidden e then handleSecretsAccessDenied E ''SSH key secret'' e
         else State_Monad.return (RequeueNow, Some e)
     | Inr sshSecret \<Rightarrow>
         if map_of (sec_data sshSecret) SSHPublicKeySecretKey = None
         then handleSSHKeySecretInvalid E
         else do {
           r \<leftarrow> getSecret E (NN (cr_namespace cr) (sp_pullSecretRef (cr_spec cr)));
           case r of
             Inl e \<Rightarrow>
               if IsNotFound e then handlePullSecretMissing E
               else if IsForbidden e then handleSecretsAccessDenied E ''pull secret'' e
               else State_Monad.return (RequeueNow, Some e)
           | Inr pullSecret \<Rightarrow>
               if map_of (sec_data pullSecret) PullSecretKey = None
               then handlePullSecretInvalid E
               else handleSecretsValid E
         }
   })"

lemmas secret_handler_defs = handleSSHKeySecretMissing_def handleSSHKeySecretInvalid_def
  handlePullSecretMissing_def handlePullSecretInvalid_def handleSecretsAccessDenied_def
  handleSecretsValid_def

interpretation secrets_step: reconcile_step ValidateSecrets "{CondSlot SecretsValid}" observes
  by unfold_locales (unfold ValidateSecrets_def secret_handler_defs Let_def,
      intro footprint_intros; simp)

lemma sets_secrets:
  "sets SecretsValid ConditionFalse (handleSSHKeySecretMissing E)"
  "sets SecretsValid ConditionFalse (handleSSHKeySecretInvalid E)"
  "sets SecretsValid ConditionFalse (handlePullSecretMissing E)"
  "sets SecretsValid ConditionFalse (handlePullSecretInvalid E)"
  "sets SecretsValid ConditionFalse (handleSecretsAccessDenied E t e)"
  "sets SecretsValid ConditionTrue (handleSecretsValid E)"
  unfolding secret_handler_defs by (simp_all add: Let_def sets_intros)

text \<open>The secret \<open>n\<close> of the namespace \<open>ns\<close>, as read by this run, exists and has the key \<open>k\<close>.\<close>

definition secret_has :: "env \<Rightarrow> history \<Rightarrow> string \<Rightarrow> string \<Rightarrow> string \<Rightarrow> bool" where
  "secret_has E h ns n k =
     (case a_getSecret (mgmt E) h (NN ns n) of
        Inl _ \<Rightarrow> False
      | Inr sec \<Rightarrow> map_of (sec_data sec) k \<noteq> None)"

text \<open>
  When the secrets validator lets the reconcile go on, it has decided: \<^verbatim>\<open>SecretsValid\<close> is True
  exactly when the SSH key secret and the pull secret, as the server returned them in this order,
  both exist with their required keys, and it is False otherwise.
\<close>

lemma ValidateSecrets_verdict:
  assumes "run_state (ValidateSecrets E) s = (r, s')" and "\<not> stops r"
  shows "condFalse (st_cr s') SecretsValid = (\<not> condTrue (st_cr s') SecretsValid)
    \<and> (condTrue (st_cr s') SecretsValid \<longleftrightarrow>
       (let ns = cr_namespace (st_cr s); ssh = sp_sshKeySecretRef (cr_spec (st_cr s)) in
        secret_has E (st_history s) ns ssh SSHPublicKeySecretKey
        \<and> secret_has E (GetSecret (NN ns ssh) # st_history s) ns
             (sp_pullSecretRef (cr_spec (st_cr s))) PullSecretKey))"
    (is "?P s'")
proof -
  have "wp (ValidateSecrets E) (\<lambda>r s'. \<not> stops r \<longrightarrow> ?P s') s"
    by (auto simp: ValidateSecrets_def wp_simps secret_has_def condTrue_putCond condFalse_putCond
        split: sum.splits intro!: sets_wp [OF sets_secrets(1)] sets_wp [OF sets_secrets(2)]
        sets_wp [OF sets_secrets(3)] sets_wp [OF sets_secrets(4)] sets_wp [OF sets_secrets(5)]
        sets_wp [OF sets_secrets(6)])
  from wp_run [OF this assms(1)] assms(2) show ?thesis by simp
qed

text \<open>Both secrets are there, but the pull secret lacks its key.\<close>

definition badPullSecretEnv :: env where
  "badPullSecretEnv = emptyEnv\<lparr>mgmt := emptyMgmt\<lparr>a_getSecret := (\<lambda>_ k. Inr
     \<lparr>sec_meta = newMeta (nn_namespace k) (nn_name k), sec_type = [],
      sec_data = [(SSHPublicKeySecretKey, ''ssh-rsa'')]\<rparr>)\<rparr>\<rparr>"

lemma ValidateSecrets_verdict_witness:
  "let (r, s') = run_state (ValidateSecrets badPullSecretEnv) (startState sampleCR) in
     \<not> stops r \<and> condFalse (st_cr s') SecretsValid"
proof -
  obtain r s' where run:
      "run_state (ValidateSecrets badPullSecretEnv) (startState sampleCR) = (r, s')"
    by (rule prod.exhaust)
  moreover have "\<not> stops (fst (run_state (ValidateSecrets badPullSecretEnv) (startState sampleCR)))"
    by code_simp
  ultimately have ns: "\<not> stops r" by simp
  have "\<not> secret_has badPullSecretEnv h ns n PullSecretKey" for h ns n
    by (simp add: secret_has_def badPullSecretEnv_def PullSecretKey_def SSHPublicKeySecretKey_def)
  with ValidateSecrets_verdict [OF run ns] ns run show ?thesis by (simp add: Let_def)
qed

end
