(* ===== verification/Image_Lookup.thy ===== *)
theory Image_Lookup
  imports Scenario
begin

section \<open>Lookup of the BlueField OCP layer image\<close>

text \<open>
  \<^verbatim>\<open>internal/controller/bfocplookup\<close>: find the OCP version of the release image, by its tag or through
  the label of a digest reference, and check that the layer repository has an image with that version
  as tag. The error types of \<^verbatim>\<open>errors.go\<close> are a datatype with their texts; errors are classified by
  the text they print, as in the code.
\<close>

subsection \<open>Errors\<close>

datatype lookup_error =
    RegistryAccessError string goerror
  | RegistryAuthError string goerror
  | VersionNotFoundError string string
  | InvalidImageFormatError string string
  | InvalidBlueFieldOCPLayerImageURLError string string string

fun lookup_error_text :: "lookup_error \<Rightarrow> string" where
  "lookup_error_text (RegistryAccessError repository err) =
     ''failed to access registry repository '' @ repository @ '': '' @ err_msg err"
| "lookup_error_text (RegistryAuthError repository err) =
     ''authentication failed for registry repository '' @ repository @ '': '' @ err_msg err"
| "lookup_error_text (VersionNotFoundError version repository) =
     ''BlueField OCP layer image not found for OCP version '' @ version @ '' in repository ''
       @ repository"
| "lookup_error_text (InvalidImageFormatError message url) =
     ''Invalid ocpReleaseImage format: '' @ message @ '' (URL: '' @ url @ '')''"
| "lookup_error_text (InvalidBlueFieldOCPLayerImageURLError version url message) =
     ''BlueField OCP layer image URL is invalid for OCP version '' @ version @ '': '' @ message
       @ '' (URL: '' @ url @ '')''"

text \<open>The error as its caller sees it: \<^verbatim>\<open>Unwrap\<close> passes the reason of the inner error on.\<close>

fun lookup_goerror :: "lookup_error \<Rightarrow> goerror" where
  "lookup_goerror (RegistryAccessError r e) =
     \<lparr>err_reason = err_reason e, err_msg = lookup_error_text (RegistryAccessError r e)\<rparr>"
| "lookup_goerror (RegistryAuthError r e) =
     \<lparr>err_reason = err_reason e, err_msg = lookup_error_text (RegistryAuthError r e)\<rparr>"
| "lookup_goerror e = Errorf (lookup_error_text e)"

definition isAuthError :: "goerror \<Rightarrow> bool" where
  "isAuthError err \<longleftrightarrow>
     Contains (err_msg err) ''UNAUTHORIZED'' \<or> Contains (err_msg err) ''unauthorized''
     \<or> Contains (err_msg err) ''DENIED'' \<or> Contains (err_msg err) ''denied''
     \<or> Contains (err_msg err) ''403''"

definition isNotFoundError :: "goerror \<Rightarrow> bool" where
  "isNotFoundError err \<longleftrightarrow>
     Contains (err_msg err) ''NOT_FOUND'' \<or> Contains (err_msg err) ''not found''
     \<or> Contains (err_msg err) ''MANIFEST_UNKNOWN'' \<or> Contains (err_msg err) ''manifest unknown''
     \<or> Contains (err_msg err) ''404''"

subsection \<open>The OCP version of the release image\<close>

definition OCPReleaseLabel :: string where
  "OCPReleaseLabel = ''io.openshift.release''"

definition extractVersionFromTag :: "string \<Rightarrow> string" where
  "extractVersionFromTag imageURL =
     (if Contains imageURL ''@'' then []
      else (case LastIndex imageURL (CHR '':'') of
              None \<Rightarrow> []
            | Some lastColon \<Rightarrow>
                if (case LastIndex imageURL (CHR ''/'') of
                      None \<Rightarrow> False
                    | Some lastSlash \<Rightarrow> lastColon \<le> lastSlash)
                then []
                else fold (\<lambda>suffix v. TrimSuffix v suffix) archSuffixes
                       (drop (Suc lastColon) imageURL)))"

definition lookupOCPVersion :: "env \<Rightarrow> string \<Rightarrow> string gomap \<Rightarrow> (goerror + string) io" where
  "lookupOCPVersion E releaseImage keychain =
     (let version = extractVersionFromTag releaseImage in
      if version \<noteq> [] then State_Monad.return (Inr version)
      else (case k_parseReference (cod E) releaseImage of
        Inl e \<Rightarrow> State_Monad.return
          (Inl (wrap (''failed to parse image reference '' @ releaseImage) e))
      | Inr ref \<Rightarrow> do {
          r \<leftarrow> registryGet E ref (Resolve keychain ref);
          case r of
            Some e \<Rightarrow> State_Monad.return
              (Inl (wrap (''failed to fetch image descriptor for '' @ releaseImage) e))
          | None \<Rightarrow> do {
              r \<leftarrow> registryImage E ref (Resolve keychain ref);
              case r of
                Some e \<Rightarrow> State_Monad.return
                  (Inl (wrap (''failed to get image from descriptor for '' @ releaseImage) e))
              | None \<Rightarrow> do {
                  r \<leftarrow> registryConfigFile E ref (Resolve keychain ref);
                  State_Monad.return (case r of
                    Inl e \<Rightarrow> Inl (wrap (''failed to get config file for '' @ releaseImage) e)
                  | Inr labels \<Rightarrow>
                      if mget labels OCPReleaseLabel = []
                      then Inl (Errorf (''image '' @ releaseImage @ '' does not have label ''
                             @ OCPReleaseLabel))
                      else Inr (mget labels OCPReleaseLabel))
                }
            }
        }))"

subsection \<open>The layer image\<close>

definition buildImageReference :: "env \<Rightarrow> string \<Rightarrow> string \<Rightarrow> goerror + (string \<times> ImageRef)" where
  "buildImageReference E repository version =
     (let imageRef = repository @ '':'' @ version in
      case k_parseReference (cod E) imageRef of
        Inl e \<Rightarrow> Inl (wrap (''invalid image reference '' @ imageRef) e)
      | Inr ref \<Rightarrow> Inr (imageRef, ref))"

definition CheckTag :: "env \<Rightarrow> ImageRef \<Rightarrow> string gomap \<Rightarrow> goerror option io" where
  "CheckTag E ref keychain = do {
     r \<leftarrow> registryHead E ref (Resolve keychain ref);
     State_Monad.return (case r of Inl e \<Rightarrow> Some e | Inr _ \<Rightarrow> None)
   }"

definition validateTagExists ::
    "env \<Rightarrow> string \<Rightarrow> string \<Rightarrow> string gomap \<Rightarrow> (lookup_error + string) io" where
  "validateTagExists E repository version keychain =
     (case buildImageReference E repository version of
        Inl e \<Rightarrow> State_Monad.return (Inl (RegistryAccessError repository e))
      | Inr (imageRef, ref) \<Rightarrow> do {
          r \<leftarrow> CheckTag E ref keychain;
          State_Monad.return (case r of
            Some e \<Rightarrow>
              if isAuthError e then Inl (RegistryAuthError repository e)
              else if isNotFoundError e then Inl (VersionNotFoundError version repository)
              else Inl (RegistryAccessError repository e)
          | None \<Rightarrow> Inr imageRef)
        })"

definition validateBlueFieldOCPLayerImageURL :: "string \<Rightarrow> string \<Rightarrow> lookup_error option" where
  "validateBlueFieldOCPLayerImageURL url version =
     (if url = []
      then Some (InvalidBlueFieldOCPLayerImageURLError version url
                  ''BlueField OCP layer image URL is empty'')
      else if \<not> Contains url '':''
      then Some (InvalidBlueFieldOCPLayerImageURLError version url
                  ''BlueField OCP layer image URL is malformed (missing tag separator ':')'')
      else None)"

subsection \<open>Outcomes\<close>

definition updateStatusOnSuccess :: "env \<Rightarrow> string \<Rightarrow> string \<Rightarrow> step_result io" where
  "updateStatusOnSuccess E img version = with_cr (\<lambda>cr. do {
     _ \<leftarrow> modify_cr (set_blueFieldOCPLayerImage img);
     report E (mkCond BlueFieldOCPLayerImageFound ConditionTrue ''ImageFound''
                (''BlueField OCP layer image found: '' @ img) (cr_generation cr))
       EventTypeNormal ''ImageFound''
       (''BlueField OCP layer image found for OCP version '' @ version @ '': '' @ img)
   })"

text \<open>The three error handlers ignore the outcome of their status update.\<close>

definition reportIgnore :: "env \<Rightarrow> Condition \<Rightarrow> string \<Rightarrow> string \<Rightarrow> unit io" where
  "reportIgnore E condition reason message = do {
     _ \<leftarrow> setConditionEvent condition EventTypeWarning reason message;
     _ \<leftarrow> updateStatus E;
     State_Monad.return ()
   }"

definition handleValidationError :: "env \<Rightarrow> lookup_error \<Rightarrow> step_result io" where
  "handleValidationError E err = with_cr (\<lambda>cr. do {
     _ \<leftarrow> modify_cr (set_blueFieldOCPLayerImage []);
     _ \<leftarrow> reportIgnore E (mkCond BlueFieldOCPLayerImageFound ConditionFalse ''InvalidImageFormat''
            (lookup_error_text err) (cr_generation cr))
            ''InvalidImageFormat'' (lookup_error_text err);
     State_Monad.return ok
   })"

fun permanentReason :: "lookup_error \<Rightarrow> string" where
  "permanentReason (VersionNotFoundError _ _) = ''VersionNotFound''"
| "permanentReason (RegistryAuthError _ _) = ''RegistryAuthError''"
| "permanentReason (InvalidBlueFieldOCPLayerImageURLError _ _ _) =
     ''InvalidBlueFieldOCPLayerImageURL''"
| "permanentReason _ = ''VersionNotFound''"

definition handlePermanentError :: "env \<Rightarrow> lookup_error \<Rightarrow> step_result io" where
  "handlePermanentError E err = with_cr (\<lambda>cr. do {
     _ \<leftarrow> modify_cr (set_blueFieldOCPLayerImage []);
     _ \<leftarrow> reportIgnore E (mkCond BlueFieldOCPLayerImageFound ConditionFalse (permanentReason err)
            (lookup_error_text err) (cr_generation cr))
            (permanentReason err) (lookup_error_text err);
     State_Monad.return ok
   })"

text \<open>The error is one of the package's own or a plain one.\<close>

definition handleTransientError :: "env \<Rightarrow> goerror + lookup_error \<Rightarrow> step_result io" where
  "handleTransientError E err = with_cr (\<lambda>cr.
     let text = (case err of Inl e \<Rightarrow> err_msg e | Inr e \<Rightarrow> lookup_error_text e);
         message = (case err of
                      Inr (RegistryAccessError _ _) \<Rightarrow> text
                    | _ \<Rightarrow> ''Transient error accessing registry: '' @ text)
     in do {
       _ \<leftarrow> reportIgnore E (mkCond BlueFieldOCPLayerImageFound ConditionFalse ''RegistryAccessError''
              message (cr_generation cr)) ''RegistryAccessError'' message;
       State_Monad.return
         (failed (case err of Inl e \<Rightarrow> e | Inr e \<Rightarrow> lookup_goerror e))
     })"

definition versionError :: "env \<Rightarrow> string \<Rightarrow> goerror \<Rightarrow> step_result io" where
  "versionError E ocpReleaseImage err =
     (if isAuthError err then handlePermanentError E (RegistryAuthError ocpReleaseImage err)
      else if Contains (err_msg err) ''failed to fetch'' \<or> Contains (err_msg err) ''failed to get''
      then handleTransientError E (Inl err)
      else handleValidationError E (InvalidImageFormatError (err_msg err) ocpReleaseImage))"

text \<open>The type switch on the error of \<^verbatim>\<open>validateTagExists\<close>.\<close>

fun tagError :: "env \<Rightarrow> lookup_error \<Rightarrow> step_result io" where
  "tagError E (VersionNotFoundError w p) = handlePermanentError E (VersionNotFoundError w p)"
| "tagError E (RegistryAuthError p e) = handlePermanentError E (RegistryAuthError p e)"
| "tagError E err = handleTransientError E (Inr err)"

definition LookupBlueFieldOCPLayerImage :: "env \<Rightarrow> step_result io" where
  "LookupBlueFieldOCPLayerImage E = with_cr (\<lambda>cr.
     let ocpReleaseImage = sp_ocpReleaseImage (cr_spec cr) in
     if ocpReleaseImage = []
     then handleValidationError E
            (InvalidImageFormatError ''ocpReleaseImage is required but empty'' [])
     else do {
       repository \<leftarrow> gets st_repository;
       k \<leftarrow> KeychainFromPullSecret E (sp_pullSecretRef (cr_spec cr)) (cr_namespace cr);
       case k of
         Inl e \<Rightarrow> handlePermanentError E (RegistryAuthError repository e)
       | Inr keychain \<Rightarrow> do {
           v \<leftarrow> lookupOCPVersion E ocpReleaseImage keychain;
           case v of
             Inl e \<Rightarrow> versionError E ocpReleaseImage e
           | Inr version \<Rightarrow> do {
               r \<leftarrow> validateTagExists E repository version keychain;
               case r of
                 Inl err \<Rightarrow> tagError E err
               | Inr img \<Rightarrow>
                   (case validateBlueFieldOCPLayerImageURL img version of
                      Some err \<Rightarrow> handlePermanentError E err
                    | None \<Rightarrow> updateStatusOnSuccess E img version)
             }
         }
     })"

subsection \<open>Facts\<close>

lemmas lookup_outcome_defs = handleValidationError_def handlePermanentError_def
  handleTransientError_def updateStatusOnSuccess_def reportIgnore_def

lemma footprint_tagError:
  "CondSlot BlueFieldOCPLayerImageFound \<in> W \<Longrightarrow> ImageSlot \<in> W \<Longrightarrow>
   footprint M S W (observes M S) (tagError E err)"
  by (cases err) (simp_all add: lookup_outcome_defs Let_def footprint_intros)

interpretation lookup_step:
    reconcile_step LookupBlueFieldOCPLayerImage
      "{CondSlot BlueFieldOCPLayerImageFound, ImageSlot}" observes
  by unfold_locales
    (unfold LookupBlueFieldOCPLayerImage_def lookup_outcome_defs versionError_def
      lookupOCPVersion_def validateTagExists_def CheckTag_def Let_def,
     intro footprint_intros footprint_tagError; simp)

lemma Contains_HasPrefix: "HasPrefix s p \<Longrightarrow> Contains s p"
  by (cases s) (auto simp: HasPrefix_def)

lemma Contains_append: "Contains (a @ b @ c) b"
  by (induction a) (simp_all add: Contains_HasPrefix HasPrefix_append)

lemma Contains_iff: "Contains s p \<longleftrightarrow> (\<exists>a c. s = a @ p @ c)"
proof
  show "Contains s p \<Longrightarrow> \<exists>a c. s = a @ p @ c"
  proof (induction s)
    case (Cons x s)
    then show ?case
      by (auto simp: HasPrefix_iff) (metis append_Cons append_Nil, metis append_Cons)
  qed simp
qed (auto simp: Contains_append)

lemma wp_handlePermanentError:
  "(\<And>s' later. condFalse (st_cr s') BlueFieldOCPLayerImageFound \<Longrightarrow>
      stt_blueFieldOCPLayerImage (cr_status (st_cr s')) = [] \<Longrightarrow>
      st_history s' = later @ st_history s \<Longrightarrow> Q ok s') \<Longrightarrow>
   wp (handlePermanentError E err) Q s"
  by (simp add: handlePermanentError_def reportIgnore_def wp_simps condFalse_putCond announced_def)

lemma wp_handleValidationError:
  "(\<And>s' later. condFalse (st_cr s') BlueFieldOCPLayerImageFound \<Longrightarrow>
      stt_blueFieldOCPLayerImage (cr_status (st_cr s')) = [] \<Longrightarrow>
      st_history s' = later @ st_history s \<Longrightarrow> Q ok s') \<Longrightarrow>
   wp (handleValidationError E err) Q s"
  by (simp add: handleValidationError_def reportIgnore_def wp_simps condFalse_putCond announced_def)

lemma wp_handleTransientError:
  "(\<And>e s'. Q (failed e) s') \<Longrightarrow> wp (handleTransientError E err) Q s"
  by (simp add: handleTransientError_def reportIgnore_def wp_simps Let_def)

lemma wp_versionError:
  assumes "\<And>s' later. condFalse (st_cr s') BlueFieldOCPLayerImageFound \<Longrightarrow>
      stt_blueFieldOCPLayerImage (cr_status (st_cr s')) = [] \<Longrightarrow>
      st_history s' = later @ st_history s \<Longrightarrow> Q ok s'"
    and "\<And>e s'. Q (failed e) s'"
  shows "wp (versionError E img err) Q s"
  using assms by (simp add: versionError_def wp_handlePermanentError wp_handleValidationError
      wp_handleTransientError)

lemma wp_tagError:
  assumes "\<And>s' later. condFalse (st_cr s') BlueFieldOCPLayerImageFound \<Longrightarrow>
      stt_blueFieldOCPLayerImage (cr_status (st_cr s')) = [] \<Longrightarrow>
      st_history s' = later @ st_history s \<Longrightarrow> Q ok s'"
    and "\<And>e s'. Q (failed e) s'"
  shows "wp (tagError E err) Q s"
  using assms by (cases err) (simp_all add: wp_handlePermanentError wp_handleTransientError)

lemma wp_updateStatusOnSuccess:
  "(\<And>r s' later. condTrue (st_cr s') BlueFieldOCPLayerImageFound \<Longrightarrow>
      stt_blueFieldOCPLayerImage (cr_status (st_cr s')) = img \<Longrightarrow>
      st_history s' = later @ st_history s \<Longrightarrow> Q r s') \<Longrightarrow>
   wp (updateStatusOnSuccess E img version) Q s"
  by (simp add: updateStatusOnSuccess_def wp_simps condTrue_putCond announced_def)

lemma wp_lookupOCPVersion:
  assumes "\<And>r later s'. st_history s' = later @ st_history s \<Longrightarrow> st_cr s' = st_cr s \<Longrightarrow>
      (\<And>v. r = Inr v \<Longrightarrow> extractVersionFromTag img \<noteq> [] \<Longrightarrow> v = extractVersionFromTag img) \<Longrightarrow> Q r s'"
  shows "wp (lookupOCPVersion E img kc) Q s"
  unfolding lookupOCPVersion_def
  by (auto simp: wp_simps Let_def intro!: assms split: sum.splits option.splits)

lemma wp_validateTagExists:
  assumes "\<And>r s'. (\<And>layer. r = Inr layer \<Longrightarrow> layer = repo @ '':'' @ v
        \<and> (\<exists>ref b. k_parseReference (cod E) layer = Inr ref
             \<and> answered (\<lambda>h. s_registryHead (srv E) h ref (Resolve kc ref))
                  (RegistryHead ref (Resolve kc ref)) (st_history s') (Inr b))) \<Longrightarrow> Q r s'"
  shows "wp (validateTagExists E repo v kc) Q s"
  unfolding validateTagExists_def
  by (auto simp: wp_simps Let_def buildImageReference_def CheckTag_def
      intro!: assms answered_Cons split: sum.splits option.splits if_splits)


text \<open>The second repository of the witness confirms every image.\<close>

definition dockerSecret :: "NamespacedName \<Rightarrow> Secret" where
  "dockerSecret k = \<lparr>sec_meta = newMeta (nn_namespace k) (nn_name k), sec_type = [],
     sec_data = [(''.dockerconfigjson'', ''creds''), (''id_rsa.pub'', ''ssh-rsa AAAA'')]\<rparr>"

definition registryEnv :: env where
  "registryEnv = emptyEnv\<lparr>mgmt := emptyMgmt\<lparr>a_getSecret := (\<lambda>_ k. Inr (dockerSecret k))\<rparr>\<rparr>"


text \<open>
  Errors are classified by their text, and the text of a failed fetch quotes the release image.
  For a release image without a version tag whose reference contains \<^verbatim>\<open>403\<close> (as a digest may),
  every registry failure, also a temporary one, is therefore taken for a denied access: the
  reconcile is not retried and the condition reports \<^verbatim>\<open>RegistryAuthError\<close>.
\<close>

lemma fetch_error_of_403_digest_not_retried:
  assumes "run_state (LookupBlueFieldOCPLayerImage E) s = (r, s')"
    and "extractVersionFromTag (sp_ocpReleaseImage (cr_spec (st_cr s))) = []"
    and "Contains (sp_ocpReleaseImage (cr_spec (st_cr s))) ''403''"
    and "a_getSecret (mgmt E) (st_history s)
           (NN (cr_namespace (st_cr s)) (sp_pullSecretRef (cr_spec (st_cr s)))) = Inr sec"
    and "map_of (sec_data sec) ''.dockerconfigjson'' = Some d"
    and "k_unmarshalDockerConfig (cod E) d = Inr kc"
    and "k_parseReference (cod E) (sp_ocpReleaseImage (cr_spec (st_cr s))) = Inr ref"
    and "\<And>h a. s_registryGet (srv E) h ref a = Some e"
  shows "r = ok \<and> map_option c_reason (findCond (st_cr s') BlueFieldOCPLayerImageFound)
           = Some ''RegistryAuthError''"
    (is "?P r s'")
proof -
  let ?img = "sp_ocpReleaseImage (cr_spec (st_cr s))"
  let ?err = "wrap (''failed to fetch image descriptor for '' @ ?img) e"
  obtain a c where "?img = a @ ''403'' @ c"
    using assms(3) by (auto simp: Contains_iff)
  then have "err_msg ?err
      = (''failed to fetch image descriptor for '' @ a) @ ''403'' @ (c @ '': '' @ err_msg e)"
    by simp
  then have "isAuthError ?err"
    unfolding isAuthError_def by (metis Contains_append)
  moreover have "?img \<noteq> []" using assms(3) by auto
  ultimately have "wp (LookupBlueFieldOCPLayerImage E) ?P s"
    by (simp add: LookupBlueFieldOCPLayerImage_def KeychainFromPullSecret_def wp_simps Let_def assms
        NewKeychainFromDockerConfig_def lookupOCPVersion_def versionError_def
        handlePermanentError_def reportIgnore_def findCond_putCond)
  then show ?thesis using assms(1) by (rule wp_run)
qed

definition timeoutEnv :: env where
  "timeoutEnv = registryEnv\<lparr>srv := emptyServices\<lparr>s_registryGet :=
     (\<lambda>_ _ _. Some (Errorf ''i/o timeout''))\<rparr>\<rparr>"

definition digestCR :: DPFHCPProvisioner where
  "digestCR = sampleCR\<lparr>cr_spec := sampleSpec\<lparr>sp_ocpReleaseImage := ''quay.io/ocp@sha256:9b403f''\<rparr>\<rparr>"

lemma fetch_error_of_403_digest_not_retried_instance:
  "fst (run_state (LookupBlueFieldOCPLayerImage timeoutEnv) (startState digestCR)) = ok"
proof -
  obtain r s' where run:
      "run_state (LookupBlueFieldOCPLayerImage timeoutEnv) (startState digestCR) = (r, s')"
    by (rule prod.exhaust)
  have digest: "extractVersionFromTag (sp_ocpReleaseImage (cr_spec digestCR)) = []"
      "Contains (sp_ocpReleaseImage (cr_spec digestCR)) ''403''"
    by code_simp+
  have "r = ok"
    by (rule conjunct1 [OF fetch_error_of_403_digest_not_retried [OF run,
            where sec = "dockerSecret (NN ''clusters'' ''pull'')" and d = "''creds''" and kc = "[]"
            and ref = "\<lparr>ir_string = ''quay.io/ocp@sha256:9b403f'',
              ir_repository = ''quay.io/ocp@sha256:9b403f'',
              ir_registry = ''quay.io/ocp@sha256:9b403f''\<rparr>"
            and e = "Errorf ''i/o timeout''"]])
      (simp_all add: digest startState_def timeoutEnv_def registryEnv_def env_defs dockerSecret_def,
        simp_all add: digestCR_def sample_defs)
  then show ?thesis using run by simp
qed

end
