(* ===== verification/Finalizer.thy ===== *)
theory Finalizer
  imports Scenario
begin

section \<open>Finalizer cleanup\<close>

text \<open>
  \<^verbatim>\<open>internal/controller/finalizer\<close>: the interface of a cleanup handler (\<^verbatim>\<open>handler.go\<close>) and the manager
  that runs the registered handlers in order (\<^verbatim>\<open>manager.go\<close>). The interface is the locale
  \<open>cleanup_handler\<close>: a handler is a reconcile step that creates nothing. It is interpreted on the
  handlers of the three features that have one.
\<close>

fun is_create :: "call \<Rightarrow> bool" where
  "is_create (CreateSecret _) = True" | "is_create (CreateHC _) = True"
| "is_create (CreateNP _) = True" | "is_create (CreatePool _) = True"
| "is_create (CreateL2 _) = True" | "is_create (CreateCM _) = True"
| "is_create (HostedCreateNamespace _ _ _) = True"
| "is_create (HostedCreateDaemonSet _ _ _ _) = True"
| "is_create _ = False"

type_synonym handler = "string \<times> (env \<Rightarrow> step_result io)"

text \<open>The handlers of a manager, which keeps nothing else: a new one has none, registration appends.\<close>

definition newFinalizerManager :: "handler list" where
  "newFinalizerManager = []"

definition RegisterHandler :: "handler list \<Rightarrow> handler \<Rightarrow> handler list" where
  "RegisterHandler handlers handler = handlers @ [handler]"

fun HandleFinalizerCleanup :: "env \<Rightarrow> handler list \<Rightarrow> step_result io" where
  "HandleFinalizerCleanup E [] = do {
     _ \<leftarrow> event EventTypeNormal ''CleanupSucceeded'' ''All resources cleaned up successfully'';
     State_Monad.return ok
   }"
| "HandleFinalizerCleanup E ((name, cleanup) # handlers) = do {
     r \<leftarrow> cleanup E;
     case snd r of
       Some err \<Rightarrow> do {
         _ \<leftarrow> event EventTypeWarning ''CleanupHandlerFailed''
                (''Cleanup handler '' @ sq name @ '' failed: '' @ err_msg err);
         State_Monad.return (failed err)
       }
     | None \<Rightarrow>
         if 0 < RequeueAfter (fst r) then State_Monad.return (fst r, None)
         else HandleFinalizerCleanup E handlers
   }"

subsection \<open>The contract of a handler\<close>

locale cleanup_handler = reconcile_step cleanup slots allowed
  for cleanup :: "env \<Rightarrow> step_result io" and slots and allowed +
  assumes creates_nothing: "allowed M S c \<Longrightarrow> \<not> is_create c"
begin

lemma run_creates_nothing:
  assumes "run_state (cleanup E) s = (r, s')" and "c \<in> set (st_history s')" and "is_create c"
  shows "c \<in> set (st_history s)"
  using requests_allowed [OF assms(1,2)] creates_nothing assms(3) by blast

end

subsection \<open>The manager\<close>

lemma footprint_HandleFinalizerCleanup:
  assumes "\<And>n c. (n, c) \<in> set hs \<Longrightarrow> footprint M S W P (c E)"
    and "\<And>ty r m. P (Event ty r m)"
  shows "footprint M S W P (HandleFinalizerCleanup E hs)"
  using assms(1)
proof (induction hs)
  case Nil
  show ?case by (simp add: footprint_intros assms(2))
next
  case (Cons h hs)
  obtain n c where h: "h = (n, c)" by (cases h)
  have "footprint M S W P (c E)" using Cons.prems h by auto
  moreover have "footprint M S W P (HandleFinalizerCleanup E hs)"
    by (rule Cons.IH) (use Cons.prems in auto)
  ultimately show ?case
    by (auto simp: h assms(2) intro!: footprint_intros)
qed

text \<open>
  \<open>all_complete E hs s t\<close>: run one after the other from \<open>s\<close>, every handler of \<open>hs\<close> reports that its
  cleanup is complete, and the last one leaves \<open>t\<close>.
\<close>

fun all_complete :: "env \<Rightarrow> handler list \<Rightarrow> st \<Rightarrow> st \<Rightarrow> bool" where
  "all_complete E [] s t \<longleftrightarrow> s = t"
| "all_complete E (h # hs) s t \<longleftrightarrow>
     (case run_state (snd h E) s of (r, s') \<Rightarrow> \<not> stops r \<and> all_complete E hs s' t)"

text \<open>
  The manager ends without an error and without asking for another round exactly when each
  handler, run in the order of registration on what the previous one left, does so itself; the
  result is then the empty one, which lets the caller remove the finalizer.
\<close>

lemma HandleFinalizerCleanup_complete_iff:
  "(\<exists>t. run_state (HandleFinalizerCleanup E hs) s = (r, t) \<and> \<not> stops r)
     \<longleftrightarrow> r = ok \<and> (\<exists>t. all_complete E hs s t)"
proof (induction hs arbitrary: s)
  case Nil
  show ?case by (auto simp: event_def request_def)
next
  case (Cons h hs)
  obtain n c where h: "h = (n, c)" by (cases h)
  obtain q s1 where q: "run_state (c E) s = (q, s1)" by (rule prod.exhaust)
  show ?case
    using Cons.IH [of s1]
    by (auto simp: h q stops_def ok_def failed_def event_def request_def split: option.splits)
qed

end
