(* ===== verification/Controller_Util.thy ===== *)
theory Controller_Util
  imports Steps
begin

section \<open>Create or update\<close>

text \<open>
  \<^verbatim>\<open>controllerutil.CreateOrUpdate\<close> of \<^verbatim>\<open>controller-runtime\<close>, translated once for any kind of object; MetalLB
  objects and service templates are written through it.
\<close>

datatype OperationResult = OperationResultNone | OperationResultCreated | OperationResultUpdated

definition meta_key :: "ObjectMeta \<Rightarrow> NamespacedName" where
  "meta_key m = NN (om_namespace m) (om_name m)"

definition mutate :: "('o \<Rightarrow> ObjectMeta) \<Rightarrow> ('o \<Rightarrow> goerror + 'o) \<Rightarrow> NamespacedName \<Rightarrow> 'o \<Rightarrow> goerror + 'o" where
  "mutate md f key obj =
     (case f obj of
        Inl e \<Rightarrow> Inl e
      | Inr obj' \<Rightarrow>
          if meta_key (md obj') \<noteq> key
          then Inl (Errorf ''MutateFn cannot mutate object name and/or object namespace'')
          else Inr obj')"

text \<open>
  \<open>md\<close> projects the metadata, \<open>get\<close> is the client's Get for the kind, \<open>eq\<close> its semantic equality,
  \<open>create\<close> and \<open>update\<close> the requests that write it.
\<close>

definition CreateOrUpdate ::
    "env \<Rightarrow> ('o \<Rightarrow> ObjectMeta) \<Rightarrow> (NamespacedName \<Rightarrow> (goerror + 'o) io) \<Rightarrow> ('o \<Rightarrow> 'o \<Rightarrow> bool) \<Rightarrow>
     ('o \<Rightarrow> call) \<Rightarrow> ('o \<Rightarrow> call) \<Rightarrow> 'o \<Rightarrow> ('o \<Rightarrow> goerror + 'o) \<Rightarrow> (goerror + OperationResult) io" where
  "CreateOrUpdate E md get eq create update obj f =
     (let key = meta_key (md obj) in do {
        r \<leftarrow> get key;
        case r of
          Inl e \<Rightarrow>
            if \<not> IsNotFound e then State_Monad.return (Inl e)
            else (case mutate md f key obj of
                    Inl e \<Rightarrow> State_Monad.return (Inl e)
                  | Inr obj' \<Rightarrow> do {
                      r \<leftarrow> apiWrite E (create obj');
                      State_Monad.return (case r of
                        Some e \<Rightarrow> Inl e
                      | None \<Rightarrow> Inr OperationResultCreated)
                    })
        | Inr existing \<Rightarrow>
            (case mutate md f key existing of
               Inl e \<Rightarrow> State_Monad.return (Inl e)
             | Inr obj' \<Rightarrow>
                 if eq existing obj' then State_Monad.return (Inr OperationResultNone)
                 else do {
                   r \<leftarrow> apiWrite E (update obj');
                   State_Monad.return (case r of
                     Some e \<Rightarrow> Inl e
                   | None \<Rightarrow> Inr OperationResultUpdated)
                 })
      })"

lemma footprint_CreateOrUpdate:
  assumes "\<And>k. footprint M S W P (get k)"
    and "\<And>x y. f x = Inr y \<Longrightarrow> meta_key (md y) = meta_key (md obj) \<Longrightarrow> P (create y) \<and> P (update y)"
  shows "footprint M S W P (CreateOrUpdate E md get eq create update obj f)"
  unfolding CreateOrUpdate_def Let_def mutate_def
  by (intro footprint_intros assms(1)) (auto split: sum.splits if_splits dest: assms(2))

end
