(* ===== verification/MetalLB.thy ===== *)
theory MetalLB
  imports Finalizer Controller_Util
begin

section \<open>MetalLB resources\<close>

text \<open>
  \<^verbatim>\<open>internal/controller/metallb\<close>: an IPAddressPool and an L2Advertisement in another namespace, kept in
  sync with the resource and removed with it. Ownership across namespaces is by labels; the lemmas
  show that objects of others are neither changed nor deleted.
\<close>

subsection \<open>Configuration\<close>

definition setMetalLBCondition ::
    "env \<Rightarrow> ConditionStatus \<Rightarrow> string \<Rightarrow> string \<Rightarrow> goerror option io" where
  "setMetalLBCondition E status reason message = with_cr (\<lambda>cr. do {
     changed \<leftarrow> setCondition (mkCond MetalLBConfigured status reason message (cr_generation cr));
     if changed then do {
       _ \<leftarrow> (if status = ConditionFalse
             then event ''Warning'' ''MetalLBConfigurationFailed'' message
             else event ''Normal'' ''MetalLBConfigured'' message);
       r \<leftarrow> updateStatus E;
       State_Monad.return (map_option (wrap ''updating MetalLBConfigured condition'') r)
     }
     else State_Monad.return None
   })"

definition ownershipLabels :: "DPFHCPProvisioner \<Rightarrow> string gomap \<Rightarrow> string gomap" where
  "ownershipLabels cr l =
     mset_key (mset_key l LabelDPFHCPProvisionerName (cr_name cr))
       LabelDPFHCPProvisionerNamespace (cr_namespace cr)"

text \<open>The mutate functions: refuse what exists and is not ours, else set labels and spec.\<close>

definition desiredPool :: "DPFHCPProvisioner \<Rightarrow> IPAddressPool \<Rightarrow> goerror + IPAddressPool" where
  "desiredPool cr pool =
     (if om_resourceVersion (pool_meta pool) \<noteq> []
         \<and> \<not> IsOwnedByProvisioner (om_labels (pool_meta pool)) (cr_name cr) (cr_namespace cr)
      then Inl (Errorf (''IPAddressPool '' @ om_namespace (pool_meta pool) @ ''/''
             @ om_name (pool_meta pool) @ '' exists but is not owned by DPFHCPProvisioner ''
             @ cr_namespace cr @ ''/'' @ cr_name cr @ '' (missing ownership labels)''))
      else Inr (pool\<lparr>
             pool_meta := (pool_meta pool)\<lparr>om_labels :=
               ownershipLabels cr (om_labels (pool_meta pool))\<rparr>,
             pool_addresses := [sp_virtualIP (cr_spec cr) @ ''/32''],
             pool_allocateNamespaces := Some [cr_namespace cr @ ''-'' @ cr_name cr],
             pool_autoAssign := Some True\<rparr>))"

definition poolEqual :: "IPAddressPool \<Rightarrow> IPAddressPool \<Rightarrow> bool" where
  "poolEqual p q \<longleftrightarrow>
     map_eq (om_labels (pool_meta p)) (om_labels (pool_meta q))
     \<and> p\<lparr>pool_meta := (pool_meta p)\<lparr>om_labels := []\<rparr>\<rparr>
       = q\<lparr>pool_meta := (pool_meta q)\<lparr>om_labels := []\<rparr>\<rparr>"

definition newPool :: "DPFHCPProvisioner \<Rightarrow> IPAddressPool" where
  "newPool cr = \<lparr>pool_meta = newMeta OpenshiftOperatorsNamespace (cr_name cr),
     pool_addresses = [], pool_allocateNamespaces = None, pool_autoAssign = None\<rparr>"

definition ensureIPAddressPool :: "env \<Rightarrow> goerror option io" where
  "ensureIPAddressPool E = with_cr (\<lambda>cr. do {
     r \<leftarrow> CreateOrUpdate E pool_meta (getPool E) poolEqual CreatePool UpdatePool (newPool cr)
            (desiredPool cr);
     case r of
       Inl e \<Rightarrow> State_Monad.return (Some (wrap ''creating or updating IPAddressPool'' e))
     | Inr op \<Rightarrow> do {
         _ \<leftarrow> (if op = OperationResultUpdated
               then event ''Normal'' ''MetalLBDriftCorrected''
                      (''Corrected spec drift in IPAddressPool '' @ cr_name cr)
               else State_Monad.return ());
         State_Monad.return None
       }
   })"

definition advertName :: "DPFHCPProvisioner \<Rightarrow> string" where
  "advertName cr = ''advertise-'' @ cr_name cr"

definition desiredL2 :: "DPFHCPProvisioner \<Rightarrow> L2Advertisement \<Rightarrow> goerror + L2Advertisement" where
  "desiredL2 cr advert =
     (if om_resourceVersion (l2_meta advert) \<noteq> []
         \<and> \<not> IsOwnedByProvisioner (om_labels (l2_meta advert)) (cr_name cr) (cr_namespace cr)
      then Inl (Errorf (''L2Advertisement '' @ om_namespace (l2_meta advert) @ ''/''
             @ om_name (l2_meta advert) @ '' exists but is not owned by DPFHCPProvisioner ''
             @ cr_namespace cr @ ''/'' @ cr_name cr @ '' (missing ownership labels)''))
      else Inr (advert\<lparr>
             l2_meta := (l2_meta advert)\<lparr>om_labels :=
               ownershipLabels cr (om_labels (l2_meta advert))\<rparr>,
             l2_ipAddressPools := [cr_name cr]\<rparr>))"

definition l2Equal :: "L2Advertisement \<Rightarrow> L2Advertisement \<Rightarrow> bool" where
  "l2Equal p q \<longleftrightarrow>
     map_eq (om_labels (l2_meta p)) (om_labels (l2_meta q))
     \<and> p\<lparr>l2_meta := (l2_meta p)\<lparr>om_labels := []\<rparr>\<rparr> = q\<lparr>l2_meta := (l2_meta q)\<lparr>om_labels := []\<rparr>\<rparr>"

definition newL2 :: "DPFHCPProvisioner \<Rightarrow> L2Advertisement" where
  "newL2 cr = \<lparr>l2_meta = newMeta OpenshiftOperatorsNamespace (advertName cr),
     l2_ipAddressPools = []\<rparr>"

definition ensureL2Advertisement :: "env \<Rightarrow> goerror option io" where
  "ensureL2Advertisement E = with_cr (\<lambda>cr. do {
     r \<leftarrow> CreateOrUpdate E l2_meta (getL2 E) l2Equal CreateL2 UpdateL2 (newL2 cr) (desiredL2 cr);
     case r of
       Inl e \<Rightarrow> State_Monad.return (Some (wrap ''creating or updating L2Advertisement'' e))
     | Inr op \<Rightarrow> do {
         _ \<leftarrow> (if op = OperationResultUpdated
               then event ''Normal'' ''MetalLBDriftCorrected''
                      (''Corrected spec drift in L2Advertisement '' @ advertName cr)
               else State_Monad.return ());
         State_Monad.return None
       }
   })"

definition handleMissingMetalLBCRDs :: "env \<Rightarrow> goerror \<Rightarrow> step_result io" where
  "handleMissingMetalLBCRDs E originalErr = do {
     _ \<leftarrow> setMetalLBCondition E ConditionFalse ''MetalLBNotInstalled''
            ''LoadBalancer mode requires MetalLB on non-cloud platforms. Install MetalLB operator or remove VirtualIP to use NodePort mode.'';
     State_Monad.return (failed (originalErr\<lparr>err_msg := ''MetalLB CRDs not found: ''
       @ err_msg originalErr
       @ ''. Install MetalLB operator for LoadBalancer support on bare-metal''\<rparr>))
   }"

definition ConfigureMetalLB :: "env \<Rightarrow> OperatorConfig \<Rightarrow> step_result io" where
  "ConfigureMetalLB E operatorConfig = with_cr (\<lambda>provisioner.
     if \<not> ShouldExposeThroughLoadBalancer provisioner then State_Monad.return ok
     else if cfg_disableMetalLB operatorConfig then do {
       r \<leftarrow> setMetalLBCondition E ConditionTrue ''MetalLBDisabled''
              ''MetalLB disabled in operator configuration'';
       State_Monad.return (done_or_failed r)
     }
     else do {
       r \<leftarrow> ensureIPAddressPool E;
       case r of
         Some err \<Rightarrow>
           if IsNoMatchError err then handleMissingMetalLBCRDs E err
           else do {
             _ \<leftarrow> setMetalLBCondition E ConditionFalse ''CreatingIPAddressPool''
                    (''Failed to create/update IPAddressPool: '' @ err_msg err);
             State_Monad.return (failed err)
           }
       | None \<Rightarrow> do {
           r \<leftarrow> ensureL2Advertisement E;
           case r of
             Some err \<Rightarrow>
               if IsNoMatchError err then handleMissingMetalLBCRDs E err
               else do {
                 _ \<leftarrow> setMetalLBCondition E ConditionFalse ''L2AdvertisementFailed''
                        (''Failed to create/update L2Advertisement: '' @ err_msg err);
                 State_Monad.return (failed err)
               }
           | None \<Rightarrow> do {
               r \<leftarrow> setMetalLBCondition E ConditionTrue ''MetalLBReady''
                      ''MetalLB configured successfully'';
               State_Monad.return (done_or_failed r)
             }
         }
     })"

subsection \<open>Cleanup\<close>

text \<open>The second half of the handler: the advertisement, once the pool is gone.\<close>

definition cleanupL2Advertisement :: "env \<Rightarrow> step_result io" where
  "cleanupL2Advertisement E = with_cr (\<lambda>cr.
     let finish = do {
           _ \<leftarrow> event ''Normal'' ''MetalLBCleanupComplete''
                  ''MetalLB resources cleaned up successfully'';
           State_Monad.return ok
         }
     in do {
       r \<leftarrow> getL2 E (NN OpenshiftOperatorsNamespace (advertName cr));
       case r of
         Inl err \<Rightarrow>
           if IsNotFound err then finish
           else if IsNoMatchError err then finish
           else State_Monad.return (failed (wrap ''getting L2Advertisement'' err))
       | Inr advert \<Rightarrow>
           if \<not> IsOwnedByProvisioner (om_labels (l2_meta advert)) (cr_name cr) (cr_namespace cr)
           then finish
           else do {
             d \<leftarrow> apiWrite E (DeleteL2 advert);
             case d of
               Some err \<Rightarrow>
                 if \<not> IsNotFound err
                 then State_Monad.return (failed (wrap ''deleting L2Advertisement'' err))
                 else State_Monad.return (After 10, None)
             | None \<Rightarrow> State_Monad.return (After 10, None)
           }
     })"

definition metallbCleanup :: "env \<Rightarrow> step_result io" where
  "metallbCleanup E = with_cr (\<lambda>cr. do {
     r \<leftarrow> getPool E (NN OpenshiftOperatorsNamespace (cr_name cr));
     case r of
       Inl err \<Rightarrow>
         if IsNotFound err then cleanupL2Advertisement E
         else if IsNoMatchError err then cleanupL2Advertisement E
         else State_Monad.return (failed (wrap ''getting IPAddressPool'' err))
     | Inr pool \<Rightarrow>
         if \<not> IsOwnedByProvisioner (om_labels (pool_meta pool)) (cr_name cr) (cr_namespace cr)
         then cleanupL2Advertisement E
         else do {
           d \<leftarrow> apiWrite E (DeletePool pool);
           case d of
             Some err \<Rightarrow>
               if \<not> IsNotFound err
               then State_Monad.return (failed (wrap ''deleting IPAddressPool'' err))
               else State_Monad.return (After 10, None)
           | None \<Rightarrow> State_Monad.return (After 10, None)
         }
   })"

definition metallbHandler :: handler where
  "metallbHandler = (''metallb'', metallbCleanup)"

subsection \<open>Contracts\<close>

text \<open>The objects a resource with metadata \<open>M\<close> and spec \<open>S\<close> asks for.\<close>

definition our_pool :: "ObjectMeta \<Rightarrow> DPFHCPProvisionerSpec \<Rightarrow> IPAddressPool \<Rightarrow> bool" where
  "our_pool M S p \<longleftrightarrow>
     meta_key (pool_meta p) = NN OpenshiftOperatorsNamespace (om_name M)
     \<and> IsOwnedByProvisioner (om_labels (pool_meta p)) (om_name M) (om_namespace M)
     \<and> pool_addresses p = [sp_virtualIP S @ ''/32'']
     \<and> pool_allocateNamespaces p = Some [om_namespace M @ ''-'' @ om_name M]
     \<and> pool_autoAssign p = Some True"

definition our_L2 :: "ObjectMeta \<Rightarrow> L2Advertisement \<Rightarrow> bool" where
  "our_L2 M a \<longleftrightarrow>
     meta_key (l2_meta a) = NN OpenshiftOperatorsNamespace (''advertise-'' @ om_name M)
     \<and> IsOwnedByProvisioner (om_labels (l2_meta a)) (om_name M) (om_namespace M)
     \<and> l2_ipAddressPools a = [om_name M]"

fun metallb_allowed :: "ObjectMeta \<Rightarrow> DPFHCPProvisionerSpec \<Rightarrow> call \<Rightarrow> bool" where
  "metallb_allowed M S (CreatePool p) = our_pool M S p"
| "metallb_allowed M S (UpdatePool p) = our_pool M S p"
| "metallb_allowed M S (CreateL2 a) = our_L2 M a"
| "metallb_allowed M S (UpdateL2 a) = our_L2 M a"
| "metallb_allowed M S c = observes M S c"

lemma desiredPool_ours:
  assumes "desiredPool cr x = Inr y" and "meta_key (pool_meta y) = meta_key (pool_meta (newPool cr))"
  shows "our_pool (cr_meta cr) (cr_spec cr) y"
  using assms IsOwnedByProvisioner_labelled
  by (auto simp: desiredPool_def our_pool_def newPool_def newMeta_def meta_key_def
      ownershipLabels_def split: if_splits)

lemma desiredL2_ours:
  assumes "desiredL2 cr x = Inr y" and "meta_key (l2_meta y) = meta_key (l2_meta (newL2 cr))"
  shows "our_L2 (cr_meta cr) y"
  using assms IsOwnedByProvisioner_labelled
  by (auto simp: desiredL2_def our_L2_def newL2_def advertName_def newMeta_def meta_key_def
      ownershipLabels_def split: if_splits)

lemma footprint_setMetalLBCondition:
  "CondSlot MetalLBConfigured \<in> W \<Longrightarrow> (\<And>ty r m. P (Event ty r m)) \<Longrightarrow>
   (\<And>c. cr_meta c = M \<Longrightarrow> cr_spec c = S \<Longrightarrow> P (UpdateCRStatus c)) \<Longrightarrow>
   footprint M S W P (setMetalLBCondition E v r m)"
  unfolding setMetalLBCondition_def by (intro footprint_intros) simp_all

lemma footprint_ensure:
  "footprint M S W (metallb_allowed M S) (ensureIPAddressPool E)"
  "footprint M S W (metallb_allowed M S) (ensureL2Advertisement E)"
  unfolding ensureIPAddressPool_def ensureL2Advertisement_def
  by (intro footprint_intros footprint_CreateOrUpdate; fastforce dest: desiredPool_ours desiredL2_ours)+

interpretation metallb_step:
    reconcile_step "\<lambda>E. ConfigureMetalLB E cfg" "{CondSlot MetalLBConfigured}" metallb_allowed
  for cfg
  by unfold_locales
    (unfold ConfigureMetalLB_def handleMissingMetalLBCRDs_def,
     intro footprint_intros footprint_setMetalLBCondition footprint_ensure; simp)

text \<open>What the cleanup handler may delete: objects whose labels name this resource as the owner.\<close>

fun metallb_removes :: "ObjectMeta \<Rightarrow> DPFHCPProvisionerSpec \<Rightarrow> call \<Rightarrow> bool" where
  "metallb_removes M S (DeletePool p) =
     IsOwnedByProvisioner (om_labels (pool_meta p)) (om_name M) (om_namespace M)"
| "metallb_removes M S (DeleteL2 a) =
     IsOwnedByProvisioner (om_labels (l2_meta a)) (om_name M) (om_namespace M)"
| "metallb_removes M S c = (\<not> is_write c)"

lemma metallb_removes_no_create: "metallb_removes M S c \<Longrightarrow> \<not> is_create c"
  by (cases c) auto

lemma footprint_metallbCleanup: "footprint M S {} (metallb_removes M S) (metallbCleanup E)"
  unfolding metallbCleanup_def cleanupL2Advertisement_def Let_def
  by (intro footprint_intros) simp_all

interpretation metallb_cleanup: cleanup_handler metallbCleanup "{}" metallb_removes
  by unfold_locales (rule footprint_metallbCleanup, rule metallb_removes_no_create)

subsection \<open>Behaviour\<close>


text \<open>A shared namespace in which both objects exist and belong to somebody else.\<close>

definition foreignPool :: IPAddressPool where
  "foreignPool = \<lparr>pool_meta = (newMeta OpenshiftOperatorsNamespace ''hcp'')\<lparr>om_resourceVersion := ''7''\<rparr>,
     pool_addresses = [''192.168.0.0/24''], pool_allocateNamespaces = None, pool_autoAssign = None\<rparr>"

definition foreignPoolEnv :: env where
  "foreignPoolEnv = emptyEnv\<lparr>mgmt := emptyMgmt\<lparr>a_getPool := (\<lambda>_ _. Inr foreignPool)\<rparr>\<rparr>"

definition sampleConfig :: OperatorConfig where
  "sampleConfig = \<lparr>cfg_blueFieldOCPLayerRepo = ''quay.io/bf'', cfg_disableMetalLB = False,
     cfg_manageDPUServiceTemplates = False, cfg_dpuServicesImagePullSecret = [],
     cfg_ovsHugepagesSize = ''2Mi'', cfg_ovsHugepagesAmount = 0\<rparr>"


text \<open>
  Once the server holds the object the operator asked for, asking again changes nothing: the two
  mutate functions are idempotent, so no write is sent.
\<close>

lemma mset_key_same: "map_of m k = Some v \<Longrightarrow> map_of (mset_key m k v) = map_of m"
  by (simp add: fun_upd_idem)

lemma ownershipLabels_idem:
  "map_of (ownershipLabels cr (ownershipLabels cr l)) = map_of (ownershipLabels cr l)"
  by (simp add: ownershipLabels_def fun_upd_idem_iff)

lemma desiredPool_idem:
  assumes "desiredPool cr x = Inr y"
  shows "\<exists>z. desiredPool cr y = Inr z \<and> poolEqual y z \<and> pool_meta z = (pool_meta y)\<lparr>om_labels :=
    ownershipLabels cr (om_labels (pool_meta y))\<rparr>"
proof -
  let ?l = "ownershipLabels cr (om_labels (pool_meta x))"
  have y: "y = x\<lparr>pool_meta := (pool_meta x)\<lparr>om_labels := ?l\<rparr>,
      pool_addresses := [sp_virtualIP (cr_spec cr) @ ''/32''],
      pool_allocateNamespaces := Some [cr_namespace cr @ ''-'' @ cr_name cr],
      pool_autoAssign := Some True\<rparr>"
    using assms by (simp add: desiredPool_def split: if_splits)
  have "IsOwnedByProvisioner ?l (cr_name cr) (cr_namespace cr)"
    by (simp add: ownershipLabels_def IsOwnedByProvisioner_labelled)
  then show ?thesis
    by (simp add: y desiredPool_def poolEqual_def map_eq_iff ownershipLabels_idem)
qed

text \<open>
  The MetalLB pool converges. If the server answers with a pool that is the operator's own
  desired version of some pool of that name, the step reads it and sends no write at all, so two
  reconciles in a row do not fight over the object.
\<close>

lemma ensureIPAddressPool_converges:
  assumes "desiredPool (st_cr s) x = Inr y"
    and "meta_key (pool_meta y) = NN OpenshiftOperatorsNamespace (cr_name (st_cr s))"
    and "a_getPool (mgmt E) (st_history s) (NN OpenshiftOperatorsNamespace (cr_name (st_cr s))) = Inr y"
  shows "run_state (ensureIPAddressPool E) s = (None, s\<lparr>st_history :=
      GetPool (NN OpenshiftOperatorsNamespace (cr_name (st_cr s))) # st_history s\<rparr>)"
proof -
  obtain z where z: "desiredPool (st_cr s) y = Inr z" "poolEqual y z"
      "pool_meta z = (pool_meta y)\<lparr>om_labels :=
         ownershipLabels (st_cr s) (om_labels (pool_meta y))\<rparr>"
    using desiredPool_idem [OF assms(1)] by blast
  have "meta_key (pool_meta z) = meta_key (pool_meta y)"
    by (simp add: z(3) meta_key_def)
  then have "mutate pool_meta (desiredPool (st_cr s))
      (NN OpenshiftOperatorsNamespace (cr_name (st_cr s))) y = Inr z"
    using assms(2) by (simp add: mutate_def z(1))
  then have "wp (ensureIPAddressPool E) (\<lambda>r s'. r = None \<and> s' = s\<lparr>st_history :=
      GetPool (NN OpenshiftOperatorsNamespace (cr_name (st_cr s))) # st_history s\<rparr>) s"
    by (simp add: ensureIPAddressPool_def CreateOrUpdate_def wp_simps Let_def newPool_def
        newMeta_def meta_key_def assms(3) z(2))
  then show ?thesis by (simp add: wp_def split: prod.splits)
qed

definition settledPool :: IPAddressPool where
  "settledPool = (case desiredPool sampleCR (newPool sampleCR) of Inr y \<Rightarrow> y)"

lemma ensureIPAddressPool_converges_witness:
  "fst (run_state (ensureIPAddressPool
     (emptyEnv\<lparr>mgmt := emptyMgmt\<lparr>a_getPool := (\<lambda>_ _. Inr settledPool)\<rparr>\<rparr>)) (startState sampleCR)) = None"
proof -
  have settled: "desiredPool sampleCR (newPool sampleCR) = Inr settledPool"
    by (simp add: settledPool_def desiredPool_def newPool_def newMeta_def)
  have "meta_key (pool_meta settledPool) = NN OpenshiftOperatorsNamespace (cr_name sampleCR)"
    by (simp add: settledPool_def desiredPool_def newPool_def newMeta_def meta_key_def)
  then show ?thesis
    using ensureIPAddressPool_converges [of "startState sampleCR" "newPool sampleCR" settledPool
      "emptyEnv\<lparr>mgmt := emptyMgmt\<lparr>a_getPool := (\<lambda>_ _. Inr settledPool)\<rparr>\<rparr>"] settled
    by (simp add: startState_def)
qed

end
