(* ===== verification/Sha256.thy ===== *)
theory Sha256
  imports Prelude "HOL-Library.Word"
begin

section \<open>Hashes\<close>

text \<open>
  \<^verbatim>\<open>crypto/sha256\<close> and \<^verbatim>\<open>hash/fnv\<close> of Go's standard library, on 32-bit words with wrap-around, as far
  as the operator uses them: \<open>shortHash\<close> of \<^verbatim>\<open>hostedcluster/secrets.go\<close> names the copies of the
  credential secrets by a prefix of SHA-256.
\<close>

unbundle bit_operations_syntax

type_synonym w32 = "32 word"

subsection \<open>SHA-256\<close>

text \<open>
  The round constants, eight to a row: a row is the big-endian number its eight words make.
\<close>

fun unpack32 :: "nat \<Rightarrow> int \<Rightarrow> w32 list" where
  "unpack32 0 n = []"
| "unpack32 (Suc k) n = unpack32 k (n div 4294967296) @ [word_of_int (n mod 4294967296)]"

definition sha256_K :: "w32 list" where
  "sha256_K = concat (map (unpack32 8) [
     0x428a2f9871374491b5c0fbcfe9b5dba53956c25b59f111f1923f82a4ab1c5ed5,
     0xd807aa9812835b01243185be550c7dc372be5d7480deb1fe9bdc06a7c19bf174,
     0xe49b69c1efbe47860fc19dc6240ca1cc2de92c6f4a7484aa5cb0a9dc76f988da,
     0x983e5152a831c66db00327c8bf597fc7c6e00bf3d5a7914706ca635114292967,
     0x27b70a852e1b21384d2c6dfc53380d13650a7354766a0abb81c2c92e92722c85,
     0xa2bfe8a1a81a664bc24b8b70c76c51a3d192e819d6990624f40e3585106aa070,
     0x19a4c1161e376c082748774c34b0bcb5391c0cb34ed8aa4a5b9cca4f682e6ff3,
     0x748f82ee78a5636f84c878148cc7020890befffaa4506cebbef9a3f7c67178f2])"

definition sha256_H0 :: "w32 list" where
  "sha256_H0 = unpack32 8 0x6a09e667bb67ae853c6ef372a54ff53a510e527f9b05688c1f83d9ab5be0cd19"

definition rotr :: "nat \<Rightarrow> w32 \<Rightarrow> w32" where
  "rotr n x = drop_bit n x OR push_bit (32 - n) x"

definition small0 :: "w32 \<Rightarrow> w32" where
  "small0 x = rotr 7 x XOR rotr 18 x XOR drop_bit 3 x"

definition small1 :: "w32 \<Rightarrow> w32" where
  "small1 x = rotr 17 x XOR rotr 19 x XOR drop_bit 10 x"

definition big0 :: "w32 \<Rightarrow> w32" where
  "big0 x = rotr 2 x XOR rotr 13 x XOR rotr 22 x"

definition big1 :: "w32 \<Rightarrow> w32" where
  "big1 x = rotr 6 x XOR rotr 11 x XOR rotr 25 x"

text \<open>The message schedule, newest word first while it grows.\<close>

fun extend :: "nat \<Rightarrow> w32 list \<Rightarrow> w32 list" where
  "extend 0 l = l"
| "extend (Suc n) l = extend n ((small1 (l ! 1) + l ! 6 + small0 (l ! 14) + l ! 15) # l)"

definition schedule :: "w32 list \<Rightarrow> w32 list" where
  "schedule block = rev (extend 48 (rev block))"

fun sha_round :: "w32 \<times> w32 \<Rightarrow> w32 list \<Rightarrow> w32 list" where
  "sha_round (k, w) [a, b, c, d, e, f, g, h] =
     (let t1 = h + big1 e + ((e AND f) XOR (NOT e AND g)) + k + w;
          t2 = big0 a + ((a AND b) XOR (a AND c) XOR (b AND c))
      in [t1 + t2, a, b, c, d + t1, e, f, g])"
| "sha_round _ hs = hs"

definition sha_block :: "w32 list \<Rightarrow> w32 list \<Rightarrow> w32 list" where
  "sha_block block hs = map2 (+) hs (fold sha_round (zip sha256_K (schedule block)) hs)"

text \<open>Padding to a multiple of 64 bytes, with the length in bits in the last eight.\<close>

fun be_bytes :: "nat \<Rightarrow> int \<Rightarrow> int list" where
  "be_bytes 0 n = []"
| "be_bytes (Suc k) n = be_bytes k (n div 256) @ [n mod 256]"

definition sha_pad :: "int list \<Rightarrow> int list" where
  "sha_pad m = m @ [128] @ replicate ((119 - length m mod 64) mod 64) 0 @ be_bytes 8 (8 * int (length m))"

fun words_of :: "int list \<Rightarrow> w32 list" where
  "words_of (a # b # c # d # r) =
     word_of_int (a * 16777216 + b * 65536 + c * 256 + d) # words_of r"
| "words_of _ = []"

function sha_blocks :: "w32 list \<Rightarrow> w32 list \<Rightarrow> w32 list" where
  "sha_blocks ws hs =
     (if length ws < 16 then hs else sha_blocks (drop 16 ws) (sha_block (take 16 ws) hs))"
  by auto

termination sha_blocks
  by (relation "measure (\<lambda>(ws, _). length ws)") auto

declare sha_blocks.simps [simp del]

definition sha256_words :: "int list \<Rightarrow> w32 list" where
  "sha256_words m = sha_blocks (words_of (sha_pad m)) sha256_H0"

definition Sum256 :: "string \<Rightarrow> int list" where
  "Sum256 s = concat (map (\<lambda>w. be_bytes 4 (uint w)) (sha256_words (map of_char s)))"

subsection \<open>shortHash\<close>

text \<open>\<^verbatim>\<open>%x\<close> of a byte slice: two lower-case hexadecimal digits per byte.\<close>

definition hex_byte :: "int \<Rightarrow> string" where
  "hex_byte n = [hex_digit (nat (n div 16 mod 16)), hex_digit (nat (n mod 16))]"

definition shortHash :: "string \<Rightarrow> string" where
  "shortHash s = concat (map hex_byte (take 4 (Sum256 s)))"

lemma length_unpack32 [simp]: "length (unpack32 k n) = k"
  by (induction k arbitrary: n) simp_all

lemma length_be_bytes [simp]: "length (be_bytes k n) = k"
  by (induction k arbitrary: n) simp_all

lemma length_sha_round [simp]: "length (sha_round kw hs) = length hs"
  by (cases "(kw, hs)" rule: sha_round.cases) (simp_all add: Let_def)

lemma length_fold_sha_round [simp]: "length (fold sha_round kws hs) = length hs"
  by (induction kws arbitrary: hs) simp_all

lemma length_sha_block [simp]: "length (sha_block b hs) = length hs"
  by (simp add: sha_block_def)

lemma length_sha_blocks [simp]: "length (sha_blocks ws hs) = length hs"
  by (induction ws hs rule: sha_blocks.induct) (subst sha_blocks.simps, simp)

lemma length_concat_be_bytes: "length (concat (map (\<lambda>w. be_bytes k (f w)) ws)) = k * length ws"
  by (induction ws) simp_all

lemma length_Sum256 [simp]: "length (Sum256 s) = 32"
  by (simp add: Sum256_def length_concat_be_bytes sha256_words_def sha256_H0_def)

lemma length_concat_hex: "length (concat (map hex_byte bs)) = 2 * length bs"
  by (induction bs) (simp_all add: hex_byte_def)

lemma length_shortHash [simp]: "length (shortHash s) = 8"
  by (simp add: shortHash_def length_concat_hex)

text \<open>The digest of the three-byte message of the standard's first test vector starts with ba7816bf.\<close>

lemma shortHash_abc: "shortHash ''abc'' = ''ba7816bf''"
  by code_simp

end
