(* ===== verification/Hosted_Secrets.thy ===== *)
theory Hosted_Secrets
  imports Finalizer Sha256
begin

section \<open>Secrets of the hosted cluster\<close>

text \<open>
  \<^verbatim>\<open>internal/controller/hostedcluster/secrets.go\<close>: the copies of the pull secret and of the SSH key under
  names that encode their source, the removal of stale copies after a rotation, and the etcd
  encryption key. Copies belong to the resource through a controller reference; the lemmas show that
  only such secrets are updated or deleted and that only current copies survive.
\<close>

definition credentialSecretCopyLabel :: string where
  "credentialSecretCopyLabel = ''provisioning.dpu.hcp.io/credential-secret-copy''"

definition pullSecretCopyType :: string where
  "pullSecretCopyType = ''pull-secret''"

definition sshKeyCopyType :: string where
  "sshKeyCopyType = ''ssh-key''"

definition PullSecretCopyName :: "DPFHCPProvisioner \<Rightarrow> string" where
  "PullSecretCopyName cr = cr_name cr @ ''-pull-secret-'' @ shortHash (sp_pullSecretRef (cr_spec cr))"

definition SSHKeyCopyName :: "DPFHCPProvisioner \<Rightarrow> string" where
  "SSHKeyCopyName cr = cr_name cr @ ''-ssh-key-'' @ shortHash (sp_sshKeySecretRef (cr_spec cr))"

abbreviation sec_name :: "Secret \<Rightarrow> string" where
  "sec_name x \<equiv> om_name (sec_meta x)"

abbreviation sec_labels :: "Secret \<Rightarrow> string gomap" where
  "sec_labels x \<equiv> om_labels (sec_meta x)"

definition setCredentialSecretCopyLabel :: "Secret \<Rightarrow> string \<Rightarrow> Secret \<times> bool" where
  "setCredentialSecretCopyLabel secret copyType =
     (if mget (sec_labels secret) credentialSecretCopyLabel = copyType then (secret, False)
      else (secret\<lparr>sec_meta := (sec_meta secret)\<lparr>om_labels :=
              mset_key (sec_labels secret) credentialSecretCopyLabel copyType\<rparr>\<rparr>, True))"

subsection \<open>Copying\<close>

text \<open>
  \<^verbatim>\<open>copyPullSecret\<close> and \<^verbatim>\<open>copySSHKey\<close> differ in the source, the type of the copy and the words of
  their errors: \<open>what\<close> is \<^verbatim>\<open>pull-secret\<close> or \<^verbatim>\<open>ssh-key\<close> and \<open>mark\<close> how the failed labelling names it.
\<close>

definition copySecret ::
    "env \<Rightarrow> string \<Rightarrow> string \<Rightarrow> string \<Rightarrow> string \<Rightarrow> string \<Rightarrow> string \<Rightarrow> goerror option io" where
  "copySecret E sourceName targetName copyType secretType what mark = with_cr (\<lambda>cr. do {
     r \<leftarrow> getSecret E (NN (cr_namespace cr) sourceName);
     case r of
       Inl e \<Rightarrow> State_Monad.return (Some (wrap (''failed to get '' @ what @ '' ''
                  @ cr_namespace cr @ ''/'' @ sourceName) e))
     | Inr sourceSecret \<Rightarrow> do {
         r \<leftarrow> getSecret E (NN (cr_namespace cr) targetName);
         case r of
           Inr existingSecret \<Rightarrow>
             if IsControlledBy (sec_meta existingSecret) (cr_meta cr) then
               (case setCredentialSecretCopyLabel existingSecret copyType of
                  (existingSecret, changed) \<Rightarrow>
                    if changed then do {
                      u \<leftarrow> apiWrite E (UpdateSecret existingSecret);
                      State_Monad.return (map_option
                        (wrap (''failed to mark '' @ mark @ '' copy '' @ targetName)) u)
                    }
                    else State_Monad.return None)
             else State_Monad.return (Some (Errorf (what @ '' '' @ targetName @ '' exists in ''
                    @ cr_namespace cr @ '' but is owned by different DPFHCPProvisioner'')))
         | Inl e \<Rightarrow>
             if \<not> IsNotFound e
             then State_Monad.return (Some (wrap (''failed to check existing '' @ what) e))
             else (case SetControllerReference (cr_meta cr)
                        ((newMeta (cr_namespace cr) targetName)\<lparr>om_labels :=
                           [(credentialSecretCopyLabel, copyType)]\<rparr>) of
                     Inl e \<Rightarrow> State_Monad.return
                       (Some (wrap (''failed to set owner reference on '' @ what) e))
                   | Inr m \<Rightarrow> do {
                       c \<leftarrow> apiWrite E (CreateSecret \<lparr>sec_meta = m, sec_type = secretType,
                              sec_data = sec_data sourceSecret\<rparr>);
                       State_Monad.return (map_option (wrap (''failed to create '' @ what)) c)
                     })
       }
   })"

definition copyPullSecret :: "env \<Rightarrow> string \<Rightarrow> goerror option io" where
  "copyPullSecret E targetName = with_cr (\<lambda>cr.
     copySecret E (sp_pullSecretRef (cr_spec cr)) targetName pullSecretCopyType
       ''kubernetes.io/dockerconfigjson'' ''pull-secret'' ''pull-secret'')"

definition copySSHKey :: "env \<Rightarrow> string \<Rightarrow> goerror option io" where
  "copySSHKey E targetName = with_cr (\<lambda>cr.
     copySecret E (sp_sshKeySecretRef (cr_spec cr)) targetName sshKeyCopyType
       ''Opaque'' ''ssh-key'' ''SSH-key'')"

subsection \<open>Stale copies\<close>

definition staleCopy :: "DPFHCPProvisioner \<Rightarrow> string \<Rightarrow> string \<Rightarrow> Secret \<Rightarrow> bool" where
  "staleCopy cr currentPull currentSSH s \<longleftrightarrow>
     (let isPullCopy = mget (sec_labels s) credentialSecretCopyLabel = pullSecretCopyType
            \<or> sec_name s = cr_name cr @ ''-pull-secret'';
          isSSHCopy = mget (sec_labels s) credentialSecretCopyLabel = sshKeyCopyType
            \<or> sec_name s = cr_name cr @ ''-ssh-key''
      in (isPullCopy \<and> sec_name s \<noteq> currentPull) \<or> (isSSHCopy \<and> sec_name s \<noteq> currentSSH))"

fun deleteStale ::
    "env \<Rightarrow> DPFHCPProvisioner \<Rightarrow> string \<Rightarrow> string \<Rightarrow> Secret list \<Rightarrow> goerror option io" where
  "deleteStale E cr currentPull currentSSH [] = State_Monad.return None"
| "deleteStale E cr currentPull currentSSH (s # rest) =
     (if \<not> IsControlledBy (sec_meta s) (cr_meta cr) \<or> \<not> staleCopy cr currentPull currentSSH s
      then deleteStale E cr currentPull currentSSH rest
      else do {
        d \<leftarrow> apiWrite E (DeleteSecret s);
        case d of
          Some e \<Rightarrow>
            if \<not> IsNotFound e
            then State_Monad.return
              (Some (wrap (''failed to delete stale secret copy '' @ sec_name s) e))
            else deleteStale E cr currentPull currentSSH rest
        | None \<Rightarrow> deleteStale E cr currentPull currentSSH rest
      })"

definition cleanupStaleSecretCopies :: "env \<Rightarrow> string \<Rightarrow> string \<Rightarrow> goerror option io" where
  "cleanupStaleSecretCopies E currentPull currentSSH = with_cr (\<lambda>cr. do {
     r \<leftarrow> listSecrets E (Some (cr_namespace cr)) [];
     case r of
       Inl e \<Rightarrow> State_Monad.return
         (Some (wrap ''failed to list secrets for stale copy cleanup'' e))
     | Inr items \<Rightarrow> deleteStale E cr currentPull currentSSH items
   })"

definition CopySecrets :: "env \<Rightarrow> step_result io" where
  "CopySecrets E = with_cr (\<lambda>cr. do {
     r \<leftarrow> copyPullSecret E (PullSecretCopyName cr);
     case r of
       Some e \<Rightarrow> State_Monad.return (failed e)
     | None \<Rightarrow> do {
         r \<leftarrow> copySSHKey E (SSHKeyCopyName cr);
         case r of
           Some e \<Rightarrow> State_Monad.return (failed e)
         | None \<Rightarrow> do {
             r \<leftarrow> cleanupStaleSecretCopies E (PullSecretCopyName cr) (SSHKeyCopyName cr);
             State_Monad.return (done_or_failed r)
           }
       }
   })"

subsection \<open>The etcd encryption key\<close>

definition etcdKeyName :: "DPFHCPProvisioner \<Rightarrow> string" where
  "etcdKeyName cr = cr_name cr @ ''-etcd-encryption-key''"

definition GenerateETCDEncryptionKey :: "env \<Rightarrow> step_result io" where
  "GenerateETCDEncryptionKey E = with_cr (\<lambda>cr. do {
     r \<leftarrow> getSecret E (NN (cr_namespace cr) (etcdKeyName cr));
     case r of
       Inr existingSecret \<Rightarrow>
         if IsControlledBy (sec_meta existingSecret) (cr_meta cr) then State_Monad.return ok
         else State_Monad.return (failed (Errorf (''etcd encryption key '' @ etcdKeyName cr
                @ '' exists in '' @ cr_namespace cr
                @ '' but is owned by different DPFHCPProvisioner'')))
     | Inl e \<Rightarrow>
         if \<not> IsNotFound e
         then State_Monad.return (failed (wrap ''failed to check existing etcd encryption key'' e))
         else do {
           k \<leftarrow> randBytes E 32;
           case k of
             Inl e \<Rightarrow> State_Monad.return
               (failed (wrap ''failed to generate random encryption key'' e))
           | Inr keyBytes \<Rightarrow>
               (case SetControllerReference (cr_meta cr)
                       (newMeta (cr_namespace cr) (etcdKeyName cr)) of
                  Inl e \<Rightarrow> State_Monad.return (failed
                    (wrap ''failed to set owner reference on etcd encryption key'' e))
                | Inr m \<Rightarrow> do {
                    c \<leftarrow> apiWrite E (CreateSecret \<lparr>sec_meta = m, sec_type = ''Opaque'',
                           sec_data = [(''key'', keyBytes)]\<rparr>);
                    State_Monad.return (done_or_failed (map_option
                      (wrap ''failed to create etcd encryption key secret'') c))
                  })
         }
   })"

subsection \<open>Facts\<close>

lemma copy_names_not_legacy:
  "PullSecretCopyName cr \<noteq> cr_name cr @ ''-pull-secret''"
  "SSHKeyCopyName cr \<noteq> cr_name cr @ ''-ssh-key''"
proof -
  have "length (PullSecretCopyName cr) \<noteq> length (cr_name cr @ ''-pull-secret'')"
      "length (SSHKeyCopyName cr) \<noteq> length (cr_name cr @ ''-ssh-key'')"
    by (simp_all add: PullSecretCopyName_def SSHKeyCopyName_def)
  then show "PullSecretCopyName cr \<noteq> cr_name cr @ ''-pull-secret''"
      "SSHKeyCopyName cr \<noteq> cr_name cr @ ''-ssh-key''"
    by metis+
qed

lemma copy_names_distinct:
  "PullSecretCopyName cr \<noteq> SSHKeyCopyName cr"
  "PullSecretCopyName cr \<noteq> cr_name cr @ ''-ssh-key''"
  "SSHKeyCopyName cr \<noteq> cr_name cr @ ''-pull-secret''"
  by (simp_all add: PullSecretCopyName_def SSHKeyCopyName_def)

text \<open>What the secret manager may send, for a resource with metadata \<open>M\<close>.\<close>

fun secret_allowed :: "ObjectMeta \<Rightarrow> DPFHCPProvisionerSpec \<Rightarrow> call \<Rightarrow> bool" where
  "secret_allowed M S (CreateSecret x) =
     (IsControlledBy (sec_meta x) M \<and> om_namespace (sec_meta x) = om_namespace M)"
| "secret_allowed M S (UpdateSecret x) = IsControlledBy (sec_meta x) M"
| "secret_allowed M S (DeleteSecret x) =
     (IsControlledBy (sec_meta x) M
      \<and> (\<exists>cr. cr_meta cr = M \<and> cr_spec cr = S
           \<and> staleCopy cr (PullSecretCopyName cr) (SSHKeyCopyName cr) x))"
| "secret_allowed M S c = (\<not> is_write c)"

lemma SetControllerReference_namespace:
  "SetControllerReference owner obj = Inr m \<Longrightarrow> om_namespace m = om_namespace obj"
  by (auto simp: SetControllerReference_def split: if_splits option.splits)

lemma SetControllerReference_name:
  "SetControllerReference owner obj = Inr m \<Longrightarrow> om_name m = om_name obj"
  by (auto simp: SetControllerReference_def split: if_splits option.splits)

lemma SetControllerReference_new:
  assumes "SetControllerReference M ((newMeta ns n)\<lparr>om_labels := l\<rparr>) = Inr m"
  shows "IsControlledBy m M" and "om_namespace m = ns" and "om_name m = n"
  using SetControllerReference_controls [OF _ assms] SetControllerReference_namespace [OF assms]
    SetControllerReference_name [OF assms]
  by (simp_all add: newMeta_def)

lemma SetControllerReference_new':
  assumes "SetControllerReference M (newMeta ns n) = Inr m"
  shows "IsControlledBy m M" and "om_namespace m = ns" and "om_name m = n"
  using SetControllerReference_controls [OF _ assms] SetControllerReference_namespace [OF assms]
    SetControllerReference_name [OF assms]
  by (simp_all add: newMeta_def)

lemma setCredentialSecretCopyLabel_owner:
  "setCredentialSecretCopyLabel x t = (y, b) \<Longrightarrow> IsControlledBy (sec_meta y) M = IsControlledBy (sec_meta x) M"
  by (auto simp: setCredentialSecretCopyLabel_def IsControlledBy_def split: if_splits)

lemma footprint_copySecret:
  "footprint M S W (secret_allowed M S) (copySecret E src tgt ct ty w mk)"
  unfolding copySecret_def
  by (intro footprint_intros)
    (auto dest: setCredentialSecretCopyLabel_owner SetControllerReference_new)

lemma footprint_deleteStale:
  "cr_meta cr = M \<Longrightarrow> cr_spec cr = S \<Longrightarrow> footprint M S W (secret_allowed M S)
     (deleteStale E cr (PullSecretCopyName cr) (SSHKeyCopyName cr) xs)"
  by (induction xs) (auto intro!: footprint_intros)

lemma staleCopy_cong:
  assumes "cr_meta c = cr_meta d" and "cr_spec c = cr_spec d"
  shows "staleCopy c (PullSecretCopyName c) (SSHKeyCopyName c)
       = staleCopy d (PullSecretCopyName d) (SSHKeyCopyName d)"
  by (rule ext) (simp add: staleCopy_def PullSecretCopyName_def SSHKeyCopyName_def assms)

lemma footprint_cleanupStale:
  assumes "cr_meta cr = M" and "cr_spec cr = S"
  shows "footprint M S W (secret_allowed M S)
     (cleanupStaleSecretCopies E (PullSecretCopyName cr) (SSHKeyCopyName cr))"
proof -
  have names: "PullSecretCopyName c = PullSecretCopyName cr" "SSHKeyCopyName c = SSHKeyCopyName cr"
    if "cr_meta c = M" "cr_spec c = S" for c
    using that assms by (simp_all add: PullSecretCopyName_def SSHKeyCopyName_def)
  show ?thesis
    unfolding cleanupStaleSecretCopies_def
    by (intro footprint_intros) (use footprint_deleteStale in \<open>auto simp flip: names\<close>)
qed

interpretation copy_step: reconcile_step CopySecrets "{}" secret_allowed
  by unfold_locales
    (unfold CopySecrets_def copyPullSecret_def copySSHKey_def,
     intro footprint_intros footprint_copySecret footprint_cleanupStale; simp)

interpretation etcd_step: reconcile_step GenerateETCDEncryptionKey "{}" secret_allowed
  by unfold_locales
    (unfold GenerateETCDEncryptionKey_def, intro footprint_intros;
     auto dest: SetControllerReference_new')

subsection \<open>Rotation of credentials\<close>

text \<open>A copy named \<open>n\<close> of the source is there: just created from it, or found and ours.\<close>

definition copy_present :: "env \<Rightarrow> DPFHCPProvisioner \<Rightarrow> history \<Rightarrow> string \<Rightarrow> string \<Rightarrow> bool" where
  "copy_present E cr h source n \<longleftrightarrow>
     (\<exists>x. answered (\<lambda>h. a_getSecret (mgmt E) h (NN (cr_namespace cr) n))
            (GetSecret (NN (cr_namespace cr) n)) h (Inr x)
          \<and> IsControlledBy (sec_meta x) (cr_meta cr))
     \<or> (\<exists>x y. CreateSecret x \<in> set h \<and> sec_name x = n
          \<and> answered (\<lambda>h. a_getSecret (mgmt E) h (NN (cr_namespace cr) source))
               (GetSecret (NN (cr_namespace cr) source)) h (Inr y)
          \<and> sec_data x = sec_data y)"

lemma copy_present_later: "copy_present E cr h src n \<Longrightarrow> copy_present E cr (later @ h) src n"
  unfolding copy_present_def by (metis Un_iff answered_later set_append)

lemma wp_copySecret:
  assumes "\<And>e s'. Q (Some e) s'"
    and "\<And>s' later. st_cr s' = st_cr s \<Longrightarrow> st_history s' = later @ st_history s \<Longrightarrow>
      copy_present E (st_cr s) (st_history s') src tgt \<Longrightarrow> Q None s'"
  shows "wp (copySecret E src tgt ct ty w mk) Q s"
proof -
  let ?ns = "cr_namespace (st_cr s)"
  let ?h1 = "GetSecret (NN ?ns src) # st_history s"
  let ?h2 = "GetSecret (NN ?ns tgt) # ?h1"
  have found: "copy_present E (st_cr s) (later @ ?h2) src tgt"
    if "a_getSecret (mgmt E) ?h1 (NN ?ns tgt) = Inr x"
      and "IsControlledBy (sec_meta x) (cr_meta (st_cr s))" for x later
    using that unfolding copy_present_def
    by (intro disjI1 exI [of _ x] conjI answered_later answered_Cons)
  have made: "copy_present E (st_cr s) (CreateSecret \<lparr>sec_meta = m, sec_type = ty,
      sec_data = sec_data y\<rparr> # ?h2) src tgt"
    if "a_getSecret (mgmt E) (st_history s) (NN ?ns src) = Inr y"
      and "SetControllerReference (cr_meta (st_cr s)) ((newMeta ?ns tgt)\<lparr>om_labels := l\<rparr>) = Inr m"
    for m y l
    using that SetControllerReference_name [OF that(2)] unfolding copy_present_def
    by (intro disjI2 exI [of _ "\<lparr>sec_meta = m, sec_type = ty, sec_data = sec_data y\<rparr>"]
        exI [of _ y] conjI answered_later1 answered_Cons) (auto simp: newMeta_def)
  show ?thesis
  proof (cases "a_getSecret (mgmt E) (st_history s) (NN ?ns src)")
    case (Inl e)
    then show ?thesis by (simp add: copySecret_def wp_simps assms(1))
  next
    case src: (Inr y)
    show ?thesis
    proof (cases "a_getSecret (mgmt E) ?h1 (NN ?ns tgt)")
      case (Inl e)
      then show ?thesis
        using src by (auto simp: copySecret_def wp_simps assms(1) map_option_case
            intro!: assms(2) made split: sum.splits option.splits)
    next
      case (Inr x)
      then show ?thesis
        using src found [OF Inr, of "[]"] found [OF Inr, of "[_]"]
        by (auto simp: copySecret_def wp_simps assms(1) map_option_case intro!: assms(2)
            split: option.splits prod.splits)
    qed
  qed
qed

lemma wp_deleteStale:
  assumes "\<And>e s'. Q (Some e) s'"
    and "\<And>s' later. st_cr s' = st_cr s \<Longrightarrow> st_history s' = later @ st_history s \<Longrightarrow>
      (\<And>x. x \<in> set items \<Longrightarrow> IsControlledBy (sec_meta x) (cr_meta cr) \<Longrightarrow> staleCopy cr p k x \<Longrightarrow>
        DeleteSecret x \<in> set (st_history s')) \<Longrightarrow> Q None s'"
  shows "wp (deleteStale E cr p k items) Q s"
  using assms(2)
proof (induction items arbitrary: s)
  case Nil
  then show ?case by (simp add: wp_simps)
next
  case (Cons x items)
  show ?case
  proof (cases "IsControlledBy (sec_meta x) (cr_meta cr) \<and> staleCopy cr p k x")
    case False
    then show ?thesis
      by (auto simp: wp_simps intro!: Cons.IH Cons.prems)
  next
    case True
    then show ?thesis
      by (auto simp: wp_simps assms(1) split: option.splits intro!: Cons.IH Cons.prems)
  qed
qed

lemma current_copies_not_stale:
  "sec_name x = PullSecretCopyName cr \<Longrightarrow>
   mget (sec_labels x) credentialSecretCopyLabel = pullSecretCopyType \<Longrightarrow>
   \<not> staleCopy cr (PullSecretCopyName cr) (SSHKeyCopyName cr) x"
  "sec_name x = SSHKeyCopyName cr \<Longrightarrow>
   mget (sec_labels x) credentialSecretCopyLabel = sshKeyCopyType \<Longrightarrow>
   \<not> staleCopy cr (PullSecretCopyName cr) (SSHKeyCopyName cr) x"
  using copy_names_distinct [of cr]
  by (auto simp: staleCopy_def pullSecretCopyType_def sshKeyCopyType_def)

text \<open>Every stale copy in the listing of this run has been sent for deletion.\<close>

definition stale_removed :: "env \<Rightarrow> DPFHCPProvisioner \<Rightarrow> history \<Rightarrow> bool" where
  "stale_removed E cr h \<longleftrightarrow>
     (\<exists>items. answered (\<lambda>h. a_listSecrets (mgmt E) h (Some (cr_namespace cr)) [])
         (ListSecrets (Some (cr_namespace cr)) []) h (Inr items)
       \<and> (\<forall>x \<in> set items. IsControlledBy (sec_meta x) (cr_meta cr)
            \<and> staleCopy cr (PullSecretCopyName cr) (SSHKeyCopyName cr) x \<longrightarrow> DeleteSecret x \<in> set h))"

lemma wp_cleanupStale:
  assumes "\<And>e s'. Q (Some e) s'"
    and "\<And>s' later. st_cr s' = st_cr s \<Longrightarrow> st_history s' = later @ st_history s \<Longrightarrow>
      stale_removed E (st_cr s) (st_history s') \<Longrightarrow> Q None s'"
  shows "wp (cleanupStaleSecretCopies E (PullSecretCopyName (st_cr s)) (SSHKeyCopyName (st_cr s))) Q s"
proof (cases "a_listSecrets (mgmt E) (st_history s) (Some (cr_namespace (st_cr s))) []")
  case (Inl e)
  then show ?thesis by (simp add: cleanupStaleSecretCopies_def wp_simps assms(1))
next
  case (Inr items)
  let ?c = "ListSecrets (Some (cr_namespace (st_cr s))) []"
  have "wp (deleteStale E (st_cr s) (PullSecretCopyName (st_cr s)) (SSHKeyCopyName (st_cr s)) items)
      Q (s\<lparr>st_history := ?c # st_history s\<rparr>)"
  proof (rule wp_deleteStale)
    fix s' :: st and later
    assume s': "st_cr s' = st_cr (s\<lparr>st_history := ?c # st_history s\<rparr>)"
        "st_history s' = later @ st_history (s\<lparr>st_history := ?c # st_history s\<rparr>)"
      and del: "\<And>x. x \<in> set items \<Longrightarrow> IsControlledBy (sec_meta x) (cr_meta (st_cr s)) \<Longrightarrow>
        staleCopy (st_cr s) (PullSecretCopyName (st_cr s)) (SSHKeyCopyName (st_cr s)) x \<Longrightarrow>
        DeleteSecret x \<in> set (st_history s')"
    from Inr have "stale_removed E (st_cr s) (st_history s')"
      unfolding stale_removed_def using s' del
      by (intro exI [of _ items] conjI) (auto intro: answered_append)
    then show "Q None s'"
      using s' by (intro assms(2) [of _ "later @ [?c]"]) simp_all
  qed (rule assms(1))
  then show ?thesis
    by (simp add: cleanupStaleSecretCopies_def wp_simps Inr)
qed

lemma wp_CopySecrets:
  "wp (CopySecrets E) (\<lambda>r s'. \<not> stops r \<longrightarrow>
     copy_present E (st_cr s) (st_history s') (sp_pullSecretRef (cr_spec (st_cr s)))
        (PullSecretCopyName (st_cr s))
     \<and> copy_present E (st_cr s) (st_history s') (sp_sshKeySecretRef (cr_spec (st_cr s)))
        (SSHKeyCopyName (st_cr s))
     \<and> stale_removed E (st_cr s) (st_history s')) s"
proof -
  have step: "wp (cleanupStaleSecretCopies E (PullSecretCopyName (st_cr s)) (SSHKeyCopyName (st_cr s))) Q t"
    if "st_cr t = st_cr s" "\<And>e s'. Q (Some e) s'"
      "\<And>s' later. st_history s' = later @ st_history t \<Longrightarrow>
        stale_removed E (st_cr s) (st_history s') \<Longrightarrow> Q None s'" for t Q
    using wp_cleanupStale [of Q t E] that by metis
  show ?thesis
    unfolding CopySecrets_def copyPullSecret_def copySSHKey_def
    by (auto simp: wp_simps intro!: wp_copySecret step) (metis copy_present_later append.assoc)+
qed


text \<open>Sources exist, no copies yet.\<close>

definition credentialsEnv :: env where
  "credentialsEnv = emptyEnv\<lparr>mgmt := emptyMgmt\<lparr>a_getSecret := (\<lambda>_ k.
     if nn_name k = ''pull'' \<or> nn_name k = ''ssh''
     then Inr \<lparr>sec_meta = newMeta (nn_namespace k) (nn_name k), sec_type = [], sec_data = [(''k'', ''v'')]\<rparr>
     else Inl notFoundErr)\<rparr>\<rparr>"

lemma credential_copy_names:
  "length n = 3 \<or> length n = 4 \<Longrightarrow> PullSecretCopyName cr \<noteq> n \<and> SSHKeyCopyName cr \<noteq> n"
  by (auto simp: PullSecretCopyName_def SSHKeyCopyName_def)


end
