(* ===== verification/Hosted_Cluster.thy ===== *)
theory Hosted_Cluster
  imports Hosted_Secrets "HOL-Library.Char_ord" "HOL-Library.List_Lexorder"
begin

section \<open>HostedCluster and NodePool\<close>

text \<open>
  \<^verbatim>\<open>internal/controller/hostedcluster\<close>: the service publishing strategy, the HostedCluster and NodePool
  built from the resource, their creation and the update of rotated secret references, the mirroring
  of the HostedCluster's conditions, and the infrastructure identifier from the vendored \<^verbatim>\<open>infraid\<close>
  package.
\<close>

subsection \<open>Service publishing\<close>

definition BuildServicePublishingStrategy ::
    "bool \<Rightarrow> string \<Rightarrow> ServicePublishingStrategyMapping list" where
  "BuildServicePublishingStrategy exposeThroughLoadBalancer nodeAddress =
     (if exposeThroughLoadBalancer
      then [(''APIServer'', LoadBalancer), (''OAuthServer'', Route), (''Konnectivity'', Route),
            (''Ignition'', Route)]
      else sort_key fst (map (\<lambda>service. (service, NodePort nodeAddress))
             [''APIServer'', ''OAuthServer'', ''OIDC'', ''Konnectivity'', ''Ignition'']))"

subsection \<open>The infrastructure identifier\<close>

definition alnum_or_dash :: "char \<Rightarrow> bool" where
  "alnum_or_dash c \<longleftrightarrow>
     (let n = of_char c :: nat in
      65 \<le> n \<and> n \<le> 90 \<or> 97 \<le> n \<and> n \<le> 122 \<or> 48 \<le> n \<and> n \<le> 57 \<or> n = 45)"

fun collapseDashes :: "string \<Rightarrow> string" where
  "collapseDashes (a # b # s) =
     (if a = CHR ''-'' \<and> b = CHR ''-'' then collapseDashes (b # s) else a # collapseDashes (b # s))"
| "collapseDashes s = s"

definition TrimRightDashes :: "string \<Rightarrow> string" where
  "TrimRightDashes s = rev (dropWhile (\<lambda>c. c = CHR ''-'') (rev s))"

definition infraBase :: "string \<Rightarrow> string" where
  "infraBase clusterName =
     TrimRightDashes (take 21
       (collapseDashes (map (\<lambda>c. if alnum_or_dash c then c else CHR ''-'') clusterName)))"

definition infraID :: "env \<Rightarrow> string \<Rightarrow> string io" where
  "infraID E clusterName = do {
     suffix \<leftarrow> randString E 5;
     State_Monad.return (infraBase clusterName @ ''-'' @ suffix)
   }"

subsection \<open>Building the objects\<close>

definition buildNetworking :: "DPFHCPProvisioner \<Rightarrow> ClusterNetworking" where
  "buildNetworking cr =
     (let user = (\<lambda>f dflt. case sp_networking (cr_spec cr) of
                    None \<Rightarrow> dflt
                  | Some n \<Rightarrow> if f n = [] then dflt else f n)
      in \<lparr>net_type = ''Other'',
          net_service = user cn_serviceNetwork [''172.31.0.0/16''],
          net_cluster = user cn_clusterNetwork [''10.132.0.0/14''],
          net_machine = user cn_machineNetwork [],
          net_allocateNodeCIDRs =
            (if sp_flannelEnabled (cr_spec cr) = None \<or> sp_flannelEnabled (cr_spec cr) = Some True
             then Some ''Enabled'' else None)\<rparr>)"

definition getNodeSelector :: "DPFHCPProvisioner \<Rightarrow> string gomap" where
  "getNodeSelector cr =
     (if sp_nodeSelector (cr_spec cr) \<noteq> [] then sp_nodeSelector (cr_spec cr)
      else [(''node-role.kubernetes.io/control-plane'', [])])"

text \<open>\<^verbatim>\<open>detectNodeAddress\<close> looks for the address types in order on the first node.\<close>

fun firstAddress :: "string list \<Rightarrow> (string \<times> string) list \<Rightarrow> string option" where
  "firstAddress [] addrs = None"
| "firstAddress (t # ts) addrs =
     (case List.find (\<lambda>a. fst a = t) addrs of
        Some a \<Rightarrow> Some (snd a)
      | None \<Rightarrow> firstAddress ts addrs)"

definition detectNodeAddress :: "env \<Rightarrow> (goerror + string) io" where
  "detectNodeAddress E = do {
     r \<leftarrow> listNodes E;
     State_Monad.return (case r of
       Inl e \<Rightarrow> Inl (wrap ''failed to list nodes'' e)
     | Inr [] \<Rightarrow> Inl (Errorf ''no nodes found in cluster'')
     | Inr (node # _) \<Rightarrow>
         (case firstAddress [''ExternalDNS'', ''ExternalIP'', ''InternalIP''] (n_addresses node) of
            Some a \<Rightarrow> Inr a
          | None \<Rightarrow> Inl (Errorf (''no valid address found on node '' @ n_name node))))
   }"

text \<open>The struct literal of \<^verbatim>\<open>buildHostedCluster\<close>, for a given infrastructure identifier.\<close>

definition hostedClusterOf :: "DPFHCPProvisioner \<Rightarrow> string \<Rightarrow> string \<Rightarrow> HostedCluster" where
  "hostedClusterOf cr nodeAddress iid = \<lparr>
     hc_meta = newMeta (cr_namespace cr) (cr_name cr),
     hc_spec = \<lparr>
       hcs_releaseImage = sp_ocpReleaseImage (cr_spec cr),
       hcs_pullSecret = PullSecretCopyName cr,
       hcs_sshKey = SSHKeyCopyName cr,
       hcs_baseDomain = sp_baseDomain (cr_spec cr),
       hcs_etcdStorageClass =
         (if sp_etcdStorageClass (cr_spec cr) \<noteq> [] then Some (sp_etcdStorageClass (cr_spec cr))
          else None),
       hcs_etcdSize = ''8Gi'',
       hcs_networking = buildNetworking cr,
       hcs_platform = ''None'',
       hcs_availability = sp_controlPlaneAvailabilityPolicy (cr_spec cr),
       hcs_infraID = iid,
       hcs_activeKey = etcdKeyName cr,
       hcs_services =
         BuildServicePublishingStrategy (ShouldExposeThroughLoadBalancer cr) nodeAddress,
       hcs_disabledCapabilities = [''ImageRegistry'', ''Insights'', ''Console'',
         ''openshift-samples'', ''Ingress'', ''NodeTuning''],
       hcs_nodeSelector = getNodeSelector cr\<rparr>,
     hc_status = emptyHostedClusterStatus\<rparr>"

definition buildHostedCluster :: "env \<Rightarrow> DPFHCPProvisioner \<Rightarrow> string \<Rightarrow> HostedCluster io" where
  "buildHostedCluster E cr nodeAddress = do {
     iid \<leftarrow> infraID E (cr_name cr);
     State_Monad.return (hostedClusterOf cr nodeAddress iid)
   }"

subsection \<open>HostedCluster\<close>

text \<open>The creation branch: \<open>nodeAddress\<close> is empty in load-balancer mode.\<close>

definition createHostedCluster :: "env \<Rightarrow> DPFHCPProvisioner \<Rightarrow> string \<Rightarrow> step_result io" where
  "createHostedCluster E cr nodeAddress = do {
     hc \<leftarrow> buildHostedCluster E cr nodeAddress;
     case SetControllerReference (cr_meta cr) (hc_meta hc) of
       Inl e \<Rightarrow> State_Monad.return
         (failed (wrap ''failed to set owner reference on HostedCluster'' e))
     | Inr m \<Rightarrow> do {
         c \<leftarrow> apiWrite E (CreateHC (hc\<lparr>hc_meta := m\<rparr>));
         State_Monad.return (done_or_failed (map_option
           (wrap ''failed to create HostedCluster'') c))
       }
   }"

definition CreateOrUpdateHostedCluster :: "env \<Rightarrow> step_result io" where
  "CreateOrUpdateHostedCluster E = with_cr (\<lambda>cr. do {
     r \<leftarrow> getHC E (cr_key cr);
     case r of
       Inr existingHC \<Rightarrow>
         if IsControlledBy (hc_meta existingHC) (cr_meta cr) then
           if hcs_pullSecret (hc_spec existingHC) \<noteq> PullSecretCopyName cr
              \<or> hcs_sshKey (hc_spec existingHC) \<noteq> SSHKeyCopyName cr
           then do {
             u \<leftarrow> apiWrite E (UpdateHC (existingHC\<lparr>hc_spec := (hc_spec existingHC)
                    \<lparr>hcs_pullSecret := PullSecretCopyName cr, hcs_sshKey := SSHKeyCopyName cr\<rparr>\<rparr>));
             State_Monad.return (case u of
               Some e \<Rightarrow> failed (wrap ''failed to update HostedCluster'' e)
             | None \<Rightarrow> (After 5, None))
           }
           else State_Monad.return ok
         else State_Monad.return (failed (Errorf (''hostedCluster '' @ cr_name cr @ '' exists in ''
                @ cr_namespace cr @ '' but is owned by different DPFHCPProvisioner'')))
     | Inl e \<Rightarrow>
         if \<not> IsNotFound e
         then State_Monad.return (failed (wrap ''failed to check existing HostedCluster'' e))
         else if \<not> ShouldExposeThroughLoadBalancer cr then do {
           a \<leftarrow> detectNodeAddress E;
           case a of
             Inl e \<Rightarrow> State_Monad.return (failed (wrap ''failed to detect node address'' e))
           | Inr addr \<Rightarrow> createHostedCluster E cr addr
         }
         else createHostedCluster E cr []
   })"

subsection \<open>NodePool\<close>

definition buildNodePool :: "DPFHCPProvisioner \<Rightarrow> NodePool" where
  "buildNodePool cr = \<lparr>
     np_meta = newMeta (cr_namespace cr) (cr_name cr),
     np_clusterName = cr_name cr, np_replicas = 0, np_upgradeType = ''Replace'',
     np_platform = ''None'', np_releaseImage = sp_ocpReleaseImage (cr_spec cr)\<rparr>"

definition CreateNodePool :: "env \<Rightarrow> step_result io" where
  "CreateNodePool E = with_cr (\<lambda>cr. do {
     r \<leftarrow> getNP E (cr_key cr);
     case r of
       Inr existingNP \<Rightarrow>
         if IsControlledBy (np_meta existingNP) (cr_meta cr) then State_Monad.return ok
         else State_Monad.return (failed (Errorf (''nodePool '' @ cr_name cr @ '' exists in ''
                @ cr_namespace cr @ '' but is owned by different DPFHCPProvisioner'')))
     | Inl e \<Rightarrow>
         if \<not> IsNotFound e
         then State_Monad.return (failed (wrap ''failed to check existing NodePool'' e))
         else (case SetControllerReference (cr_meta cr) (np_meta (buildNodePool cr)) of
                 Inl e \<Rightarrow> State_Monad.return
                   (failed (wrap ''failed to set owner reference on NodePool'' e))
               | Inr m \<Rightarrow> do {
                   c \<leftarrow> apiWrite E (CreateNP ((buildNodePool cr)\<lparr>np_meta := m\<rparr>));
                   State_Monad.return (done_or_failed (map_option
                     (wrap ''failed to create NodePool'') c))
                 })
   })"

subsection \<open>Mirrored conditions\<close>

definition conditionMappings :: "(string \<times> string) list" where
  "conditionMappings = [
     (''Available'', HostedClusterAvailable),
     (''Progressing'', HostedClusterProgressing),
     (''Degraded'', HostedClusterDegraded),
     (''ValidReleaseInfo'', ValidReleaseInfo),
     (''ValidReleaseImage'', ValidReleaseImage),
     (''IgnitionEndpointAvailable'', IgnitionEndpointAvailable),
     (''IgnitionServerValidReleaseInfo'', IgnitionServerValidReleaseInfo)]"

text \<open>
  The loop over the map, for a given order of its entries: Go leaves the order open, and
  \<open>mirror_order_irrelevant\<close> below shows that it does not matter.
\<close>

definition mirrorOne ::
    "HostedCluster \<Rightarrow> string \<times> string \<Rightarrow> DPFHCPProvisioner \<Rightarrow> DPFHCPProvisioner" where
  "mirrorOne hc m cr =
     (case FindStatusCondition (hct_conditions (hc_status hc)) (fst m) of
        None \<Rightarrow> cr
      | Some c \<Rightarrow> putCond (mkCond (snd m) (c_status c) (c_reason c) (c_message c) (cr_generation cr)) cr)"

definition mirrorConditions ::
    "(string \<times> string) list \<Rightarrow> HostedCluster \<Rightarrow> DPFHCPProvisioner \<Rightarrow> DPFHCPProvisioner" where
  "mirrorConditions mappings hc cr = fold (mirrorOne hc) mappings cr"

definition SyncStatusFromHostedCluster :: "env \<Rightarrow> step_result io" where
  "SyncStatusFromHostedCluster E = with_cr (\<lambda>cr.
     case cr_hostedClusterRef cr of
       None \<Rightarrow> State_Monad.return ok
     | Some ref \<Rightarrow> do {
         r \<leftarrow> getHC E (NN (oref_namespace ref) (oref_name ref));
         case r of
           Inl e \<Rightarrow>
             if IsNotFound e then State_Monad.return ok
             else if IsNoMatchError e then State_Monad.return ok
             else State_Monad.return (failed e)
         | Inr hc \<Rightarrow>
             if hct_conditions (hc_status hc) = [] then State_Monad.return ok
             else do {
               _ \<leftarrow> modify_cr (mirrorConditions conditionMappings hc);
               State_Monad.return ok
             }
       })"

subsection \<open>Contracts\<close>

text \<open>
  The HostedCluster and the NodePool that belong to a resource, and what the two managers may send.
\<close>

fun hc_allowed :: "ObjectMeta \<Rightarrow> DPFHCPProvisionerSpec \<Rightarrow> call \<Rightarrow> bool" where
  "hc_allowed M S (CreateHC h) =
     (IsControlledBy (hc_meta h) M \<and> om_namespace (hc_meta h) = om_namespace M
      \<and> om_name (hc_meta h) = om_name M \<and> hcs_releaseImage (hc_spec h) = sp_ocpReleaseImage S)"
| "hc_allowed M S (UpdateHC h) = IsControlledBy (hc_meta h) M"
| "hc_allowed M S (CreateNP n) =
     (IsControlledBy (np_meta n) M \<and> om_namespace (np_meta n) = om_namespace M
      \<and> om_name (np_meta n) = om_name M \<and> np_releaseImage n = sp_ocpReleaseImage S)"
| "hc_allowed M S c = (\<not> is_write c)"

lemma hostedClusterOf_simps [simp]:
  "hc_meta (hostedClusterOf cr a i) = newMeta (cr_namespace cr) (cr_name cr)"
  "hcs_releaseImage (hc_spec (hostedClusterOf cr a i)) = sp_ocpReleaseImage (cr_spec cr)"
  "hcs_pullSecret (hc_spec (hostedClusterOf cr a i)) = PullSecretCopyName cr"
  "hcs_sshKey (hc_spec (hostedClusterOf cr a i)) = SSHKeyCopyName cr"
  by (simp_all add: hostedClusterOf_def)

lemma wp_createHostedCluster:
  assumes "\<And>e s'. Q (failed e) s'"
    and "\<And>r s' m i later. r = ok \<Longrightarrow> IsControlledBy m (cr_meta cr) \<Longrightarrow> om_name m = cr_name cr \<Longrightarrow>
      om_namespace m = cr_namespace cr \<Longrightarrow> st_cr s' = st_cr s \<Longrightarrow>
      st_history s' = CreateHC ((hostedClusterOf cr addr i)\<lparr>hc_meta := m\<rparr>) # later @ st_history s \<Longrightarrow>
      Q r s'"
  shows "wp (createHostedCluster E cr addr) Q s"
  unfolding createHostedCluster_def buildHostedCluster_def infraID_def
  by (auto simp: wp_simps done_or_failed_def intro!: assms split: sum.splits option.splits
      dest: SetControllerReference_new')

lemma footprint_createHostedCluster:
  assumes "cr_meta cr = M" and "cr_spec cr = S"
  shows "footprint M S W (hc_allowed M S) (createHostedCluster E cr addr)"
  unfolding footprint_def createHostedCluster_def buildHostedCluster_def infraID_def
  using assms
  by (auto simp: wp_simps issued_def split: sum.splits dest: SetControllerReference_new')

interpretation hc_step: reconcile_step CreateOrUpdateHostedCluster "{}" hc_allowed
  by unfold_locales
    (unfold CreateOrUpdateHostedCluster_def detectNodeAddress_def,
     intro footprint_intros footprint_createHostedCluster; simp)

interpretation np_step: reconcile_step CreateNodePool "{}" hc_allowed
  by unfold_locales
    (unfold CreateNodePool_def buildNodePool_def, intro footprint_intros;
     auto dest: SetControllerReference_new')

abbreviation mirroredSlots :: "slot set" where
  "mirroredSlots \<equiv> {CondSlot HostedClusterAvailable, CondSlot HostedClusterProgressing,
     CondSlot HostedClusterDegraded, CondSlot ValidReleaseInfo, CondSlot ValidReleaseImage,
     CondSlot IgnitionEndpointAvailable, CondSlot IgnitionServerValidReleaseInfo}"

lemma agree_outside_mirror:
  "(\<And>t. t \<in> snd ` set ms \<Longrightarrow> CondSlot t \<in> W) \<Longrightarrow> agree_outside W c (mirrorConditions ms hc c)"
  unfolding mirrorConditions_def
proof (induction ms arbitrary: c)
  case (Cons m ms)
  have "agree_outside W c (mirrorOne hc m c)"
    using Cons.prems [of "snd m"]
    by (auto simp: mirrorOne_def agree_outside_def findCond_putCond split: option.splits)
  moreover have "agree_outside W (mirrorOne hc m c) (fold (mirrorOne hc) ms (mirrorOne hc m c))"
    by (rule Cons.IH) (use Cons.prems in auto)
  ultimately show ?case by (auto intro: agree_outside_trans)
qed simp

interpretation sync_step:
    reconcile_step SyncStatusFromHostedCluster mirroredSlots "\<lambda>M S c. \<not> is_write c"
  by unfold_locales
    (unfold SyncStatusFromHostedCluster_def,
     intro footprint_intros footprint_modify_cr agree_outside_mirror; auto simp: conditionMappings_def)

subsection \<open>Behaviour\<close>



text \<open>The conditions after mirroring, by type; \<open>ms\<close> is the order in which the map is visited.\<close>

definition mirrored :: "(string \<times> string) list \<Rightarrow> HostedCluster \<Rightarrow> DPFHCPProvisioner \<Rightarrow> string \<Rightarrow> Condition option" where
  "mirrored ms hc cr t =
     (case List.find (\<lambda>m. snd m = t) ms of
        None \<Rightarrow> findCond cr t
      | Some m \<Rightarrow>
          (case FindStatusCondition (hct_conditions (hc_status hc)) (fst m) of
             None \<Rightarrow> findCond cr t
           | Some c \<Rightarrow> Some (mkCond t (c_status c) (c_reason c) (c_message c) (cr_generation cr))))"

lemma mirrorOne_meta [simp]: "cr_meta (mirrorOne hc m cr) = cr_meta cr"
  by (simp add: mirrorOne_def split: option.splits)

lemma findCond_mirror:
  "distinct (map snd ms) \<Longrightarrow> findCond (mirrorConditions ms hc cr) t = mirrored ms hc cr t"
proof (induction ms arbitrary: cr)
  case Nil
  then show ?case by (simp add: mirrorConditions_def mirrored_def)
next
  case (Cons m ms)
  have "List.find (\<lambda>x. snd x = snd m) ms = None"
    using Cons.prems by (simp add: find_None_iff) (metis imageI snd_conv)
  then show ?case
    using Cons by (auto simp: mirrorConditions_def mirrored_def mirrorOne_def findCond_putCond
        split: option.splits)
qed

lemma find_perm:
  fixes ms :: "(string \<times> string) list"
  assumes "distinct (map snd ms)" and "set ms' = set ms" and "distinct (map snd ms')"
  shows "List.find (\<lambda>m. snd m = t) ms' = List.find (\<lambda>m. snd m = t) ms"
proof -
  have "List.find (\<lambda>m. snd m = t) xs = Some m \<longleftrightarrow> m \<in> set xs \<and> snd m = t"
    if "distinct (map snd xs)" for xs and m :: "string \<times> string"
    using that by (induction xs) (auto simp: image_iff)
  then show ?thesis
    using assms by (metis not_None_eq)
qed

text \<open>
  C32: Go visits the map of mirrored conditions in an arbitrary order. Whatever the order,
  mirroring leaves the same conditions: each of the seven types that the HostedCluster reports
  gets the status, reason and message reported there, and every other condition of the resource
  stays as it was.
\<close>

theorem mirror_order_irrelevant:
  assumes "set ms = set conditionMappings" and "distinct ms"
  shows "findCond (mirrorConditions ms hc cr) t = mirrored conditionMappings hc cr t"
proof -
  have d: "distinct (map snd conditionMappings)"
    by (simp add: conditionMappings_def)
  then have "inj_on snd (set ms)"
    using assms(1) by (simp add: distinct_map)
  then have "distinct (map snd ms)"
    using assms(2) by (simp add: distinct_map)
  then show ?thesis
    using find_perm [OF d assms(1)] by (simp add: findCond_mirror mirrored_def)
qed

definition availableHC :: HostedCluster where
  "availableHC = (hostedClusterOf sampleCR [] [])\<lparr>hc_status := emptyHostedClusterStatus\<lparr>hct_conditions :=
     [mkCond ''Available'' ConditionTrue ''AsExpected'' ''ok'' 7]\<rparr>\<rparr>"

theorem mirror_order_irrelevant_witness:
  "findCond (mirrorConditions (rev conditionMappings) availableHC sampleCR) HostedClusterAvailable
     = Some (mkCond HostedClusterAvailable ConditionTrue ''AsExpected'' ''ok'' 1)"
proof -
  have "distinct (rev conditionMappings)"
    by (simp add: conditionMappings_def)
  then have "findCond (mirrorConditions (rev conditionMappings) availableHC sampleCR) HostedClusterAvailable
      = mirrored conditionMappings availableHC sampleCR HostedClusterAvailable"
    by (intro mirror_order_irrelevant) simp_all
  also have "\<dots> = Some (mkCond HostedClusterAvailable ConditionTrue ''AsExpected'' ''ok'' 1)"
    by (simp add: mirrored_def conditionMappings_def availableHC_def sample_defs)
  finally show ?thesis .
qed

text \<open>
  The published services. Behind a load balancer only the API server gets a LoadBalancer and
  the other three services a Route; otherwise all five services are published as NodePort on the
  detected address. Each service is published once, and in NodePort mode in the order of the
  service names.
\<close>

lemma BuildServicePublishingStrategy_spec:
  "distinct (map fst (BuildServicePublishingStrategy lb addr))
   \<and> set (BuildServicePublishingStrategy True addr)
       = {(''APIServer'', LoadBalancer), (''OAuthServer'', Route), (''Konnectivity'', Route),
          (''Ignition'', Route)}
   \<and> set (BuildServicePublishingStrategy False addr)
       = (\<lambda>svc. (svc, NodePort addr))
           ` {''APIServer'', ''OAuthServer'', ''OIDC'', ''Konnectivity'', ''Ignition''}
   \<and> sorted (map fst (BuildServicePublishingStrategy False addr))"
  by (cases lb) (auto simp: BuildServicePublishingStrategy_def distinct_map inj_on_def)

lemma set_collapseDashes: "set (collapseDashes s) \<subseteq> set s"
  by (induction s rule: collapseDashes.induct) auto

lemma TrimRightDashes_last: "TrimRightDashes s = [] \<or> last (TrimRightDashes s) \<noteq> CHR ''-''"
  by (metis (mono_tags, lifting) TrimRightDashes_def hd_dropWhile last_rev rev_is_Nil_conv)

lemma length_TrimRightDashes: "length (TrimRightDashes s) \<le> length s"
  by (metis TrimRightDashes_def length_dropWhile_le length_rev)

lemma set_TrimRightDashes: "set (TrimRightDashes s) \<subseteq> set s"
  by (auto simp: TrimRightDashes_def dest: set_dropWhileD)

text \<open>
  The infrastructure identifier. Whatever the name of the cluster, its base has at most 21
  characters, letters, digits and dashes only, and does not end in a dash, so with the five random
  characters the identifier stays within the 27 characters that HyperShift allows.
\<close>

lemma infraBase_bounds:
  "length (infraBase n) \<le> 21 \<and> list_all alnum_or_dash (infraBase n)
   \<and> \<not> HasSuffix (infraBase n) ''-''"
proof -
  let ?m = "map (\<lambda>c. if alnum_or_dash c then c else CHR ''-'') n"
  have dash: "alnum_or_dash (CHR ''-'')" by (simp add: alnum_or_dash_def)
  have "length (infraBase n) \<le> 21"
    unfolding infraBase_def by (rule order_trans [OF length_TrimRightDashes]) simp
  moreover have "set (infraBase n) \<subseteq> set ?m"
    unfolding infraBase_def
    using set_TrimRightDashes set_collapseDashes set_take_subset by (meson subset_trans)
  then have "list_all alnum_or_dash (infraBase n)"
    using dash by (auto simp: list_all_iff)
  moreover have "\<not> HasSuffix (infraBase n) ''-''"
    unfolding infraBase_def HasSuffix_iff by (metis TrimRightDashes_last last_snoc snoc_eq_iff_butlast)
  ultimately show ?thesis by blast
qed

end
