(* ===== verification/Hosted_Cleanup.thy ===== *)
theory Hosted_Cleanup
  imports Hosted_Cluster
begin

section \<open>Cleanup of the hosted cluster\<close>

text \<open>
  \<^verbatim>\<open>internal/controller/hostedcluster/cleanup_handler.go\<close>: delete the HostedCluster, then the NodePool,
  then the secrets, waiting for each to be gone before the next. The generic \<^verbatim>\<open>deleteResource\<close> is
  parametric in the kind of object.
\<close>

definition DeletionRequeueInterval :: nat where
  "DeletionRequeueInterval = 10"

text \<open>\<open>Inr True\<close>: the object is gone (or not ours); \<open>Inr False\<close>: it still exists.\<close>

definition deleteResource ::
    "env \<Rightarrow> ('o \<Rightarrow> ObjectMeta) \<Rightarrow> (NamespacedName \<Rightarrow> (goerror + 'o) io) \<Rightarrow> ('o \<Rightarrow> call) \<Rightarrow> string \<Rightarrow>
     (goerror + bool) io" where
  "deleteResource E md get delete resourceKind = with_cr (\<lambda>cr. do {
     r \<leftarrow> get (cr_key cr);
     case r of
       Inl e \<Rightarrow>
         if IsNotFound e then State_Monad.return (Inr True)
         else if IsNoMatchError e then State_Monad.return (Inr True)
         else State_Monad.return (Inl (wrap (''failed to get '' @ resourceKind) e))
     | Inr obj \<Rightarrow>
         if \<not> IsControlledBy (md obj) (cr_meta cr) then State_Monad.return (Inr True)
         else if om_deletionTimestamp (md obj) = None then do {
           d \<leftarrow> apiWrite E (delete obj);
           State_Monad.return (case d of
             Some e \<Rightarrow> if IsNotFound e then Inr True
                       else Inl (wrap (''failed to delete '' @ resourceKind) e)
           | None \<Rightarrow> Inr False)
         }
         else State_Monad.return (Inr False)
   })"

definition deleteSecret :: "env \<Rightarrow> string \<Rightarrow> goerror option io" where
  "deleteSecret E secretName = with_cr (\<lambda>cr. do {
     r \<leftarrow> getSecret E (NN (cr_namespace cr) secretName);
     case r of
       Inl e \<Rightarrow>
         if IsNotFound e then State_Monad.return None
         else State_Monad.return (Some (wrap (''failed to get secret '' @ secretName) e))
     | Inr secret \<Rightarrow>
         if \<not> IsControlledBy (sec_meta secret) (cr_meta cr) then State_Monad.return None
         else do {
           d \<leftarrow> apiWrite E (DeleteSecret secret);
           State_Monad.return (case d of
             Some e \<Rightarrow> if IsNotFound e then None
                       else Some (wrap (''failed to delete secret '' @ secretName) e)
           | None \<Rightarrow> None)
         }
   })"

fun deleteSecretNames :: "env \<Rightarrow> string list \<Rightarrow> goerror option io" where
  "deleteSecretNames E [] = State_Monad.return None"
| "deleteSecretNames E (n # ns) = do {
     r \<leftarrow> deleteSecret E n;
     case r of Some e \<Rightarrow> State_Monad.return (Some e) | None \<Rightarrow> deleteSecretNames E ns
   }"

definition cleanupSecretNames :: "DPFHCPProvisioner \<Rightarrow> string list" where
  "cleanupSecretNames cr =
     [cr_name cr @ ''-pull-secret'', cr_name cr @ ''-ssh-key'', cr_name cr @ ''-etcd-encryption-key'']"

definition deleteSecrets :: "env \<Rightarrow> goerror option io" where
  "deleteSecrets E = with_cr (\<lambda>cr. deleteSecretNames E (cleanupSecretNames cr))"

definition hostedclusterCleanup :: "env \<Rightarrow> step_result io" where
  "hostedclusterCleanup E = do {
     r \<leftarrow> deleteResource E hc_meta (getHC E) DeleteHC ''HostedCluster'';
     case r of
       Inl e \<Rightarrow> State_Monad.return (failed e)
     | Inr hcDeleted \<Rightarrow>
         if \<not> hcDeleted then State_Monad.return (After DeletionRequeueInterval, None)
         else do {
           r \<leftarrow> deleteResource E np_meta (getNP E) DeleteNP ''NodePool'';
           case r of
             Inl e \<Rightarrow> State_Monad.return (failed e)
           | Inr npDeleted \<Rightarrow>
               if \<not> npDeleted then State_Monad.return (After DeletionRequeueInterval, None)
               else do {
                 r \<leftarrow> deleteSecrets E;
                 case r of
                   Some e \<Rightarrow> State_Monad.return (failed e)
                 | None \<Rightarrow> do {
                     _ \<leftarrow> event ''Normal'' ''HostedClusterCleanupSucceeded''
                            ''HostedCluster, NodePool, and secrets deleted successfully'';
                     State_Monad.return ok
                   }
               }
         }
   }"

definition hostedclusterHandler :: handler where
  "hostedclusterHandler = (''hostedcluster'', hostedclusterCleanup)"

subsection \<open>Contract\<close>

text \<open>The handler deletes what the resource controls, and looks up three secrets by fixed names.\<close>

fun hc_removes :: "ObjectMeta \<Rightarrow> DPFHCPProvisionerSpec \<Rightarrow> call \<Rightarrow> bool" where
  "hc_removes M S (DeleteHC h) = IsControlledBy (hc_meta h) M"
| "hc_removes M S (DeleteNP n) = IsControlledBy (np_meta n) M"
| "hc_removes M S (DeleteSecret x) = IsControlledBy (sec_meta x) M"
| "hc_removes M S (GetSecret k) =
     (k \<in> (\<lambda>suffix. NN (om_namespace M) (om_name M @ suffix))
          ` {''-pull-secret'', ''-ssh-key'', ''-etcd-encryption-key''})"
| "hc_removes M S (ListSecrets ns l) = False"
| "hc_removes M S c = (\<not> is_write c)"

lemma hc_removes_no_create: "hc_removes M S c \<Longrightarrow> \<not> is_create c"
  by (cases c) auto

lemma footprint_deleteResource:
  assumes "\<And>k. footprint M S W P (get k)"
    and "\<And>x. IsControlledBy (md x) M \<Longrightarrow> P (delete x)"
  shows "footprint M S W P (deleteResource E md get delete kind)"
  unfolding deleteResource_def by (intro footprint_intros assms) (simp_all add: assms(2))

lemma footprint_deleteSecretNames:
  assumes "\<And>n. n \<in> set ns \<Longrightarrow> P (GetSecret (NN (om_namespace M) n))"
    and "\<And>x. IsControlledBy (sec_meta x) M \<Longrightarrow> P (DeleteSecret x)"
  shows "footprint M S W P (deleteSecretNames E ns)"
  using assms(1)
proof (induction ns)
  case (Cons n ns)
  then have "footprint M S W P (deleteSecret E n)"
    unfolding deleteSecret_def by (intro footprint_intros) (auto simp: assms(2))
  with Cons show ?case by (auto intro!: footprint_intros)
qed (simp add: footprint_intros)

lemma footprint_hostedclusterCleanup: "footprint M S {} (hc_removes M S) (hostedclusterCleanup E)"
  unfolding hostedclusterCleanup_def deleteSecrets_def
  by (intro footprint_intros footprint_deleteResource footprint_deleteSecretNames)
    (auto simp: cleanupSecretNames_def)

interpretation hc_cleanup: cleanup_handler hostedclusterCleanup "{}" hc_removes
  by unfold_locales (rule footprint_hostedclusterCleanup, rule hc_removes_no_create)

subsection \<open>Behaviour\<close>

text \<open>
  C8: The handler deletes only objects that this resource controls, whatever the API server
  returns, and it works in order: as long as the HostedCluster exists and is controlled by this
  resource, neither the NodePool nor any secret is deleted and the cleanup does not complete.
\<close>

theorem hostedclusterCleanup_ordered:
  assumes "run_state (hostedclusterCleanup E) s = (r, s')"
    and "a_getHC (mgmt E) (st_history s) (cr_key (st_cr s)) = Inr hc"
    and "IsControlledBy (hc_meta hc) (cr_meta (st_cr s))"
    and "\<And>h e. a_write (mgmt E) h (DeleteHC hc) = Some e \<Longrightarrow> \<not> IsNotFound e"
  shows "stops r
    \<and> (\<forall>c \<in> set (st_history s') - set (st_history s). c = GetHC (cr_key (st_cr s)) \<or> c = DeleteHC hc)"
    (is "?P r s'")
proof -
  have "wp (hostedclusterCleanup E) ?P s"
    using assms(2-4) by (auto simp: hostedclusterCleanup_def deleteResource_def wp_simps
        DeletionRequeueInterval_def split: option.splits)
  then show ?thesis using assms(1) by (rule wp_run)
qed

definition controlledHC :: HostedCluster where
  "controlledHC = (hostedClusterOf sampleCR [] [])\<lparr>hc_meta :=
     (newMeta ''clusters'' ''hcp'')\<lparr>om_ownerReferences := [ownerRefFor (cr_meta sampleCR)]\<rparr>\<rparr>"

definition controlledEnv :: env where
  "controlledEnv = emptyEnv\<lparr>mgmt := emptyMgmt\<lparr>a_getHC := (\<lambda>_ _. Inr controlledHC)\<rparr>\<rparr>"

theorem hostedclusterCleanup_ordered_witness:
  "stops (fst (run_state (hostedclusterCleanup controlledEnv) (startState sampleCR)))"
proof -
  obtain r s' where run: "run_state (hostedclusterCleanup controlledEnv) (startState sampleCR) = (r, s')"
    by (rule prod.exhaust)
  have "IsControlledBy (hc_meta controlledHC) (cr_meta sampleCR)"
    by (simp add: controlledHC_def IsControlledBy_def ownerRefFor_def newMeta_def)
  then have "stops r"
    using hostedclusterCleanup_ordered [OF run, of controlledHC]
    by (simp add: controlledEnv_def emptyMgmt_def)
  then show ?thesis by (simp add: run)
qed

text \<open>
  The handler never looks for the credential copies the operator makes. Copies are created
  under \<^verbatim>\<open>PullSecretCopyName\<close> and \<^verbatim>\<open>SSHKeyCopyName\<close>; the cleanup asks for the former fixed names only
  and lists nothing, so these copies are left to the garbage collector.
\<close>

lemma hostedclusterCleanup_misses_copies:
  assumes "run_state (hostedclusterCleanup E) s = (r, s')"
    and "n = PullSecretCopyName (st_cr s) \<or> n = SSHKeyCopyName (st_cr s)"
    and "GetSecret (NN (cr_namespace (st_cr s)) n) \<in> set (st_history s')"
  shows "GetSecret (NN (cr_namespace (st_cr s)) n) \<in> set (st_history s)"
proof -
  have "n \<notin> (\<lambda>suffix. cr_name (st_cr s) @ suffix)
      ` {''-pull-secret'', ''-ssh-key'', ''-etcd-encryption-key''}"
    using assms(2) copy_names_not_legacy [of "st_cr s"] copy_names_distinct [of "st_cr s"]
    by (auto simp: PullSecretCopyName_def SSHKeyCopyName_def)
  then show ?thesis
    using hc_cleanup.requests_allowed [OF assms(1,3)] by auto
qed

lemma hostedclusterCleanup_misses_copies_witness:
  "GetSecret (NN ''clusters'' (PullSecretCopyName sampleCR))
     \<notin> set (st_history (snd (run_state (hostedclusterCleanup emptyEnv) (startState sampleCR))))"
proof -
  obtain r s' where run: "run_state (hostedclusterCleanup emptyEnv) (startState sampleCR) = (r, s')"
    by (rule prod.exhaust)
  have "cr_namespace sampleCR = ''clusters''" by (simp add: sample_defs)
  then show ?thesis
    using hostedclusterCleanup_misses_copies [OF run, of "PullSecretCopyName sampleCR"] by (auto simp: run)
qed

end
