(* ===== verification/Kubeconfig_Injection.thy ===== *)
theory Kubeconfig_Injection
  imports Finalizer
begin

section \<open>Kubeconfig injection\<close>

text \<open>
  \<^verbatim>\<open>internal/controller/kubeconfiginjection\<close>: the admin kubeconfig of the hosted cluster is copied into
  the namespace of the DPUCluster and the DPUCluster is pointed at the copy. \<^verbatim>\<open>injector.go\<close> has four
  idempotency scenarios (copy present or not, reference present or not), \<^verbatim>\<open>watch.go\<close> maps a changed
  kubeconfig secret back to the resource, \<^verbatim>\<open>cleanup_handler.go\<close> deletes the copies by label.
\<close>

definition KubeconfigSecretSuffix :: string where
  "KubeconfigSecretSuffix = ''-admin-kubeconfig''"

definition SourceKubeconfigSecretKey :: string where
  "SourceKubeconfigSecretKey = ''kubeconfig''"

definition DestinationKubeconfigSecretKey :: string where
  "DestinationKubeconfigSecretKey = ''super-admin.conf''"

definition errDPUClusterNotFound :: goerror where
  "errDPUClusterNotFound = \<lparr>err_reason = DPUClusterNotFound, err_msg = ''dpu cluster not found''\<rparr>"

definition kubeconfigSecretName :: "DPFHCPProvisioner \<Rightarrow> string" where
  "kubeconfigSecretName p = cr_name p @ KubeconfigSecretSuffix"

definition targetNamespace :: "DPFHCPProvisioner \<Rightarrow> string" where
  "targetNamespace p = ref_namespace (sp_dpuClusterRef (cr_spec p))"

definition targetCluster :: "DPFHCPProvisioner \<Rightarrow> NamespacedName" where
  "targetCluster p = NN (targetNamespace p) (ref_name (sp_dpuClusterRef (cr_spec p)))"

subsection \<open>The condition\<close>

definition setInjectedCondition ::
    "env \<Rightarrow> ConditionStatus \<Rightarrow> string \<Rightarrow> string \<Rightarrow> goerror option io" where
  "setInjectedCondition E status reason message = with_cr (\<lambda>p. do {
     _ \<leftarrow> setConditionEvent (mkCond KubeConfigInjected status reason message (cr_generation p))
            (if status = ConditionFalse then EventTypeWarning else EventTypeNormal) reason message;
     r \<leftarrow> updateStatus E;
     State_Monad.return (case r of
       None \<Rightarrow> None
     | Some e \<Rightarrow> if IsConflict e then Some e
                 else Some (wrap ''failed to update KubeConfigInjected condition'' e))
   })"

subsection \<open>Looking\<close>

text \<open>\<open>Inr (secretExists, dpuClusterUpdated)\<close>.\<close>

definition checkInjectionState :: "env \<Rightarrow> (goerror + bool \<times> bool) io" where
  "checkInjectionState E = with_cr (\<lambda>p. do {
     r \<leftarrow> getSecret E (NN (targetNamespace p) (kubeconfigSecretName p));
     case r of
       Inl secretErr \<Rightarrow>
         if \<not> IsNotFound secretErr
         then State_Monad.return (Inl (wrap ''failed to check secret existence'' secretErr))
         else do {
           d \<leftarrow> getDPUCluster E (targetCluster p);
           State_Monad.return (case d of
             Inl e \<Rightarrow> Inl (if IsNotFound e then errDPUClusterNotFound
                           else wrap ''failed to get DPUCluster'' e)
           | Inr dpuCluster \<Rightarrow> Inr (False, dc_kubeconfig dpuCluster = kubeconfigSecretName p))
         }
     | Inr _ \<Rightarrow> do {
         d \<leftarrow> getDPUCluster E (targetCluster p);
         State_Monad.return (case d of
           Inl e \<Rightarrow> Inl (if IsNotFound e then errDPUClusterNotFound
                         else wrap ''failed to get DPUCluster'' e)
         | Inr dpuCluster \<Rightarrow> Inr (True, dc_kubeconfig dpuCluster = kubeconfigSecretName p))
       }
   })"

definition detectHCKubeconfigAvailability :: "env \<Rightarrow> (goerror + bool) io" where
  "detectHCKubeconfigAvailability E = with_cr (\<lambda>p. do {
     r \<leftarrow> getSecret E (NN (cr_namespace p) (kubeconfigSecretName p));
     State_Monad.return (case r of
       Inr _ \<Rightarrow> Inr True
     | Inl e \<Rightarrow> if IsNotFound e then Inr False
                else Inl (wrap ''failed to check HC kubeconfig secret'' e))
   })"

definition checkDrift :: "env \<Rightarrow> string \<Rightarrow> (goerror + bool) io" where
  "checkDrift E secretName = with_cr (\<lambda>p. do {
     r \<leftarrow> getSecret E (NN (cr_namespace p) secretName);
     case r of
       Inl e \<Rightarrow> State_Monad.return (Inl (wrap ''failed to get source secret'' e))
     | Inr sourceSecret \<Rightarrow> do {
         r \<leftarrow> getSecret E (NN (targetNamespace p) secretName);
         State_Monad.return (case r of
           Inl e \<Rightarrow> Inl (wrap ''failed to get destination secret'' e)
         | Inr destSecret \<Rightarrow>
             (case map_of (sec_data sourceSecret) SourceKubeconfigSecretKey of
                None \<Rightarrow> Inl (Errorf (''source secret missing '' @ sq SourceKubeconfigSecretKey
                          @ '' key''))
              | Some sourceData \<Rightarrow>
                  (case map_of (sec_data destSecret) DestinationKubeconfigSecretKey of
                     None \<Rightarrow> Inl (Errorf (''destination secret missing ''
                               @ sq DestinationKubeconfigSecretKey @ '' key''))
                   | Some destData \<Rightarrow> Inr (sourceData \<noteq> destData))))
       }
   })"

subsection \<open>Writing\<close>

definition kubeconfigCopy :: "DPFHCPProvisioner \<Rightarrow> string \<Rightarrow> string \<Rightarrow> Secret" where
  "kubeconfigCopy p name kubeconfigData = \<lparr>
     sec_meta = (newMeta (targetNamespace p) name)\<lparr>om_labels :=
       [(LabelDPFHCPProvisionerName, cr_name p), (LabelDPFHCPProvisionerNamespace, cr_namespace p)]\<rparr>,
     sec_type = ''Opaque'',
     sec_data = [(DestinationKubeconfigSecretKey, kubeconfigData)]\<rparr>"

definition createOrUpdateKubeconfigSecret :: "env \<Rightarrow> string \<Rightarrow> goerror option io" where
  "createOrUpdateKubeconfigSecret E sourceSecretName = with_cr (\<lambda>p. do {
     r \<leftarrow> getSecret E (NN (cr_namespace p) sourceSecretName);
     case r of
       Inl e \<Rightarrow> State_Monad.return (Some (wrap ''failed to read source kubeconfig secret'' e))
     | Inr sourceSecret \<Rightarrow>
         (case map_of (sec_data sourceSecret) SourceKubeconfigSecretKey of
            None \<Rightarrow> State_Monad.return (Some (Errorf (''source secret missing ''
                      @ sq SourceKubeconfigSecretKey @ '' key'')))
          | Some kubeconfigData \<Rightarrow>
              let destSecret = kubeconfigCopy p sourceSecretName kubeconfigData in do {
                c \<leftarrow> apiWrite E (CreateSecret destSecret);
                case c of
                  None \<Rightarrow> State_Monad.return None
                | Some err \<Rightarrow>
                    if IsAlreadyExists err then do {
                      g \<leftarrow> getSecret E (NN (targetNamespace p) sourceSecretName);
                      case g of
                        Inl e \<Rightarrow> State_Monad.return
                          (Some (wrap ''failed to get existing secret for update'' e))
                      | Inr existing \<Rightarrow> do {
                          u \<leftarrow> apiWrite E (UpdateSecret (existing\<lparr>
                                 sec_data := sec_data destSecret,
                                 sec_meta := (sec_meta existing)\<lparr>om_labels :=
                                   om_labels (sec_meta destSecret)\<rparr>\<rparr>));
                          State_Monad.return
                            (map_option (wrap ''failed to update kubeconfig secret'') u)
                        }
                    }
                    else State_Monad.return (Some (wrap ''failed to create kubeconfig secret'' err))
              })
   })"

definition updateDPUClusterReference :: "env \<Rightarrow> string \<Rightarrow> goerror option io" where
  "updateDPUClusterReference E secretName = with_cr (\<lambda>p. do {
     r \<leftarrow> getDPUCluster E (targetCluster p);
     case r of
       Inl e \<Rightarrow> State_Monad.return (Some (wrap ''failed to get DPUCluster'' e))
     | Inr dpuCluster \<Rightarrow> do {
         u \<leftarrow> apiWrite E (UpdateDPUCluster (dpuCluster\<lparr>dc_kubeconfig := secretName\<rparr>));
         State_Monad.return (case u of
           None \<Rightarrow> None
         | Some e \<Rightarrow>
             if IsConflict e then Some (wrap ''update conflict on DPUCluster, will retry'' e)
             else Some (wrap ''failed to update DPUCluster spec.kubeconfig'' e))
       }
   })"

text \<open>\<open>Inr needsInjection\<close>.\<close>

definition handleIdempotencyScenarios ::
    "env \<Rightarrow> string \<Rightarrow> bool \<Rightarrow> bool \<Rightarrow> (goerror + bool) io" where
  "handleIdempotencyScenarios E secretName secretExists dpuClusterUpdated =
     (if secretExists \<and> dpuClusterUpdated then do {
        d \<leftarrow> checkDrift E secretName;
        case d of
          Inl e \<Rightarrow> State_Monad.return (Inl (wrap ''failed to check drift'' e))
        | Inr hasDrift \<Rightarrow>
            if hasDrift then do {
              _ \<leftarrow> event EventTypeNormal ''DriftCorrected''
                     ''Kubeconfig secret content drift detected and corrected'';
              State_Monad.return (Inr True)
            }
            else State_Monad.return (Inr False)
      }
      else if secretExists \<and> \<not> dpuClusterUpdated then do {
        u \<leftarrow> updateDPUClusterReference E secretName;
        case u of
          Some e \<Rightarrow> State_Monad.return (Inl (wrap ''failed to update DPUCluster reference'' e))
        | None \<Rightarrow> do {
            _ \<leftarrow> modify_cr (set_kubeConfigSecretRef (Some secretName));
            State_Monad.return (Inr False)
          }
      }
      else State_Monad.return (Inr True))"

subsection \<open>The workflow\<close>

text \<open>\<^verbatim>\<open>setCondition(False, InjectionFailed, msg)\<close>, then return the error.\<close>

definition injectionFailed :: "env \<Rightarrow> string \<Rightarrow> goerror \<Rightarrow> step_result io" where
  "injectionFailed E context err = do {
     _ \<leftarrow> setInjectedCondition E ConditionFalse ReasonKubeConfigInjectionFailed
            (context @ '': '' @ err_msg err);
     State_Monad.return (failed err)
   }"

definition injected :: "env \<Rightarrow> step_result io" where
  "injected E = with_cr (\<lambda>p. do {
     r \<leftarrow> setInjectedCondition E ConditionTrue ReasonKubeConfigInjected
            (''Kubeconfig secret successfully created in namespace '' @ targetNamespace p
              @ '' and DPUCluster CR updated'');
     State_Monad.return (done_or_failed r)
   })"

text \<open>Steps 5 to 7: write the copy, point the DPUCluster at it, record it in the status.\<close>

definition finishInjection :: "env \<Rightarrow> string \<Rightarrow> step_result io" where
  "finishInjection E secretName = do {
     _ \<leftarrow> modify_cr (set_kubeConfigSecretRef (Some secretName));
     injected E
   }"

definition pointDPUCluster :: "env \<Rightarrow> string \<Rightarrow> bool \<Rightarrow> step_result io" where
  "pointDPUCluster E secretName dpuClusterUpdated = with_cr (\<lambda>p.
     if \<not> dpuClusterUpdated then do {
       u \<leftarrow> updateDPUClusterReference E secretName;
       case u of
         Some err \<Rightarrow> injectionFailed E ''Failed to update DPUCluster spec.kubeconfig'' err
       | None \<Rightarrow> do {
           _ \<leftarrow> event EventTypeNormal ''DPUClusterUpdated''
                  (''DPUCluster '' @ nn_string (targetCluster p)
                    @ '' updated with kubeconfig reference'');
           finishInjection E secretName
         }
     }
     else finishInjection E secretName)"

definition performInjection :: "env \<Rightarrow> string \<Rightarrow> bool \<Rightarrow> step_result io" where
  "performInjection E secretName dpuClusterUpdated = with_cr (\<lambda>p. do {
     r \<leftarrow> createOrUpdateKubeconfigSecret E secretName;
     case r of
       Some err \<Rightarrow> injectionFailed E
         (''Failed to create kubeconfig secret in namespace '' @ targetNamespace p) err
     | None \<Rightarrow> do {
         _ \<leftarrow> event EventTypeNormal ''KubeConfigInjected''
                (''Kubeconfig secret '' @ secretName @ '' created in namespace '' @ targetNamespace p);
         pointDPUCluster E secretName dpuClusterUpdated
       }
   })"

definition InjectKubeconfig :: "env \<Rightarrow> step_result io" where
  "InjectKubeconfig E = with_cr (\<lambda>p.
     if cr_hostedClusterRef p = None then State_Monad.return ok
     else do {
       st \<leftarrow> checkInjectionState E;
       case st of
         Inl err \<Rightarrow>
           if err_reason err = DPUClusterNotFound then do {
             c \<leftarrow> setInjectedCondition E ConditionFalse ReasonKubeConfigPending
                    (''Waiting for DPUCluster '' @ nn_string (targetCluster p));
             State_Monad.return (done_or_failed c)
           }
           else injectionFailed E ''Failed to check injection state'' err
       | Inr (secretExists, dpuClusterUpdated) \<Rightarrow> do {
           a \<leftarrow> detectHCKubeconfigAvailability E;
           case a of
             Inl err \<Rightarrow> injectionFailed E ''Failed to detect HC kubeconfig availability'' err
           | Inr available \<Rightarrow>
               if \<not> available then do {
                 c \<leftarrow> setInjectedCondition E ConditionFalse ReasonKubeConfigPending
                        (''Waiting for Hypershift to create kubeconfig secret for HostedCluster ''
                          @ cr_name p);
                 State_Monad.return (done_or_failed c)
               }
               else do {
                 n \<leftarrow> handleIdempotencyScenarios E (kubeconfigSecretName p) secretExists
                        dpuClusterUpdated;
                 case n of
                   Inl err \<Rightarrow> injectionFailed E ''Failed to handle idempotency scenarios'' err
                 | Inr needsInjection \<Rightarrow>
                     if \<not> needsInjection then injected E
                     else performInjection E (kubeconfigSecretName p) dpuClusterUpdated
               }
         }
     })"

subsection \<open>Watch\<close>

definition isHostedClusterKubeconfigSecret :: "Secret \<Rightarrow> bool" where
  "isHostedClusterKubeconfigSecret secret = HasSuffix (om_name (sec_meta secret)) KubeconfigSecretSuffix"

definition FindProvisionerForKubeconfigSecret :: "env \<Rightarrow> Secret \<Rightarrow> NamespacedName list io" where
  "FindProvisionerForKubeconfigSecret E secret = do {
     r \<leftarrow> getCR E (NN (om_namespace (sec_meta secret))
            (TrimSuffix (om_name (sec_meta secret)) KubeconfigSecretSuffix));
     State_Monad.return (case r of
       Inl _ \<Rightarrow> []
     | Inr provisioner \<Rightarrow> [cr_key provisioner])
   }"

subsection \<open>Cleanup\<close>

fun deleteKubeconfigs :: "env \<Rightarrow> nat \<Rightarrow> Secret list \<Rightarrow> step_result io" where
  "deleteKubeconfigs E deletedCount [] = do {
     _ \<leftarrow> event ''Normal'' ''KubeconfigCleanupSucceeded''
            (''Deleted '' @ show_nat deletedCount @ '' kubeconfig secret(s)'');
     State_Monad.return ok
   }"
| "deleteKubeconfigs E deletedCount (secret # rest) = do {
     d \<leftarrow> apiWrite E (DeleteSecret secret);
     case d of
       Some e \<Rightarrow>
         if IsNotFound e then deleteKubeconfigs E deletedCount rest
         else State_Monad.return (failed (wrap (''failed to delete kubeconfig secret ''
                @ om_namespace (sec_meta secret) @ ''/'' @ om_name (sec_meta secret)) e))
     | None \<Rightarrow> deleteKubeconfigs E (Suc deletedCount) rest
   }"

definition ownerSelector :: "DPFHCPProvisioner \<Rightarrow> string gomap" where
  "ownerSelector cr =
     [(LabelDPFHCPProvisionerName, cr_name cr), (LabelDPFHCPProvisionerNamespace, cr_namespace cr)]"

definition kubeconfigCleanup :: "env \<Rightarrow> step_result io" where
  "kubeconfigCleanup E = with_cr (\<lambda>cr. do {
     r \<leftarrow> listSecrets E None (ownerSelector cr);
     case r of
       Inl e \<Rightarrow> State_Monad.return (failed (wrap ''failed to list kubeconfig secrets'' e))
     | Inr items \<Rightarrow>
         if items = [] then State_Monad.return ok
         else deleteKubeconfigs E 0 items
   })"

definition kubeconfigHandler :: handler where
  "kubeconfigHandler = (''kubeconfig-injection'', kubeconfigCleanup)"

subsection \<open>Contracts\<close>

fun inject_allowed :: "ObjectMeta \<Rightarrow> DPFHCPProvisionerSpec \<Rightarrow> call \<Rightarrow> bool" where
  "inject_allowed M S (CreateSecret x) =
     (IsOwnedByProvisioner (om_labels (sec_meta x)) (om_name M) (om_namespace M)
      \<and> om_name (sec_meta x) = om_name M @ KubeconfigSecretSuffix
      \<and> om_namespace (sec_meta x) = ref_namespace (sp_dpuClusterRef S))"
| "inject_allowed M S (UpdateSecret x) =
     IsOwnedByProvisioner (om_labels (sec_meta x)) (om_name M) (om_namespace M)"
| "inject_allowed M S (UpdateDPUCluster d) = (dc_kubeconfig d = om_name M @ KubeconfigSecretSuffix)"
| "inject_allowed M S c = observes M S c"

lemma kubeconfigCopy_owned:
  "IsOwnedByProvisioner (om_labels (sec_meta (kubeconfigCopy p n d))) (cr_name p) (cr_namespace p)"
  by (simp add: kubeconfigCopy_def IsOwnedByProvisioner_def mget_def)

lemma kubeconfigCopy_simps [simp]:
  "om_name (sec_meta (kubeconfigCopy p n d)) = n"
  "om_namespace (sec_meta (kubeconfigCopy p n d)) = targetNamespace p"
  by (simp_all add: kubeconfigCopy_def newMeta_def)

lemma footprint_setInjectedCondition [footprint_intros]:
  "CondSlot KubeConfigInjected \<in> W \<Longrightarrow> (\<And>ty r m. P (Event ty r m)) \<Longrightarrow>
   (\<And>c. cr_meta c = M \<Longrightarrow> cr_spec c = S \<Longrightarrow> P (UpdateCRStatus c)) \<Longrightarrow>
   footprint M S W P (setInjectedCondition E v r m)"
  unfolding setInjectedCondition_def by (intro footprint_intros) simp_all

lemma footprint_inject_reads:
  "footprint M S W (inject_allowed M S) (checkInjectionState E)"
  "footprint M S W (inject_allowed M S) (detectHCKubeconfigAvailability E)"
  "footprint M S W (inject_allowed M S) (checkDrift E n)"
  unfolding checkInjectionState_def detectHCKubeconfigAvailability_def checkDrift_def
  by (intro footprint_intros; simp)+

lemma footprint_inject_writes:
  assumes "n = om_name M @ KubeconfigSecretSuffix"
  shows "footprint M S W (inject_allowed M S) (createOrUpdateKubeconfigSecret E n)"
    and "footprint M S W (inject_allowed M S) (updateDPUClusterReference E n)"
  unfolding createOrUpdateKubeconfigSecret_def updateDPUClusterReference_def Let_def
  by (intro footprint_intros; use assms kubeconfigCopy_owned in \<open>auto simp: targetNamespace_def\<close>)+

lemma footprint_inject_outcomes:
  "footprint M S {CondSlot KubeConfigInjected, KubeConfigRefSlot} (inject_allowed M S) (injectionFailed E ctx e)"
  "footprint M S {CondSlot KubeConfigInjected, KubeConfigRefSlot} (inject_allowed M S) (injected E)"
  "footprint M S {CondSlot KubeConfigInjected, KubeConfigRefSlot} (inject_allowed M S) (finishInjection E n)"
  unfolding injectionFailed_def injected_def finishInjection_def
  by (intro footprint_intros; simp)+

interpretation inject_step:
    reconcile_step InjectKubeconfig "{CondSlot KubeConfigInjected, KubeConfigRefSlot}" inject_allowed
  by unfold_locales
    (unfold InjectKubeconfig_def performInjection_def pointDPUCluster_def handleIdempotencyScenarios_def kubeconfigSecretName_def,
     intro footprint_intros footprint_inject_reads footprint_inject_writes footprint_inject_outcomes;
     simp)

text \<open>The cleanup handler sends deletions of secrets only; which ones depends on the listing.\<close>

fun kubeconfig_removes :: "ObjectMeta \<Rightarrow> DPFHCPProvisionerSpec \<Rightarrow> call \<Rightarrow> bool" where
  "kubeconfig_removes M S (DeleteSecret x) = True"
| "kubeconfig_removes M S c = (\<not> is_write c)"

lemma kubeconfig_removes_no_create: "kubeconfig_removes M S c \<Longrightarrow> \<not> is_create c"
  by (cases c) auto

lemma footprint_deleteKubeconfigs:
  "footprint M S {} (kubeconfig_removes M S) (deleteKubeconfigs E k xs)"
  by (induction xs arbitrary: k) (auto intro!: footprint_intros)

lemma footprint_kubeconfigCleanup: "footprint M S {} (kubeconfig_removes M S) (kubeconfigCleanup E)"
  unfolding kubeconfigCleanup_def
  by (intro footprint_intros footprint_deleteKubeconfigs) simp_all

interpretation kubeconfig_cleanup: cleanup_handler kubeconfigCleanup "{}" kubeconfig_removes
  by unfold_locales (rule footprint_kubeconfigCleanup, rule kubeconfig_removes_no_create)

subsection \<open>What an injected kubeconfig means\<close>

text \<open>The DPUCluster, as read in this run, refers to the copy or has been sent the reference.\<close>

definition referenced :: "env \<Rightarrow> DPFHCPProvisioner \<Rightarrow> history \<Rightarrow> bool" where
  "referenced E p h \<longleftrightarrow>
     (\<exists>d. answered (\<lambda>h. a_getDPUCluster (mgmt E) h (targetCluster p)) (GetDPUCluster (targetCluster p)) h (Inr d)
        \<and> (dc_kubeconfig d = kubeconfigSecretName p
           \<or> UpdateDPUCluster (d\<lparr>dc_kubeconfig := kubeconfigSecretName p\<rparr>) \<in> set h))"

text \<open>The copy was found in the target namespace, or created from the source as read in this run.\<close>

definition copied :: "env \<Rightarrow> DPFHCPProvisioner \<Rightarrow> history \<Rightarrow> bool" where
  "copied E p h \<longleftrightarrow>
     (\<exists>x. answered (\<lambda>h. a_getSecret (mgmt E) h (NN (targetNamespace p) (kubeconfigSecretName p)))
            (GetSecret (NN (targetNamespace p) (kubeconfigSecretName p))) h (Inr x))
     \<or> (\<exists>y data. answered (\<lambda>h. a_getSecret (mgmt E) h (NN (cr_namespace p) (kubeconfigSecretName p)))
            (GetSecret (NN (cr_namespace p) (kubeconfigSecretName p))) h (Inr y)
          \<and> map_of (sec_data y) SourceKubeconfigSecretKey = Some data
          \<and> CreateSecret (kubeconfigCopy p (kubeconfigSecretName p) data) \<in> set h)"

lemma referenced_later: "referenced E p h \<Longrightarrow> referenced E p (later @ h)"
  unfolding referenced_def by (metis answered_later UnCI set_append)

lemma copied_later: "copied E p h \<Longrightarrow> copied E p (later @ h)"
  unfolding copied_def by (metis answered_later UnCI set_append)

lemma established_Cons:
  "referenced E p h \<Longrightarrow> referenced E p (c # h)" "copied E p h \<Longrightarrow> copied E p (c # h)"
  using referenced_later [of E p h "[c]"] copied_later [of E p h "[c]"] by simp_all

lemma referencedI: "a_getDPUCluster (mgmt E) h (targetCluster p) = Inr d \<Longrightarrow>
    dc_kubeconfig d = kubeconfigSecretName p \<Longrightarrow>
    referenced E p (GetDPUCluster (targetCluster p) # h)"
  unfolding referenced_def by (blast intro: answered_Cons)

lemma referencedI': "a_getDPUCluster (mgmt E) h (targetCluster p) = Inr d \<Longrightarrow>
    referenced E p (UpdateDPUCluster (d\<lparr>dc_kubeconfig := kubeconfigSecretName p\<rparr>)
      # GetDPUCluster (targetCluster p) # h)"
  unfolding referenced_def by (intro exI [of _ d] conjI answered_later1 answered_Cons) auto

lemma copiedI: "a_getSecret (mgmt E) h (NN (targetNamespace p) (kubeconfigSecretName p)) = Inr x \<Longrightarrow>
    copied E p (later @ GetSecret (NN (targetNamespace p) (kubeconfigSecretName p)) # h)"
  unfolding copied_def by (blast intro: answered_append)

lemma copiedI': "a_getSecret (mgmt E) h (NN (cr_namespace p) (kubeconfigSecretName p)) = Inr y \<Longrightarrow>
    map_of (sec_data y) SourceKubeconfigSecretKey = Some data \<Longrightarrow>
    copied E p (CreateSecret (kubeconfigCopy p (kubeconfigSecretName p) data)
      # GetSecret (NN (cr_namespace p) (kubeconfigSecretName p)) # h)"
  unfolding copied_def
  by (intro disjI2 exI [of _ y] exI [of _ data] conjI answered_later1 answered_Cons) auto

lemma wp_checkInjectionState:
  assumes "\<And>e s'. Q (Inl e) s'"
    and "\<And>x y s' later. st_cr s' = st_cr s \<Longrightarrow> st_history s' = later @ st_history s \<Longrightarrow>
      (x \<Longrightarrow> copied E (st_cr s) (st_history s')) \<Longrightarrow>
      (y \<Longrightarrow> referenced E (st_cr s) (st_history s')) \<Longrightarrow> Q (Inr (x, y)) s'"
  shows "wp (checkInjectionState E) Q s"
  unfolding checkInjectionState_def
  using copiedI [where later = "[_]"]
  by (auto simp: wp_simps intro!: assms referencedI split: sum.splits)

lemma wp_detectHCKubeconfigAvailability:
  assumes "\<And>r s' later. st_cr s' = st_cr s \<Longrightarrow> st_history s' = later @ st_history s \<Longrightarrow> Q r s'"
  shows "wp (detectHCKubeconfigAvailability E) Q s"
  unfolding detectHCKubeconfigAvailability_def by (auto simp: wp_simps intro!: assms)

lemma wp_updateDPUClusterReference:
  assumes "\<And>e s'. Q (Some e) s'"
    and "\<And>s' later. st_cr s' = st_cr s \<Longrightarrow> st_history s' = later @ st_history s \<Longrightarrow>
      referenced E (st_cr s) (st_history s') \<Longrightarrow> Q None s'"
    and "n = kubeconfigSecretName (st_cr s)"
  shows "wp (updateDPUClusterReference E n) Q s"
  unfolding updateDPUClusterReference_def
  using assms(3) by (auto simp: wp_simps intro!: assms(1,2) referencedI' split: sum.splits option.splits)

lemma wp_checkDrift:
  assumes "\<And>r s' later. st_cr s' = st_cr s \<Longrightarrow> st_history s' = later @ st_history s \<Longrightarrow> Q r s'"
  shows "wp (checkDrift E n) Q s"
  unfolding checkDrift_def by (auto simp: wp_simps intro!: assms split: sum.splits)

lemma wp_createOrUpdateKubeconfigSecret:
  assumes "\<And>e s'. Q (Some e) s'"
    and "\<And>s' later. st_cr s' = st_cr s \<Longrightarrow> st_history s' = later @ st_history s \<Longrightarrow>
      copied E (st_cr s) (st_history s') \<Longrightarrow> Q None s'"
    and "n = kubeconfigSecretName (st_cr s)"
  shows "wp (createOrUpdateKubeconfigSecret E n) Q s"
  unfolding createOrUpdateKubeconfigSecret_def
  using assms(3) copiedI [where later = "[_]"]
  by (auto simp: wp_simps Let_def map_option_case intro!: assms(1,2) copiedI'
      split: sum.splits option.splits)

lemma wp_handleIdempotencyScenarios:
  assumes "\<And>e s'. Q (Inl e) s'"
    and "\<And>b s' later. cr_meta (st_cr s') = cr_meta (st_cr s) \<Longrightarrow> cr_spec (st_cr s') = cr_spec (st_cr s) \<Longrightarrow>
      st_history s' = later @ st_history s \<Longrightarrow>
      (\<not> b \<Longrightarrow> x \<and> (y \<or> referenced E (st_cr s) (st_history s'))) \<Longrightarrow> Q (Inr b) s'"
    and "n = kubeconfigSecretName (st_cr s)"
  shows "wp (handleIdempotencyScenarios E n x y) Q s"
  unfolding handleIdempotencyScenarios_def
  by (auto simp: wp_simps assms(3) intro!: wp_checkDrift wp_updateDPUClusterReference assms(1)
      assms(2) split: sum.splits)

lemma wp_setInjectedCondition:
  assumes "\<And>r s' later. cr_meta (st_cr s') = cr_meta (st_cr s) \<Longrightarrow> cr_spec (st_cr s') = cr_spec (st_cr s) \<Longrightarrow>
      condTrue (st_cr s') KubeConfigInjected = (v = ConditionTrue) \<Longrightarrow>
      stt_kubeConfigSecretRef (cr_status (st_cr s')) = stt_kubeConfigSecretRef (cr_status (st_cr s)) \<Longrightarrow>
      st_history s' = later @ st_history s \<Longrightarrow> Q r s'"
  shows "wp (setInjectedCondition E v r m) Q s"
  unfolding setInjectedCondition_def
  by (auto simp: wp_simps condTrue_putCond announced_def intro!: assms)

lemma referenced_cong:
  "cr_meta p = cr_meta q \<Longrightarrow> cr_spec p = cr_spec q \<Longrightarrow> referenced E p = referenced E q"
  by (rule ext) (simp add: referenced_def targetCluster_def targetNamespace_def kubeconfigSecretName_def)

lemma copied_cong:
  "cr_meta p = cr_meta q \<Longrightarrow> cr_spec p = cr_spec q \<Longrightarrow> copied E p = copied E q"
  by (rule ext) (simp add: copied_def targetNamespace_def kubeconfigSecretName_def kubeconfigCopy_def)

text \<open>The last steps keep what has been established and may report success.\<close>

lemma wp_injected:
  assumes "copied E p (st_history s)" and "referenced E p (st_history s)"
  shows "wp (injected E) (\<lambda>r s'. copied E p (st_history s') \<and> referenced E p (st_history s')) s"
  unfolding injected_def using assms
  by (auto simp: wp_simps intro!: wp_setInjectedCondition copied_later referenced_later)

lemma wp_injectionFailed: "wp (injectionFailed E ctx e) (\<lambda>r s'. \<not> stops r \<longrightarrow> R s') s"
  unfolding injectionFailed_def by (auto simp: wp_simps intro!: wp_setInjectedCondition)

lemma wp_finishInjection:
  assumes "copied E p (st_history s)" and "referenced E p (st_history s)"
  shows "wp (finishInjection E n) (\<lambda>r s'. \<not> stops r \<longrightarrow>
      copied E p (st_history s') \<and> referenced E p (st_history s')) s"
  unfolding finishInjection_def using assms
  by (auto simp: wp_simps intro: wp_mono [OF wp_injected])

lemma wp_pointDPUCluster:
  assumes "y \<Longrightarrow> referenced E (st_cr s) (st_history s)" and "copied E (st_cr s) (st_history s)"
    and "n = kubeconfigSecretName (st_cr s)"
  shows "wp (pointDPUCluster E n y) (\<lambda>r s'. \<not> stops r \<longrightarrow>
    copied E (st_cr s) (st_history s') \<and> referenced E (st_cr s) (st_history s')) s"
  unfolding pointDPUCluster_def using assms
  by (auto simp: wp_simps intro!: wp_updateDPUClusterReference wp_injectionFailed wp_finishInjection
      established_Cons copied_later)

lemma wp_performInjection:
  assumes "y \<Longrightarrow> referenced E (st_cr s) (st_history s)"
    and "n = kubeconfigSecretName (st_cr s)"
  shows "wp (performInjection E n y) (\<lambda>r s'. \<not> stops r \<longrightarrow>
    copied E (st_cr s) (st_history s') \<and> referenced E (st_cr s) (st_history s')) s"
proof -
  have "wp (pointDPUCluster E n y) (\<lambda>r s'. \<not> stops r \<longrightarrow>
      copied E (st_cr s) (st_history s') \<and> referenced E (st_cr s) (st_history s'))
      (t\<lparr>st_history := c # later @ st_history s\<rparr>)"
    if "st_cr t = st_cr s" "copied E (st_cr s) (later @ st_history s)" for t c later
    using wp_pointDPUCluster [of y E "t\<lparr>st_history := c # later @ st_history s\<rparr>" n] that assms
    by (simp add: established_Cons referenced_later)
  then show ?thesis
    unfolding performInjection_def using assms(2)
    by (auto simp: wp_simps intro!: wp_createOrUpdateKubeconfigSecret wp_injectionFailed)
qed


text \<open>A server on which copy and reference are in place and both kubeconfigs agree.\<close>

definition kubeconfigSecret :: "string \<Rightarrow> Secret" where
  "kubeconfigSecret key = \<lparr>sec_meta = newMeta ''ns'' ''hcp-admin-kubeconfig'', sec_type = ''Opaque'',
     sec_data = [(key, ''apiVersion: v1'')]\<rparr>"

definition injectedEnv :: env where
  "injectedEnv = emptyEnv\<lparr>mgmt := emptyMgmt\<lparr>
     a_getSecret := (\<lambda>_ k. Inr (kubeconfigSecret (if nn_namespace k = ''dpf''
       then DestinationKubeconfigSecretKey else SourceKubeconfigSecretKey))),
     a_getDPUCluster := (\<lambda>_ _. Inr \<lparr>dc_meta = newMeta ''dpf'' ''dpu'', dc_type = ''static'',
       dc_kubeconfig = ''hcp-admin-kubeconfig''\<rparr>)\<rparr>\<rparr>"

definition provisionedCR :: DPFHCPProvisioner where
  "provisionedCR = set_hostedClusterRef (Some \<lparr>oref_name = ''hcp'', oref_namespace = ''clusters'',
     oref_kind = ''HostedCluster'', oref_apiVersion = ''hypershift.openshift.io/v1beta1''\<rparr>) sampleCR"


text \<open>
  When copy and reference are in place and the contents agree, the step reports
  \<^verbatim>\<open>KubeConfigInjected\<close> without recording the copy in \<^verbatim>\<open>status.kubeConfigSecretRef\<close>. So if that field
  was not persisted by the run that did the injection (its status update failed, say), no later
  run sets it, although the CSR approval controller waits for it.
\<close>

lemma InjectKubeconfig_never_restores_ref:
  assumes "run_state (InjectKubeconfig E) s = (r, s')"
    and "cr_hostedClusterRef (st_cr s) \<noteq> None"
    and "\<And>h. a_getSecret (mgmt E) h (NN (targetNamespace (st_cr s)) (kubeconfigSecretName (st_cr s))) = Inr dst"
    and "\<And>h. a_getSecret (mgmt E) h (NN (cr_namespace (st_cr s)) (kubeconfigSecretName (st_cr s))) = Inr src"
    and "map_of (sec_data dst) DestinationKubeconfigSecretKey = Some data"
    and "map_of (sec_data src) SourceKubeconfigSecretKey = Some data"
    and "\<And>h. a_getDPUCluster (mgmt E) h (targetCluster (st_cr s)) = Inr d"
    and "dc_kubeconfig d = kubeconfigSecretName (st_cr s)"
    and "\<And>h c. a_write (mgmt E) h (UpdateCRStatus c) = None"
  shows "r = ok \<and> condTrue (st_cr s') KubeConfigInjected
    \<and> stt_kubeConfigSecretRef (cr_status (st_cr s')) = stt_kubeConfigSecretRef (cr_status (st_cr s))"
    (is "?P r s'")
proof -
  have "wp (InjectKubeconfig E) ?P s"
    using assms(2-)
    by (auto simp: InjectKubeconfig_def checkInjectionState_def detectHCKubeconfigAvailability_def
        handleIdempotencyScenarios_def checkDrift_def injected_def setInjectedCondition_def wp_simps
        condTrue_putCond)
  then show ?thesis using assms(1) by (rule wp_run)
qed

lemma InjectKubeconfig_never_restores_ref_witness:
  "let (r, s') = run_state (InjectKubeconfig injectedEnv) (startState provisionedCR) in
     r = ok \<and> condTrue (st_cr s') KubeConfigInjected
     \<and> stt_kubeConfigSecretRef (cr_status (st_cr s')) = None"
proof -
  obtain r s' where run: "run_state (InjectKubeconfig injectedEnv) (startState provisionedCR) = (r, s')"
    by (rule prod.exhaust)
  have cr: "targetNamespace provisionedCR = ''dpf''" "cr_namespace provisionedCR = ''clusters''"
      "kubeconfigSecretName provisionedCR = ''hcp-admin-kubeconfig''"
      "stt_kubeConfigSecretRef (cr_status provisionedCR) = None"
      "cr_hostedClusterRef provisionedCR \<noteq> None"
    by code_simp+
  have "r = ok \<and> condTrue (st_cr s') KubeConfigInjected
      \<and> stt_kubeConfigSecretRef (cr_status (st_cr s')) = None"
    using InjectKubeconfig_never_restores_ref [OF run, of
        "kubeconfigSecret DestinationKubeconfigSecretKey" "kubeconfigSecret SourceKubeconfigSecretKey"
        "''apiVersion: v1''" "\<lparr>dc_meta = newMeta ''dpf'' ''dpu'', dc_type = ''static'',
          dc_kubeconfig = ''hcp-admin-kubeconfig''\<rparr>"]
    by (simp add: cr injectedEnv_def env_defs kubeconfigSecret_def)
  then show ?thesis by (simp add: run)
qed

text \<open>
  Drift in which the copy has lost its \<^verbatim>\<open>super-admin.conf\<close> key is not corrected: the step
  fails with \<^verbatim>\<open>InjectionFailed\<close> and writes neither the secret nor the DPUCluster, in every run.
\<close>

lemma InjectKubeconfig_missing_key_not_repaired:
  assumes "run_state (InjectKubeconfig E) s = (r, s')"
    and "cr_hostedClusterRef (st_cr s) \<noteq> None"
    and "\<And>h. a_getSecret (mgmt E) h (NN (targetNamespace (st_cr s)) (kubeconfigSecretName (st_cr s))) = Inr dst"
    and "\<And>h. a_getSecret (mgmt E) h (NN (cr_namespace (st_cr s)) (kubeconfigSecretName (st_cr s))) = Inr src"
    and "map_of (sec_data dst) DestinationKubeconfigSecretKey = None"
    and "\<And>h. a_getDPUCluster (mgmt E) h (targetCluster (st_cr s)) = Inr d"
    and "dc_kubeconfig d = kubeconfigSecretName (st_cr s)"
  shows "stops r \<and> condFalse (st_cr s') KubeConfigInjected
    \<and> (\<forall>c \<in> set (st_history s') - set (st_history s). is_write c \<longrightarrow> c = UpdateCRStatus (st_cr s'))"
    (is "?P r s'")
proof -
  have "wp (InjectKubeconfig E) ?P s"
    using assms(2-)
    by (cases "map_of (sec_data src) SourceKubeconfigSecretKey")
      (auto simp: InjectKubeconfig_def checkInjectionState_def detectHCKubeconfigAvailability_def
        handleIdempotencyScenarios_def checkDrift_def injectionFailed_def setInjectedCondition_def wp_simps
        condFalse_putCond announced_def)
  then show ?thesis using assms(1) by (rule wp_run)
qed

definition lostKeyEnv :: env where
  "lostKeyEnv = injectedEnv\<lparr>mgmt := (mgmt injectedEnv)\<lparr>a_getSecret := (\<lambda>_ _. Inr (kubeconfigSecret SourceKubeconfigSecretKey))\<rparr>\<rparr>"

lemma InjectKubeconfig_missing_key_not_repaired_instance:
  "stops (fst (run_state (InjectKubeconfig lostKeyEnv) (startState provisionedCR)))"
proof -
  obtain r s' where run: "run_state (InjectKubeconfig lostKeyEnv) (startState provisionedCR) = (r, s')"
    by (rule prod.exhaust)
  have cr: "kubeconfigSecretName provisionedCR = ''hcp-admin-kubeconfig''"
      "cr_hostedClusterRef provisionedCR \<noteq> None"
    by code_simp+
  have "stops r"
    using InjectKubeconfig_missing_key_not_repaired [OF run, of
        "kubeconfigSecret SourceKubeconfigSecretKey" "kubeconfigSecret SourceKubeconfigSecretKey"
        "\<lparr>dc_meta = newMeta ''dpf'' ''dpu'', dc_type = ''static'',
          dc_kubeconfig = ''hcp-admin-kubeconfig''\<rparr>"]
    by (simp add: cr lostKeyEnv_def injectedEnv_def env_defs kubeconfigSecret_def
        SourceKubeconfigSecretKey_def DestinationKubeconfigSecretKey_def)
  then show ?thesis by (simp add: run)
qed

subsection \<open>Watch and cleanup\<close>

text \<open>
  The watch on kubeconfig secrets is the inverse of the naming: a secret with the name the
  injector looks for, in the namespace of the resource, passes the predicate and is mapped to that
  resource.
\<close>

lemma FindProvisioner_roundtrip:
  assumes "om_name (sec_meta secret) = kubeconfigSecretName p"
    and "om_namespace (sec_meta secret) = cr_namespace p"
    and "a_getCR (mgmt E) (st_history s) (cr_key p) = Inr p"
  shows "isHostedClusterKubeconfigSecret secret
    \<and> fst (run_state (FindProvisionerForKubeconfigSecret E secret) s) = [cr_key p]"
proof -
  have "wp (FindProvisionerForKubeconfigSecret E secret) (\<lambda>r s'. r = [cr_key p]) s"
    using assms by (simp add: FindProvisionerForKubeconfigSecret_def wp_simps kubeconfigSecretName_def
        TrimSuffix_append cr_key_def)
  then show ?thesis
    using assms(1) by (simp add: wp_def isHostedClusterKubeconfigSecret_def kubeconfigSecretName_def
        HasSuffix_append split: prod.splits)
qed

lemma FindProvisioner_roundtrip_instance:
  "fst (run_state (FindProvisionerForKubeconfigSecret
       (emptyEnv\<lparr>mgmt := emptyMgmt\<lparr>a_getCR := (\<lambda>_ _. Inr sampleCR)\<rparr>\<rparr>)
       \<lparr>sec_meta = newMeta ''clusters'' ''hcp-admin-kubeconfig'', sec_type = [], sec_data = []\<rparr>)
     (startState sampleCR)) = [NN ''clusters'' ''hcp'']"
proof -
  have "kubeconfigSecretName sampleCR = ''hcp-admin-kubeconfig''" "cr_namespace sampleCR = ''clusters''"
      "cr_key sampleCR = NN ''clusters'' ''hcp''"
    by code_simp+
  then show ?thesis
    using FindProvisioner_roundtrip [of "\<lparr>sec_meta = newMeta ''clusters'' ''hcp-admin-kubeconfig'',
        sec_type = [], sec_data = []\<rparr>" sampleCR "emptyEnv\<lparr>mgmt := emptyMgmt\<lparr>a_getCR := (\<lambda>_ _. Inr sampleCR)\<rparr>\<rparr>"
        "startState sampleCR"]
    by (simp add: newMeta_def)
qed

lemma wp_deleteKubeconfigs:
  "wp (deleteKubeconfigs E k items) (\<lambda>_ s'. \<forall>x. DeleteSecret x \<in> set (st_history s') \<longrightarrow>
     DeleteSecret x \<in> set (st_history s) \<or> x \<in> set items) s"
proof (induction items arbitrary: k s)
  case (Cons y items)
  have "wp (deleteKubeconfigs E j items) (\<lambda>_ s'. \<forall>x. DeleteSecret x \<in> set (st_history s') \<longrightarrow>
      DeleteSecret x \<in> set (st_history s) \<or> x \<in> set (y # items)) (s\<lparr>st_history := DeleteSecret y # st_history s\<rparr>)" for j
    by (rule wp_mono [OF Cons.IH]) auto
  then show ?case by (auto simp: wp_simps split: option.splits)
qed (simp add: wp_simps)

text \<open>
  Given that the API server applies the label selector of a list request, the cleanup
  handler deletes only secrets that carry the ownership labels of this resource, in whatever
  namespace they are.
\<close>

lemma kubeconfigCleanup_only_labelled:
  assumes "run_state (kubeconfigCleanup E) s = (r, s')"
    and "\<And>h ns sel items x k v. a_listSecrets (mgmt E) h ns sel = Inr items \<Longrightarrow> x \<in> set items \<Longrightarrow>
      (k, v) \<in> set sel \<Longrightarrow> map_of (om_labels (sec_meta x)) k = Some v"
    and "DeleteSecret x \<in> set (st_history s')" and "DeleteSecret x \<notin> set (st_history s)"
  shows "IsOwnedByProvisioner (om_labels (sec_meta x)) (cr_name (st_cr s)) (cr_namespace (st_cr s))"
proof -
  let ?own = "\<lambda>x. IsOwnedByProvisioner (om_labels (sec_meta x)) (cr_name (st_cr s)) (cr_namespace (st_cr s))"
  have own: "?own x" if "a_listSecrets (mgmt E) h None (ownerSelector (st_cr s)) = Inr items" "x \<in> set items" for h items x
    using assms(2) [OF that, of LabelDPFHCPProvisionerName] assms(2) [OF that, of LabelDPFHCPProvisionerNamespace]
    by (auto simp: ownerSelector_def IsOwnedByProvisioner_def mget_def)
  have "wp (kubeconfigCleanup E) (\<lambda>_ s'. \<forall>x. DeleteSecret x \<in> set (st_history s') \<longrightarrow>
      DeleteSecret x \<in> set (st_history s) \<or> ?own x) s"
    unfolding kubeconfigCleanup_def
    by (auto simp: wp_simps split: sum.splits intro!: wp_mono [OF wp_deleteKubeconfigs] dest: own)
  from wp_run [OF this assms(1)] assms(3,4) show ?thesis by blast
qed

definition ownedSecret :: Secret where
  "ownedSecret = kubeconfigCopy sampleCR ''hcp-admin-kubeconfig'' ''x''"

definition selectingEnv :: env where
  "selectingEnv = emptyEnv\<lparr>mgmt := emptyMgmt\<lparr>a_listSecrets := (\<lambda>_ _ sel. Inr (filter
     (\<lambda>x. list_all (\<lambda>(k, v). map_of (om_labels (sec_meta x)) k = Some v) sel) [ownedSecret]))\<rparr>\<rparr>"

lemma kubeconfigCleanup_only_labelled_instance:
  "DeleteSecret ownedSecret \<in> set (st_history (snd (run_state (kubeconfigCleanup selectingEnv) (startState sampleCR))))
   \<and> IsOwnedByProvisioner (om_labels (sec_meta ownedSecret)) (cr_name sampleCR) (cr_namespace sampleCR)"
proof -
  let ?run = "run_state (kubeconfigCleanup selectingEnv) (startState sampleCR)"
  obtain r s' where run: "?run = (r, s')"
    by (rule prod.exhaust)
  have "list_ex (\<lambda>c. c = DeleteSecret ownedSecret) (st_history (snd ?run))"
    by code_simp
  then have del: "DeleteSecret ownedSecret \<in> set (st_history s')"
    by (auto simp: run list_ex_iff)
  have "IsOwnedByProvisioner (om_labels (sec_meta ownedSecret)) (cr_name (st_cr (startState sampleCR)))
      (cr_namespace (st_cr (startState sampleCR)))"
    by (rule kubeconfigCleanup_only_labelled [OF run _ del])
      (auto simp: selectingEnv_def list_all_iff split: if_splits)
  with del show ?thesis by (simp add: run)
qed

end
