(* ===== verification/Hosted_Client.thy ===== *)
theory Hosted_Client
  imports Scenario
begin

section \<open>Clients of hosted clusters\<close>

text \<open>
  \<^verbatim>\<open>internal/hostedclient/client.go\<close>: one cached clientset per hosted cluster, made from the admin
  kubeconfig with its server replaced by the internal service name, and the create-or-update helper
  for typed clients. The cache is \<open>st_hcClients\<close>; its interface is the locale \<open>keyed_cache\<close>. The
  lemmas show that a client handed out for a cluster talks to that cluster's internal endpoint,
  that a cached client costs no request, and that an invalidated one is made anew.
\<close>

subsection \<open>The kubeconfig of a hosted cluster\<close>

definition GetKubeconfigData :: "env \<Rightarrow> string \<Rightarrow> string \<Rightarrow> (goerror + string) io" where
  "GetKubeconfigData E ns name =
     (let secretKey = NN ns (name @ ''-admin-kubeconfig'') in do {
       r \<leftarrow> getSecret E secretKey;
       State_Monad.return (case r of
         Inl e \<Rightarrow> Inl (wrap (''failed to get kubeconfig secret '' @ nn_string secretKey) e)
       | Inr secret \<Rightarrow>
           (case map_of (sec_data secret) ''kubeconfig'' of
              None \<Rightarrow> Inl (Errorf (''kubeconfig key not found in secret '' @ nn_string secretKey))
            | Some kubeconfigData \<Rightarrow>
                if kubeconfigData = []
                then Inl (Errorf (''kubeconfig data is empty in secret '' @ nn_string secretKey))
                else Inr kubeconfigData))
     })"

definition internalServer :: "string \<Rightarrow> string \<Rightarrow> string" where
  "internalServer ns name =
     ''https://kube-apiserver.'' @ ns @ ''-'' @ name @ ''.svc.cluster.local:6443''"

text \<open>The server is assigned through the pointer the cluster map holds.\<close>

definition replaceServerWithInternalEndpoint ::
    "Kubeconfig \<Rightarrow> string \<Rightarrow> string \<Rightarrow> goerror + Kubeconfig" where
  "replaceServerWithInternalEndpoint kubeconfig ns name =
     (let currentContext = kc_currentContext kubeconfig in
      if currentContext = [] then Inl (Errorf ''kubeconfig has no current context'')
      else case map_of (kc_contexts kubeconfig) currentContext of
        None \<Rightarrow> Inl (Errorf (''context '' @ currentContext @ '' not found in kubeconfig''))
      | Some clusterName \<Rightarrow>
          (case map_of (kc_clusters kubeconfig) clusterName of
             None \<Rightarrow> Inl (Errorf (''cluster '' @ clusterName @ '' not found in kubeconfig''))
           | Some _ \<Rightarrow> Inr (kubeconfig\<lparr>kc_clusters :=
               mset_key (kc_clusters kubeconfig) clusterName (internalServer ns name)\<rparr>)))"

text \<open>The server a client made from a kubeconfig talks to: that of the current context's cluster.\<close>

definition currentServer :: "Kubeconfig \<Rightarrow> string" where
  "currentServer kc = mget (kc_clusters kc) (mget (kc_contexts kc) (kc_currentContext kc))"

definition clientFromKubeconfig :: "env \<Rightarrow> string \<Rightarrow> string \<Rightarrow> string \<Rightarrow> goerror + HostedClient" where
  "clientFromKubeconfig E ns name kubeconfigData =
     (case k_loadKubeconfig (cod E) kubeconfigData of
        Inl e \<Rightarrow> Inl (wrap ''failed to parse kubeconfig'' e)
      | Inr kubeconfig \<Rightarrow>
          (case replaceServerWithInternalEndpoint kubeconfig ns name of
             Inl e \<Rightarrow> Inl (wrap ''failed to replace server endpoint'' e)
           | Inr kc \<Rightarrow>
               (case k_clientConfig (cod E) kc of
                  Some e \<Rightarrow> Inl (wrap ''failed to create rest config from kubeconfig'' e)
                | None \<Rightarrow>
                    (case k_newClientset (cod E) kc of
                       Some e \<Rightarrow> Inl (wrap ''failed to create clientset'' e)
                     | None \<Rightarrow> Inr \<lparr>hcl_server = currentServer kc,
                                    hcl_kubeconfig = kubeconfigData\<rparr>))))"

definition createHostedClusterClient ::
    "env \<Rightarrow> string \<Rightarrow> string \<Rightarrow> (goerror + HostedClient) io" where
  "createHostedClusterClient E ns name = do {
     r \<leftarrow> GetKubeconfigData E ns name;
     State_Monad.return (case r of
       Inl e \<Rightarrow> Inl (wrap ''failed to get kubeconfig'' e)
     | Inr kubeconfigData \<Rightarrow> clientFromKubeconfig E ns name kubeconfigData)
   }"

subsection \<open>The cache\<close>

definition clientKey :: "string \<Rightarrow> string \<Rightarrow> string" where
  "clientKey ns name = ns @ ''/'' @ name"

definition GetHostedClusterClient ::
    "env \<Rightarrow> string \<Rightarrow> string \<Rightarrow> (goerror + HostedClient) io" where
  "GetHostedClusterClient E ns name = do {
     cache \<leftarrow> gets st_hcClients;
     (case map_of cache (clientKey ns name) of
        Some clientset \<Rightarrow> State_Monad.return (Inr clientset)
      | None \<Rightarrow> do {
          r \<leftarrow> createHostedClusterClient E ns name;
          (case r of
             Inl e \<Rightarrow> State_Monad.return (Inl e)
           | Inr clientset \<Rightarrow> do {
               _ \<leftarrow> modify_st (\<lambda>s. s\<lparr>st_hcClients :=
                      mset_key (st_hcClients s) (clientKey ns name) clientset\<rparr>);
               State_Monad.return (Inr clientset)
             })
        })
   }"

definition InvalidateClient :: "string \<Rightarrow> string \<Rightarrow> unit io" where
  "InvalidateClient ns name =
     modify_st (\<lambda>s. s\<lparr>st_hcClients := AList.delete (clientKey ns name) (st_hcClients s)\<rparr>)"

definition TestConnection :: "env \<Rightarrow> HostedClient \<Rightarrow> goerror option io" where
  "TestConnection E clientset = do {
     r \<leftarrow> hostedServerVersion E clientset;
     State_Monad.return
       (map_option (wrap ''failed to connect to hosted cluster API server'') r)
   }"

subsection \<open>Create or update\<close>

datatype HostedOperationResult = HostedResultNone | HostedResultCreated | HostedResultUpdated

text \<open>
  The helper is generic in the object type; \<open>nameOf\<close> reads name and namespace, \<open>same\<close> is
  \<^verbatim>\<open>equality.Semantic.DeepEqual\<close> on that type.
\<close>

definition hostedCreateOrUpdate ::
    "(goerror + 'a) io \<Rightarrow> ('a \<Rightarrow> goerror option io) \<Rightarrow> ('a \<Rightarrow> goerror option io) \<Rightarrow>
     ('a \<Rightarrow> NamespacedName) \<Rightarrow> ('a \<Rightarrow> 'a \<Rightarrow> bool) \<Rightarrow> 'a \<Rightarrow> ('a \<Rightarrow> goerror + 'a) \<Rightarrow>
     (HostedOperationResult \<times> goerror option) io" where
  "hostedCreateOrUpdate getObj createObj updateObj nameOf same obj mutateFn = do {
     r \<leftarrow> getObj;
     (case r of
        Inl err \<Rightarrow>
          if \<not> IsNotFound err then State_Monad.return (HostedResultNone, Some err)
          else (case mutateFn obj of
            Inl e \<Rightarrow> State_Monad.return (HostedResultNone, Some e)
          | Inr obj' \<Rightarrow>
              if nameOf obj' \<noteq> nameOf obj
              then State_Monad.return (HostedResultNone,
                     Some (Errorf ''mutate function cannot change object name or namespace''))
              else do {
                w \<leftarrow> createObj obj';
                State_Monad.return (case w of
                  Some e \<Rightarrow> (HostedResultNone, Some e)
                | None \<Rightarrow> (HostedResultCreated, None))
              })
      | Inr existing \<Rightarrow>
          (case mutateFn existing of
             Inl e \<Rightarrow> State_Monad.return (HostedResultNone, Some e)
           | Inr existing' \<Rightarrow>
               if nameOf existing' \<noteq> nameOf obj
               then State_Monad.return (HostedResultNone,
                      Some (Errorf ''mutate function cannot change object name or namespace''))
               else if same existing existing'
               then State_Monad.return (HostedResultNone, None)
               else do {
                 w \<leftarrow> updateObj existing';
                 State_Monad.return (case w of
                   Some e \<Rightarrow> (HostedResultNone, Some e)
                 | None \<Rightarrow> (HostedResultUpdated, None))
               }))
   }"

subsection \<open>The interface of a cache\<close>

locale keyed_cache =
  fixes lookup :: "'c \<Rightarrow> string \<Rightarrow> 'v option"
    and store :: "'c \<Rightarrow> string \<Rightarrow> 'v \<Rightarrow> 'c"
    and drop_key :: "'c \<Rightarrow> string \<Rightarrow> 'c"
  assumes lookup_store: "lookup (store c k v) k' = (if k' = k then Some v else lookup c k')"
    and lookup_drop: "lookup (drop_key c k) k' = (if k' = k then None else lookup c k')"
begin

text \<open>A property that every stored value has keeps holding of every value found.\<close>

definition all_good :: "(string \<Rightarrow> 'v \<Rightarrow> bool) \<Rightarrow> 'c \<Rightarrow> bool" where
  "all_good P c \<longleftrightarrow> (\<forall>k v. lookup c k = Some v \<longrightarrow> P k v)"

lemma all_good_store: "all_good P c \<Longrightarrow> P k v \<Longrightarrow> all_good P (store c k v)"
  by (simp add: all_good_def lookup_store)

lemma all_good_drop: "all_good P c \<Longrightarrow> all_good P (drop_key c k)"
  by (simp add: all_good_def lookup_drop)

lemma all_goodD: "all_good P c \<Longrightarrow> lookup c k = Some v \<Longrightarrow> P k v"
  by (simp add: all_good_def)

end

interpretation hcCache: keyed_cache
  "map_of :: HostedClient gomap \<Rightarrow> string \<Rightarrow> HostedClient option" mset_key "\<lambda>c k. AList.delete k c"
  by unfold_locales (simp_all add: delete_conv')

subsection \<open>Facts\<close>

lemma wp_GetKubeconfigData [wp_simps]:
  "wp (GetKubeconfigData E ns name) Q s \<longleftrightarrow>
     (\<exists>r. r = fst (run_state (GetKubeconfigData E ns name) s) \<and>
       Q r (s\<lparr>st_history := GetSecret (NN ns (name @ ''-admin-kubeconfig'')) # st_history s\<rparr>))"
  by (simp add: GetKubeconfigData_def client_defs request_def Let_def wp_def split: prod.splits)

lemma replaceServer_current:
  "replaceServerWithInternalEndpoint kc ns name = Inr kc' \<Longrightarrow> currentServer kc' = internalServer ns name"
  by (auto simp: replaceServerWithInternalEndpoint_def currentServer_def Let_def mget_def
      split: if_splits option.splits)

lemma clientFromKubeconfig_server:
  "clientFromKubeconfig E ns name d = Inr c \<Longrightarrow>
     hcl_server c = internalServer ns name \<and> hcl_kubeconfig c = d"
  by (auto simp: clientFromKubeconfig_def replaceServer_current split: sum.splits option.splits)

text \<open>
  The invariant of the cache: a client is stored under the key of a cluster and talks to the
  internal endpoint of that cluster. Namespaces contain no slash, so a key names one cluster.
\<close>

definition internal_to :: "string \<Rightarrow> HostedClient \<Rightarrow> bool" where
  "internal_to k c \<longleftrightarrow> (\<exists>ns name. CHR ''/'' \<notin> set ns \<and> k = clientKey ns name
     \<and> hcl_server c = internalServer ns name)"

lemma clientKey_inj:
  assumes "clientKey ns name = clientKey ns' name'"
    and "CHR ''/'' \<notin> set ns" and "CHR ''/'' \<notin> set ns'"
  shows "ns = ns' \<and> name = name'"
proof -
  have "Index (clientKey ns name) (CHR ''/'') = Some (length ns)"
    "Index (clientKey ns' name') (CHR ''/'') = Some (length ns')"
    using assms(2,3) Index_append by (simp_all add: clientKey_def)
  then have "length ns = length ns'" using assms(1) by simp
  then show ?thesis using assms(1) by (simp add: clientKey_def)
qed

definition cache_internal :: "st \<Rightarrow> bool" where
  "cache_internal s \<longleftrightarrow> hcCache.all_good internal_to (st_hcClients s)"

lemma cache_internal_lookup:
  assumes "cache_internal s" and "CHR ''/'' \<notin> set ns"
    and "map_of (st_hcClients s) (clientKey ns name) = Some c"
  shows "hcl_server c = internalServer ns name"
proof -
  have "internal_to (clientKey ns name) c"
    using assms(1,3) unfolding cache_internal_def by (rule hcCache.all_goodD)
  then obtain ns' name' where *: "CHR ''/'' \<notin> set ns'" "clientKey ns name = clientKey ns' name'"
    "hcl_server c = internalServer ns' name'"
    unfolding internal_to_def by blast
  with clientKey_inj [OF *(2) assms(2) *(1)] show ?thesis by simp
qed

text \<open>What the cache lookup does, in one rule: reuse, failure, or a new client that is stored.\<close>

lemma wp_GetHostedClusterClient:
  assumes reuse: "\<And>c. map_of (st_hcClients s) (clientKey ns name) = Some c \<Longrightarrow> Q (Inr c) s"
    and fail: "\<And>e. Q (Inl e)
      (s\<lparr>st_history := GetSecret (NN ns (name @ ''-admin-kubeconfig'')) # st_history s\<rparr>)"
    and new: "\<And>c d. map_of (st_hcClients s) (clientKey ns name) = None \<Longrightarrow>
      clientFromKubeconfig E ns name d = Inr c \<Longrightarrow>
      Q (Inr c) (s\<lparr>st_history := GetSecret (NN ns (name @ ''-admin-kubeconfig'')) # st_history s,
                   st_hcClients := mset_key (st_hcClients s) (clientKey ns name) c\<rparr>)"
  shows "wp (GetHostedClusterClient E ns name) Q s"
proof (cases "map_of (st_hcClients s) (clientKey ns name)")
  case (Some c)
  then show ?thesis by (simp add: GetHostedClusterClient_def wp_simps reuse)
next
  case None
  then show ?thesis
    by (auto simp: GetHostedClusterClient_def createHostedClusterClient_def wp_simps fail
        intro: new split: sum.splits)
qed

lemma cache_internal_updates [simp]:
  "cache_internal (s\<lparr>st_history := h\<rparr>) = cache_internal s"
  "cache_internal (s\<lparr>st_cr := c\<rparr>) = cache_internal s"
  by (simp_all add: cache_internal_def)

lemma footprint_hosted_client [footprint_intros]:
  "P (GetSecret (NN ns (name @ ''-admin-kubeconfig''))) \<Longrightarrow>
     footprint M S W P (GetKubeconfigData E ns name)"
  "P (GetSecret (NN ns (name @ ''-admin-kubeconfig''))) \<Longrightarrow>
     footprint M S W P (GetHostedClusterClient E ns name)"
  "footprint M S W P (InvalidateClient ns name)"
  "P (HostedServerVersion cl) \<Longrightarrow> footprint M S W P (TestConnection E cl)"
  unfolding GetHostedClusterClient_def createHostedClusterClient_def GetKubeconfigData_def
    InvalidateClient_def TestConnection_def
  by (intro footprint_intros; simp)+

subsection \<open>Properties\<close>

text \<open>
  C26: a client handed out for a hosted cluster talks to the internal service endpoint of exactly
  that cluster, and the cache keeps this invariant: if every cached client is stored under the key
  of the cluster whose endpoint it uses, then after \<^verbatim>\<open>GetHostedClusterClient\<close> this still holds, and
  the client returned uses the endpoint of the namespace and name asked for.
\<close>

theorem GetHostedClusterClient_internal:
  assumes "cache_internal s" and "CHR ''/'' \<notin> set ns"
    and "run_state (GetHostedClusterClient E ns name) s = (r, s')"
  shows "cache_internal s' \<and> (\<forall>c. r = Inr c \<longrightarrow> hcl_server c = internalServer ns name)"
proof -
  have "wp (GetHostedClusterClient E ns name) (\<lambda>r s'. cache_internal s'
      \<and> (\<forall>c. r = Inr c \<longrightarrow> hcl_server c = internalServer ns name)) s"
  proof (rule wp_GetHostedClusterClient)
    fix c d assume "clientFromKubeconfig E ns name d = Inr c"
    then have "hcl_server c = internalServer ns name" by (simp add: clientFromKubeconfig_server)
    moreover from this have "internal_to (clientKey ns name) c"
      using assms(2) unfolding internal_to_def by blast
    ultimately show "cache_internal (s\<lparr>st_history :=
          GetSecret (NN ns (name @ ''-admin-kubeconfig'')) # st_history s,
          st_hcClients := mset_key (st_hcClients s) (clientKey ns name) c\<rparr>)
        \<and> (\<forall>c'. Inr c = Inr c' \<longrightarrow> hcl_server c' = internalServer ns name)"
      using assms(1) by (simp add: cache_internal_def hcCache.all_good_store)
  qed (use assms in \<open>auto simp: cache_internal_lookup\<close>)
  then show ?thesis using assms(3) by (rule wp_run)
qed

definition kubeconfigEnv :: env where
  "kubeconfigEnv = emptyEnv\<lparr>
     mgmt := emptyMgmt\<lparr>a_getSecret := (\<lambda>_ k. Inr \<lparr>sec_meta = newMeta (nn_namespace k) (nn_name k),
       sec_type = ''Opaque'', sec_data = [(''kubeconfig'', ''kc'')]\<rparr>)\<rparr>,
     cod := emptyCodecs\<lparr>k_loadKubeconfig := (\<lambda>_. Inr \<lparr>kc_currentContext = ''admin'',
       kc_contexts = [(''admin'', ''cluster'')],
       kc_clusters = [(''cluster'', ''https://10.6.135.42:6443'')], kc_rest = []\<rparr>)\<rparr>\<rparr>"

theorem GetHostedClusterClient_internal_witness:
  "\<exists>c s'. run_state (GetHostedClusterClient kubeconfigEnv ''clusters'' ''hcp'') (startState sampleCR)
       = (Inr c, s')
     \<and> hcl_server c = ''https://kube-apiserver.clusters-hcp.svc.cluster.local:6443''"
proof -
  define p where "p = run_state (GetHostedClusterClient kubeconfigEnv ''clusters'' ''hcp'')
    (startState sampleCR)"
  have good: "cache_internal (startState sampleCR)"
    by (simp add: cache_internal_def hcCache.all_good_def)
  have "\<not> isl (fst p)" unfolding p_def by code_simp
  then obtain c s' where "p = (Inr c, s')" by (cases p; cases "fst p") auto
  moreover from this GetHostedClusterClient_internal [OF good, of "''clusters''" kubeconfigEnv "''hcp''"]
  have "hcl_server c = internalServer ''clusters'' ''hcp''" unfolding p_def by simp
  ultimately show ?thesis unfolding p_def by (auto simp: internalServer_def)
qed

text \<open>
  the cache serves and forgets. After a call that returned a client, the next call for the same
  cluster returns the same client and sends no request at all; after an invalidation, the next call
  sends the request for the kubeconfig secret again, so that a rotated kubeconfig takes effect.
\<close>

lemma client_cache_serves_and_forgets:
  assumes "run_state (GetHostedClusterClient E ns name) s = (Inr c, s1)"
  shows "run_state (GetHostedClusterClient E ns name) s1 = (Inr c, s1)
    \<and> GetSecret (NN ns (name @ ''-admin-kubeconfig'')) # st_history s1
      = st_history (snd (run_state (do { _ \<leftarrow> InvalidateClient ns name;
          GetHostedClusterClient E ns name }) s1))"
proof -
  have "wp (GetHostedClusterClient E ns name)
      (\<lambda>r s'. \<forall>c. r = Inr c \<longrightarrow> map_of (st_hcClients s') (clientKey ns name) = Some c) s"
    by (rule wp_GetHostedClusterClient) auto
  with assms have cached: "map_of (st_hcClients s1) (clientKey ns name) = Some c"
    by (auto dest: wp_run)
  have "wp (GetHostedClusterClient E ns name) (\<lambda>r s'. r = Inr c \<and> s' = s1) s1"
    using cached by (simp add: GetHostedClusterClient_def wp_simps)
  moreover have "wp (do { _ \<leftarrow> InvalidateClient ns name; GetHostedClusterClient E ns name })
      (\<lambda>_ s'. st_history s' = GetSecret (NN ns (name @ ''-admin-kubeconfig'')) # st_history s1) s1"
    by (auto simp: InvalidateClient_def wp_simps delete_conv' intro!: wp_GetHostedClusterClient)
  ultimately show ?thesis by (simp add: wp_def split: prod.splits)
qed

lemma client_cache_serves_and_forgets_instance:
  "\<exists>c s1. run_state (GetHostedClusterClient kubeconfigEnv ''clusters'' ''hcp'') (startState sampleCR)
       = (Inr c, s1)
     \<and> run_state (GetHostedClusterClient kubeconfigEnv ''clusters'' ''hcp'') s1 = (Inr c, s1)"
proof -
  define p where "p = run_state (GetHostedClusterClient kubeconfigEnv ''clusters'' ''hcp'')
    (startState sampleCR)"
  have "\<not> isl (fst p)" unfolding p_def by code_simp
  then obtain c s1 where "p = (Inr c, s1)" by (cases p; cases "fst p") auto
  with client_cache_serves_and_forgets [of kubeconfigEnv "''clusters''" "''hcp''"] show ?thesis
    unfolding p_def by blast
qed

end
