(* ===== verification/CSR_Approval.thy ===== *)
theory CSR_Approval
  imports Hosted_Client
begin

section \<open>Approval of certificate signing requests\<close>

text \<open>
  \<^verbatim>\<open>internal/controller/csrapproval\<close>: a controller of its own that polls each hosted cluster for
  pending kubelet certificate requests and approves those of DPU workers. \<^verbatim>\<open>hostname.go\<close>,
  \<^verbatim>\<open>csr_content_validation.go\<close> and \<^verbatim>\<open>csr_owner_validation.go\<close> decide, \<^verbatim>\<open>csrapproval.go\<close> drives,
  \<^verbatim>\<open>controller.go\<close> is the reconcile loop. The validators are shown equivalent to a declarative
  description of an acceptable request, and the controller to approve exactly the acceptable ones.
\<close>

subsection \<open>Host names\<close>

definition SignerBootstrap :: string where
  "SignerBootstrap = ''kubernetes.io/kube-apiserver-client-kubelet''"

definition SignerServing :: string where
  "SignerServing = ''kubernetes.io/kubelet-serving''"

definition SystemNodePrefix :: string where
  "SystemNodePrefix = ''system:node:''"

definition extractHostnameFromBootstrapCSR :: "env \<Rightarrow> CSR \<Rightarrow> goerror + string" where
  "extractHostnameFromBootstrapCSR E csr =
     (case k_pemDecode (cod E) (csr_request csr) of
        None \<Rightarrow> Inl (Errorf ''failed to decode PEM block from CSR request'')
      | Some (_, bytes) \<Rightarrow>
          (case k_parseCertificateRequest (cod E) bytes of
             Inl e \<Rightarrow> Inl (wrap ''failed to parse X509 certificate request'' e)
           | Inr certReq \<Rightarrow>
               (let cn = x_commonName certReq; hostname = TrimPrefix cn SystemNodePrefix in
                if hostname = [] \<or> hostname = cn
                then Inl (Errorf (''invalid CN format, expected 'system:node:<hostname>', got: '' @ cn))
                else Inr hostname)))"

definition extractHostnameFromServingCSR :: "CSR \<Rightarrow> goerror + string" where
  "extractHostnameFromServingCSR csr =
     (let username = csr_username csr; hostname = TrimPrefix username SystemNodePrefix in
      if hostname = [] \<or> hostname = username
      then Inl (Errorf (''invalid username format, expected 'system:node:<hostname>', got: ''
             @ username))
      else Inr hostname)"

definition ExtractHostname :: "env \<Rightarrow> CSR \<Rightarrow> goerror + string" where
  "ExtractHostname E csr =
     (if csr_signerName csr = SignerBootstrap then extractHostnameFromBootstrapCSR E csr
      else if csr_signerName csr = SignerServing then extractHostnameFromServingCSR csr
      else Inl (Errorf (''unsupported signer name: '' @ csr_signerName csr)))"

definition CertificateApproved :: string where
  "CertificateApproved = ''Approved''"

definition CertificateDenied :: string where
  "CertificateDenied = ''Denied''"

fun anyDecision :: "CSRCondition list \<Rightarrow> bool" where
  "anyDecision [] = False"
| "anyDecision (condition # cs) =
     (if csrc_type condition = CertificateApproved \<or> csrc_type condition = CertificateDenied
      then True else anyDecision cs)"

definition IsPending :: "CSR \<Rightarrow> bool" where
  "IsPending csr = (\<not> anyDecision (csr_conditions csr))"

definition FilterBySignerName :: "CSR list \<Rightarrow> CSR list" where
  "FilterBySignerName csrs =
     filter (\<lambda>csr. csr_signerName csr = SignerBootstrap \<or> csr_signerName csr = SignerServing) csrs"

subsection \<open>Content of a request\<close>

definition BootstrapperUsername :: string where
  "BootstrapperUsername =
     ''system:serviceaccount:openshift-machine-config-operator:node-bootstrapper''"

definition groupServiceAccounts :: string where
  "groupServiceAccounts = ''system:serviceaccounts''"

definition groupServiceAccountsMachineConfig :: string where
  "groupServiceAccountsMachineConfig =
     ''system:serviceaccounts:openshift-machine-config-operator''"

definition groupNodes :: string where
  "groupNodes = ''system:nodes''"

definition groupAuthenticated :: string where
  "groupAuthenticated = ''system:authenticated''"

definition expectedOrganization :: string where
  "expectedOrganization = ''system:nodes''"

text \<open>
  The Go code keeps a map from each required item to whether it was seen. Its final loop visits the
  map in no fixed order; which missing item an error names is visible in the log only, and here it is
  the first one.
\<close>

definition firstMissing :: "bool gomap \<Rightarrow> string option" where
  "firstMissing required = map_option fst (List.find (\<lambda>(_, found). \<not> found) required)"

fun markPresent :: "bool gomap \<Rightarrow> string list \<Rightarrow> bool gomap" where
  "markPresent required [] = required"
| "markPresent required (g # gs) =
     markPresent (if map_of required g \<noteq> None then mset_key required g True else required) gs"

definition validateBootstrapperIdentity :: "CSR \<Rightarrow> goerror option" where
  "validateBootstrapperIdentity csr =
     (if csr_username csr \<noteq> BootstrapperUsername
      then Some (Errorf (''invalid username: expected '' @ BootstrapperUsername @ '', got ''
             @ csr_username csr))
      else map_option (\<lambda>g. Errorf (''missing required group: '' @ g))
        (firstMissing (markPresent
          [(groupServiceAccounts, False), (groupServiceAccountsMachineConfig, False),
           (groupAuthenticated, False)] (csr_groups csr))))"

definition validateNodeIdentity :: "CSR \<Rightarrow> string \<Rightarrow> goerror option" where
  "validateNodeIdentity csr hostname =
     (let expectedUsername = SystemNodePrefix @ hostname in
      if csr_username csr \<noteq> expectedUsername
      then Some (Errorf (''invalid username: expected '' @ expectedUsername @ '', got ''
             @ csr_username csr))
      else if groupNodes \<notin> set (csr_groups csr)
      then Some (Errorf (''missing required group: '' @ groupNodes))
      else if groupAuthenticated \<notin> set (csr_groups csr)
      then Some (Errorf (''missing required group: '' @ groupAuthenticated))
      else None)"

fun checkUsages :: "string list \<Rightarrow> bool gomap \<Rightarrow> goerror + bool gomap" where
  "checkUsages [] allowedUsages = Inr allowedUsages"
| "checkUsages (usage # us) allowedUsages =
     (case map_of allowedUsages usage of
        None \<Rightarrow> Inl (Errorf (''disallowed usage present: '' @ usage))
      | Some _ \<Rightarrow> checkUsages us (mset_key allowedUsages usage True))"

definition validateUsages :: "CSR \<Rightarrow> bool gomap \<Rightarrow> goerror option" where
  "validateUsages csr allowedUsages =
     (case checkUsages (csr_usages csr) allowedUsages of
        Inl e \<Rightarrow> Some e
      | Inr seen \<Rightarrow> map_option (\<lambda>usage. Errorf (''missing required usage: '' @ usage))
                     (firstMissing seen))"

definition validateBootstrapUsages :: "CSR \<Rightarrow> goerror option" where
  "validateBootstrapUsages csr =
     validateUsages csr [(''digital signature'', False), (''client auth'', False)]"

definition validateServingUsages :: "CSR \<Rightarrow> goerror option" where
  "validateServingUsages csr =
     validateUsages csr [(''digital signature'', False), (''server auth'', False)]"

definition CertificateRequestBlockType :: string where
  "CertificateRequestBlockType = ''CERTIFICATE REQUEST''"

definition parseCSRRequest :: "env \<Rightarrow> CSR \<Rightarrow> goerror + CertificateRequest" where
  "parseCSRRequest E csr =
     (case k_pemDecode (cod E) (csr_request csr) of
        None \<Rightarrow> Inl (Errorf ''failed to decode PEM block from CSR request'')
      | Some (blockType, bytes) \<Rightarrow>
          if blockType \<noteq> CertificateRequestBlockType
          then Inl (Errorf (''unexpected PEM block type '' @ Quote blockType @ '', expected ''
                 @ CertificateRequestBlockType))
          else (case k_parseCertificateRequest (cod E) bytes of
                  Inl e \<Rightarrow> Inl (wrap ''failed to parse X509 certificate request'' e)
                | Inr certReq \<Rightarrow> Inr certReq))"

definition validateOrganization :: "CertificateRequest \<Rightarrow> goerror option" where
  "validateOrganization certReq =
     (if length (x_organization certReq) \<noteq> 1
      then Some (Errorf (''expected exactly one organization, got ''
             @ show_nat (length (x_organization certReq))))
      else if hd (x_organization certReq) \<noteq> expectedOrganization
      then Some (Errorf (''invalid organization: expected '' @ expectedOrganization @ '', got ''
             @ hd (x_organization certReq)))
      else None)"

definition validateCN :: "CertificateRequest \<Rightarrow> string \<Rightarrow> goerror option" where
  "validateCN certReq hostname =
     (let expectedCN = SystemNodePrefix @ hostname in
      if x_commonName certReq \<noteq> expectedCN
      then Some (Errorf (''invalid CN: expected '' @ expectedCN @ '', got '' @ x_commonName certReq))
      else None)"

subsection \<open>IP addresses\<close>

text \<open>The part of package \<^verbatim>\<open>net\<close> the validation calls. An address is its list of bytes.\<close>

definition To4 :: "nat list \<Rightarrow> nat list option" where
  "To4 ip =
     (if length ip = 4 then Some ip
      else if length ip = 16 \<and> take 10 ip = replicate 10 0 \<and> ip ! 10 = 255 \<and> ip ! 11 = 255
      then Some (drop 12 ip) else None)"

definition IsUnspecified :: "nat list \<Rightarrow> bool" where
  "IsUnspecified ip = (To4 ip = Some [0, 0, 0, 0] \<or> ip = replicate 16 0)"

definition IsLoopback :: "nat list \<Rightarrow> bool" where
  "IsLoopback ip = (case To4 ip of Some ip4 \<Rightarrow> hd ip4 = 127 | None \<Rightarrow> ip = replicate 15 0 @ [1])"

definition IsMulticast :: "nat list \<Rightarrow> bool" where
  "IsMulticast ip =
     (case To4 ip of
        Some ip4 \<Rightarrow> and (hd ip4) 0xF0 = 0xE0
      | None \<Rightarrow> length ip = 16 \<and> hd ip = 0xFF)"

definition hasValidIPAddress :: "nat list \<Rightarrow> bool" where
  "hasValidIPAddress ip =
     (if ip = [] then False else \<not> IsUnspecified ip \<and> \<not> IsLoopback ip \<and> \<not> IsMulticast ip)"

text \<open>What \<^verbatim>\<open>%v\<close> prints for an address: dotted decimal, or the words in hexadecimal with the first
  longest run of at least two zero words shortened.\<close>

fun show_hex :: "nat \<Rightarrow> string" where
  "show_hex n = (if n < 16 then [hex_digit n] else show_hex (n div 16) @ [hex_digit (n mod 16)])"

declare show_hex.simps [simp del]

fun ipWords :: "nat list \<Rightarrow> nat list" where
  "ipWords (a # b # bs) = (a * 256 + b) # ipWords bs"
| "ipWords _ = []"

definition zeroRun :: "nat list \<Rightarrow> nat \<Rightarrow> nat" where
  "zeroRun ws i = length (takeWhile (\<lambda>w. w = 0) (drop i ws))"

definition bestRun :: "nat list \<Rightarrow> nat \<times> nat" where
  "bestRun ws = fold (\<lambda>i (start, len). if 2 \<le> zeroRun ws i \<and> len < zeroRun ws i
     then (i, zeroRun ws i) else (start, len)) [0..<length ws] (0, 0)"

definition show_ip6 :: "nat list \<Rightarrow> string" where
  "show_ip6 ip =
     (let ws = ipWords ip; (start, len) = bestRun ws; show_ws = (\<lambda>xs. Join (map show_hex xs) '':'') in
      if len = 0 then show_ws ws
      else show_ws (take start ws) @ ''::'' @ show_ws (drop (start + len) ws))"

definition show_ip :: "nat list \<Rightarrow> string" where
  "show_ip ip =
     (if ip = [] then ''<nil>''
      else case To4 ip of
        Some ip4 \<Rightarrow> Join (map show_nat ip4) ''.''
      | None \<Rightarrow> if length ip = 16 then show_ip6 ip
          else ''?'' @ concat (map (\<lambda>b. [hex_digit (b div 16), hex_digit (b mod 16)]) ip))"

definition show_list :: "string list \<Rightarrow> string" where
  "show_list xs = ''['' @ Join xs '' '' @ '']''"

subsection \<open>The two kinds of request\<close>

definition validateServingIdentities :: "CertificateRequest \<Rightarrow> string \<Rightarrow> goerror option" where
  "validateServingIdentities certReq hostname =
     (if length (x_dnsNames certReq) \<noteq> 1
      then Some (Errorf (''CSR must contain exactly one DNS SAN, got ''
             @ show_nat (length (x_dnsNames certReq)) @ '': '' @ show_list (x_dnsNames certReq)))
      else if hd (x_dnsNames certReq) \<noteq> hostname
      then Some (Errorf (''CSR DNS SAN '' @ Quote (hd (x_dnsNames certReq))
             @ '' does not match hostname '' @ Quote hostname))
      else map_option (\<lambda>ip. Errorf (''CSR contains invalid IP address: '' @ show_ip ip))
             (List.find (\<lambda>ip. \<not> hasValidIPAddress ip) (x_ipAddresses certReq)))"

text \<open>\<^verbatim>\<open>if err := check(); err != nil { return fmt.Errorf("msg: %w", err) }\<close>, then the rest.\<close>

definition guard_err :: "goerror option \<Rightarrow> string \<Rightarrow> goerror option \<Rightarrow> goerror option" where
  "guard_err check msg rest = (case check of Some e \<Rightarrow> Some (wrap msg e) | None \<Rightarrow> rest)"

definition ValidateBootstrapCSR :: "env \<Rightarrow> CSR \<Rightarrow> string \<Rightarrow> goerror option" where
  "ValidateBootstrapCSR E csr hostname =
     guard_err (validateBootstrapperIdentity csr) ''bootstrapper identity validation failed''
     (guard_err (validateBootstrapUsages csr) ''key usage validation failed''
     (case parseCSRRequest E csr of
        Inl e \<Rightarrow> Some (wrap ''failed to parse CSR'' e)
      | Inr certReq \<Rightarrow>
          guard_err (validateOrganization certReq) ''organization validation failed''
          (guard_err (validateCN certReq hostname) ''CN validation failed''
          (if x_dnsNames certReq \<noteq> [] \<or> x_ipAddresses certReq \<noteq> []
              \<or> x_emailAddresses certReq \<noteq> [] \<or> x_uris certReq \<noteq> []
           then Some (Errorf (''bootstrap CSR must not contain SANs (DNS=''
             @ show_list (x_dnsNames certReq) @ '', IP='' @ show_list (map show_ip (x_ipAddresses certReq))
             @ '', email='' @ show_list (x_emailAddresses certReq) @ '', URI=''
             @ show_list (x_uris certReq) @ '')''))
           else None))))"

definition ValidateServingCSR :: "env \<Rightarrow> CSR \<Rightarrow> string \<Rightarrow> goerror option" where
  "ValidateServingCSR E csr hostname =
     guard_err (validateNodeIdentity csr hostname) ''node identity validation failed''
     (guard_err (validateServingUsages csr) ''key usage validation failed''
     (case parseCSRRequest E csr of
        Inl e \<Rightarrow> Some (wrap ''failed to parse CSR'' e)
      | Inr certReq \<Rightarrow>
          guard_err (validateOrganization certReq) ''organization validation failed''
          (guard_err (validateCN certReq hostname) ''CN validation failed''
          (guard_err (validateServingIdentities certReq hostname)
             ''serving identities validation failed'' None))))"

subsection \<open>Ownership\<close>

record ValidationResult =
  Valid :: bool
  vr_Reason :: string

definition DPUClusterConfig :: string where
  "DPUClusterConfig = ''DPU Cluster Config''"

definition DPUReady :: string where
  "DPUReady = ''Ready''"

definition DPUNodeEffectRemoval :: string where
  "DPUNodeEffectRemoval = ''Node Effect Removal''"

definition getDPU :: "env \<Rightarrow> string \<Rightarrow> string \<Rightarrow> (goerror + DPU option) io" where
  "getDPU E dpuNamespace hostname = do {
     r \<leftarrow> listDPUs E dpuNamespace;
     State_Monad.return (case r of
       Inl e \<Rightarrow> Inl e
     | Inr dpus \<Rightarrow> Inr (List.find (\<lambda>d. dpu_name d = hostname) dpus))
   }"

definition nodeExists :: "env \<Rightarrow> HostedClient \<Rightarrow> string \<Rightarrow> (goerror + bool) io" where
  "nodeExists E hcClient hostname = do {
     r \<leftarrow> hostedListNodes E hcClient;
     State_Monad.return (case r of
       Inl e \<Rightarrow> Inl e
     | Inr nodes \<Rightarrow> Inr (hostname \<in> set nodes))
   }"

definition allowedServingPhases :: "string list" where
  "allowedServingPhases = [DPUClusterConfig, DPUReady, DPUNodeEffectRemoval]"

definition ValidateCSROwner ::
    "env \<Rightarrow> HostedClient \<Rightarrow> string \<Rightarrow> string \<Rightarrow> bool \<Rightarrow> (goerror + ValidationResult) io" where
  "ValidateCSROwner E hcClient dpuNamespace hostname isBootstrapCSR = do {
     r \<leftarrow> getDPU E dpuNamespace hostname;
     (case r of
        Inl e \<Rightarrow> State_Monad.return (Inl (wrap ''failed to get DPU'' e))
      | Inr None \<Rightarrow> State_Monad.return (Inr \<lparr>Valid = False,
          vr_Reason = ''no matching DPU found for hostname '' @ hostname @ '' in namespace ''
            @ dpuNamespace\<rparr>)
      | Inr (Some dpu) \<Rightarrow>
          if isBootstrapCSR then
            State_Monad.return (Inr
              (if dpu_phase dpu \<noteq> DPUClusterConfig
               then \<lparr>Valid = False, vr_Reason = ''DPU '' @ hostname @ '' is in phase ''
                      @ dpu_phase dpu @ '', bootstrap CSRs only approved in phase ''
                      @ DPUClusterConfig\<rparr>
               else \<lparr>Valid = True, vr_Reason = ''DPU in '' @ DPUClusterConfig
                      @ '' phase, bootstrap CSR approved''\<rparr>))
          else if dpu_phase dpu \<notin> set allowedServingPhases then
            State_Monad.return (Inr \<lparr>Valid = False, vr_Reason = ''DPU '' @ hostname
              @ '' is in phase '' @ dpu_phase dpu @ '', serving CSRs only approved in phases ''
              @ DPUClusterConfig @ '', '' @ DPUReady @ '', or '' @ DPUNodeEffectRemoval\<rparr>)
          else do {
            n \<leftarrow> nodeExists E hcClient hostname;
            State_Monad.return (case n of
              Inl e \<Rightarrow> Inl (wrap ''failed to check Node existence'' e)
            | Inr nodeFound \<Rightarrow> Inr
                (if \<not> nodeFound
                 then \<lparr>Valid = False, vr_Reason = ''node '' @ hostname
                        @ '' does not exist yet in hosted cluster''\<rparr>
                 else \<lparr>Valid = True, vr_Reason = ''DPU in '' @ dpu_phase dpu
                        @ '' phase and node exists, serving CSR approved''\<rparr>))
          })
   }"

subsection \<open>Approval\<close>

definition approvalOf :: "CSR \<Rightarrow> string \<Rightarrow> string \<Rightarrow> CSR" where
  "approvalOf csr hostname csrType = csr\<lparr>csr_conditions := csr_conditions csr @
     [\<lparr>csrc_type = CertificateApproved, csrc_status = ConditionTrue, csrc_reason = ''AutoApproved'',
       csrc_message = ''Auto-approved '' @ csrType @ '' CSR for DPU worker node '' @ hostname\<rparr>]\<rparr>"

definition approveCSR ::
    "env \<Rightarrow> HostedClient \<Rightarrow> CSR \<Rightarrow> string \<Rightarrow> string \<Rightarrow> goerror option io" where
  "approveCSR E hcClient csr hostname csrType =
     apiWrite E (HostedApproveCSR hcClient (approvalOf csr hostname csrType))"

text \<open>The content check of \<^verbatim>\<open>processCSR\<close>, by signer.\<close>

definition validateContent :: "env \<Rightarrow> CSR \<Rightarrow> string \<Rightarrow> goerror option" where
  "validateContent E csr hostname =
     (if csr_signerName csr = SignerBootstrap then ValidateBootstrapCSR E csr hostname
      else if csr_signerName csr = SignerServing then ValidateServingCSR E csr hostname
      else None)"

definition processCSR :: "env \<Rightarrow> HostedClient \<Rightarrow> CSR \<Rightarrow> string \<Rightarrow> goerror option io" where
  "processCSR E hcClient csr csrType =
     (case ExtractHostname E csr of
        Inl _ \<Rightarrow> State_Monad.return None
      | Inr hostname \<Rightarrow>
          (case validateContent E csr hostname of
             Some _ \<Rightarrow> State_Monad.return None
           | None \<Rightarrow> with_cr (\<lambda>dpfhcp. do {
               r \<leftarrow> ValidateCSROwner E hcClient (ref_namespace (sp_dpuClusterRef (cr_spec dpfhcp)))
                     hostname (csr_signerName csr = SignerBootstrap);
               (case r of
                  Inl e \<Rightarrow> State_Monad.return (Some (wrap ''failed to validate CSR ownership'' e))
                | Inr result \<Rightarrow>
                    if \<not> Valid result then State_Monad.return None
                    else do {
                      w \<leftarrow> approveCSR E hcClient csr hostname csrType;
                      (case w of
                         Some e \<Rightarrow> State_Monad.return (Some (wrap ''failed to approve CSR'' e))
                       | None \<Rightarrow> do {
                           _ \<leftarrow> event EventTypeNormal ''CSRApproved'' (''Approved '' @ csrType
                                  @ '' CSR for DPU worker node '' @ hostname);
                           State_Monad.return None
                         })
                    })
             })))"

text \<open>The two loops: an error of one request is logged and the loop goes on.\<close>

fun processEach :: "env \<Rightarrow> HostedClient \<Rightarrow> string \<Rightarrow> CSR list \<Rightarrow> unit io" where
  "processEach E hcClient csrType [] = State_Monad.return ()"
| "processEach E hcClient csrType (csr # rest) = do {
     _ \<leftarrow> processCSR E hcClient csr csrType;
     processEach E hcClient csrType rest
   }"

definition processPendingCSRs :: "env \<Rightarrow> HostedClient \<Rightarrow> goerror option io" where
  "processPendingCSRs E hcClient = do {
     r \<leftarrow> hostedListCSRs E hcClient;
     (case r of
        Inl e \<Rightarrow> State_Monad.return (Some (wrap ''failed to list CSRs'' e))
      | Inr items \<Rightarrow>
          (let pendingCSRs = filter IsPending items in
           if pendingCSRs = [] then State_Monad.return None
           else
             (let bootstrapCSRs = filter (\<lambda>c. csr_signerName c = SignerBootstrap) pendingCSRs;
                  servingCSRs = filter (\<lambda>c. csr_signerName c = SignerServing) pendingCSRs in do {
              _ \<leftarrow> processEach E hcClient ''bootstrap'' bootstrapCSRs;
              _ \<leftarrow> processEach E hcClient ''serving'' servingCSRs;
              State_Monad.return None
            })))
   }"

subsection \<open>The condition, with retry on conflict\<close>

text \<open>\<^verbatim>\<open>retry.RetryOnConflict\<close>: up to \<open>n\<close> attempts; \<open>lastErr\<close> is the conflict of the last one.\<close>

primrec RetryOnConflict :: "nat \<Rightarrow> goerror option \<Rightarrow> goerror option io \<Rightarrow> goerror option io" where
  "RetryOnConflict 0 lastErr fn = State_Monad.return lastErr"
| "RetryOnConflict (Suc n) lastErr fn = do {
     r \<leftarrow> fn;
     (case r of
        None \<Rightarrow> State_Monad.return None
      | Some e \<Rightarrow> if IsConflict e then RetryOnConflict n (Some e) fn else State_Monad.return (Some e))
   }"

definition DefaultRetrySteps :: nat where
  "DefaultRetrySteps = 5"

definition setConditionAttempt ::
    "env \<Rightarrow> NamespacedName \<Rightarrow> ConditionStatus \<Rightarrow> string \<Rightarrow> string \<Rightarrow> goerror option io" where
  "setConditionAttempt E key status reason message = do {
     r \<leftarrow> getCR E key;
     (case r of
        Inl e \<Rightarrow> State_Monad.return (Some e)
      | Inr latest \<Rightarrow> do {
          _ \<leftarrow> modify_cr (\<lambda>_. latest);
          changed \<leftarrow> setCondition (mkCond CSRAutoApprovalActive status reason message 0);
          if \<not> changed then State_Monad.return None
          else do {
            u \<leftarrow> updateStatus E;
            (case u of
               Some e \<Rightarrow> State_Monad.return (Some e)
             | None \<Rightarrow> do {
                 _ \<leftarrow> event (if status = ConditionFalse then EventTypeWarning else EventTypeNormal)
                        reason message;
                 State_Monad.return None
               })
          }
        })
   }"

definition setConditionCSR ::
    "env \<Rightarrow> ConditionStatus \<Rightarrow> string \<Rightarrow> string \<Rightarrow> goerror option io" where
  "setConditionCSR E status reason message = with_cr (\<lambda>dpfhcp.
     RetryOnConflict DefaultRetrySteps None
       (setConditionAttempt E (cr_key dpfhcp) status reason message))"

subsection \<open>The reconcile loop\<close>

definition CSRPollingInterval :: nat where
  "CSRPollingInterval = 30"

definition isKubeconfigAvailable :: "env \<Rightarrow> bool io" where
  "isKubeconfigAvailable E = with_cr (\<lambda>dpfhcp. do {
     r \<leftarrow> GetKubeconfigData E (cr_namespace dpfhcp) (cr_name dpfhcp);
     State_Monad.return (case r of Inl _ \<Rightarrow> False | Inr _ \<Rightarrow> True)
   })"

definition unreachable :: "env \<Rightarrow> goerror \<Rightarrow> step_result io" where
  "unreachable E err =
     (let message = ''Cannot connect to hosted cluster: '' @ err_msg err in do {
       r \<leftarrow> setConditionCSR E ConditionFalse ReasonHostedClusterNotReachable message;
       (case r of
          Some e \<Rightarrow> State_Monad.return (failed e)
        | None \<Rightarrow> do {
            _ \<leftarrow> event EventTypeWarning ''HostedClusterUnreachable'' message;
            State_Monad.return ok
          })
     })"

definition pollAgain :: "env \<Rightarrow> string \<Rightarrow> step_result io" where
  "pollAgain E message = do {
     r \<leftarrow> setConditionCSR E ConditionTrue ReasonCSRApprovalActive message;
     State_Monad.return (case r of
       Some e \<Rightarrow> failed e
     | None \<Rightarrow> (After CSRPollingInterval, None))
   }"

definition ProcessCSRs :: "env \<Rightarrow> step_result io" where
  "ProcessCSRs E = with_cr (\<lambda>dpfhcp. do {
     available \<leftarrow> isKubeconfigAvailable E;
     if \<not> available then do {
       r \<leftarrow> setConditionCSR E ConditionFalse ReasonKubeconfigNotAvailable
             ''Kubeconfig secret not available for hosted cluster'';
       State_Monad.return (done_or_failed r)
     } else do {
       c \<leftarrow> GetHostedClusterClient E (cr_namespace dpfhcp) (cr_name dpfhcp);
       (case c of
          Inl err \<Rightarrow> unreachable E err
        | Inr hcClient \<Rightarrow> do {
            t \<leftarrow> TestConnection E hcClient;
            (case t of
               Some err \<Rightarrow> do {
                 _ \<leftarrow> InvalidateClient (cr_namespace dpfhcp) (cr_name dpfhcp);
                 unreachable E err
               }
             | None \<Rightarrow> do {
                 p \<leftarrow> processPendingCSRs E hcClient;
                 (case p of
                    Some err \<Rightarrow>
                      pollAgain E (''CSR processing encountered transient error: '' @ err_msg err)
                  | None \<Rightarrow> pollAgain E ''CSR auto-approval active for worker nodes'')
               })
          })
     }
   })"

definition StopCSRWatch :: "unit io" where
  "StopCSRWatch = with_cr (\<lambda>dpfhcp. InvalidateClient (cr_namespace dpfhcp) (cr_name dpfhcp))"

definition ReconcileCSR :: "env \<Rightarrow> NamespacedName \<Rightarrow> step_result io" where
  "ReconcileCSR E req = do {
     r \<leftarrow> getCR E req;
     (case r of
        Inl err \<Rightarrow> State_Monad.return (Done, IgnoreNotFound err)
      | Inr cr \<Rightarrow> do {
          _ \<leftarrow> modify_cr (\<lambda>_. cr);
          if om_deletionTimestamp (cr_meta cr) \<noteq> None then do {
            _ \<leftarrow> StopCSRWatch;
            State_Monad.return ok
          } else if stt_kubeConfigSecretRef (cr_status cr) = None then State_Monad.return ok
          else do {
            res \<leftarrow> ProcessCSRs E;
            State_Monad.return (case snd res of
              Some _ \<Rightarrow> (After CSRPollingInterval, None)
            | None \<Rightarrow> res)
          }
        })
   }"

subsection \<open>What an acceptable request is\<close>

text \<open>The declarative counterpart of the validators.\<close>

definition decodes :: "env \<Rightarrow> CSR \<Rightarrow> CertificateRequest \<Rightarrow> bool" where
  "decodes E csr x \<longleftrightarrow> (\<exists>bytes.
     k_pemDecode (cod E) (csr_request csr) = Some (CertificateRequestBlockType, bytes)
     \<and> k_parseCertificateRequest (cod E) bytes = Inr x)"

definition bootstrap_ok :: "env \<Rightarrow> CSR \<Rightarrow> string \<Rightarrow> bool" where
  "bootstrap_ok E csr host \<longleftrightarrow>
     csr_username csr = BootstrapperUsername
     \<and> {groupServiceAccounts, groupServiceAccountsMachineConfig, groupAuthenticated}
         \<subseteq> set (csr_groups csr)
     \<and> set (csr_usages csr) = {''digital signature'', ''client auth''}
     \<and> (\<exists>x. decodes E csr x \<and> x_organization x = [expectedOrganization]
          \<and> x_commonName x = SystemNodePrefix @ host
          \<and> x_dnsNames x = [] \<and> x_ipAddresses x = [] \<and> x_emailAddresses x = [] \<and> x_uris x = [])"

definition serving_ok :: "env \<Rightarrow> CSR \<Rightarrow> string \<Rightarrow> bool" where
  "serving_ok E csr host \<longleftrightarrow>
     csr_username csr = SystemNodePrefix @ host
     \<and> {groupNodes, groupAuthenticated} \<subseteq> set (csr_groups csr)
     \<and> set (csr_usages csr) = {''digital signature'', ''server auth''}
     \<and> (\<exists>x. decodes E csr x \<and> x_organization x = [expectedOrganization]
          \<and> x_commonName x = SystemNodePrefix @ host
          \<and> x_dnsNames x = [host] \<and> list_all hasValidIPAddress (x_ipAddresses x))"

text \<open>\<open>vouched dpus nodes boot host\<close>: the clusters' own objects vouch for the host.\<close>

definition vouched :: "DPU list \<Rightarrow> string list \<Rightarrow> bool \<Rightarrow> string \<Rightarrow> bool" where
  "vouched dpus nodes boot host \<longleftrightarrow>
     (case List.find (\<lambda>d. dpu_name d = host) dpus of
        None \<Rightarrow> False
      | Some d \<Rightarrow>
          if boot then dpu_phase d = DPUClusterConfig
          else dpu_phase d \<in> {DPUClusterConfig, DPUReady, DPUNodeEffectRemoval}
             \<and> host \<in> set nodes)"

text \<open>The same, of the answers received in the course of a history.\<close>

definition vouched_in :: "env \<Rightarrow> HostedClient \<Rightarrow> string \<Rightarrow> bool \<Rightarrow> string \<Rightarrow> history \<Rightarrow> bool" where
  "vouched_in E hc ns boot host h \<longleftrightarrow> (\<exists>dpus nodes. vouched dpus nodes boot host
     \<and> answered (\<lambda>h. a_listDPUs (mgmt E) h ns) (ListDPUs ns) h (Inr dpus)
     \<and> (boot \<or> answered (\<lambda>h. s_hostedListNodes (srv E) h hc) (HostedListNodes hc) h (Inr nodes)))"

definition acceptable :: "env \<Rightarrow> CSR \<Rightarrow> string \<Rightarrow> bool" where
  "acceptable E csr host \<longleftrightarrow> host \<noteq> []
     \<and> (csr_signerName csr = SignerBootstrap \<and> bootstrap_ok E csr host
        \<or> csr_signerName csr = SignerServing \<and> serving_ok E csr host)"

subsection \<open>The validators decide it\<close>

lemma map_of_markPresent:
  "map_of (markPresent m gs) k = map_option (\<lambda>b. b \<or> k \<in> set gs) (map_of m k)"
  by (induction m gs rule: markPresent.induct) (auto simp: option.map_comp comp_def option.map_ident)

lemma distinct_markPresent: "distinct (map fst m) \<Longrightarrow> distinct (map fst (markPresent m gs))"
  by (induction m gs rule: markPresent.induct) (auto simp: mset_key_def distinct_update)

lemma firstMissing_None:
  assumes "distinct (map fst m)"
  shows "firstMissing m = None \<longleftrightarrow> (\<forall>k b. map_of m k = Some b \<longrightarrow> b)"
  using assms by (auto simp: firstMissing_def find_None_iff)

lemma firstMissing_markPresent:
  assumes "distinct (map fst m)"
  shows "firstMissing (markPresent m gs) = None \<longleftrightarrow>
    (\<forall>k. map_of m k = Some False \<longrightarrow> k \<in> set gs)"
proof -
  have "firstMissing (markPresent m gs) = None \<longleftrightarrow> (\<forall>k b. map_of m k = Some b \<longrightarrow> b \<or> k \<in> set gs)"
    using assms by (auto simp: firstMissing_None distinct_markPresent map_of_markPresent)
  also have "\<dots> \<longleftrightarrow> (\<forall>k. map_of m k = Some False \<longrightarrow> k \<in> set gs)"
    by (metis (full_types))
  finally show ?thesis .
qed

lemma checkUsages_markPresent:
  "checkUsages us m = Inr m' \<longleftrightarrow> (\<forall>u \<in> set us. map_of m u \<noteq> None) \<and> m' = markPresent m us"
  by (induction us m arbitrary: m' rule: checkUsages.induct) (auto split: option.splits if_splits)

lemma validateUsages_exact:
  assumes "a \<noteq> b"
  shows "validateUsages csr [(a, False), (b, False)] = None \<longleftrightarrow> set (csr_usages csr) = {a, b}"
proof (cases "checkUsages (csr_usages csr) [(a, False), (b, False)]")
  case (Inl e)
  then have "\<not> (\<forall>u \<in> set (csr_usages csr). map_of [(a, False), (b, False)] u \<noteq> None)"
    using checkUsages_markPresent by (metis sum.distinct(1))
  then show ?thesis using Inl by (auto simp: validateUsages_def split: if_splits)
next
  case (Inr m)
  then have "set (csr_usages csr) \<subseteq> {a, b}" "m = markPresent [(a, False), (b, False)] (csr_usages csr)"
    by (auto simp: checkUsages_markPresent split: if_splits)
  then show ?thesis
    using Inr assms by (auto simp: validateUsages_def firstMissing_markPresent split: if_splits)
qed

lemma required_groups:
  assumes "distinct [a, b, c]"
  shows "firstMissing (markPresent [(a, False), (b, False), (c, False)] gs) = None \<longleftrightarrow>
    {a, b, c} \<subseteq> set gs"
proof -
  have "map_of [(a, False), (b, False), (c, False)] k = Some False \<longleftrightarrow> k \<in> {a, b, c}" for k
    by simp
  with assms show ?thesis by (simp add: firstMissing_markPresent subset_iff)
qed

lemma groups_distinct:
  "distinct [groupServiceAccounts, groupServiceAccountsMachineConfig, groupAuthenticated]"
  by (simp add: groupServiceAccounts_def groupServiceAccountsMachineConfig_def groupAuthenticated_def)

lemma validateBootstrapperIdentity_None:
  "validateBootstrapperIdentity csr = None \<longleftrightarrow> csr_username csr = BootstrapperUsername
     \<and> {groupServiceAccounts, groupServiceAccountsMachineConfig, groupAuthenticated}
         \<subseteq> set (csr_groups csr)"
  by (simp add: validateBootstrapperIdentity_def required_groups [OF groups_distinct])

lemma validateNodeIdentity_None:
  "validateNodeIdentity csr host = None \<longleftrightarrow> csr_username csr = SystemNodePrefix @ host
     \<and> {groupNodes, groupAuthenticated} \<subseteq> set (csr_groups csr)"
  by (auto simp: validateNodeIdentity_def Let_def)

lemma parseCSRRequest_Inr: "parseCSRRequest E csr = Inr x \<longleftrightarrow> decodes E csr x"
  by (auto simp: parseCSRRequest_def decodes_def split: option.splits sum.splits)

lemma validateOrganization_None:
  "validateOrganization x = None \<longleftrightarrow> x_organization x = [expectedOrganization]"
  by (cases "x_organization x") (auto simp: validateOrganization_def)

lemma validateCN_None: "validateCN x host = None \<longleftrightarrow> x_commonName x = SystemNodePrefix @ host"
  by (simp add: validateCN_def Let_def)

lemma validateServingIdentities_None:
  "validateServingIdentities x host = None \<longleftrightarrow>
     x_dnsNames x = [host] \<and> list_all hasValidIPAddress (x_ipAddresses x)"
proof (cases "x_dnsNames x")
  case (Cons d ds)
  then show ?thesis
    by (auto simp: validateServingIdentities_def find_None_iff list_all_iff)
qed (simp add: validateServingIdentities_def)

lemma guard_err_None [simp]: "guard_err c m rest = None \<longleftrightarrow> c = None \<and> rest = None"
  by (simp add: guard_err_def split: option.splits)

lemmas validators_None = validateBootstrapperIdentity_None validateNodeIdentity_None
  validateBootstrapUsages_def validateServingUsages_def validateUsages_exact
  validateOrganization_None validateCN_None validateServingIdentities_None

lemma ValidateBootstrapCSR_None: "ValidateBootstrapCSR E csr host = None \<longleftrightarrow> bootstrap_ok E csr host"
proof (cases "parseCSRRequest E csr")
  case (Inl e)
  then have "\<not> decodes E csr x" for x by (metis parseCSRRequest_Inr sum.distinct(1))
  then show ?thesis using Inl by (auto simp: ValidateBootstrapCSR_def bootstrap_ok_def)
next
  case (Inr x)
  then have "decodes E csr y \<longleftrightarrow> y = x" for y using parseCSRRequest_Inr by (metis sum.inject(2))
  then show ?thesis
    using Inr by (auto simp: ValidateBootstrapCSR_def bootstrap_ok_def validators_None)
qed

lemma ValidateServingCSR_None: "ValidateServingCSR E csr host = None \<longleftrightarrow> serving_ok E csr host"
proof (cases "parseCSRRequest E csr")
  case (Inl e)
  then have "\<not> decodes E csr x" for x by (metis parseCSRRequest_Inr sum.distinct(1))
  then show ?thesis using Inl by (auto simp: ValidateServingCSR_def serving_ok_def)
next
  case (Inr x)
  then have "decodes E csr y \<longleftrightarrow> y = x" for y using parseCSRRequest_Inr by (metis sum.inject(2))
  then show ?thesis
    using Inr by (auto simp: ValidateServingCSR_def serving_ok_def validators_None)
qed

lemma signers_neq [simp]: "SignerBootstrap \<noteq> SignerServing" "SignerServing \<noteq> SignerBootstrap"
  by (simp_all add: SignerBootstrap_def SignerServing_def)

lemma TrimPrefix_host:
  "TrimPrefix s p = h \<and> h \<noteq> s \<longleftrightarrow> s = p @ h \<and> p \<noteq> []"
  by (auto simp: TrimPrefix_def HasPrefix_iff)

lemma SystemNodePrefix_nonempty [simp]: "SystemNodePrefix \<noteq> []"
  by (simp add: SystemNodePrefix_def)

text \<open>The host name that is extracted and then validated is the one of an acceptable request.\<close>

lemma extracted_and_valid:
  "ExtractHostname E csr = Inr host \<and> validateContent E csr host = None \<longleftrightarrow> acceptable E csr host"
proof (cases "csr_signerName csr = SignerBootstrap")
  case True
  have "ExtractHostname E csr = Inr host" if "bootstrap_ok E csr host" "host \<noteq> []"
  proof -
    from that(1) obtain x where "decodes E csr x" "x_commonName x = SystemNodePrefix @ host"
      unfolding bootstrap_ok_def by blast
    with that(2) True show ?thesis
      unfolding decodes_def
      by (auto simp: ExtractHostname_def extractHostnameFromBootstrapCSR_def TrimPrefix_append Let_def)
  qed
  moreover have "host \<noteq> []" if "ExtractHostname E csr = Inr host"
    using that True
    by (auto simp: ExtractHostname_def extractHostnameFromBootstrapCSR_def Let_def
        split: option.splits sum.splits if_splits)
  ultimately show ?thesis
    using True by (auto simp: acceptable_def validateContent_def ValidateBootstrapCSR_None)
next
  case False
  have "ExtractHostname E csr = Inr host \<longleftrightarrow>
      host \<noteq> [] \<and> csr_username csr = SystemNodePrefix @ host" if "csr_signerName csr = SignerServing"
    using that TrimPrefix_host [of "csr_username csr" SystemNodePrefix host]
    by (auto simp: ExtractHostname_def extractHostnameFromServingCSR_def Let_def)
  then show ?thesis
    using False by (auto simp: acceptable_def validateContent_def ValidateServingCSR_None
        serving_ok_def ExtractHostname_def)
qed

lemma acceptable_host_unique: "acceptable E csr h \<Longrightarrow> acceptable E csr h' \<Longrightarrow> h = h'"
  by (metis extracted_and_valid sum.inject(2))

subsection \<open>The approvals of a run\<close>

fun approvals :: "history \<Rightarrow> (HostedClient \<times> CSR) list" where
  "approvals [] = []"
| "approvals (HostedApproveCSR cl c # h) = (cl, c) # approvals h"
| "approvals (_ # h) = approvals h"

lemma approvals_append [simp]: "approvals (g @ h) = approvals g @ approvals h"
  by (induction g rule: approvals.induct) auto

lemma approvals_mem: "(cl, c) \<in> set (approvals h) \<longleftrightarrow> HostedApproveCSR cl c \<in> set h"
  by (induction h rule: approvals.induct) auto

fun statuses :: "history \<Rightarrow> DPFHCPProvisioner list" where
  "statuses [] = []"
| "statuses (UpdateCRStatus c # h) = c # statuses h"
| "statuses (_ # h) = statuses h"

lemma statuses_mem: "c \<in> set (statuses h) \<longleftrightarrow> UpdateCRStatus c \<in> set h"
  by (induction h rule: statuses.induct) auto

text \<open>What the cluster's objects say at the moment the owner is checked.\<close>

definition ownersAt :: "env \<Rightarrow> HostedClient \<Rightarrow> string \<Rightarrow> bool \<Rightarrow> string \<Rightarrow> history \<Rightarrow> bool" where
  "ownersAt E hc ns boot host h =
     (case a_listDPUs (mgmt E) h ns of
        Inl _ \<Rightarrow> False
      | Inr dpus \<Rightarrow>
          (case List.find (\<lambda>d. dpu_name d = host) dpus of
             None \<Rightarrow> False
           | Some d \<Rightarrow>
               if boot then dpu_phase d = DPUClusterConfig
               else dpu_phase d \<in> set allowedServingPhases
                  \<and> (case s_hostedListNodes (srv E) (ListDPUs ns # h) hc of
                       Inl _ \<Rightarrow> False
                     | Inr nodes \<Rightarrow> host \<in> set nodes)))"

lemma ownersAt_vouched_in:
  assumes "ownersAt E hc ns boot host h"
  shows "vouched_in E hc ns boot host (l @ (if boot then [] else [HostedListNodes hc]) @ ListDPUs ns # h)"
proof -
  from assms obtain dpus where dpus: "a_listDPUs (mgmt E) h ns = Inr dpus"
    by (auto simp: ownersAt_def split: sum.splits)
  show ?thesis
  proof (cases boot)
    case True
    with assms dpus have "vouched dpus [] boot host"
      by (auto simp: ownersAt_def vouched_def split: option.splits)
    moreover have "answered (\<lambda>h. a_listDPUs (mgmt E) h ns) (ListDPUs ns) (l @ ListDPUs ns # h) (Inr dpus)"
      using dpus by (rule answered_append)
    ultimately show ?thesis using True unfolding vouched_in_def by auto
  next
    case False
    with assms dpus obtain nodes where
      nodes: "s_hostedListNodes (srv E) (ListDPUs ns # h) hc = Inr nodes"
      and "vouched dpus nodes boot host"
      by (auto simp: ownersAt_def vouched_def allowedServingPhases_def
          split: option.splits sum.splits)
    moreover have "answered (\<lambda>h. a_listDPUs (mgmt E) h ns) (ListDPUs ns)
        ((l @ [HostedListNodes hc]) @ ListDPUs ns # h) (Inr dpus)"
      using dpus by (rule answered_append)
    moreover have "answered (\<lambda>h. s_hostedListNodes (srv E) h hc) (HostedListNodes hc)
        (l @ HostedListNodes hc # ListDPUs ns # h) (Inr nodes)"
      using nodes by (rule answered_append)
    ultimately show ?thesis using False unfolding vouched_in_def by auto
  qed
qed

lemma vouched_in_later: "vouched_in E hc ns boot host h \<Longrightarrow> vouched_in E hc ns boot host (later @ h)"
  unfolding vouched_in_def by (blast intro: answered_later)

lemma wp_ValidateCSROwner:
  assumes "\<And>r later. (case r of Inl _ \<Rightarrow> False | Inr v \<Rightarrow> Valid v) = ownersAt E hc ns boot host (st_history s)
      \<Longrightarrow> approvals later = []
      \<Longrightarrow> (ownersAt E hc ns boot host (st_history s) \<Longrightarrow>
            vouched_in E hc ns boot host (later @ st_history s))
      \<Longrightarrow> Q r (s\<lparr>st_history := later @ st_history s\<rparr>)"
  shows "wp (ValidateCSROwner E hc ns host boot) Q s"
proof -
  have q: "Q r (s\<lparr>st_history := ListDPUs ns # st_history s\<rparr>)"
    if "(case r of Inl _ \<Rightarrow> False | Inr v \<Rightarrow> Valid v) = ownersAt E hc ns boot host (st_history s)"
      and "ownersAt E hc ns boot host (st_history s) \<Longrightarrow> boot" for r
    using assms [of r "[ListDPUs ns]"] that ownersAt_vouched_in [of E hc ns boot host "st_history s" "[]"]
    by auto
  have q2: "Q r (s\<lparr>st_history := HostedListNodes hc # ListDPUs ns # st_history s\<rparr>)"
    if "(case r of Inl _ \<Rightarrow> False | Inr v \<Rightarrow> Valid v) = ownersAt E hc ns boot host (st_history s)"
      and "\<not> boot" for r
    using assms [of r "[HostedListNodes hc, ListDPUs ns]"] that
      ownersAt_vouched_in [of E hc ns boot host "st_history s" "[]"]
    by auto
  show ?thesis
    by (auto simp: ValidateCSROwner_def getDPU_def nodeExists_def wp_simps ownersAt_def
        intro!: q q2 split: sum.splits option.splits)
qed

text \<open>The decision on one request: the host it is approved for, if it is.\<close>

definition decision :: "env \<Rightarrow> HostedClient \<Rightarrow> string \<Rightarrow> history \<Rightarrow> CSR \<Rightarrow> string option" where
  "decision E hc ns h csr =
     (case ExtractHostname E csr of
        Inl _ \<Rightarrow> None
      | Inr host \<Rightarrow>
          if validateContent E csr host = None
             \<and> ownersAt E hc ns (csr_signerName csr = SignerBootstrap) host h
          then Some host else None)"

lemma decision_Some:
  "decision E hc ns h csr = Some host \<longleftrightarrow> acceptable E csr host
     \<and> ownersAt E hc ns (csr_signerName csr = SignerBootstrap) host h"
  by (auto simp: decision_def extracted_and_valid [symmetric] split: sum.splits if_splits)

definition approvalFor ::
    "env \<Rightarrow> HostedClient \<Rightarrow> string \<Rightarrow> string \<Rightarrow> history \<Rightarrow> CSR \<Rightarrow> (HostedClient \<times> CSR) list" where
  "approvalFor E hc ns ty h csr =
     (case decision E hc ns h csr of None \<Rightarrow> [] | Some host \<Rightarrow> [(hc, approvalOf csr host ty)])"

abbreviation dpuNamespace :: "st \<Rightarrow> string" where
  "dpuNamespace s \<equiv> ref_namespace (sp_dpuClusterRef (cr_spec (st_cr s)))"

lemma wp_processCSR:
  assumes "\<And>r later. approvals later = approvalFor E hc (dpuNamespace s) ty (st_history s) csr
      \<Longrightarrow> (\<And>host. decision E hc (dpuNamespace s) (st_history s) csr = Some host \<Longrightarrow>
            vouched_in E hc (dpuNamespace s) (csr_signerName csr = SignerBootstrap) host
              (later @ st_history s))
      \<Longrightarrow> Q r (s\<lparr>st_history := later @ st_history s\<rparr>)"
  shows "wp (processCSR E hc csr ty) Q s"
proof -
  let ?d = "decision E hc (dpuNamespace s) (st_history s) csr"
  let ?v = "vouched_in E hc (dpuNamespace s) (csr_signerName csr = SignerBootstrap)"
  have refused: "Q r (s\<lparr>st_history := later @ st_history s\<rparr>)"
    if "approvals later = []" "?d = None" for r later
    using assms [of later r] that by (simp add: approvalFor_def)
  have refused0: "Q r s" if "?d = None" for r
    using refused [of "[]" r] that by simp
  have granted: "Q r (s\<lparr>st_history := g @ HostedApproveCSR hc (approvalOf csr host ty)
        # later @ st_history s\<rparr>)"
    if "approvals later = []" "approvals g = []" "?v host (later @ st_history s)" "?d = Some host"
    for r host later g
    using assms [of "g @ HostedApproveCSR hc (approvalOf csr host ty) # later" r] that
      vouched_in_later [OF that(3), of "g @ [HostedApproveCSR hc (approvalOf csr host ty)]"]
    by (simp add: approvalFor_def)
  have granted1: "Q r (s\<lparr>st_history := HostedApproveCSR hc (approvalOf csr host ty)
        # later @ st_history s\<rparr>)"
    "Q r (s\<lparr>st_history := Event t u m # HostedApproveCSR hc (approvalOf csr host ty)
        # later @ st_history s\<rparr>)"
    if "approvals later = []" "?v host (later @ st_history s)" "?d = Some host"
    for r host later t u m
    using granted [of later "[]" host r] granted [of later "[Event t u m]" host r] that by simp_all
  show ?thesis
  proof (cases "ExtractHostname E csr")
    case (Inl e)
    then show ?thesis by (simp add: processCSR_def wp_simps refused0 decision_def)
  next
    case (Inr host)
    show ?thesis
    proof (cases "validateContent E csr host")
      case (Some e)
      then show ?thesis using Inr by (simp add: processCSR_def wp_simps refused0 decision_def)
    next
      case None
      then show ?thesis
        using Inr
        by (auto simp: processCSR_def approveCSR_def wp_simps decision_def
            intro!: wp_ValidateCSROwner refused granted1 split: sum.splits option.splits)
    qed
  qed
qed

text \<open>
  \<open>sound_approval\<close>: what an approval sent to a hosted cluster rests on. The loops keep it, for each
  of the requests they were given.
\<close>

definition sound_approval ::
    "env \<Rightarrow> HostedClient \<Rightarrow> string \<Rightarrow> CSR set \<Rightarrow> history \<Rightarrow> HostedClient \<times> CSR \<Rightarrow> bool" where
  "sound_approval E hc ns C h a \<longleftrightarrow> (\<exists>csr host ty. csr \<in> C \<and> a = (hc, approvalOf csr host ty)
     \<and> acceptable E csr host \<and> vouched_in E hc ns (csr_signerName csr = SignerBootstrap) host h)"

lemma sound_approval_later:
  "sound_approval E hc ns C h a \<Longrightarrow> C \<subseteq> D \<Longrightarrow> sound_approval E hc ns D (later @ h) a"
  unfolding sound_approval_def by (blast intro: vouched_in_later)

lemma approvalFor_sound:
  assumes "a \<in> set (approvalFor E hc ns ty h csr)" and "csr \<in> C"
    and "\<And>host. decision E hc ns h csr = Some host \<Longrightarrow>
      vouched_in E hc ns (csr_signerName csr = SignerBootstrap) host h'"
  shows "sound_approval E hc ns C h' a"
proof -
  from assms(1) obtain host where d: "decision E hc ns h csr = Some host"
    and a: "a = (hc, approvalOf csr host ty)"
    by (cases "decision E hc ns h csr") (auto simp: approvalFor_def)
  from d have "acceptable E csr host" by (simp add: decision_Some)
  with assms(2) a assms(3) [OF d] show ?thesis unfolding sound_approval_def by blast
qed

lemma wp_processEach:
  assumes "\<And>later. (\<And>a. a \<in> set (approvals later) \<Longrightarrow>
        sound_approval E hc (dpuNamespace s) (set csrs) (later @ st_history s) a)
      \<Longrightarrow> Q () (s\<lparr>st_history := later @ st_history s\<rparr>)"
  shows "wp (processEach E hc ty csrs) Q s"
  using assms
proof (induction csrs arbitrary: s Q)
  case Nil
  then show ?case using Nil [of "[]"] by (simp add: wp_simps)
next
  case (Cons csr csrs)
  have "wp (processCSR E hc csr ty) (\<lambda>r s'. wp (processEach E hc ty csrs) Q s') s"
  proof (rule wp_processCSR)
    fix later
    assume a: "approvals later = approvalFor E hc (dpuNamespace s) ty (st_history s) csr"
      and v: "\<And>host. decision E hc (dpuNamespace s) (st_history s) csr = Some host \<Longrightarrow>
        vouched_in E hc (dpuNamespace s) (csr_signerName csr = SignerBootstrap) host
          (later @ st_history s)"
    show "wp (processEach E hc ty csrs) Q (s\<lparr>st_history := later @ st_history s\<rparr>)"
    proof (rule Cons.IH)
      fix later'
      assume b: "\<And>a. a \<in> set (approvals later') \<Longrightarrow> sound_approval E hc
          (dpuNamespace (s\<lparr>st_history := later @ st_history s\<rparr>)) (set csrs)
          (later' @ st_history (s\<lparr>st_history := later @ st_history s\<rparr>)) a"
      have "sound_approval E hc (dpuNamespace s) (set (csr # csrs)) ((later' @ later) @ st_history s) x"
        if x: "x \<in> set (approvals (later' @ later))" for x
      proof (cases "x \<in> set (approvals later')")
        case True
        then have "sound_approval E hc (dpuNamespace s) (set csrs) (later' @ later @ st_history s) x"
          using b by simp
        from sound_approval_later [OF this, of _ "[]"] show ?thesis by auto
      next
        case False
        with x a have "x \<in> set (approvalFor E hc (dpuNamespace s) ty (st_history s) csr)" by simp
        then have "sound_approval E hc (dpuNamespace s) {csr} (later @ st_history s) x"
          by (rule approvalFor_sound) (use v in auto)
        from sound_approval_later [OF this] show ?thesis by simp
      qed
      then show "Q () (s\<lparr>st_history := later @ st_history s,
          st_history := later' @ st_history (s\<lparr>st_history := later @ st_history s\<rparr>)\<rparr>)"
        using Cons.prems [of "later' @ later"] by simp
    qed
  qed
  then show ?case by (simp add: wp_simps)
qed

text \<open>When the answers do not change, each request gets its verdict, in the order of the list.\<close>

lemma wp_processEach_exact:
  assumes "\<And>h csr. decision E hc (dpuNamespace s) h csr = verdict csr"
    and "\<And>later. rev (approvals later) = concat (map (\<lambda>csr. case verdict csr of
          None \<Rightarrow> [] | Some host \<Rightarrow> [(hc, approvalOf csr host ty)]) csrs)
      \<Longrightarrow> Q () (s\<lparr>st_history := later @ st_history s\<rparr>)"
  shows "wp (processEach E hc ty csrs) Q s"
  using assms
proof (induction csrs arbitrary: s Q)
  case Nil
  then show ?case using Nil(2) [of "[]"] by (simp add: wp_simps)
next
  case (Cons csr csrs)
  have "wp (processCSR E hc csr ty) (\<lambda>r s'. wp (processEach E hc ty csrs) Q s') s"
  proof (rule wp_processCSR)
    fix later
    assume a: "approvals later = approvalFor E hc (dpuNamespace s) ty (st_history s) csr"
    show "wp (processEach E hc ty csrs) Q (s\<lparr>st_history := later @ st_history s\<rparr>)"
    proof (rule Cons.IH)
      fix later'
      assume "rev (approvals later') = concat (map (\<lambda>csr. case verdict csr of
          None \<Rightarrow> [] | Some host \<Rightarrow> [(hc, approvalOf csr host ty)]) csrs)"
      then show "Q () (s\<lparr>st_history := later @ st_history s,
          st_history := later' @ st_history (s\<lparr>st_history := later @ st_history s\<rparr>)\<rparr>)"
        using Cons.prems(2) [of "later' @ later"] a Cons.prems(1)
        by (simp add: approvalFor_def split: option.splits)
    qed (use Cons.prems(1) in simp)
  qed
  then show ?case by (simp add: wp_simps)
qed

lemma wp_processPendingCSRs:
  assumes "\<And>r later items. (approvals later \<noteq> [] \<Longrightarrow>
        answered (\<lambda>h. s_hostedListCSRs (srv E) h hc) (HostedListCSRs hc) (later @ st_history s) (Inr items))
      \<Longrightarrow> (\<And>a. a \<in> set (approvals later) \<Longrightarrow> sound_approval E hc (dpuNamespace s)
            {csr \<in> set items. IsPending csr} (later @ st_history s) a)
      \<Longrightarrow> Q r (s\<lparr>st_history := later @ st_history s\<rparr>)"
  shows "wp (processPendingCSRs E hc) Q s"
proof -
  let ?h = "HostedListCSRs hc # st_history s"
  have none: "Q r (s\<lparr>st_history := ?h\<rparr>)" for r
    using assms [of "[HostedListCSRs hc]" "[]" r] by simp
  have both: "wp (do { _ \<leftarrow> processEach E hc t1 (filter P1 (filter IsPending items));
        _ \<leftarrow> processEach E hc t2 (filter P2 (filter IsPending items)); State_Monad.return None })
      Q (s\<lparr>st_history := ?h\<rparr>)"
    if items: "s_hostedListCSRs (srv E) (st_history s) hc = Inr items" for t1 t2 P1 P2 items
    unfolding wp_bind wp_return
  proof (rule wp_processEach, rule wp_processEach)
    fix l1 l2
    let ?ns = "dpuNamespace (s\<lparr>st_history := ?h\<rparr>)"
    let ?s1 = "s\<lparr>st_history := ?h, st_history := l1 @ st_history (s\<lparr>st_history := ?h\<rparr>)\<rparr>"
    assume a1: "\<And>a. a \<in> set (approvals l1) \<Longrightarrow> sound_approval E hc ?ns
        (set (filter P1 (filter IsPending items))) (l1 @ st_history (s\<lparr>st_history := ?h\<rparr>)) a"
      and a2: "\<And>a. a \<in> set (approvals l2) \<Longrightarrow> sound_approval E hc (dpuNamespace ?s1)
        (set (filter P2 (filter IsPending items))) (l2 @ st_history ?s1) a"
    let ?later = "l2 @ l1 @ [HostedListCSRs hc]"
    have "sound_approval E hc (dpuNamespace s) {csr \<in> set items. IsPending csr} (?later @ st_history s) a"
      if "a \<in> set (approvals ?later)" for a
      using that
        sound_approval_later [OF a1 [of a], of "{csr \<in> set items. IsPending csr}" l2]
        sound_approval_later [OF a2 [of a], of "{csr \<in> set items. IsPending csr}" "[]"]
      by auto
    moreover have "answered (\<lambda>h. s_hostedListCSRs (srv E) h hc) (HostedListCSRs hc)
        ((l2 @ l1) @ ?h) (Inr items)"
      by (rule answered_later, rule answered_Cons, rule items)
    ultimately show "Q None (?s1\<lparr>st_history := l2 @ st_history ?s1\<rparr>)"
      using assms [of ?later items None] by simp
  qed
  show ?thesis
    using both by (auto simp: processPendingCSRs_def wp_simps Let_def intro: none split: sum.splits)
qed

lemma wp_RetryOnConflict:
  assumes "\<And>s'. I s' \<Longrightarrow> wp fn (\<lambda>_ s''. I s'') s'" and "I s" and "\<And>r s'. I s' \<Longrightarrow> Q r s'"
  shows "wp (RetryOnConflict n lastErr fn) Q s"
  using assms(2)
proof (induction n arbitrary: s lastErr)
  case 0
  then show ?case by (simp add: wp_simps assms(3))
next
  case (Suc n)
  show ?case
    unfolding RetryOnConflict.simps wp_bind
    by (rule wp_mono [OF assms(1) [OF Suc.prems]])
      (auto simp: wp_simps split: option.splits intro: Suc.IH assms(3))
qed

text \<open>
  The condition is written on a copy of the resource read in the same run: whatever the main
  controller stored before that read is kept, and the resource version lets the server refuse the
  write if the main controller stored something since.
\<close>

definition fresh_status :: "env \<Rightarrow> NamespacedName \<Rightarrow> history \<Rightarrow> DPFHCPProvisioner \<Rightarrow> bool" where
  "fresh_status E key h c \<longleftrightarrow> (\<exists>latest n. answered (\<lambda>h. a_getCR (mgmt E) h key) (GetCR key) h (Inr latest)
     \<and> c_type n = CSRAutoApprovalActive \<and> c = putCond n latest)"

definition fresh_writes :: "env \<Rightarrow> NamespacedName \<Rightarrow> history \<Rightarrow> history \<Rightarrow> bool" where
  "fresh_writes E key later h \<longleftrightarrow>
     (\<forall>c. UpdateCRStatus c \<in> set later \<longrightarrow> fresh_status E key (later @ h) c)"

lemma fresh_status_later: "fresh_status E key h c \<Longrightarrow> fresh_status E key (later @ h) c"
  unfolding fresh_status_def by (blast intro: answered_later)

lemma fresh_writes_append:
  "fresh_writes E key l1 h \<Longrightarrow> fresh_writes E key l2 (l1 @ h) \<Longrightarrow> fresh_writes E key (l2 @ l1) h"
  unfolding fresh_writes_def by (auto dest: fresh_status_later)

lemma fresh_writes_none: "(\<And>c. UpdateCRStatus c \<notin> set l) \<Longrightarrow> fresh_writes E key l h"
  by (simp add: fresh_writes_def)

definition quiet :: "env \<Rightarrow> NamespacedName \<Rightarrow> history \<Rightarrow> history \<Rightarrow> bool" where
  "quiet E key h h' \<longleftrightarrow> (\<exists>later. h' = later @ h \<and> approvals later = [] \<and> fresh_writes E key later h)"

lemma quiet_refl: "quiet E key h h"
  unfolding quiet_def by (rule exI [of _ "[]"]) (simp add: fresh_writes_def)

lemma quiet_trans: "quiet E key h h' \<Longrightarrow> quiet E key h' h'' \<Longrightarrow> quiet E key h h''"
  unfolding quiet_def by (metis append.assoc append_is_Nil_conv approvals_append fresh_writes_append)

lemma quiet_get: "quiet E key h (GetCR k # h)" "quiet E key h (Event t u m # h)"
  "quiet E key h (HostedServerVersion c # h)" "quiet E key h (GetSecret k # h)"
  unfolding quiet_def fresh_writes_def
  by (intro exI [of _ "[_]"] conjI, (auto; fail), (simp; fail), (simp; fail))+

lemma quiet_update:
  assumes "a_getCR (mgmt E) h key = Inr c" and "c_type n = CSRAutoApprovalActive"
  shows "quiet E key h (UpdateCRStatus (putCond n c) # GetCR key # h)"
proof -
  have "answered (\<lambda>h. a_getCR (mgmt E) h key) (GetCR key)
      ([UpdateCRStatus (putCond n c)] @ GetCR key # h) (Inr c)"
    using assms(1) by (rule answered_append)
  then show ?thesis
    unfolding quiet_def fresh_writes_def fresh_status_def
    by (intro exI [of _ "[UpdateCRStatus (putCond n c), GetCR key]"]) (use assms(2) in auto)
qed

lemma quiet_attempt:
  "wp (setConditionAttempt E key v r m) (\<lambda>_ s'. quiet E key (st_history s) (st_history s')) s"
  by (auto simp: setConditionAttempt_def wp_simps quiet_get quiet_update
      intro: quiet_trans [OF quiet_update quiet_get(2)] split: sum.splits option.splits)

lemma wp_setConditionCSR:
  assumes "\<And>r s'. quiet E (cr_key (st_cr s)) (st_history s) (st_history s') \<Longrightarrow> Q r s'"
  shows "wp (setConditionCSR E v r m) Q s"
  unfolding setConditionCSR_def wp_with_cr
  by (rule wp_RetryOnConflict [where I = "\<lambda>s'. quiet E (cr_key (st_cr s)) (st_history s) (st_history s')"])
    (auto intro: assms quiet_refl quiet_trans wp_mono [OF quiet_attempt])

subsection \<open>Runs of the controller\<close>

text \<open>
  \<open>sound_run E c h h'\<close>: the requests that lead from history \<open>h\<close> to \<open>h'\<close> approve only requests that
  are sound for resource \<open>c\<close>, and write its status only as described above.
\<close>

definition sound_run :: "env \<Rightarrow> DPFHCPProvisioner \<Rightarrow> history \<Rightarrow> history \<Rightarrow> bool" where
  "sound_run E c h h' \<longleftrightarrow> (\<exists>later. h' = later @ h \<and> fresh_writes E (cr_key c) later h
     \<and> (\<forall>cl a. (cl, a) \<in> set (approvals later) \<longrightarrow> (\<exists>items.
          answered (\<lambda>h. s_hostedListCSRs (srv E) h cl) (HostedListCSRs cl) h' (Inr items)
          \<and> sound_approval E cl (ref_namespace (sp_dpuClusterRef (cr_spec c)))
               {csr \<in> set items. IsPending csr} h' (cl, a))))"

lemma quiet_sound: "quiet E (cr_key c) h h' \<Longrightarrow> sound_run E c h h'"
  unfolding quiet_def sound_run_def by auto

lemma sound_run_trans:
  assumes "sound_run E c h h'" and "sound_run E c h' h''"
  shows "sound_run E c h h''"
proof -
  from assms obtain l1 l2 where l: "h' = l1 @ h" "h'' = l2 @ h'"
    and f: "fresh_writes E (cr_key c) l1 h" "fresh_writes E (cr_key c) l2 h'"
    and a1: "\<forall>cl a. (cl, a) \<in> set (approvals l1) \<longrightarrow> (\<exists>items.
          answered (\<lambda>h. s_hostedListCSRs (srv E) h cl) (HostedListCSRs cl) h' (Inr items)
          \<and> sound_approval E cl (ref_namespace (sp_dpuClusterRef (cr_spec c)))
               {csr \<in> set items. IsPending csr} h' (cl, a))"
    and a2: "\<forall>cl a. (cl, a) \<in> set (approvals l2) \<longrightarrow> (\<exists>items.
          answered (\<lambda>h. s_hostedListCSRs (srv E) h cl) (HostedListCSRs cl) h'' (Inr items)
          \<and> sound_approval E cl (ref_namespace (sp_dpuClusterRef (cr_spec c)))
               {csr \<in> set items. IsPending csr} h'' (cl, a))"
    unfolding sound_run_def by blast
  show ?thesis
    unfolding sound_run_def
  proof (intro exI [of _ "l2 @ l1"] conjI allI impI)
    fix cl a assume "(cl, a) \<in> set (approvals (l2 @ l1))"
    then consider "(cl, a) \<in> set (approvals l1)" | "(cl, a) \<in> set (approvals l2)" by auto
    then show "\<exists>items. answered (\<lambda>h. s_hostedListCSRs (srv E) h cl) (HostedListCSRs cl) h'' (Inr items)
        \<and> sound_approval E cl (ref_namespace (sp_dpuClusterRef (cr_spec c)))
             {csr \<in> set items. IsPending csr} h'' (cl, a)"
      using a1 a2 l(2) by cases (blast intro: answered_later sound_approval_later)+
  qed (use l f fresh_writes_append in auto)
qed

lemma processEach_footprint:
  "(\<And>k. P (ListDPUs k)) \<Longrightarrow> P (HostedListNodes hc) \<Longrightarrow> (\<And>c. P (HostedApproveCSR hc c)) \<Longrightarrow>
   (\<And>t r m. P (Event t r m)) \<Longrightarrow> footprint M S W P (processEach E hc ty csrs)"
  by (induction csrs)
    (simp_all, auto simp: processCSR_def ValidateCSROwner_def getDPU_def nodeExists_def approveCSR_def
      intro!: footprint_intros)

lemma processPendingCSRs_footprint:
  "footprint M S W (\<lambda>c. \<not> (\<exists>x. c = UpdateCRStatus x)) (processPendingCSRs E hc)"
  unfolding processPendingCSRs_def
  by (intro footprint_intros processEach_footprint; simp)

lemma wp_processPending_sound:
  assumes "\<And>r s'. st_cr s' = st_cr s \<Longrightarrow> sound_run E (st_cr s) (st_history s) (st_history s') \<Longrightarrow> Q r s'"
  shows "wp (processPendingCSRs E hc) Q s"
proof -
  have cr: "wp (processPendingCSRs E hc) (\<lambda>_ s'. st_cr s' = st_cr s
      \<and> (\<exists>later items. st_history s' = later @ st_history s
        \<and> (approvals later \<noteq> [] \<longrightarrow> answered (\<lambda>h. s_hostedListCSRs (srv E) h hc) (HostedListCSRs hc)
             (st_history s') (Inr items))
        \<and> (\<forall>a \<in> set (approvals later). sound_approval E hc (dpuNamespace s)
             {csr \<in> set items. IsPending csr} (st_history s') a))) s"
    by (rule wp_processPendingCSRs) auto
  have "wp (processPendingCSRs E hc) (\<lambda>_ s'. issued (\<lambda>c. \<not> (\<exists>x. c = UpdateCRStatus x))
      (st_history s) (st_history s')) s"
    by (rule wp_mono [OF footprintD [OF processPendingCSRs_footprint refl refl, where W = "{}"]]) simp
  from wp_conj [OF cr this] show ?thesis
  proof (rule wp_mono)
    fix r and s' :: st
    assume "(st_cr s' = st_cr s
      \<and> (\<exists>later items. st_history s' = later @ st_history s
        \<and> (approvals later \<noteq> [] \<longrightarrow> answered (\<lambda>h. s_hostedListCSRs (srv E) h hc) (HostedListCSRs hc)
             (st_history s') (Inr items))
        \<and> (\<forall>a \<in> set (approvals later). sound_approval E hc (dpuNamespace s)
             {csr \<in> set items. IsPending csr} (st_history s') a)))
      \<and> issued (\<lambda>c. \<not> (\<exists>x. c = UpdateCRStatus x)) (st_history s) (st_history s')"
    then obtain later items where c: "st_cr s' = st_cr s"
      and i: "issued (\<lambda>c. \<not> (\<exists>x. c = UpdateCRStatus x)) (st_history s) (st_history s')"
      and l: "st_history s' = later @ st_history s"
      and ans: "approvals later \<noteq> [] \<longrightarrow> answered (\<lambda>h. s_hostedListCSRs (srv E) h hc)
             (HostedListCSRs hc) (st_history s') (Inr items)"
      and a: "\<forall>a \<in> set (approvals later). sound_approval E hc (dpuNamespace s)
             {csr \<in> set items. IsPending csr} (st_history s') a"
      by blast
    have "UpdateCRStatus x \<notin> set later" for x
      using i l by (auto simp: issued_def)
    then have "fresh_writes E (cr_key (st_cr s)) later (st_history s)" by (rule fresh_writes_none)
    moreover have "cl = hc" if "(cl, x) \<in> set (approvals later)" for cl x
      using a that by (auto simp: sound_approval_def)
    ultimately have "sound_run E (st_cr s) (st_history s) (st_history s')"
      unfolding sound_run_def using l ans a by (intro exI [of _ later]) fastforce
    with c show "Q r s'" by (rule assms)
  qed
qed

lemma sound_run_steps:
  "sound_run E c h (GetSecret k # h)" "sound_run E c h (HostedServerVersion cl # h)"
  "sound_run E c h (Event t r m # h)" "sound_run E c h h"
  by (rule quiet_sound, rule quiet_get quiet_refl)+

lemma sound_run_more:
  "sound_run E c h h' \<Longrightarrow> sound_run E c h (GetSecret k # h')"
  "sound_run E c h h' \<Longrightarrow> sound_run E c h (HostedServerVersion cl # h')"
  "sound_run E c h h' \<Longrightarrow> sound_run E c h (Event t r m # h')"
  by (erule sound_run_trans, rule sound_run_steps)+

lemma sound_run_less:
  "sound_run E c (GetSecret k # h) h' \<Longrightarrow> sound_run E c h h'"
  "sound_run E c (HostedServerVersion cl # h) h' \<Longrightarrow> sound_run E c h h'"
  by (rule sound_run_trans [OF sound_run_steps(1)] sound_run_trans [OF sound_run_steps(2)], assumption)+

lemma wp_tails:
  assumes "st_cr s = c" and "sound_run E c h (st_history s)"
  shows "wp (unreachable E e) (\<lambda>_ s'. sound_run E c h (st_history s')) s"
    and "wp (pollAgain E m) (\<lambda>_ s'. sound_run E c h (st_history s')) s"
    and "wp (setConditionCSR E v r m) (\<lambda>_ s'. sound_run E c h (st_history s')) s"
proof -
  have step: "sound_run E c h h'" if "quiet E (cr_key (st_cr s)) (st_history s) h'" for h'
    using sound_run_trans [OF assms(2) quiet_sound] that assms(1) by simp
  show "wp (unreachable E e) (\<lambda>_ s'. sound_run E c h (st_history s')) s"
    by (auto simp: unreachable_def wp_simps Let_def
        intro!: wp_setConditionCSR sound_run_more dest!: step split: option.splits)
  show "wp (pollAgain E m) (\<lambda>_ s'. sound_run E c h (st_history s')) s"
    by (auto simp: pollAgain_def wp_simps intro!: wp_setConditionCSR dest!: step split: option.splits)
  show "wp (setConditionCSR E v r m) (\<lambda>_ s'. sound_run E c h (st_history s')) s"
    by (auto intro!: wp_setConditionCSR dest!: step)
qed

lemma ProcessCSRs_sound:
  "wp (ProcessCSRs E) (\<lambda>_ s'. sound_run E (st_cr s) (st_history s) (st_history s')) s"
  by (auto simp: ProcessCSRs_def isKubeconfigAvailable_def TestConnection_def InvalidateClient_def
      wp_simps intro!: wp_GetHostedClusterClient wp_processPending_sound wp_tails
      sound_run_more sound_run_steps(4) dest!: sound_run_less split: option.splits sum.splits)

lemma ReconcileCSR_sound:
  "wp (ReconcileCSR E req) (\<lambda>_ s'. st_history s' = GetCR req # st_history s \<or>
     (\<exists>cr. a_getCR (mgmt E) (st_history s) req = Inr cr \<and> om_deletionTimestamp (cr_meta cr) = None
        \<and> stt_kubeConfigSecretRef (cr_status cr) \<noteq> None
        \<and> sound_run E cr (GetCR req # st_history s) (st_history s'))) s"
proof (cases "a_getCR (mgmt E) (st_history s) req")
  case (Inl e)
  then show ?thesis by (simp add: ReconcileCSR_def wp_simps)
next
  case (Inr cr)
  have "wp (ProcessCSRs E) (\<lambda>_ s'. sound_run E cr (GetCR req # st_history s) (st_history s'))
      (s\<lparr>st_history := GetCR req # st_history s, st_cr := cr\<rparr>)"
    using ProcessCSRs_sound [of E "s\<lparr>st_history := GetCR req # st_history s, st_cr := cr\<rparr>"] by simp
  then show ?thesis
    using Inr by (auto simp: ReconcileCSR_def StopCSRWatch_def InvalidateClient_def wp_simps
        elim: wp_mono)
qed

text \<open>A list processed by an optional verdict.\<close>

lemma set_verdicts:
  "set (concat (map (\<lambda>x. case v x of None \<Rightarrow> [] | Some y \<Rightarrow> [g x y]) xs)) =
     {g x y | x y. x \<in> set xs \<and> v x = Some y}"
proof (induction xs)
  case (Cons x xs)
  then show ?case by (cases "v x") auto
qed simp

lemma length_verdicts:
  "length (concat (map (\<lambda>x. case v x of None \<Rightarrow> [] | Some y \<Rightarrow> [g x y]) xs)) =
     length (filter (\<lambda>x. v x \<noteq> None) xs)"
  by (induction xs) (auto split: option.splits)

lemma length_filter_cover:
  assumes "\<And>x. v x \<Longrightarrow> p x \<noteq> q x"
  shows "length (filter v (filter p xs)) + length (filter v (filter q xs)) = length (filter v xs)"
proof (induction xs)
  case (Cons x xs)
  then show ?case using assms [of x] by auto
qed simp

subsection \<open>Properties\<close>

text \<open>An environment with one DPU that is joining, and the requests of its kubelet and of another.\<close>

definition bootstrapCSR :: "string \<Rightarrow> CSR" where
  "bootstrapCSR nm = \<lparr>csr_name = nm, csr_signerName = SignerBootstrap,
     csr_username = BootstrapperUsername,
     csr_groups = [groupServiceAccounts, groupServiceAccountsMachineConfig, groupAuthenticated],
     csr_usages = [''digital signature'', ''client auth''], csr_request = nm, csr_conditions = []\<rparr>"

definition csrEnv :: env where
  "csrEnv = kubeconfigEnv\<lparr>
     mgmt := (mgmt kubeconfigEnv)\<lparr>
       a_getCR := (\<lambda>_ _. Inr (set_kubeConfigSecretRef (Some ''hcp-admin-kubeconfig'') sampleCR)),
       a_listDPUs := (\<lambda>_ _. Inr [\<lparr>dpu_name = ''dpu-1'', dpu_phase = DPUClusterConfig\<rparr>])\<rparr>,
     srv := (srv kubeconfigEnv)\<lparr>
       s_hostedListCSRs := (\<lambda>_ _. Inr [bootstrapCSR ''dpu-1'', bootstrapCSR ''dpu-2''])\<rparr>,
     cod := (cod kubeconfigEnv)\<lparr>
       k_pemDecode := (\<lambda>r. Some (CertificateRequestBlockType, r)),
       k_parseCertificateRequest := (\<lambda>b. Inr \<lparr>x_commonName = SystemNodePrefix @ b,
         x_organization = [expectedOrganization], x_dnsNames = [], x_ipAddresses = [],
         x_emailAddresses = [], x_uris = []\<rparr>)\<rparr>\<rparr>"

definition csrRun :: "step_result \<times> st" where
  "csrRun = run_state (ReconcileCSR csrEnv (NN ''clusters'' ''hcp'')) (startState sampleCR)"

lemma csrRun_approves:
  "\<exists>cl. HostedApproveCSR cl (approvalOf (bootstrapCSR ''dpu-1'') ''dpu-1'' ''bootstrap'') \<in> set (st_history (snd csrRun))"
proof -
  have "approvals (st_history (snd csrRun)) = [(\<lparr>hcl_server = internalServer ''clusters'' ''hcp'',
      hcl_kubeconfig = ''kc''\<rparr>, approvalOf (bootstrapCSR ''dpu-1'') ''dpu-1'' ''bootstrap'')]"
    by code_simp
  then show ?thesis unfolding approvals_mem [symmetric] by auto
qed

text \<open>
  C4: whatever the API servers answer, a certificate request is approved only if it was pending in a
  list received from that hosted cluster in the same run, if its signer is one of the two kubelet
  signers and its identity, groups, usages and decoded contents are those of the node it names, and
  if DPUs (and, for a serving certificate, nodes) listed in the same run vouch for that host: a DPU
  of that name in the resource's DPU namespace, in a phase that allows it. The resource read at the
  start of the run was not being deleted and had its kubeconfig reference.
\<close>

theorem ReconcileCSR_approves_only_vouched:
  assumes "run_state (ReconcileCSR E req) s = (r, s')"
    and "st_history s' = later @ st_history s" and "HostedApproveCSR cl a \<in> set later"
  shows "\<exists>cr items csr host kind.
    a_getCR (mgmt E) (st_history s) req = Inr cr
    \<and> om_deletionTimestamp (cr_meta cr) = None \<and> stt_kubeConfigSecretRef (cr_status cr) \<noteq> None
    \<and> answered (\<lambda>h. s_hostedListCSRs (srv E) h cl) (HostedListCSRs cl) (st_history s') (Inr items)
    \<and> csr \<in> set items \<and> IsPending csr \<and> a = approvalOf csr host kind \<and> acceptable E csr host
    \<and> vouched_in E cl (ref_namespace (sp_dpuClusterRef (cr_spec cr)))
        (csr_signerName csr = SignerBootstrap) host (st_history s')"
proof -
  from wp_run [OF ReconcileCSR_sound assms(1)] show ?thesis
  proof (elim disjE exE conjE)
    assume "st_history s' = GetCR req # st_history s"
    with assms(2) have "later = [GetCR req]" by simp
    with assms(3) show ?thesis by simp
  next
    fix cr
    assume cr: "a_getCR (mgmt E) (st_history s) req = Inr cr"
      "om_deletionTimestamp (cr_meta cr) = None" "stt_kubeConfigSecretRef (cr_status cr) \<noteq> None"
      and "sound_run E cr (GetCR req # st_history s) (st_history s')"
    then obtain l where l: "st_history s' = l @ GetCR req # st_history s"
      and a: "\<forall>cl a. (cl, a) \<in> set (approvals l) \<longrightarrow> (\<exists>items.
          answered (\<lambda>h. s_hostedListCSRs (srv E) h cl) (HostedListCSRs cl) (st_history s') (Inr items)
          \<and> sound_approval E cl (ref_namespace (sp_dpuClusterRef (cr_spec cr)))
               {csr \<in> set items. IsPending csr} (st_history s') (cl, a))"
      unfolding sound_run_def by blast
    from l assms(2) have "later = l @ [GetCR req]" by simp
    with assms(3) have "(cl, a) \<in> set (approvals l)" by (auto simp: approvals_mem)
    with a cr show ?thesis unfolding sound_approval_def by blast
  qed
qed

theorem ReconcileCSR_approves_only_vouched_witness:
  "\<exists>cl a. HostedApproveCSR cl a \<in> set (st_history (snd csrRun))
     \<and> a = approvalOf (bootstrapCSR ''dpu-1'') ''dpu-1'' ''bootstrap''
     \<and> (\<exists>csr host. IsPending csr \<and> acceptable csrEnv csr host
          \<and> vouched_in csrEnv cl ''dpf'' (csr_signerName csr = SignerBootstrap) host
              (st_history (snd csrRun)))"
proof -
  obtain r s' where run: "csrRun = (r, s')" by fastforce
  have s': "st_history (snd csrRun) = st_history s'" by (simp add: run)
  obtain cl where cl: "HostedApproveCSR cl (approvalOf (bootstrapCSR ''dpu-1'') ''dpu-1'' ''bootstrap'')
      \<in> set (st_history s')"
    using csrRun_approves by (auto simp: s')
  have ns: "ref_namespace (sp_dpuClusterRef (cr_spec cr)) = ''dpf''"
    if "a_getCR (mgmt csrEnv) h req = Inr cr" for h req cr
    using that by (auto simp: csrEnv_def sample_defs set_kubeConfigSecretRef_def)
  have "st_history s' = st_history s' @ st_history (startState sampleCR)" by simp
  from ReconcileCSR_approves_only_vouched [OF run [unfolded csrRun_def] this cl] ns
  obtain csr host where "IsPending csr \<and> acceptable csrEnv csr host
      \<and> vouched_in csrEnv cl ''dpf'' (csr_signerName csr = SignerBootstrap) host (st_history s')"
    by metis
  with cl show ?thesis unfolding s' by blast
qed



text \<open>
  C11: while the answers of the API servers do not change, one pass over the requests of a hosted
  cluster approves exactly those that are pending, acceptable and vouched for, each once: none is
  missed because another one failed, and the pass reports no error.
\<close>

theorem processPendingCSRs_exact:
  assumes "\<And>h. s_hostedListCSRs (srv E) h hc = Inr items"
    and "\<And>h. a_listDPUs (mgmt E) h (dpuNamespace s) = Inr dpus"
    and "\<And>h. s_hostedListNodes (srv E) h hc = Inr nodes"
    and "run_state (processPendingCSRs E hc) s = (r, s')"
    and "good = (\<lambda>csr host. IsPending csr \<and> acceptable E csr host
      \<and> vouched dpus nodes (csr_signerName csr = SignerBootstrap) host)"
  shows "r = None \<and> (\<exists>later. st_history s' = later @ st_history s
    \<and> set (approvals later) = {(hc, approvalOf csr host
          (if csr_signerName csr = SignerBootstrap then ''bootstrap'' else ''serving'')) | csr host.
        csr \<in> set items \<and> good csr host}
    \<and> length (approvals later) = length (filter (\<lambda>csr. \<exists>host. good csr host) items))"
proof -
  have own: "ownersAt E hc (dpuNamespace s) b host h = vouched dpus nodes b host" for b host h
    by (simp add: ownersAt_def assms(2,3) vouched_def allowedServingPhases_def cong: option.case_cong)
  define v where "v = decision E hc (dpuNamespace s) []"
  have dec: "decision E hc (dpuNamespace s) h csr = v csr" for h csr
    by (simp add: v_def decision_def own cong: sum.case_cong)
  have v: "IsPending csr \<and> v csr = Some host \<longleftrightarrow> good csr host" for csr host
    by (auto simp: assms(5) v_def decision_Some own)
  have signer: "(csr_signerName csr = SignerBootstrap) \<noteq> (csr_signerName csr = SignerServing)"
    if "v csr \<noteq> None" for csr
    using that by (auto simp: v_def decision_Some acceptable_def)
  let ?P = "filter IsPending items"
  let ?f = "\<lambda>ty csr. case v csr of None \<Rightarrow> [] | Some host \<Rightarrow> [(hc, approvalOf csr host ty)]"
  let ?B = "filter (\<lambda>c. csr_signerName c = SignerBootstrap) ?P"
  let ?S = "filter (\<lambda>c. csr_signerName c = SignerServing) ?P"
  have "wp (processPendingCSRs E hc) (\<lambda>r s'. r = None \<and> (\<exists>later. st_history s' = later @ st_history s
      \<and> rev (approvals later) = concat (map (?f ''bootstrap'') ?B) @ concat (map (?f ''serving'') ?S))) s"
    using assms(1) dec
    by (auto simp: processPendingCSRs_def wp_simps Let_def filter_empty_conv
        intro!: wp_processEach_exact [where verdict = v] exI [of _ "_ @ _ @ [HostedListCSRs hc]"])
  with assms(4) obtain later where r: "r = None" and l: "st_history s' = later @ st_history s"
    and a: "rev (approvals later) = concat (map (?f ''bootstrap'') ?B) @ concat (map (?f ''serving'') ?S)"
    by (auto dest: wp_run)
  have "set (approvals later) = set (rev (approvals later))" by simp
  also have "\<dots> = {(hc, approvalOf csr host
          (if csr_signerName csr = SignerBootstrap then ''bootstrap'' else ''serving'')) | csr host.
        csr \<in> set items \<and> good csr host}"
    unfolding a set_append set_verdicts v [symmetric] using signer by fastforce
  finally have sets: "set (approvals later) = \<dots>" .
  have "length (approvals later) = length (rev (approvals later))" by simp
  also have "\<dots> = length (filter (\<lambda>csr. v csr \<noteq> None) ?P)"
    unfolding a length_append length_verdicts
    using length_filter_cover [of "\<lambda>csr. v csr \<noteq> None"
        "\<lambda>c. csr_signerName c = SignerBootstrap" "\<lambda>c. csr_signerName c = SignerServing" ?P] signer
    by simp
  also have "\<dots> = length (filter (\<lambda>csr. \<exists>host. good csr host) items)"
    by (simp add: v [symmetric])
  finally show ?thesis using r l sets by blast
qed

theorem processPendingCSRs_exact_witness:
  "\<exists>r s' later. run_state (processPendingCSRs csrEnv \<lparr>hcl_server = [], hcl_kubeconfig = []\<rparr>)
       (startState sampleCR) = (r, s')
     \<and> r = None \<and> st_history s' = later \<and> length (approvals later) = 1"
proof -
  obtain r s' where run: "run_state (processPendingCSRs csrEnv \<lparr>hcl_server = [], hcl_kubeconfig = []\<rparr>)
      (startState sampleCR) = (r, s')" by fastforce
  have "length (approvals (st_history (snd (run_state (processPendingCSRs csrEnv
      \<lparr>hcl_server = [], hcl_kubeconfig = []\<rparr>) (startState sampleCR))))) = 1"
    by code_simp
  with run have one: "length (approvals (st_history s')) = 1" by simp
  have "r = None"
    using processPendingCSRs_exact [OF _ _ _ run refl, of "[bootstrapCSR ''dpu-1'', bootstrapCSR ''dpu-2'']"
        "[\<lparr>dpu_name = ''dpu-1'', dpu_phase = DPUClusterConfig\<rparr>]" "[]"]
    by (simp add: csrEnv_def kubeconfigEnv_def env_defs)
  with run one show ?thesis by blast
qed

end
