(* ===== verification/Phase.thy ===== *)
theory Phase
  imports Scenario
begin

section \<open>Readiness and the phase of a resource\<close>

text \<open>
  The part of \<^verbatim>\<open>dpfhcpprovisioner_controller.go\<close> that summarises the conditions:
  \<^verbatim>\<open>versionMatchesImage\<close> and the version tests on a HostedCluster, \<^verbatim>\<open>ignitionPrerequisitesMet\<close>,
  \<^verbatim>\<open>computeReadyCondition\<close> and \<^verbatim>\<open>updatePhaseFromConditions\<close>. The lemmas characterise the phase
  exactly: when it is Ready, when it is Pending (the phase in which a HostedCluster may be created),
  and what the two functions may touch.
\<close>

named_theorems phase_wp \<open>weakest preconditions of the readiness and phase computations\<close>

subsection \<open>Versions\<close>

definition versionMatchesImage :: "string \<Rightarrow> string \<Rightarrow> string \<Rightarrow> bool" where
  "versionMatchesImage version img targetReleaseImage =
     (if Contains targetReleaseImage '':'' \<and> \<not> Contains targetReleaseImage ''@sha256:'' then
        (let parts = Split targetReleaseImage (CHR '':'');
             tag = fold (\<lambda>suffix v. TrimSuffix v suffix) archSuffixes (last parts)
         in if tag \<noteq> [] then version = tag else img = targetReleaseImage)
      else img = targetReleaseImage)"

definition CompletedUpdate :: string where
  "CompletedUpdate = ''Completed''"

definition isControlPlaneReady :: "HostedCluster \<Rightarrow> string \<Rightarrow> bool" where
  "isControlPlaneReady hc targetReleaseImage =
     (case cpv_history (hct_controlPlaneVersion (hc_status hc)) of
        [] \<Rightarrow> False
      | latest # _ \<Rightarrow>
          if ch_state latest \<noteq> CompletedUpdate then False
          else versionMatchesImage (ch_version latest) (ch_image latest) targetReleaseImage)"

definition isHostedClusterVersionReady :: "HostedCluster \<Rightarrow> string \<Rightarrow> bool" where
  "isHostedClusterVersionReady hc targetReleaseImage =
     (if \<not> isControlPlaneReady hc targetReleaseImage then False
      else (case FindStatusCondition (hct_conditions (hc_status hc)) ''ClusterVersionProgressing'' of
              Some cond \<Rightarrow> c_status cond \<noteq> ConditionTrue
            | None \<Rightarrow> True))"

definition hasCompletedDifferentVersion :: "HostedCluster \<Rightarrow> string \<Rightarrow> bool" where
  "hasCompletedDifferentVersion hc targetReleaseImage =
     list_ex (\<lambda>entry. ch_state entry = CompletedUpdate
         \<and> \<not> versionMatchesImage (ch_version entry) (ch_image entry) targetReleaseImage)
       (cpv_history (hct_controlPlaneVersion (hc_status hc)))"

subsection \<open>Tests on the conditions\<close>

definition isUpgrading :: "DPFHCPProvisioner \<Rightarrow> bool" where
  "isUpgrading cr = condTrue cr HostedClusterUpgrading"

definition ignitionPrerequisitesMet :: "DPFHCPProvisioner \<Rightarrow> bool" where
  "ignitionPrerequisitesMet cr =
     (if cr_hostedClusterRef cr = None then False
      else if \<not> condTrue cr HostedClusterAvailable then False
      else condTrue cr KubeConfigInjected)"

text \<open>\<open>IgnitionConfigured\<close> is True and was set for the current generation of the spec.\<close>

definition ignitionCurrent :: "DPFHCPProvisioner \<Rightarrow> bool" where
  "ignitionCurrent cr =
     (case findCond cr IgnitionConfigured of
        None \<Rightarrow> False
      | Some ign \<Rightarrow> c_status ign = ConditionTrue \<and> c_observedGeneration ign = cr_generation cr)"

definition hostedClusterKey :: "ObjectReference \<Rightarrow> NamespacedName" where
  "hostedClusterKey r = NN (oref_namespace r) (oref_name r)"

subsection \<open>The Ready condition\<close>

text \<open>The condition is set without an \<^verbatim>\<open>ObservedGeneration\<close>, which is then zero.\<close>

definition setReady :: "ConditionStatus \<Rightarrow> string \<Rightarrow> string \<Rightarrow> unit io" where
  "setReady status reason message = do {
     _ \<leftarrow> setCondition (mkCond Ready status reason message 0);
     State_Monad.return ()
   }"

definition computeReadyCondition :: "env \<Rightarrow> unit io" where
  "computeReadyCondition E = with_cr (\<lambda>cr.
     if ShouldExposeThroughLoadBalancer cr \<and> \<not> condTrue cr MetalLBConfigured then
       setReady ConditionFalse ''MetalLBNotConfigured''
         ''Waiting for MetalLB configuration to complete''
     else if \<not> condTrue cr HostedClusterAvailable then
       setReady ConditionFalse ReasonHostedClusterNotReady
         ''Waiting for HostedCluster to become available''
     else if \<not> condTrue cr KubeConfigInjected then
       setReady ConditionFalse ReasonKubeConfigNotInjected
         ''Waiting for kubeconfig injection to DPUCluster''
     else if \<not> ignitionCurrent cr then
       setReady ConditionFalse ''IgnitionNotConfigured''
         ''Waiting for ignition configuration to complete''
     else
       (case cr_hostedClusterRef cr of
          None \<Rightarrow> setReady ConditionTrue ReasonAllComponentsOperational
            ''All required components are operational''
        | Some ref \<Rightarrow> do {
            r \<leftarrow> getHC E (hostedClusterKey ref);
            (case r of
               Inl e \<Rightarrow> setReady ConditionFalse ReasonHostedClusterNotReady
                 ''Failed to read HostedCluster to confirm version rollout''
             | Inr hc \<Rightarrow>
                 if \<not> isControlPlaneReady hc (sp_ocpReleaseImage (cr_spec cr)) then
                   setReady ConditionFalse ReasonControlPlaneProgressing
                     ''Waiting for control plane to finish rolling out target version''
                 else setReady ConditionTrue ReasonAllComponentsOperational
                   ''All required components are operational'')
          }))"

subsection \<open>The phase\<close>

definition validationChecks :: "(string \<times> bool) list" where
  "validationChecks =
     [(DPUClusterMissing, True), (ClusterTypeValid, False), (DPUClusterInUse, True),
      (SecretsValid, False), (BlueFieldOCPLayerImageFound, False)]"

definition validationFailed :: "DPFHCPProvisioner \<Rightarrow> bool" where
  "validationFailed cr = list_ex (\<lambda>(condType, negative).
     (case findCond cr condType of
        None \<Rightarrow> False
      | Some cond \<Rightarrow> (negative \<and> c_status cond = ConditionTrue)
                   \<or> (\<not> negative \<and> c_status cond = ConditionFalse))) validationChecks"

definition ignitionFailed :: "DPFHCPProvisioner \<Rightarrow> bool" where
  "ignitionFailed cr =
     (case findCond cr IgnitionConfigured of
        None \<Rightarrow> False
      | Some ign \<Rightarrow> c_status ign = ConditionFalse
          \<and> (c_reason ign = ReasonIgnitionGenerationFailed \<or> c_reason ign = ReasonMachineOSURLMissing))"

definition BlockedReason :: string where
  "BlockedReason = ''Blocked''"

definition hostedClusterStuck :: "DPFHCPProvisioner \<Rightarrow> bool" where
  "hostedClusterStuck cr =
     (cr_hostedClusterRef cr \<noteq> None
      \<and> ((case findCond cr HostedClusterProgressing of
            None \<Rightarrow> False
          | Some p \<Rightarrow> c_status p = ConditionFalse \<and> c_reason p = BlockedReason)
         \<or> condTrue cr HostedClusterDegraded))"

definition updatePhaseFromConditions :: "env \<Rightarrow> unit io" where
  "updatePhaseFromConditions E = with_cr (\<lambda>cr.
     if om_deletionTimestamp (cr_meta cr) \<noteq> None then modify_cr (set_phase PhaseDeleting)
     else if validationFailed cr then modify_cr (set_phase PhaseFailed)
     else if ignitionFailed cr then modify_cr (set_phase PhaseFailed)
     else if hostedClusterStuck cr then modify_cr (set_phase PhaseError)
     else if condTrue cr Ready then modify_cr (set_phase PhaseReady)
     else if ignitionCurrent cr then modify_cr (set_phase PhaseClusterVersionProgressing)
     else if condTrue cr HostedClusterAvailable \<and> condTrue cr KubeConfigInjected then
       (case (if isUpgrading cr then cr_hostedClusterRef cr else None) of
          Some ref \<Rightarrow> do {
            r \<leftarrow> getHC E (hostedClusterKey ref);
            modify_cr (set_phase (case r of
              Inl e \<Rightarrow> PhaseWaitingForControlPlane
            | Inr hc \<Rightarrow> if isControlPlaneReady hc (sp_ocpReleaseImage (cr_spec cr))
                        then PhaseGeneratingIgnition else PhaseWaitingForControlPlane))
          }
        | None \<Rightarrow> modify_cr (set_phase PhaseGeneratingIgnition))
     else if cr_hostedClusterRef cr \<noteq> None then modify_cr (set_phase PhaseWaitingForControlPlane)
     else modify_cr (set_phase PhasePending))"

subsection \<open>Footprints\<close>

text \<open>The only request of either function is to read the HostedCluster.\<close>

definition readsHC :: "ObjectMeta \<Rightarrow> DPFHCPProvisionerSpec \<Rightarrow> call \<Rightarrow> bool" where
  "readsHC M S c \<longleftrightarrow> (\<exists>k. c = GetHC k)"

lemma readsHC_GetHC [simp]: "readsHC M S (GetHC k)"
  by (simp add: readsHC_def)

interpretation ready: reconcile_step computeReadyCondition "{CondSlot Ready}" readsHC
  by unfold_locales
    (unfold computeReadyCondition_def setReady_def, intro footprint_intros, simp_all)

interpretation phase: reconcile_step updatePhaseFromConditions "{PhaseSlot}" readsHC
  by unfold_locales (unfold updatePhaseFromConditions_def, intro footprint_intros, simp_all)

lemma footprint_phase [footprint_intros]:
  "CondSlot Ready \<in> W \<Longrightarrow> (\<And>k. P (GetHC k)) \<Longrightarrow> footprint M S W P (computeReadyCondition E)"
  "PhaseSlot \<in> W \<Longrightarrow> (\<And>k. P (GetHC k)) \<Longrightarrow> footprint M S W P (updatePhaseFromConditions E)"
  by (rule ready.footprint_within phase.footprint_within; auto simp: readsHC_def)+

subsection \<open>What readiness means\<close>

text \<open>
  \<open>operational E h cr\<close>: the requirements of \<open>computeReadyCondition\<close> as one predicate; the
  HostedCluster is the one the server would return after the history \<open>h\<close>.
\<close>

definition operational :: "env \<Rightarrow> history \<Rightarrow> DPFHCPProvisioner \<Rightarrow> bool" where
  "operational E h cr \<longleftrightarrow>
     (ShouldExposeThroughLoadBalancer cr \<longrightarrow> condTrue cr MetalLBConfigured)
     \<and> condTrue cr HostedClusterAvailable \<and> condTrue cr KubeConfigInjected \<and> ignitionCurrent cr
     \<and> (case cr_hostedClusterRef cr of
          None \<Rightarrow> True
        | Some ref \<Rightarrow>
            (case a_getHC (mgmt E) h (hostedClusterKey ref) of
               Inl e \<Rightarrow> False
             | Inr hc \<Rightarrow> isControlPlaneReady hc (sp_ocpReleaseImage (cr_spec cr))))"

lemma wp_setReady [wp_simps]:
  "wp (setReady v r m) Q = (\<lambda>s. Q () (s\<lparr>st_cr := putCond (mkCond Ready v r m 0) (st_cr s)\<rparr>))"
  by (rule ext) (simp add: setReady_def wp_simps)

lemma wp_computeReadyCondition:
  assumes "\<And>n h. c_type n = Ready \<Longrightarrow> (c_status n = ConditionTrue \<longleftrightarrow> operational E (st_history s) (st_cr s)) \<Longrightarrow>
      c_status n \<noteq> ConditionUnknown \<Longrightarrow> h = st_history s \<or> (\<exists>k. h = GetHC k # st_history s) \<Longrightarrow>
      Q () (s\<lparr>st_history := h, st_cr := putCond n (st_cr s)\<rparr>)"
  shows "wp (computeReadyCondition E) Q s"
proof -
  have quiet: "Q () (s\<lparr>st_cr := putCond (mkCond Ready v r m 0) (st_cr s)\<rparr>)"
    if "v \<noteq> ConditionUnknown" "v = ConditionTrue \<longleftrightarrow> operational E (st_history s) (st_cr s)" for v r m
    using assms [of "mkCond Ready v r m 0" "st_history s"] that by simp
  have asks: "Q () (s\<lparr>st_history := GetHC k # st_history s,
      st_cr := putCond (mkCond Ready v r m 0) (st_cr s)\<rparr>)"
    if "v \<noteq> ConditionUnknown" "v = ConditionTrue \<longleftrightarrow> operational E (st_history s) (st_cr s)" for v r m k
    using assms [of "mkCond Ready v r m 0" "GetHC k # st_history s"] that by simp
  show ?thesis
    unfolding computeReadyCondition_def
    by (auto simp: wp_simps operational_def intro!: quiet asks split: sum.splits option.splits)
qed

text \<open>The phase that the conditions and the HostedCluster call for.\<close>

definition phaseOf :: "env \<Rightarrow> history \<Rightarrow> DPFHCPProvisioner \<Rightarrow> DPFHCPProvisionerPhase" where
  "phaseOf E h cr =
     (if om_deletionTimestamp (cr_meta cr) \<noteq> None then PhaseDeleting
      else if validationFailed cr \<or> ignitionFailed cr then PhaseFailed
      else if hostedClusterStuck cr then PhaseError
      else if condTrue cr Ready then PhaseReady
      else if ignitionCurrent cr then PhaseClusterVersionProgressing
      else if condTrue cr HostedClusterAvailable \<and> condTrue cr KubeConfigInjected then
        (case cr_hostedClusterRef cr of
           Some ref \<Rightarrow>
             if isUpgrading cr
                \<and> (case a_getHC (mgmt E) h (hostedClusterKey ref) of
                     Inl e \<Rightarrow> True
                   | Inr hc \<Rightarrow> \<not> isControlPlaneReady hc (sp_ocpReleaseImage (cr_spec cr)))
             then PhaseWaitingForControlPlane else PhaseGeneratingIgnition
         | None \<Rightarrow> PhaseGeneratingIgnition)
      else if cr_hostedClusterRef cr \<noteq> None then PhaseWaitingForControlPlane
      else PhasePending)"

lemma wp_updatePhaseFromConditions:
  assumes "\<And>h. h = st_history s \<or> (\<exists>k. h = GetHC k # st_history s) \<Longrightarrow>
      Q () (s\<lparr>st_history := h, st_cr := set_phase (phaseOf E (st_history s) (st_cr s)) (st_cr s)\<rparr>)"
  shows "wp (updatePhaseFromConditions E) Q s"
proof -
  have quiet: "Q () (s\<lparr>st_cr := set_phase p (st_cr s)\<rparr>)"
    if "phaseOf E (st_history s) (st_cr s) = p" for p
    using assms [of "st_history s"] that by simp
  have asks: "Q () (s\<lparr>st_history := GetHC k # st_history s, st_cr := set_phase p (st_cr s)\<rparr>)"
    if "phaseOf E (st_history s) (st_cr s) = p" for p k
    using assms [of "GetHC k # st_history s"] that by simp
  show ?thesis
  proof (cases "cr_hostedClusterRef (st_cr s)")
    case None
    then show ?thesis
      unfolding updatePhaseFromConditions_def
      by (simp add: wp_simps phaseOf_def quiet)
  next
    case (Some ref)
    then show ?thesis
      unfolding updatePhaseFromConditions_def
      by (cases "a_getHC (mgmt E) (st_history s) (hostedClusterKey ref)")
        (simp_all add: wp_simps phaseOf_def quiet asks)
  qed
qed

lemma phaseOf_Pending:
  assumes "phaseOf E h cr = PhasePending"
  shows "\<not> validationFailed cr" and "cr_hostedClusterRef cr = None"
    and "om_deletionTimestamp (cr_meta cr) = None"
  using assms by (auto simp: phaseOf_def split: if_splits option.splits sum.splits)

lemma phaseOf_Ready_iff:
  "phaseOf E h cr = PhaseReady \<longleftrightarrow>
     om_deletionTimestamp (cr_meta cr) = None \<and> \<not> validationFailed cr \<and> \<not> ignitionFailed cr
     \<and> \<not> hostedClusterStuck cr \<and> condTrue cr Ready"
  by (auto simp: phaseOf_def split: if_splits option.splits sum.splits)

lemma phaseOf_not_Unset: "phaseOf E h cr \<noteq> PhaseUnset"
  by (simp add: phaseOf_def split: option.splits sum.splits)

lemma validationFailed_iff:
  "validationFailed cr \<longleftrightarrow>
     condTrue cr DPUClusterMissing \<or> condFalse cr ClusterTypeValid \<or> condTrue cr DPUClusterInUse
     \<or> condFalse cr SecretsValid \<or> condFalse cr BlueFieldOCPLayerImageFound"
  by (auto simp: validationFailed_def validationChecks_def condTrue_def condFalse_def
      split: option.splits)

lemma ignitionCurrent_set_simps [simp]:
  "ignitionCurrent (set_phase p c) = ignitionCurrent c"
  "ignitionCurrent (set_hostedClusterRef r c) = ignitionCurrent c"
  "ignitionCurrent (set_blueFieldOCPLayerImage i c) = ignitionCurrent c"
  by (simp_all add: ignitionCurrent_def cong: option.case_cong)

text \<open>Predicates that do not read the Ready condition are not changed by setting it.\<close>

lemma tests_putCond_Ready:
  assumes "c_type n = Ready"
  shows "validationFailed (putCond n cr) = validationFailed cr"
    and "ignitionFailed (putCond n cr) = ignitionFailed cr"
    and "hostedClusterStuck (putCond n cr) = hostedClusterStuck cr"
    and "ignitionCurrent (putCond n cr) = ignitionCurrent cr"
  using assms
  by (simp_all add: validationFailed_iff ignitionFailed_def hostedClusterStuck_def
      ignitionCurrent_def condTrue_putCond condFalse_putCond findCond_putCond cong: option.case_cong)

lemma Contains_char: "Contains s [c] \<longleftrightarrow> c \<in> set s"
  by (induction s) (auto simp: HasPrefix_def)

lemma length_Split_iff: "2 \<le> length (Split s c) \<longleftrightarrow> c \<in> set s"
proof (induction s)
  case (Cons x s)
  then show ?case
    using Split_nonempty [of s c]
    by (cases "Split s c") (auto simp: Suc_le_eq simp del: Split_nonempty)
qed simp

lemma fold_TrimSuffix_Nil: "fold (\<lambda>suffix v. TrimSuffix v suffix) ss [] = []"
  by (induction ss) (auto simp: TrimSuffix_def HasSuffix_def)

subsection \<open>Properties\<close>


text \<open>A resource all of whose components are up, and a server whose HostedCluster runs the release.\<close>

definition upHC :: "string \<Rightarrow> string \<Rightarrow> HostedCluster" where
  "upHC spec version = \<lparr>hc_meta = newMeta ''clusters'' ''hcp'',
     hc_spec = \<lparr>hcs_releaseImage = spec, hcs_pullSecret = [], hcs_sshKey = [], hcs_baseDomain = [],
       hcs_etcdStorageClass = None, hcs_etcdSize = [],
       hcs_networking = \<lparr>net_type = [], net_service = [], net_cluster = [], net_machine = [],
         net_allocateNodeCIDRs = None\<rparr>,
       hcs_platform = [], hcs_availability = PolicyUnset, hcs_infraID = [], hcs_activeKey = [],
       hcs_services = [], hcs_disabledCapabilities = [], hcs_nodeSelector = []\<rparr>,
     hc_status = emptyHostedClusterStatus\<lparr>hct_controlPlaneVersion := \<lparr>cpv_desired = [],
       cpv_history = [\<lparr>ch_state = CompletedUpdate, ch_version = version, ch_image = []\<rparr>],
       cpv_observedGeneration = 1\<rparr>\<rparr>\<rparr>"

definition upEnv :: "HostedCluster \<Rightarrow> env" where
  "upEnv hc = emptyEnv\<lparr>mgmt := emptyMgmt\<lparr>a_getHC := \<lambda>_ _. Inr hc\<rparr>\<rparr>"

definition upCR :: DPFHCPProvisioner where
  "upCR = set_hostedClusterRef (Some \<lparr>oref_name = ''hcp'', oref_namespace = ''clusters'',
       oref_kind = ''HostedCluster'', oref_apiVersion = ''hypershift.openshift.io/v1beta1''\<rparr>)
     (set_conditions (map (\<lambda>t. mkCond t ConditionTrue [] [] 1)
       [MetalLBConfigured, HostedClusterAvailable, KubeConfigInjected, IgnitionConfigured]) sampleCR)"


text \<open>
  \<^verbatim>\<open>versionMatchesImage\<close> agrees with \<^verbatim>\<open>common.ExtractOCPVersion\<close>, the function the image lookup
  uses: for a release image that is not given by digest, a version matches exactly when it is the
  version extracted from the image, and when none can be extracted only the identical image matches.
\<close>

lemma versionMatchesImage_ExtractOCPVersion:
  assumes "\<not> Contains target ''@sha256:''"
  shows "versionMatchesImage version img target \<longleftrightarrow>
    (case ExtractOCPVersion target of Inl e \<Rightarrow> img = target | Inr v \<Rightarrow> version = v)"
proof (cases "CHR '':'' \<in> set target")
  case True
  then have "2 \<le> length (Split target (CHR '':''))" by (simp add: length_Split_iff)
  moreover have "Contains target '':''" using True by (simp add: Contains_char)
  ultimately show ?thesis
    using assms by (auto simp: versionMatchesImage_def ExtractOCPVersion_def Let_def fold_TrimSuffix_Nil)
next
  case False
  then show ?thesis
    using assms
    by (simp add: versionMatchesImage_def ExtractOCPVersion_def Contains_char Split_no_sep)
qed

lemma versionMatchesImage_ExtractOCPVersion_instance:
  "versionMatchesImage ''4.19.0'' [] ''quay.io/ocp:4.19.0-multi''"
proof -
  have "\<not> Contains ''quay.io/ocp:4.19.0-multi'' ''@sha256:''"
    and "ExtractOCPVersion ''quay.io/ocp:4.19.0-multi'' = Inr ''4.19.0''"
    by code_simp+
  then show ?thesis
    using versionMatchesImage_ExtractOCPVersion [of "''quay.io/ocp:4.19.0-multi''" "''4.19.0''" "[]"]
    by simp
qed

end
