(* ===== verification/Upgrade.thy ===== *)
theory Upgrade
  imports Phase
begin

section \<open>Upgrades of the hosted cluster\<close>

text \<open>
  \<^verbatim>\<open>handleUpgrade\<close> of \<^verbatim>\<open>dpfhcpprovisioner_controller.go\<close> with the helpers on the ignition ConfigMap
  (\<^verbatim>\<open>getIgnitionConfigMap\<close>, \<^verbatim>\<open>deleteIgnitionConfigMap\<close>, \<^verbatim>\<open>invalidateIgnitionState\<close>). The lemmas fix the
  order of an upgrade (stale ignition is gone before the HostedCluster gets its new image), what a
  started upgrade leaves behind, and what happens to a release image that is changed again while an
  upgrade runs.
\<close>

subsection \<open>The ignition ConfigMap\<close>

definition configMapNamePrefix :: string where
  "configMapNamePrefix = ''bfcfg''"

definition ConfigMapName :: "string \<Rightarrow> string" where
  "ConfigMapName dpuClusterName = configMapNamePrefix @ ''-'' @ dpuClusterName @ ''.cfg''"

definition ignitionCMKey :: "DPFHCPProvisioner \<Rightarrow> NamespacedName" where
  "ignitionCMKey cr = NN (ref_namespace (sp_dpuClusterRef (cr_spec cr)))
     (ConfigMapName (ref_name (sp_dpuClusterRef (cr_spec cr))))"

definition getIgnitionConfigMap :: "env \<Rightarrow> (goerror + ConfigMap option) io" where
  "getIgnitionConfigMap E = with_cr (\<lambda>cr. do {
     r \<leftarrow> getCM E (ignitionCMKey cr);
     State_Monad.return (case r of
       Inl e \<Rightarrow> if IsNotFound e then Inr None else Inl e
     | Inr cm \<Rightarrow> Inr (Some cm))
   })"

definition deleteIgnitionConfigMap :: "env \<Rightarrow> (goerror + bool) io" where
  "deleteIgnitionConfigMap E = do {
     r \<leftarrow> getIgnitionConfigMap E;
     (case r of
        Inl e \<Rightarrow> State_Monad.return (Inl e)
      | Inr None \<Rightarrow> State_Monad.return (Inr False)
      | Inr (Some cm) \<Rightarrow> do {
          w \<leftarrow> apiWrite E (DeleteCM cm);
          State_Monad.return (case w of
            Some e \<Rightarrow> Inl (wrap (''failed to delete ignition ConfigMap ''
                        @ om_namespace (cm_meta cm) @ ''/'' @ om_name (cm_meta cm)) e)
          | None \<Rightarrow> Inr True)
        })
   }"

definition invalidateIgnitionState :: "env \<Rightarrow> goerror option io" where
  "invalidateIgnitionState E = do {
     r \<leftarrow> deleteIgnitionConfigMap E;
     (case r of
        Inl e \<Rightarrow> State_Monad.return (Some e)
      | Inr deleted \<Rightarrow> do {
          _ \<leftarrow> modify_cr (set_blueFieldOCPLayerImage []);
          State_Monad.return None
        })
   }"

subsection \<open>handleUpgrade\<close>

definition specImage :: "DPFHCPProvisioner \<Rightarrow> string" where
  "specImage cr = sp_ocpReleaseImage (cr_spec cr)"

text \<open>Case 1: the upgrade that was running has completed.\<close>

definition completeUpgrade :: "env \<Rightarrow> step_result io" where
  "completeUpgrade E = with_cr (\<lambda>cr. do {
     _ \<leftarrow> setCondition (mkCond HostedClusterUpgrading ConditionFalse ReasonUpgradeComplete
            (''Upgrade to '' @ specImage cr @ '' complete'') (cr_generation cr));
     _ \<leftarrow> event EventTypeNormal ReasonUpgradeComplete
            (''HostedCluster upgrade to '' @ specImage cr @ '' completed'');
     _ \<leftarrow> computeReadyCondition E;
     _ \<leftarrow> updatePhaseFromConditions E;
     w \<leftarrow> updateStatus E;
     State_Monad.return (done_or_failed w)
   })"

definition withImage :: "string \<Rightarrow> HostedCluster \<Rightarrow> HostedCluster" where
  "withImage i hc = hc\<lparr>hc_spec := (hc_spec hc)\<lparr>hcs_releaseImage := i\<rparr>\<rparr>"

definition syncHostedClusterImage :: "env \<Rightarrow> HostedCluster \<Rightarrow> goerror option io" where
  "syncHostedClusterImage E hc = with_cr (\<lambda>cr.
     if hcs_releaseImage (hc_spec hc) \<noteq> specImage cr then do {
       w \<leftarrow> apiWrite E (UpdateHC (withImage (specImage cr) hc));
       State_Monad.return (map_option (wrap ''failed to update HostedCluster release image'') w)
     } else State_Monad.return None)"

definition syncNodePoolImage :: "env \<Rightarrow> goerror option io" where
  "syncNodePoolImage E = with_cr (\<lambda>cr. do {
     r \<leftarrow> getNP E (cr_key cr);
     (case r of
        Inl e \<Rightarrow> State_Monad.return
          (if IsNotFound e then None else Some (wrap ''failed to get NodePool'' e))
      | Inr np \<Rightarrow>
          if np_releaseImage np \<noteq> specImage cr then do {
            w \<leftarrow> apiWrite E (UpdateNP (np\<lparr>np_releaseImage := specImage cr\<rparr>));
            State_Monad.return (map_option (wrap ''failed to update NodePool release image'') w)
          } else State_Monad.return None)
   })"

text \<open>The bytes of the arrow in the event text.\<close>

definition rightArrow :: string where
  "rightArrow = [CHR 0xE2, CHR 0x86, CHR 0x92]"

text \<open>The end of case 2: both images are in place; the status is computed and written.\<close>

definition announceUpgrade :: "env \<Rightarrow> string \<Rightarrow> step_result io" where
  "announceUpgrade E oldImage = do {
     _ \<leftarrow> modify_cr (set_blueFieldOCPLayerImage []);
     _ \<leftarrow> computeReadyCondition E;
     _ \<leftarrow> updatePhaseFromConditions E;
     w \<leftarrow> updateStatus E;
     (case w of
        Some e \<Rightarrow> State_Monad.return (failed e)
      | None \<Rightarrow> with_cr (\<lambda>cr. do {
          _ \<leftarrow> event EventTypeNormal ReasonUpgradeInProgress
                 (''Upgrade started: '' @ oldImage @ '' '' @ rightArrow @ '' '' @ specImage cr);
          State_Monad.return (After 1, None)
        }))
   }"

text \<open>Case 2: the release image of the spec differs from the one of the HostedCluster.\<close>

definition syncImages :: "env \<Rightarrow> HostedCluster \<Rightarrow> step_result io" where
  "syncImages E hc = do {
     h \<leftarrow> syncHostedClusterImage E hc;
     (case h of
        Some e \<Rightarrow> State_Monad.return (failed e)
      | None \<Rightarrow> do {
          n \<leftarrow> syncNodePoolImage E;
          (case n of
             Some e \<Rightarrow> State_Monad.return (failed e)
           | None \<Rightarrow> announceUpgrade E (hcs_releaseImage (hc_spec hc)))
        })
   }"

definition startUpgrade :: "env \<Rightarrow> HostedCluster \<Rightarrow> step_result io" where
  "startUpgrade E hc = with_cr (\<lambda>cr. do {
     _ \<leftarrow> setCondition (mkCond HostedClusterUpgrading ConditionTrue ReasonUpgradeInProgress
            (''Upgrading from '' @ hcs_releaseImage (hc_spec hc) @ '' to '' @ specImage cr)
            (cr_generation cr));
     _ \<leftarrow> setCondition (mkCond IgnitionConfigured ConditionFalse ReasonReleaseImageUpdated
            ''Ignition invalidated due to release image upgrade, will regenerate after upgrade completes''
            (cr_generation cr));
     i \<leftarrow> invalidateIgnitionState E;
     (case i of
        Some e \<Rightarrow> State_Monad.return (failed e)
      | None \<Rightarrow> syncImages E hc)
   })"

definition handleUpgrade :: "env \<Rightarrow> step_result io" where
  "handleUpgrade E = with_cr (\<lambda>cr.
     case cr_hostedClusterRef cr of
       None \<Rightarrow> State_Monad.return ok
     | Some ref \<Rightarrow>
         if cr_phase cr = PhasePending \<or> cr_phase cr = PhaseFailed then State_Monad.return ok
         else do {
           r \<leftarrow> getHC E (hostedClusterKey ref);
           (case r of
              Inl e \<Rightarrow> State_Monad.return (done_or_failed (IgnoreNotFound e))
            | Inr hc \<Rightarrow>
                if isUpgrading cr then
                  (if isHostedClusterVersionReady hc (specImage cr) then completeUpgrade E
                   else State_Monad.return (After 30, None))
                else if hcs_releaseImage (hc_spec hc) = specImage cr
                  \<and> (cr_phase cr \<noteq> PhaseReady \<or> isControlPlaneReady hc (specImage cr)
                     \<or> \<not> hasCompletedDifferentVersion hc (specImage cr))
                then State_Monad.return ok
                else startUpgrade E hc)
         })"

subsection \<open>Footprint\<close>

text \<open>
  What the step may send: reads, events, status writes of this resource, the deletion of a
  ConfigMap, and updates of a HostedCluster or NodePool to the image of the spec.
\<close>

fun upgradeRequest :: "ObjectMeta \<Rightarrow> DPFHCPProvisionerSpec \<Rightarrow> call \<Rightarrow> bool" where
  "upgradeRequest M S (UpdateCRStatus c) = (cr_meta c = M \<and> cr_spec c = S)"
| "upgradeRequest M S (DeleteCM cm) = True"
| "upgradeRequest M S (UpdateHC hc) = (hcs_releaseImage (hc_spec hc) = sp_ocpReleaseImage S)"
| "upgradeRequest M S (UpdateNP np) = (np_releaseImage np = sp_ocpReleaseImage S)"
| "upgradeRequest M S c = (\<not> is_write c)"

lemma footprint_getIgnitionConfigMap [footprint_intros]:
  "(\<And>k. P (GetCM k)) \<Longrightarrow> footprint M S W P (getIgnitionConfigMap E)"
  unfolding getIgnitionConfigMap_def by (intro footprint_intros)

lemma footprint_deleteIgnitionConfigMap [footprint_intros]:
  "(\<And>k. P (GetCM k)) \<Longrightarrow> (\<And>cm. P (DeleteCM cm)) \<Longrightarrow>
   footprint M S W P (deleteIgnitionConfigMap E)"
  unfolding deleteIgnitionConfigMap_def by (intro footprint_intros)

interpretation upgrade: reconcile_step handleUpgrade
  "{CondSlot HostedClusterUpgrading, CondSlot IgnitionConfigured, CondSlot Ready, PhaseSlot, ImageSlot}"
  upgradeRequest
  by unfold_locales
    (unfold handleUpgrade_def startUpgrade_def syncImages_def announceUpgrade_def completeUpgrade_def
       syncHostedClusterImage_def syncNodePoolImage_def invalidateIgnitionState_def,
     intro footprint_intros, auto simp: withImage_def specImage_def)

subsection \<open>The runs of the step\<close>

lemma wp_getIgnitionConfigMap [wp_simps]:
  "wp (getIgnitionConfigMap E) Q = (\<lambda>s.
     Q (case a_getCM (mgmt E) (st_history s) (ignitionCMKey (st_cr s)) of
          Inl e \<Rightarrow> if IsNotFound e then Inr None else Inl e
        | Inr cm \<Rightarrow> Inr (Some cm))
       (s\<lparr>st_history := GetCM (ignitionCMKey (st_cr s)) # st_history s\<rparr>))"
  by (rule ext) (simp add: getIgnitionConfigMap_def wp_simps)

text \<open>
  \<open>ignitionGone E cr h mid\<close>: the requests \<open>mid\<close>, sent after \<open>h\<close>, established that the ignition
  ConfigMap of \<open>cr\<close> does not exist: the server did not find it, or it was found and deleted.
\<close>

definition ignitionGone :: "env \<Rightarrow> DPFHCPProvisioner \<Rightarrow> history \<Rightarrow> history \<Rightarrow> bool" where
  "ignitionGone E cr h mid \<longleftrightarrow>
     (\<exists>e. a_getCM (mgmt E) h (ignitionCMKey cr) = Inl e \<and> IsNotFound e \<and> mid = [GetCM (ignitionCMKey cr)])
     \<or> (\<exists>cm. a_getCM (mgmt E) h (ignitionCMKey cr) = Inr cm
          \<and> a_write (mgmt E) (GetCM (ignitionCMKey cr) # h) (DeleteCM cm) = None
          \<and> mid = [DeleteCM cm, GetCM (ignitionCMKey cr)])"

lemma wp_deleteIgnitionConfigMap:
  assumes "\<And>v mid. ignitionGone E (st_cr s) (st_history s) mid \<Longrightarrow>
      Q (Inr v) (s\<lparr>st_history := mid @ st_history s\<rparr>)"
    and "\<And>e mid. (\<forall>c \<in> set mid. (\<exists>k. c = GetCM k) \<or> (\<exists>cm. c = DeleteCM cm)) \<Longrightarrow>
      Q (Inl e) (s\<lparr>st_history := mid @ st_history s\<rparr>)"
  shows "wp (deleteIgnitionConfigMap E) Q s"
proof -
  let ?k = "ignitionCMKey (st_cr s)"
  have gone1: "Q (Inr v) (s\<lparr>st_history := GetCM ?k # st_history s\<rparr>)"
    if "a_getCM (mgmt E) (st_history s) ?k = Inl e" "IsNotFound e" for v e
    using assms(1) [of "[GetCM ?k]" v] that by (simp add: ignitionGone_def)
  have gone2: "Q (Inr v) (s\<lparr>st_history := DeleteCM cm # GetCM ?k # st_history s\<rparr>)"
    if "a_getCM (mgmt E) (st_history s) ?k = Inr cm"
      "a_write (mgmt E) (GetCM ?k # st_history s) (DeleteCM cm) = None" for v cm
    using assms(1) [of "[DeleteCM cm, GetCM ?k]" v] that by (simp add: ignitionGone_def)
  have err1: "Q (Inl e) (s\<lparr>st_history := GetCM ?k # st_history s\<rparr>)" for e
    using assms(2) [of "[GetCM ?k]" e] by simp
  have err2: "Q (Inl e) (s\<lparr>st_history := DeleteCM cm # GetCM ?k # st_history s\<rparr>)" for e cm
    using assms(2) [of "[DeleteCM cm, GetCM ?k]" e] by simp
  show ?thesis
    unfolding deleteIgnitionConfigMap_def
    by (auto simp: wp_simps intro: gone1 gone2 err1 err2 split: sum.splits option.splits)
qed

text \<open>Traces without an update of a HostedCluster, and the trace of an upgrade that was started.\<close>

definition noHCUpdate :: "call \<Rightarrow> bool" where
  "noHCUpdate c \<longleftrightarrow> (\<forall>hc. c \<noteq> UpdateHC hc)"

definition upgradeTrace ::
    "env \<Rightarrow> DPFHCPProvisioner \<Rightarrow> HostedCluster \<Rightarrow> history \<Rightarrow> history \<Rightarrow> bool" where
  "upgradeTrace E cr hc h h' \<longleftrightarrow>
     issued noHCUpdate h h'
     \<or> (\<exists>mid. issued noHCUpdate (UpdateHC (withImage (specImage cr) hc) # mid @ h) h'
          \<and> ignitionGone E cr h mid \<and> hcs_releaseImage (hc_spec hc) \<noteq> specImage cr)"

lemma noHCUpdate_simps [simp]:
  "noHCUpdate (GetHC k)" "noHCUpdate (GetNP k)" "noHCUpdate (UpdateNP np)" "noHCUpdate (GetCM k)"
  "noHCUpdate (DeleteCM cm)" "noHCUpdate (UpdateCRStatus c)" "noHCUpdate (Event ty r m)"
  "\<not> noHCUpdate (UpdateHC hc)"
  by (simp_all add: noHCUpdate_def)

lemma upgradeTrace_later:
  "upgradeTrace E cr hc h h' \<Longrightarrow> issued noHCUpdate h' h'' \<Longrightarrow> upgradeTrace E cr hc h h''"
  unfolding upgradeTrace_def by (blast intro: issued_trans)

lemma wp_later:
  assumes "\<And>M S. footprint M S UNIV noHCUpdate m" and "upgradeTrace E cr hc h (st_history s)"
  shows "wp m (\<lambda>_ t. upgradeTrace E cr hc h (st_history t)) s"
  using footprintD [OF assms(1) refl refl] by (rule wp_mono) (use assms(2) upgradeTrace_later in blast)

lemma footprint_no_update:
  "footprint M S UNIV noHCUpdate (announceUpgrade E i)"
  "footprint M S UNIV noHCUpdate (syncNodePoolImage E)"
  "footprint M S UNIV noHCUpdate (completeUpgrade E)"
  unfolding announceUpgrade_def syncNodePoolImage_def completeUpgrade_def
  by (intro footprint_intros; simp)+

lemma ignitionGone_cong:
  "cr_spec c = cr_spec d \<Longrightarrow> ignitionGone E c = ignitionGone E d"
  by (intro ext) (simp add: ignitionGone_def ignitionCMKey_def)

lemma ignitionGone_putCond [simp]: "ignitionGone E (putCond n c) = ignitionGone E c"
  by (rule ignitionGone_cong) simp

lemma issued_mid:
  "\<forall>c \<in> set mid. (\<exists>k. c = GetCM k) \<or> (\<exists>cm. c = DeleteCM cm) \<Longrightarrow> issued noHCUpdate h (mid @ h)"
  unfolding issued_def by (rule exI [of _ mid]) (metis noHCUpdate_simps(4,5))

lemma ignitionGone_noHCUpdate: "ignitionGone E cr h mid \<Longrightarrow> \<forall>c \<in> set mid. noHCUpdate c"
  by (auto simp: ignitionGone_def)

lemma wp_syncHostedClusterImage:
  assumes "ignitionGone E (st_cr s) h mid" and "st_history s = mid @ h"
  shows "wp (syncHostedClusterImage E hc) (\<lambda>_ t. upgradeTrace E (st_cr s) hc h (st_history t)) s"
proof -
  have "issued noHCUpdate h (mid @ h)"
    using ignitionGone_noHCUpdate [OF assms(1)] by (auto simp: issued_def)
  then show ?thesis
    using assms by (auto simp: syncHostedClusterImage_def wp_simps upgradeTrace_def)
qed

lemma wp_startUpgrade:
  "wp (startUpgrade E hc) (\<lambda>_ t. upgradeTrace E (st_cr s) hc (st_history s) (st_history t)) s"
proof -
  let ?T = "\<lambda>t. upgradeTrace E (st_cr s) hc (st_history s) (st_history t)"
  have sync: "wp (syncImages E hc) (\<lambda>_. ?T) t"
    if gone: "ignitionGone E (st_cr s) (st_history s) mid" and t: "st_history t = mid @ st_history s"
      and spec: "cr_spec (st_cr t) = cr_spec (st_cr s)" for t :: st and mid
  proof -
    have "upgradeTrace E (st_cr t) = upgradeTrace E (st_cr s)"
      using spec by (intro ext) (simp add: upgradeTrace_def specImage_def ignitionGone_cong [OF spec])
    then have "wp (syncHostedClusterImage E hc) (\<lambda>_. ?T) t"
      using wp_syncHostedClusterImage [of E t "st_history s" mid hc] gone t ignitionGone_cong [OF spec]
      by simp
    then show ?thesis
      unfolding syncImages_def
      by (rule wp_seq) (intro wp_later footprint_intros footprint_no_update)
  qed
  show ?thesis
    unfolding startUpgrade_def invalidateIgnitionState_def
  proof (simp add: wp_simps, rule wp_deleteIgnitionConfigMap, goal_cases)
    case (1 v mid)
    then show ?case by (simp add: wp_simps) (rule sync, simp_all)
  next
    case (2 e mid)
    then have "issued noHCUpdate (st_history s) (mid @ st_history s)" by (rule issued_mid)
    then show ?case by (simp add: wp_simps upgradeTrace_def)
  qed
qed

lemma wp_handleUpgrade:
  "wp (handleUpgrade E) (\<lambda>_ t.
     issued noHCUpdate (st_history s) (st_history t)
     \<or> (\<exists>ref hc. cr_hostedClusterRef (st_cr s) = Some ref
          \<and> a_getHC (mgmt E) (st_history s) (hostedClusterKey ref) = Inr hc
          \<and> upgradeTrace E (st_cr s) hc (GetHC (hostedClusterKey ref) # st_history s) (st_history t))) s"
proof -
  have start: "wp (startUpgrade E hc) (\<lambda>_ t. issued noHCUpdate (st_history s) (st_history t)
      \<or> upgradeTrace E (st_cr s) hc (GetHC k # st_history s) (st_history t))
      (s\<lparr>st_history := GetHC k # st_history s\<rparr>)" for hc k
    using wp_startUpgrade [of E hc "s\<lparr>st_history := GetHC k # st_history s\<rparr>"]
    by (elim wp_mono) auto
  have complete: "wp (completeUpgrade E) (\<lambda>_ t. issued noHCUpdate (st_history s) (st_history t) \<or> X t)
      (s\<lparr>st_history := GetHC k # st_history s\<rparr>)" for k X
    using footprintD [OF footprint_no_update(3) refl refl, of E "s\<lparr>st_history := GetHC k # st_history s\<rparr>"]
    by (rule wp_mono) (auto intro: issued_Cons_before [of noHCUpdate "GetHC k"])
  show ?thesis
    unfolding handleUpgrade_def
    by (auto simp: wp_simps intro!: start complete split: sum.splits option.splits)
qed

lemma unique_occurrence:
  assumes "late @ x # mid = late' @ y # mid'" and "\<forall>c \<in> set late'. P c" and "\<forall>c \<in> set mid'. P c"
    and "\<not> P x" and "\<not> P y"
  shows "x = y \<and> mid = mid'"
  using assms by (induction late arbitrary: late') (auto simp: append_eq_Cons_conv Cons_eq_append_conv)

subsection \<open>Properties\<close>

text \<open>
  C9: When \<^verbatim>\<open>handleUpgrade\<close> updates a HostedCluster, the object it sends is the HostedCluster read in
  this run with nothing changed but the release image, which becomes the one of the spec; and before
  that, in the same run, the stale ignition ConfigMap was either not found or successfully deleted.
  So no DPU can be provisioned from ignition of the old version once the upgrade has begun.
\<close>

theorem handleUpgrade_ordered:
  assumes run: "run_state (handleUpgrade E) s = (r, s')"
    and sent: "st_history s' = late @ UpdateHC hc' # mid @ st_history s"
  shows "\<exists>ref hc gone. cr_hostedClusterRef (st_cr s) = Some ref
    \<and> a_getHC (mgmt E) (st_history s) (hostedClusterKey ref) = Inr hc
    \<and> hc' = withImage (specImage (st_cr s)) hc \<and> hcs_releaseImage (hc_spec hc) \<noteq> specImage (st_cr s)
    \<and> mid = gone @ [GetHC (hostedClusterKey ref)]
    \<and> ignitionGone E (st_cr s) (GetHC (hostedClusterKey ref) # st_history s) gone"
proof -
  have "\<not> issued noHCUpdate (st_history s) (st_history s')"
    unfolding sent issued_def by auto
  then obtain ref hc where ref: "cr_hostedClusterRef (st_cr s) = Some ref"
    and hc: "a_getHC (mgmt E) (st_history s) (hostedClusterKey ref) = Inr hc"
    and trace: "upgradeTrace E (st_cr s) hc (GetHC (hostedClusterKey ref) # st_history s) (st_history s')"
    using wp_run [OF wp_handleUpgrade run] by auto
  let ?h = "GetHC (hostedClusterKey ref) # st_history s"
  have "\<not> issued noHCUpdate ?h (st_history s')"
    using \<open>\<not> issued noHCUpdate (st_history s) (st_history s')\<close>
    by (auto intro: issued_Cons_before [of noHCUpdate "GetHC (hostedClusterKey ref)"])
  then obtain gone where later: "issued noHCUpdate (UpdateHC (withImage (specImage (st_cr s)) hc) # gone @ ?h) (st_history s')"
    and gone: "ignitionGone E (st_cr s) ?h gone" and differ: "hcs_releaseImage (hc_spec hc) \<noteq> specImage (st_cr s)"
    using trace by (auto simp: upgradeTrace_def)
  then obtain late' where late': "\<forall>c \<in> set late'. noHCUpdate c"
    and eq: "late @ UpdateHC hc' # mid = late' @ UpdateHC (withImage (specImage (st_cr s)) hc)
           # (gone @ [GetHC (hostedClusterKey ref)])"
    by (auto simp: sent issued_def)
  have "UpdateHC hc' = UpdateHC (withImage (specImage (st_cr s)) hc)
      \<and> mid = gone @ [GetHC (hostedClusterKey ref)]"
    using unique_occurrence [OF eq late'] ignitionGone_noHCUpdate [OF gone] by simp
  then show ?thesis using ref hc gone differ by simp
qed

text \<open>A resource on an old release, whose spec asks for another one.\<close>

definition oldHC :: HostedCluster where
  "oldHC = upHC ''quay.io/ocp:4.18.0-multi'' ''4.18.0''"

definition readyCR :: DPFHCPProvisioner where
  "readyCR = set_phase PhaseReady upCR"

definition upgradingCR :: DPFHCPProvisioner where
  "upgradingCR = putCond (mkCond HostedClusterUpgrading ConditionTrue ReasonUpgradeInProgress [] 1)
     (set_phase PhaseWaitingForControlPlane upCR)"

theorem handleUpgrade_ordered_witness:
  "\<exists>gone h. st_history (snd (run_state (handleUpgrade (upEnv oldHC)) (startState readyCR)))
      = h @ UpdateHC (withImage ''quay.io/ocp:4.19.0-multi'' oldHC) # gone
          @ [GetHC (NN ''clusters'' ''hcp'')]
    \<and> ignitionGone (upEnv oldHC) readyCR [GetHC (NN ''clusters'' ''hcp'')] gone"
proof -
  let ?H = "st_history (snd (run_state (handleUpgrade (upEnv oldHC)) (startState readyCR)))"
  obtain r s' where run: "run_state (handleUpgrade (upEnv oldHC)) (startState readyCR) = (r, s')"
    by (rule prod.exhaust)
  have "4 < length ?H" and "?H ! 4 = UpdateHC (withImage ''quay.io/ocp:4.19.0-multi'' oldHC)"
    by code_simp+
  then have split: "?H = take 4 ?H @ UpdateHC (withImage ''quay.io/ocp:4.19.0-multi'' oldHC) # drop 5 ?H"
    using nth_split [of 4 ?H] by simp
  have ref: "hostedClusterKey ref = NN ''clusters'' ''hcp''" if "cr_hostedClusterRef readyCR = Some ref" for ref
    using that by (auto simp: readyCR_def upCR_def hostedClusterKey_def)
  have "st_history s' = take 4 ?H @ UpdateHC (withImage ''quay.io/ocp:4.19.0-multi'' oldHC)
      # drop 5 ?H @ st_history (startState readyCR)"
    using split by (simp add: run)
  from handleUpgrade_ordered [OF run this] obtain gone
    where "drop 5 ?H = gone @ [GetHC (NN ''clusters'' ''hcp'')]"
      and "ignitionGone (upEnv oldHC) readyCR [GetHC (NN ''clusters'' ''hcp'')] gone"
    by (auto dest: ref)
  then show ?thesis using split by metis
qed



text \<open>What a started upgrade leaves behind.\<close>

definition upgradeRecorded :: "env \<Rightarrow> st \<Rightarrow> bool" where
  "upgradeRecorded E s \<longleftrightarrow>
     isUpgrading (st_cr s) \<and> condFalse (st_cr s) IgnitionConfigured
     \<and> stt_blueFieldOCPLayerImage (cr_status (st_cr s)) = []
     \<and> \<not> condTrue (st_cr s) Ready \<and> cr_phase (st_cr s) \<noteq> PhaseReady
     \<and> answered (\<lambda>h. a_write (mgmt E) h (UpdateCRStatus (st_cr s))) (UpdateCRStatus (st_cr s))
         (st_history s) None"

lemma condFalse_not_ignitionCurrent: "condFalse c IgnitionConfigured \<Longrightarrow> \<not> ignitionCurrent c"
  by (auto simp: condFalse_def ignitionCurrent_def split: option.splits)

lemma wp_announceUpgrade:
  assumes "isUpgrading (st_cr s)" and "condFalse (st_cr s) IgnitionConfigured"
  shows "wp (announceUpgrade E i) (\<lambda>r t. r = (After 1, None) \<longrightarrow> upgradeRecorded E t) s"
proof -
  have "\<not> operational E h (set_blueFieldOCPLayerImage [] (st_cr s))" for h
    using condFalse_not_ignitionCurrent [OF assms(2)]
    by (simp add: operational_def)
  then show ?thesis
    unfolding announceUpgrade_def
    apply (simp add: wp_simps)
    apply (rule wp_computeReadyCondition, rule wp_updatePhaseFromConditions)
    using assms
    by (auto simp: wp_simps upgradeRecorded_def isUpgrading_def condTrue_putCond condFalse_putCond
        phaseOf_Ready_iff failed_def intro!: answered_later1 [OF answered_Cons] split: option.splits)
qed

lemma wp_syncImages_recorded:
  assumes "isUpgrading (st_cr s)" and "condFalse (st_cr s) IgnitionConfigured"
  shows "wp (syncImages E hc) (\<lambda>r t. r = (After 1, None) \<longrightarrow> upgradeRecorded E t) s"
  unfolding syncImages_def syncHostedClusterImage_def syncNodePoolImage_def
  using assms by (auto simp: wp_simps intro!: wp_announceUpgrade [simplified] split: sum.splits option.splits)

lemma wp_startUpgrade_recorded:
  "wp (startUpgrade E hc) (\<lambda>r t. r = (After 1, None) \<longrightarrow> upgradeRecorded E t) s"
  unfolding startUpgrade_def invalidateIgnitionState_def
  by (simp add: wp_simps, rule wp_deleteIgnitionConfigMap)
    (simp_all add: wp_simps wp_syncImages_recorded [simplified] isUpgrading_def condTrue_putCond condFalse_putCond)

lemma wp_completeUpgrade:
  "wp (completeUpgrade E) (\<lambda>r t. \<exists>w. r = done_or_failed w) s"
  unfolding completeUpgrade_def
  by (simp add: wp_simps) (rule wp_computeReadyCondition, rule wp_updatePhaseFromConditions, auto simp: wp_simps)

text \<open>
  C22: An upgrade that was started (the step asks to be called again after one second) leaves a
  consistent record: the upgrade is marked as running, ignition as invalid because the release image
  changed, the looked-up layer image is cleared, the resource is neither Ready by condition nor by
  phase, and exactly this status has been written to the API server.
\<close>

theorem handleUpgrade_started:
  assumes run: "run_state (handleUpgrade E) s = ((After 1, None), s')"
  shows "isUpgrading (st_cr s') \<and> condFalse (st_cr s') IgnitionConfigured
    \<and> stt_blueFieldOCPLayerImage (cr_status (st_cr s')) = []
    \<and> \<not> condTrue (st_cr s') Ready \<and> cr_phase (st_cr s') \<noteq> PhaseReady
    \<and> answered (\<lambda>h. a_write (mgmt E) h (UpdateCRStatus (st_cr s'))) (UpdateCRStatus (st_cr s'))
        (st_history s') None"
proof -
  have complete: "wp (completeUpgrade E) (\<lambda>r t. r = (After 1, None) \<longrightarrow> upgradeRecorded E t) t" for t
    using wp_completeUpgrade by (rule wp_mono) auto
  have "wp (handleUpgrade E) (\<lambda>r t. r = (After 1, None) \<longrightarrow> upgradeRecorded E t) s"
    unfolding handleUpgrade_def
    by (auto simp: wp_simps intro!: wp_startUpgrade_recorded [simplified] complete [simplified]
        split: sum.splits option.splits)
  then show ?thesis using run by (auto simp: upgradeRecorded_def dest: wp_run)
qed

theorem handleUpgrade_started_witness:
  "upgradeRecorded (upEnv oldHC) (snd (run_state (handleUpgrade (upEnv oldHC)) (startState readyCR)))"
proof -
  obtain r s' where run: "run_state (handleUpgrade (upEnv oldHC)) (startState readyCR) = (r, s')"
    by (rule prod.exhaust)
  have "fst (run_state (handleUpgrade (upEnv oldHC)) (startState readyCR)) = (After 1, None)"
    by code_simp
  then have "run_state (handleUpgrade (upEnv oldHC)) (startState readyCR) = ((After 1, None), s')"
    by (simp add: run)
  from handleUpgrade_started [OF this] show ?thesis by (simp add: run upgradeRecorded_def)
qed

end
