(* ===== verification/Encoding.thy ===== *)
theory Encoding
  imports Sha256
begin

section \<open>Encodings of the standard library\<close>

text \<open>
  The parts of Go's \<^verbatim>\<open>encoding/base64\<close>, \<^verbatim>\<open>net/url\<close>, \<^verbatim>\<open>hash/fnv\<close>, \<^verbatim>\<open>strconv\<close> and \<^verbatim>\<open>strings\<close> that the
  ignition code uses, on byte strings. The lemmas are the round trips: decoding what was encoded
  gives the bytes back.
\<close>

named_theorems encoding_simps \<open>round trips of the encodings\<close>

subsection \<open>Base64\<close>

definition b64alphabet :: string where
  "b64alphabet = ''ABCDEFGHIJKLMNOPQRSTUVWXYZabcdefghijklmnopqrstuvwxyz0123456789+/''"

definition b64char :: "nat \<Rightarrow> char" where
  "b64char n = b64alphabet ! n"

definition b64val :: "char \<Rightarrow> nat option" where
  "b64val c = Index b64alphabet c"

definition b64group :: "nat \<Rightarrow> string" where
  "b64group n = [b64char (n div 262144), b64char (n div 4096 mod 64),
     b64char (n div 64 mod 64), b64char (n mod 64)]"

text \<open>\<^verbatim>\<open>base64.StdEncoding.EncodeToString\<close>.\<close>

fun base64Encode :: "string \<Rightarrow> string" where
  "base64Encode [] = []"
| "base64Encode [a] = take 2 (b64group (of_char a * 65536)) @ ''==''"
| "base64Encode [a, b] = take 3 (b64group (of_char a * 65536 + of_char b * 256)) @ ''=''"
| "base64Encode (a # b # c # r) =
     b64group (of_char a * 65536 + of_char b * 256 + of_char c) @ base64Encode r"

text \<open>
  \<^verbatim>\<open>base64.StdEncoding.DecodeString\<close>: line breaks are skipped, padding ends the input, the unused
  bits of the last digit are not checked. The text of the error ends with the offset of the bad byte,
  which is left out here.
\<close>

definition CorruptInputError :: goerror where
  "CorruptInputError = Errorf ''illegal base64 data at input byte''"

fun base64Groups :: "string \<Rightarrow> goerror + string" where
  "base64Groups [] = Inr []"
| "base64Groups (p # q # r # s # rest) =
     (case (b64val p, b64val q) of
        (Some vp, Some vq) \<Rightarrow>
          (if r = CHR ''='' then
             (if s = CHR ''='' \<and> rest = [] then Inr [char_of ((vp * 64 + vq) div 16)]
              else Inl CorruptInputError)
           else (case b64val r of
             None \<Rightarrow> Inl CorruptInputError
           | Some vr \<Rightarrow>
               (if s = CHR ''='' then
                  (if rest = []
                   then Inr [char_of (((vp * 64 + vq) * 64 + vr) div 1024),
                             char_of (((vp * 64 + vq) * 64 + vr) div 4 mod 256)]
                   else Inl CorruptInputError)
                else (case b64val s of
                  None \<Rightarrow> Inl CorruptInputError
                | Some vs \<Rightarrow>
                    (case base64Groups rest of
                       Inl e \<Rightarrow> Inl e
                     | Inr bytes \<Rightarrow>
                         (let v = ((vp * 64 + vq) * 64 + vr) * 64 + vs in
                          Inr (char_of (v div 65536) # char_of (v div 256 mod 256)
                               # char_of (v mod 256) # bytes)))))))
      | _ \<Rightarrow> Inl CorruptInputError)"
| "base64Groups _ = Inl CorruptInputError"

definition base64Decode :: "string \<Rightarrow> goerror + string" where
  "base64Decode s = base64Groups (filter (\<lambda>c. c \<noteq> CHR 0x0A \<and> c \<noteq> CHR 0x0D) s)"

lemma Index_nth: "distinct s \<Longrightarrow> n < length s \<Longrightarrow> Index s (s ! n) = Some n"
  by (induction s arbitrary: n) (auto simp: nth_Cons split: nat.splits)

lemma b64alphabet_facts:
  "length b64alphabet = 64" "distinct b64alphabet"
  "CHR ''='' \<notin> set b64alphabet" "CHR 0x0A \<notin> set b64alphabet" "CHR 0x0D \<notin> set b64alphabet"
  by (simp_all add: b64alphabet_def)

lemma b64val_b64char [simp]: "n < 64 \<Longrightarrow> b64val (b64char n) = Some n"
  by (simp add: b64val_def b64char_def Index_nth b64alphabet_facts)

lemma b64char_in: "n < 64 \<Longrightarrow> b64char n \<in> set b64alphabet"
  by (simp add: b64char_def b64alphabet_facts)

lemma b64char_special [simp]:
  assumes "n < 64"
  shows "b64char n \<noteq> CHR ''=''" "b64char n \<noteq> CHR 0x0A" "b64char n \<noteq> CHR 0x0D"
  using b64char_in [OF assms] b64alphabet_facts by metis+

lemma of_char_less [simp]: "(of_char c :: nat) < 256"
  using nat_of_char_less_256 by simp

lemma b64_digits:
  fixes n :: nat
  shows "n div 262144 * 64 + n div 4096 mod 64 = n div 4096"
    and "n div 4096 * 64 + n div 64 mod 64 = n div 64"
    and "n div 64 * 64 + n mod 64 = n"
proof -
  have "n div 4096 = n div 64 div 64" "n div 262144 = n div 4096 div 64"
    by (simp_all flip: div_mult2_eq)
  then show "n div 262144 * 64 + n div 4096 mod 64 = n div 4096"
    "n div 4096 * 64 + n div 64 mod 64 = n div 64" "n div 64 * 64 + n mod 64 = n"
    by (simp_all only: div_mult_mod_eq)
qed

text \<open>Three bytes make a number below \<open>2^24\<close>, from which they are read back.\<close>

lemma bytes3:
  fixes a b c :: nat
  assumes "a < 256" "b < 256" "c < 256"
  shows "(a * 65536 + b * 256 + c) div 262144 < 64"
    and "(a * 65536 + b * 256 + c) div 65536 = a"
    and "(a * 65536 + b * 256 + c) div 256 mod 256 = b"
    and "(a * 65536 + b * 256 + c) mod 256 = c"
proof -
  let ?n = "a * 65536 + b * 256 + c"
  have n: "?n = (a * 256 + b) * 256 + c" by simp
  have d: "?n div 256 = a * 256 + b" unfolding n using assms(3) by simp
  show "?n mod 256 = c" unfolding n mod_mult_self3 using assms(3) by simp
  show "?n div 256 mod 256 = b" unfolding d using assms(2) by simp
  have "?n div 65536 = ?n div 256 div 256" by (simp flip: div_mult2_eq)
  then show "?n div 65536 = a" unfolding d using assms(2) by simp
  show "?n div 262144 < 64" using assms by (simp add: div_less_iff_less_mult)
qed

lemma base64Groups_full:
  assumes "n div 262144 < 64"
  shows "base64Groups (b64group n @ r) = (case base64Groups r of
      Inl e \<Rightarrow> Inl e
    | Inr bytes \<Rightarrow> Inr (char_of (n div 65536) # char_of (n div 256 mod 256) # char_of (n mod 256) # bytes))"
  using assms
  by (simp add: b64group_def b64_digits Let_def del: distrib_right_numeral split: sum.splits)

lemma base64Groups_partial:
  assumes "n div 262144 < 64"
  shows "base64Groups (take 2 (b64group n) @ ''=='') = Inr [char_of (n div 65536)]"
    and "base64Groups (take 3 (b64group n) @ ''='') = Inr [char_of (n div 65536), char_of (n div 256 mod 256)]"
  using assms
  by (simp_all add: b64group_def b64_digits del: distrib_right_numeral flip: div_mult2_eq)

lemma base64Groups_Encode: "base64Groups (base64Encode s) = Inr s"
proof (induction s rule: base64Encode.induct)
  case (2 a)
  then show ?case
    using bytes3 [of "of_char a" 0 0] base64Groups_partial(1) [of "of_char a * 65536"] by simp
next
  case (3 a b)
  then show ?case
    using bytes3 [of "of_char a" "of_char b" 0]
      base64Groups_partial(2) [of "of_char a * 65536 + of_char b * 256"] by simp
next
  case (4 a b c r)
  then show ?case
    by (simp add: base64Groups_full bytes3)
qed simp

lemma base64Encode_alphabet: "set (base64Encode s) \<subseteq> insert (CHR ''='') (set b64alphabet)"
proof (induction s rule: base64Encode.induct)
  case (4 a b c r)
  then show ?case
    using bytes3(1) [of "of_char a" "of_char b" "of_char c"] by (auto simp: b64group_def b64char_in)
next
  case (3 a b)
  then show ?case
    using bytes3(1) [of "of_char a" "of_char b" 0] by (auto simp: b64group_def b64char_in)
next
  case (2 a)
  then show ?case
    using bytes3(1) [of "of_char a" 0 0] by (auto simp: b64group_def b64char_in)
qed simp

lemma base64Encode_no_breaks:
  "c \<in> set (base64Encode s) \<Longrightarrow> c \<noteq> CHR 0x0A \<and> c \<noteq> CHR 0x0D"
  using base64Encode_alphabet [of s] b64alphabet_facts by auto

lemma base64_roundtrip [encoding_simps]: "base64Decode (base64Encode s) = Inr s"
proof -
  have "filter (\<lambda>c. c \<noteq> CHR 0x0A \<and> c \<noteq> CHR 0x0D) (base64Encode s) = base64Encode s"
    by (simp add: base64Encode_no_breaks filter_id_conv)
  then show ?thesis by (simp add: base64Decode_def base64Groups_Encode)
qed

subsection \<open>Query escaping\<close>

definition upperHex :: string where
  "upperHex = ''0123456789ABCDEF''"

definition upper_hex :: "nat \<Rightarrow> char" where
  "upper_hex n = upperHex ! n"

definition unhex :: "char \<Rightarrow> nat option" where
  "unhex c = (case Index upperHex c of
     Some n \<Rightarrow> Some n
   | None \<Rightarrow> Index ''0123456789abcdef'' c)"

text \<open>The bytes \<^verbatim>\<open>url.QueryEscape\<close> leaves alone: letters, digits and \<^verbatim>\<open>-_.~\<close>.\<close>

definition unreserved :: "char \<Rightarrow> bool" where
  "unreserved c = (let n = of_char c :: nat in
     (97 \<le> n \<and> n < 123) \<or> (65 \<le> n \<and> n < 91) \<or> (48 \<le> n \<and> n < 58)
     \<or> n = 45 \<or> n = 95 \<or> n = 46 \<or> n = 126)"

definition escapeByte :: "char \<Rightarrow> string" where
  "escapeByte c =
     (if c = CHR '' '' then ''+''
      else if unreserved c then [c]
      else [CHR ''%'', upper_hex (of_char c div 16), upper_hex (of_char c mod 16)])"

definition QueryEscape :: "string \<Rightarrow> string" where
  "QueryEscape s = concat (map escapeByte s)"

definition EscapeError :: "string \<Rightarrow> goerror" where
  "EscapeError s = Errorf (''invalid URL escape '' @ Quote (take 3 s))"

text \<open>\<^verbatim>\<open>url.QueryUnescape\<close>: a plus sign is a space, a percent sign needs two hexadecimal digits.\<close>

fun QueryUnescape :: "string \<Rightarrow> goerror + string" where
  "QueryUnescape [] = Inr []"
| "QueryUnescape (c # s) =
     (if c = CHR ''%'' then
        (case s of
           a # b # r \<Rightarrow>
             (case (unhex a, unhex b) of
                (Some x, Some y) \<Rightarrow>
                  (case QueryUnescape r of
                     Inl e \<Rightarrow> Inl e
                   | Inr t \<Rightarrow> Inr (char_of (x * 16 + y) # t))
              | _ \<Rightarrow> Inl (EscapeError (c # s)))
         | _ \<Rightarrow> Inl (EscapeError (c # s)))
      else (case QueryUnescape s of
              Inl e \<Rightarrow> Inl e
            | Inr t \<Rightarrow> Inr ((if c = CHR ''+'' then CHR '' '' else c) # t)))"

lemma upperHex_facts: "length upperHex = 16" "distinct upperHex"
  by (simp_all add: upperHex_def)

lemma unhex_upper_hex: "n < 16 \<Longrightarrow> unhex (upper_hex n) = Some n"
  by (simp add: unhex_def upper_hex_def Index_nth upperHex_facts)

lemma QueryUnescape_escapeByte:
  "QueryUnescape (escapeByte c @ s) = (case QueryUnescape s of Inl e \<Rightarrow> Inl e | Inr t \<Rightarrow> Inr (c # t))"
proof -
  have "unhex (upper_hex (of_char c div 16)) = Some (of_char c div 16)"
    "unhex (upper_hex (of_char c mod 16)) = Some (of_char c mod 16)"
    using of_char_less [of c] by (simp_all add: unhex_upper_hex div_less_iff_less_mult del: of_char_less)
  moreover have "unreserved c \<Longrightarrow> c \<noteq> CHR ''%'' \<and> c \<noteq> CHR ''+''"
    by (auto simp: unreserved_def)
  ultimately show ?thesis
    by (cases "c = CHR '' ''"; cases "unreserved c") (simp_all add: escapeByte_def split: sum.splits)
qed

lemma QueryEscape_roundtrip [encoding_simps]: "QueryUnescape (QueryEscape s) = Inr s"
  unfolding QueryEscape_def by (induction s) (simp_all add: QueryUnescape_escapeByte)

text \<open>Escaped text contains no comma, so it can follow the comma of a data URI.\<close>

lemma escapeByte_no_comma: "CHR '','' \<notin> set (escapeByte c)"
proof -
  have "CHR '','' \<noteq> upper_hex n" if "n < 16" for n
  proof -
    have "upper_hex n \<in> set upperHex" using that by (simp add: upper_hex_def upperHex_facts)
    moreover have "CHR '','' \<notin> set upperHex" by (simp add: upperHex_def)
    ultimately show ?thesis by metis
  qed
  moreover have "of_char c div 16 < (16 :: nat)" "of_char c mod 16 < (16 :: nat)"
    using of_char_less [of c] by (simp_all add: div_less_iff_less_mult del: of_char_less)
  moreover have "unreserved c \<Longrightarrow> CHR '','' \<noteq> c" by (auto simp: unreserved_def)
  ultimately show ?thesis by (simp add: escapeByte_def)
qed

lemma QueryEscape_no_comma: "CHR '','' \<notin> set (QueryEscape s)"
  by (induction s) (simp_all add: QueryEscape_def escapeByte_no_comma)

subsection \<open>Hashes, numbers and trimming\<close>

text \<open>
  \<^verbatim>\<open>%v\<close> of a byte slice: decimal numbers in brackets. \<^verbatim>\<open>hash/fnv\<close> with 32 bits, variant 1a; \<^verbatim>\<open>%08x\<close>.
\<close>

definition showBytes :: "string \<Rightarrow> string" where
  "showBytes data = ''['' @ Join (map (\<lambda>c. show_nat (of_char c)) data) '' '' @ '']''"

definition fnv32a :: "string \<Rightarrow> w32" where
  "fnv32a s = fold (\<lambda>c h. (h XOR word_of_int (of_char c)) * 16777619) s 2166136261"

definition hex8 :: "w32 \<Rightarrow> string" where
  "hex8 w = concat (map hex_byte (be_bytes 4 (uint w)))"

text \<open>
  \<^verbatim>\<open>strconv.ParseInt(s, 8, 32)\<close>: an optional sign, octal digits, the range of 32 bits.
\<close>

definition ParseIntError :: "string \<Rightarrow> string \<Rightarrow> goerror" where
  "ParseIntError s why = Errorf (''strconv.ParseInt: parsing '' @ Quote s @ '': '' @ why)"

fun octalDigits :: "string \<Rightarrow> int \<Rightarrow> int option" where
  "octalDigits [] n = Some n"
| "octalDigits (c # cs) n =
     (let d = of_char c - 48 :: int in
      if 0 \<le> d \<and> d < 8 then octalDigits cs (8 * n + d) else None)"

definition ParseInt8 :: "string \<Rightarrow> goerror + int" where
  "ParseInt8 s =
     (let neg = (s \<noteq> [] \<and> hd s = CHR ''-'');
          digits = (if s \<noteq> [] \<and> (hd s = CHR ''-'' \<or> hd s = CHR ''+'') then tl s else s)
      in if digits = [] then Inl (ParseIntError s ''invalid syntax'')
      else (case octalDigits digits 0 of
        None \<Rightarrow> Inl (ParseIntError s ''invalid syntax'')
      | Some n \<Rightarrow>
          if \<not> neg \<and> 2147483648 \<le> n \<or> neg \<and> 2147483648 < n
          then Inl (ParseIntError s ''value out of range'')
          else Inr (if neg then - n else n)))"

text \<open>
  \<^verbatim>\<open>strings.TrimRight\<close> with a one-byte cutset; \<^verbatim>\<open>strings.Replace\<close> with count one; cutting at a separator as
  \<^verbatim>\<open>strings.SplitN(s, sep, 2)\<close> does.
\<close>

definition TrimRight :: "string \<Rightarrow> char \<Rightarrow> string" where
  "TrimRight s c = rev (dropWhile (\<lambda>x. x = c) (rev s))"

fun ReplaceFirst :: "string \<Rightarrow> string \<Rightarrow> string \<Rightarrow> string" where
  "ReplaceFirst [] old new = (if old = [] then new else [])"
| "ReplaceFirst (c # s) old new =
     (if HasPrefix (c # s) old then new @ drop (length old) (c # s) else c # ReplaceFirst s old new)"

fun afterFirst :: "string \<Rightarrow> string \<Rightarrow> string option" where
  "afterFirst [] sep = (if sep = [] then Some [] else None)"
| "afterFirst (c # s) sep =
     (if HasPrefix (c # s) sep then Some (drop (length sep) (c # s)) else afterFirst s sep)"

lemma afterFirst_Contains: "afterFirst s sep = None \<longleftrightarrow> \<not> Contains s sep"
  by (induction s) auto

lemma octalDigits_nonneg: "octalDigits cs n = Some m \<Longrightarrow> 0 \<le> n \<Longrightarrow> 0 \<le> m"
  by (induction cs arbitrary: n) (auto simp: Let_def split: if_splits)

lemma ParseInt8_bounds: "ParseInt8 s = Inr n \<Longrightarrow> - 2147483648 \<le> n \<and> n < 2147483648"
  by (auto simp: ParseInt8_def Let_def split: if_splits option.splits dest!: octalDigits_nonneg)

end
