(* ===== verification/Ignition.thy ===== *)
theory Ignition
  imports Scenario Encoding "HOL-Library.List_Lexorder" "HOL-Library.Char_ord"
begin

section \<open>Building ignition configurations\<close>

text \<open>
  The package \<^verbatim>\<open>internal/ignition\<close> with its content providers: encoding and decoding of
  configurations, compression of files, the machine OS URL, MTU settings, DPU flavor files, the
  content that is embedded in the binary, and validation. The functions are pure: a configuration
  goes in and a configuration or an error comes out. JSON, YAML, gzip, templates and ignition's own
  merge and validation are library functions and part of the environment.
\<close>

subsection \<open>encoding.go\<close>

definition IgnitionVersion :: string where
  "IgnitionVersion = ''3.4.0''"

definition NewEmptyIgnition :: "string \<Rightarrow> IgnConfig" where
  "NewEmptyIgnition version = \<lparr>ig_version = (if version = [] then IgnitionVersion else version),
     ig_kernelShouldExist = [], ig_passwdUsers = [], ig_passwdGroups = [], ig_files = [],
     ig_links = [], ig_units = [], ig_rest = []\<rparr>"

text \<open>
  \<^verbatim>\<open>stripEmpty\<close> on the fields of an object: an object that is empty after stripping is deleted; the
  objects in an array are stripped but stay.
\<close>

fun stripEmpty :: "(string \<times> json) list \<Rightarrow> (string \<times> json) list"
and stripItems :: "json list \<Rightarrow> json list" where
  "stripEmpty [] = []"
| "stripEmpty ((k, JObj m) # r) =
     (let m' = stripEmpty m in if m' = [] then stripEmpty r else (k, JObj m') # stripEmpty r)"
| "stripEmpty ((k, JArr xs) # r) = (k, JArr (stripItems xs)) # stripEmpty r"
| "stripEmpty ((k, JNull) # r) = (k, JNull) # stripEmpty r"
| "stripEmpty ((k, JBool b) # r) = (k, JBool b) # stripEmpty r"
| "stripEmpty ((k, JNum n) # r) = (k, JNum n) # stripEmpty r"
| "stripEmpty ((k, JStr s) # r) = (k, JStr s) # stripEmpty r"
| "stripItems [] = []"
| "stripItems (JObj m # xs) = JObj (stripEmpty m) # stripItems xs"
| "stripItems (JArr ys # xs) = JArr ys # stripItems xs"
| "stripItems (JNull # xs) = JNull # stripItems xs"
| "stripItems (JBool b # xs) = JBool b # stripItems xs"
| "stripItems (JNum n # xs) = JNum n # stripItems xs"
| "stripItems (JStr s # xs) = JStr s # stripItems xs"

definition stripEmptyObjects :: "env \<Rightarrow> string \<Rightarrow> goerror + string" where
  "stripEmptyObjects E data =
     (case k_unmarshalJSON (cod E) data of
        Inl e \<Rightarrow> Inl e
      | Inr j \<Rightarrow>
          (case asObject j of
             Inl e \<Rightarrow> Inl e
           | Inr m \<Rightarrow> k_marshalJSON (cod E) (JObj (stripEmpty m))))"

definition MarshalJSON :: "env \<Rightarrow> IgnConfig \<Rightarrow> goerror + string" where
  "MarshalJSON E ign =
     (case k_marshalIgnition (cod E) ign of
        Inl e \<Rightarrow> Inl (wrap ''failed to marshal ignition'' e)
      | Inr jsonBytes \<Rightarrow> stripEmptyObjects E jsonBytes)"

definition EncodeIgnition :: "env \<Rightarrow> IgnConfig \<Rightarrow> goerror + string" where
  "EncodeIgnition E ign =
     (case MarshalJSON E ign of
        Inl e \<Rightarrow> Inl (wrap ''failed to marshal ignition'' e)
      | Inr jsonBytes \<Rightarrow>
          (case k_gzip (cod E) jsonBytes of
             Inl e \<Rightarrow> Inl (wrap ''failed to gzip ignition'' e)
           | Inr buf \<Rightarrow> Inr (base64Encode buf)))"

definition gzipResource :: "string \<Rightarrow> Resource" where
  "gzipResource buf = \<lparr>r_source = Some (''data:;base64,'' @ base64Encode buf),
     r_compression = Some ''gzip''\<rparr>"

definition plainResource :: "string \<Rightarrow> Resource" where
  "plainResource source = \<lparr>r_source = Some source, r_compression = None\<rparr>"

definition EncodeGzipFile :: "env \<Rightarrow> string \<Rightarrow> goerror + Resource" where
  "EncodeGzipFile E content =
     (case k_gzip (cod E) content of
        Inl e \<Rightarrow> Inl (wrap ''failed to gzip content'' e)
      | Inr buf \<Rightarrow> Inr (gzipResource buf))"

definition DecodeIgnition :: "env \<Rightarrow> string \<Rightarrow> goerror + IgnConfig" where
  "DecodeIgnition E encoded =
     (case base64Decode encoded of
        Inl e \<Rightarrow> Inl (wrap ''failed to base64 decode'' e)
      | Inr compressed \<Rightarrow>
          (case k_gunzip (cod E) compressed of
             Inl e \<Rightarrow> Inl (wrap ''failed to decompress'' e)
           | Inr buf \<Rightarrow>
               (case k_unmarshalIgnition (cod E) buf of
                  Inl e \<Rightarrow> Inl (wrap ''failed to unmarshal ignition'' e)
                | Inr ign \<Rightarrow> Inr ign)))"

subsection \<open>Files\<close>

definition mkFile :: "string \<Rightarrow> int \<Rightarrow> Resource \<Rightarrow> IgnFile" where
  "mkFile path mode contents = \<lparr>f_path = path, f_overwrite = Some True, f_mode = Some mode,
     f_contents = contents, f_append = []\<rparr>"

definition addFile :: "IgnFile \<Rightarrow> IgnConfig \<Rightarrow> IgnConfig" where
  "addFile f ign = ign\<lparr>ig_files := ig_files ign @ [f]\<rparr>"

text \<open>\<^verbatim>\<open>compress.go\<close>: the bytes of an uncompressed source; \<open>Inr None\<close> when the file is left alone.\<close>

definition rawSource :: "string \<Rightarrow> goerror + string option" where
  "rawSource source =
     (case afterFirst source '';base64,'' of
        Some payload \<Rightarrow>
          (case base64Decode payload of
             Inl e \<Rightarrow> Inl (wrap ''failed to base64-decode file source'' e)
           | Inr raw \<Rightarrow> Inr (Some raw))
      | None \<Rightarrow>
          if HasPrefix source ''data:'' then
            (case Index source (CHR '','') of
               None \<Rightarrow> Inr None
             | Some idx \<Rightarrow>
                 (case QueryUnescape (drop (Suc idx) source) of
                    Inl e \<Rightarrow> Inl (wrap ''failed to URL-decode file source'' e)
                  | Inr raw \<Rightarrow> Inr (Some raw)))
          else Inr None)"

definition gzipFile :: "env \<Rightarrow> IgnFile \<Rightarrow> goerror + IgnFile" where
  "gzipFile E f =
     (if r_compression (f_contents f) \<noteq> None \<and> r_compression (f_contents f) \<noteq> Some [] then Inr f
      else (case r_source (f_contents f) of
        None \<Rightarrow> Inr f
      | Some source \<Rightarrow>
          if source = [] then Inr f
          else (case rawSource source of
            Inl e \<Rightarrow> Inl e
          | Inr None \<Rightarrow> Inr f
          | Inr (Some raw) \<Rightarrow>
              (case k_gzip (cod E) raw of
                 Inl e \<Rightarrow> Inl (wrap ''failed to gzip file content'' e)
               | Inr buf \<Rightarrow> Inr (f\<lparr>f_contents := gzipResource buf\<rparr>)))))"

fun mapE :: "('a \<Rightarrow> goerror + 'b) \<Rightarrow> 'a list \<Rightarrow> goerror + 'b list" where
  "mapE f [] = Inr []"
| "mapE f (x # xs) =
     (case f x of
        Inl e \<Rightarrow> Inl e
      | Inr y \<Rightarrow> (case mapE f xs of Inl e \<Rightarrow> Inl e | Inr ys \<Rightarrow> Inr (y # ys)))"

text \<open>The caller drops the configuration when an error is returned.\<close>

definition GzipIgnitionFiles :: "env \<Rightarrow> IgnConfig \<Rightarrow> goerror + IgnConfig" where
  "GzipIgnitionFiles E ign =
     (case mapE (gzipFile E) (ig_files ign) of
        Inl e \<Rightarrow> Inl e
      | Inr fs \<Rightarrow> Inr (ign\<lparr>ig_files := fs\<rparr>))"

subsection \<open>machineos.go\<close>

definition machineConfigPath :: string where
  "machineConfigPath = ''/etc/ignition-machine-config-encapsulated.json''"

definition replaceSource :: "env \<Rightarrow> string \<Rightarrow> string option \<Rightarrow> goerror + string" where
  "replaceSource E machineOSURL source0 =
     (case source0 of
        None \<Rightarrow> Inl (Errorf ''unexpected data URI format'')
      | Some source \<Rightarrow>
          if \<not> HasPrefix source ''data:,'' then Inl (Errorf ''unexpected data URI format'')
          else (case QueryUnescape (TrimPrefix source ''data:,'') of
            Inl e \<Rightarrow> Inl (wrap ''failed to decode data URI'' e)
          | Inr decodedText \<Rightarrow>
              (case k_unmarshalJSON (cod E) decodedText of
                 Inl e \<Rightarrow> Inl (wrap ''failed to unmarshal machine config'' e)
               | Inr j \<Rightarrow>
                   (case asObject j of
                      Inl e \<Rightarrow> Inl (wrap ''failed to unmarshal machine config'' e)
                    | Inr config \<Rightarrow>
                        (case map_of config ''spec'' of
                           Some (JObj spec) \<Rightarrow>
                             (case k_marshalJSON (cod E) (JObj (mset_key config ''spec''
                                      (JObj (mset_key spec ''osImageURL'' (JStr machineOSURL))))) of
                                Inl e \<Rightarrow> Inl (wrap ''failed to marshal modified config'' e)
                              | Inr modifiedJSON \<Rightarrow> Inr (''data:,'' @ QueryEscape modifiedJSON))
                         | _ \<Rightarrow> Inl (Errorf ''spec not found in machine config''))))))"

text \<open>Only the first file with the path is looked at.\<close>

fun replaceInFiles :: "env \<Rightarrow> string \<Rightarrow> IgnFile list \<Rightarrow> goerror + IgnFile list" where
  "replaceInFiles E url [] = Inl (Errorf ''machine OS URL file not found'')"
| "replaceInFiles E url (f # fs) =
     (if f_path f = machineConfigPath then
        (case replaceSource E url (r_source (f_contents f)) of
           Inl e \<Rightarrow> Inl e
         | Inr newSource \<Rightarrow>
             Inr (f\<lparr>f_contents := (f_contents f)\<lparr>r_source := Some newSource\<rparr>\<rparr> # fs))
      else (case replaceInFiles E url fs of Inl e \<Rightarrow> Inl e | Inr fs' \<Rightarrow> Inr (f # fs')))"

definition ReplaceMachineOSURL :: "env \<Rightarrow> IgnConfig \<Rightarrow> string \<Rightarrow> goerror + IgnConfig" where
  "ReplaceMachineOSURL E ign machineOSURL =
     (case replaceInFiles E machineOSURL (ig_files ign) of
        Inl e \<Rightarrow> Inl e
      | Inr fs \<Rightarrow> Inr (ign\<lparr>ig_files := fs\<rparr>))"

subsection \<open>mtu.go\<close>

definition nl :: string where
  "nl = [CHR 0x0A]"

definition URLEncode :: "string \<Rightarrow> string" where
  "URLEncode s = ''data:text/plain,'' @ QueryEscape s"

definition nmInterface :: "string \<Rightarrow> nat \<Rightarrow> string" where
  "nmInterface name mtu = URLEncode
     (''[connection]'' @ nl @ ''id='' @ name @ nl @ ''type=ethernet'' @ nl @ ''interface-name='' @ name
      @ nl @ nl @ ''[ethernet]'' @ nl @ ''mtu='' @ show_nat mtu @ nl)"

definition mtuFile :: "nat \<Rightarrow> string \<Rightarrow> IgnFile" where
  "mtuFile mtu iface = mkFile
     (''/etc/NetworkManager/system-connections/'' @ iface @ ''.nmconnection'') 384
     (plainResource (nmInterface iface mtu))"

definition pf0vf0Path :: string where
  "pf0vf0Path = ''/etc/NetworkManager/system-connections/pf0vf0.nmconnection''"

definition addMTU :: "nat \<Rightarrow> IgnFile \<Rightarrow> IgnFile" where
  "addMTU mtu f =
     (if HasSuffix (f_path f) pf0vf0Path then
        (case r_source (f_contents f) of
           None \<Rightarrow> f
         | Some source \<Rightarrow>
             if source = [] then f
             else f\<lparr>f_contents := (f_contents f)\<lparr>r_source := Some (ReplaceFirst source
                     (QueryEscape (''[ethernet]'' @ nl))
                     (QueryEscape (''[ethernet]'' @ nl @ ''mtu='' @ show_nat mtu @ nl)))\<rparr>\<rparr>)
      else f)"

definition mtuInterfaces :: "string list" where
  "mtuInterfaces = [''p0'', ''p1'', ''pf0hpf'', ''pf1hpf'']"

definition EnableMTU :: "IgnConfig \<Rightarrow> nat \<Rightarrow> IgnConfig" where
  "EnableMTU ign mtu =
     ign\<lparr>ig_files := map (addMTU mtu) (ig_files ign @ map (mtuFile mtu) mtuInterfaces)\<rparr>"

subsection \<open>configfiles.go\<close>

definition defaultFilePermissions :: int where
  "defaultFilePermissions = 420"

definition parsePermissions :: "string \<Rightarrow> goerror + int" where
  "parsePermissions perms =
     (if perms = [] then Inr defaultFilePermissions
      else (case ParseInt8 perms of
              Inl e \<Rightarrow> Inl (wrap ''failed to parse octal permissions'' e)
            | Inr mode \<Rightarrow> Inr mode))"

definition FileAppend :: string where
  "FileAppend = ''append''"

definition flavorFile :: "env \<Rightarrow> ConfigFile \<Rightarrow> goerror + IgnFile" where
  "flavorFile E cf =
     (case parsePermissions (cf_permissions cf) of
        Inl e \<Rightarrow> Inl (wrap (''invalid permissions '' @ Quote (cf_permissions cf)
                  @ '' for config file '' @ cf_path cf) e)
      | Inr mode \<Rightarrow>
          (case cf_raw cf of
             None \<Rightarrow> Inl (Errorf (''config file '' @ cf_path cf @ '' has no raw content''))
           | Some raw \<Rightarrow>
               (case EncodeGzipFile E raw of
                  Inl e \<Rightarrow> Inl (wrap (''failed to encode config file '' @ cf_path cf) e)
                | Inr res \<Rightarrow>
                    Inr (if cf_operation cf = FileAppend
                         then \<lparr>f_path = cf_path cf, f_overwrite = None, f_mode = Some mode,
                               f_contents = \<lparr>r_source = None, r_compression = None\<rparr>,
                               f_append = [res]\<rparr>
                         else mkFile (cf_path cf) mode res))))"

definition addFlavorFiles :: "env \<Rightarrow> IgnConfig \<Rightarrow> ConfigFile list \<Rightarrow> goerror + IgnConfig" where
  "addFlavorFiles E ign configFiles =
     (case mapE (flavorFile E) (filter (\<lambda>cf. cf_path cf \<noteq> []) configFiles) of
        Inl e \<Rightarrow> Inl e
      | Inr fs \<Rightarrow> Inr (ign\<lparr>ig_files := ig_files ign @ fs\<rparr>))"

definition MergeFlavorConfigFiles :: "env \<Rightarrow> IgnConfig \<Rightarrow> DPUFlavor \<Rightarrow> goerror + IgnConfig" where
  "MergeFlavorConfigFiles E base flavor =
     (if df_configFiles flavor = [] then Inr base
      else (case addFlavorFiles E (NewEmptyIgnition (ig_version base)) (df_configFiles flavor) of
              Inl e \<Rightarrow> Inl e
            | Inr flavorIgn \<Rightarrow> Inr (k_mergeIgnition (cod E) base flavorIgn)))"

subsection \<open>dpuflavor.go and ovs.go\<close>

definition dpuFlavorJSONPath :: string where
  "dpuFlavorJSONPath = ''/etc/dpf/dpuflavor.json''"

definition dpuFlavorYAMLPath :: string where
  "dpuFlavorYAMLPath = ''/etc/dpf/dpuflavor.yaml''"

definition cleanDPUFlavor :: "DPUFlavor \<Rightarrow> DPUFlavor" where
  "cleanDPUFlavor flavor = flavor\<lparr>df_meta :=
     newMeta (om_namespace (df_meta flavor)) (om_name (df_meta flavor))\<rparr>"

definition textResource :: "string \<Rightarrow> Resource" where
  "textResource data = plainResource (''data:text/plain;charset=utf-8;base64,'' @ base64Encode data)"

definition addDPUFlavorFile :: "IgnConfig \<Rightarrow> string \<Rightarrow> string \<Rightarrow> IgnConfig" where
  "addDPUFlavorFile ign data path = addFile (mkFile path 420 (textResource data)) ign"

definition AddDPUFlavorYAML :: "env \<Rightarrow> IgnConfig \<Rightarrow> DPUFlavor \<Rightarrow> goerror + IgnConfig" where
  "AddDPUFlavorYAML E ign flavor =
     (case k_flavorYAML (cod E) (cleanDPUFlavor flavor) of
        Inl e \<Rightarrow> Inl (wrap ''failed to marshal DPU flavor'' e)
      | Inr data \<Rightarrow> Inr (addDPUFlavorFile ign data dpuFlavorYAMLPath))"

definition AddDPUFlavorJSON :: "env \<Rightarrow> IgnConfig \<Rightarrow> DPUFlavor \<Rightarrow> goerror + IgnConfig" where
  "AddDPUFlavorJSON E ign flavor =
     (case k_flavorJSON (cod E) (cleanDPUFlavor flavor) of
        Inl e \<Rightarrow> Inl (wrap ''failed to marshal DPU flavor'' e)
      | Inr data \<Rightarrow> Inr (addDPUFlavorFile ign data dpuFlavorJSONPath))"

definition AddFlavorOVSScript :: "IgnConfig \<Rightarrow> DPUFlavor \<Rightarrow> IgnConfig" where
  "AddFlavorOVSScript ign flavor =
     addFile (mkFile ''/usr/local/bin/dpf-ovs-script.sh'' 493 (textResource (df_ovsScript flavor))) ign"

subsection \<open>Embedded content\<close>

text \<open>The content of a file is a data URI or the bytes of an embedded file.\<close>

datatype ContentSource = SourceURI string | SourceBytes string

record FileDefinition =
  fd_path :: string
  fd_mode :: int
  fd_source :: ContentSource

definition fileDef :: "string \<Rightarrow> int \<Rightarrow> ContentSource \<Rightarrow> FileDefinition" where
  "fileDef path mode source = \<lparr>fd_path = path, fd_mode = mode, fd_source = source\<rparr>"

text \<open>
  \<open>ep_systemd\<close> holds the directory of the embedded file system and the entries in it, if the
  provider has one.
\<close>

record EmbeddedProvider =
  ep_files :: "FileDefinition list"
  ep_links :: "(string \<times> string) list"
  ep_systemd :: "(string \<times> string list) option"
  ep_skipUnits :: "string list"

definition EmbedFile :: "env \<Rightarrow> string \<Rightarrow> string \<Rightarrow> string" where
  "EmbedFile E dir path = k_embedFile (cod E) (dir @ ''/'' @ path)"

definition LoadSystemdUnits :: "env \<Rightarrow> string \<Rightarrow> string list \<Rightarrow> (string \<times> string) list" where
  "LoadSystemdUnits E dir entries =
     map (\<lambda>n. (n, EmbedFile E dir (''systemd/'' @ n))) (sort entries)"

definition GetSystemdUnits :: "env \<Rightarrow> EmbeddedProvider \<Rightarrow> (string \<times> string) list" where
  "GetSystemdUnits E p =
     (case ep_systemd p of
        None \<Rightarrow> []
      | Some (dir, entries) \<Rightarrow>
          filter (\<lambda>(n, _). n \<notin> set (ep_skipUnits p)) (LoadSystemdUnits E dir entries))"

definition contentFile :: "env \<Rightarrow> FileDefinition \<Rightarrow> goerror + IgnFile" where
  "contentFile E d =
     (case fd_source d of
        SourceURI s \<Rightarrow> Inr (mkFile (fd_path d) (fd_mode d) (plainResource s))
      | SourceBytes b \<Rightarrow>
          (case EncodeGzipFile E b of
             Inl e \<Rightarrow> Inl (wrap (''failed to encode content for '' @ fd_path d) e)
           | Inr res \<Rightarrow> Inr (mkFile (fd_path d) (fd_mode d) res)))"

definition AddFiles :: "env \<Rightarrow> IgnConfig \<Rightarrow> EmbeddedProvider \<Rightarrow> goerror + IgnConfig" where
  "AddFiles E ign p =
     (case mapE (contentFile E) (ep_files p) of
        Inl e \<Rightarrow> Inl e
      | Inr fs \<Rightarrow> Inr (ign\<lparr>ig_files := ig_files ign @ fs\<rparr>))"

definition AddLinks :: "IgnConfig \<Rightarrow> EmbeddedProvider \<Rightarrow> IgnConfig" where
  "AddLinks ign p = ign\<lparr>ig_links := ig_links ign @ ep_links p\<rparr>"

definition mkUnit :: "string \<times> string \<Rightarrow> IgnUnit" where
  "mkUnit u = \<lparr>u_name = fst u, u_enabled = Some True, u_contents = Some (snd u)\<rparr>"

definition AddSystemdUnits :: "env \<Rightarrow> IgnConfig \<Rightarrow> EmbeddedProvider \<Rightarrow> IgnConfig" where
  "AddSystemdUnits E ign p = ign\<lparr>ig_units := ig_units ign @ map mkUnit (GetSystemdUnits E p)\<rparr>"

definition AddContent :: "env \<Rightarrow> IgnConfig \<Rightarrow> EmbeddedProvider \<Rightarrow> goerror + IgnConfig" where
  "AddContent E ign p =
     (case AddFiles E ign p of
        Inl e \<Rightarrow> Inl e
      | Inr ign1 \<Rightarrow> Inr (AddSystemdUnits E (AddLinks ign1 p) p))"

subsection \<open>The providers\<close>

definition targetFiles :: "env \<Rightarrow> FileDefinition list" where
  "targetFiles E = (let f = \<lambda>n. EmbedFile E ''target'' (''files/'' @ n) in [
       fileDef ''/etc/mellanox/mlnx-bf.conf'' 420 (SourceBytes (f ''mlnx-bf.conf'')),
       fileDef ''/etc/mellanox/mlnx-ovs.conf'' 420 (SourceBytes (f ''mlnx-ovs.conf'')),
       fileDef ''/etc/NetworkManager/system-connections/pf0vf0.nmconnection'' 384
         (SourceURI (''data:text/plain,'' @ QueryEscape (f ''pf0vf0.nmconnection''))),
       fileDef ''/etc/NetworkManager/system-connections/br-comm-ch.nmconnection'' 384
         (SourceBytes (f ''br-comm-ch.nmconnection'')),
       fileDef ''/etc/crio/crio.conf.d/99-ulimits.conf'' 420 (SourceBytes (f ''99-ulimits.conf'')),
       fileDef ''/etc/sysctl.d/98-dpunet.conf'' 420 (SourceBytes (f ''98-dpunet.conf'')),
       fileDef ''/etc/systemd/system/chrony-wait.service.d/override.conf'' 420
         (SourceBytes (f ''10-chrony-wait-timeout.conf'')),
       fileDef ''/etc/systemd/system/NetworkManager-wait-online.service.d/override.conf'' 420
         (SourceBytes (f ''10-nm-wait-online-unstrict.conf'')),
       fileDef ''/etc/yum.repos.d/agentrepo.repo'' 420 (SourceBytes (f ''agentrepo.repo'')),
       fileDef ''/etc/systemd/system/machine-config-daemon-firstboot.service.d/10-mcd-firstboot-dpuagent.conf'' 420
         (SourceBytes (f ''10-mcd-firstboot-dpuagent.conf'')),
       fileDef ''/etc/systemd/system/machine-config-daemon-pull.service.d/10-require-setup-vfs.conf'' 420
         (SourceBytes (f ''10-require-setup-vfs.conf'')),
       fileDef ''/usr/local/bin/install-dpu-agent.sh'' 493
         (SourceBytes (f ''install-dpu-agent.sh'')),
       fileDef ''/usr/local/bin/dpu-fw-upgrade.sh'' 493 (SourceBytes (f ''dpu-fw-upgrade.sh'')),
       fileDef ''/usr/local/bin/wait-for-sfs.sh'' 493 (SourceBytes (f ''wait-for-sfs.sh'')),
       fileDef ''/usr/local/bin/tmfifo-agent-link.sh'' 493
         (SourceBytes (f ''tmfifo-agent-link.sh'')),
       fileDef ''/usr/local/bin/report-machineosurl.py'' 493
         (SourceBytes (f ''report-machineosurl.py'')),
       fileDef ''/etc/modules-load.d/br_netfilter.conf'' 420 (SourceURI ''data:,br_netfilter''),
       fileDef ''/etc/sysconfig/openvswitch'' 384 (SourceBytes (f ''openvswitch'')),
       fileDef ''/etc/tmpfiles.d/99-hugetlbfs-dpf.conf'' 420
         (SourceBytes (f ''tmpfiles-hugetlbfs-dpf.conf'')),
       fileDef ''/etc/openshift/kubelet.conf.d/kubelet-dpf-override.conf'' 420
         (SourceBytes (f ''kubelet-dpf-override.conf'')),
       fileDef ''/usr/local/bin/pf-monitor.sh'' 493 (SourceBytes (f ''pf-monitor.sh''))])"

definition zeroTrustSkippedFiles :: "string list" where
  "zeroTrustSkippedFiles = [''/usr/local/bin/pf-monitor.sh'',
     ''/usr/local/bin/report-machineosurl.py'', ''/etc/yum.repos.d/agentrepo.repo'']"

definition targetProvider :: "env \<Rightarrow> bool \<Rightarrow> EmbeddedProvider" where
  "targetProvider E zeroTrust = \<lparr>
     ep_files = (if zeroTrust
       then filter (\<lambda>d. fd_path d \<notin> set zeroTrustSkippedFiles) (targetFiles E) else targetFiles E),
     ep_links = [(''/etc/localtime'', ''/usr/share/zoneinfo/UTC'')],
     ep_systemd = Some (''target'', [''bfupsignal.service'', ''dpf-ovs.service'',
       ''dpu-fw-upgrade.service'', ''dpu-sf-gate.service'', ''install-dpu-agent.service'',
       ''pf-monitor.service'', ''report-machineosurl.service'', ''setup-vfs-devlink.service'',
       ''tmfifo-agent-link.service'']),
     ep_skipUnits = (if zeroTrust then [''pf-monitor.service'', ''report-machineosurl.service''] else [])\<rparr>"

definition RenderDPUAgentServiceUnit :: "env \<Rightarrow> bool \<Rightarrow> goerror + (string \<times> string)" where
  "RenderDPUAgentServiceUnit E zeroTrust =
     (case k_renderTemplate (cod E) (EmbedFile E ''target'' ''files/dpu-agent.service.tmpl'') zeroTrust of
        Inl e \<Rightarrow> Inl (wrap ''failed to render dpu-agent.service template'' e)
      | Inr t \<Rightarrow> Inr (''dpu-agent.service'', t))"

definition commonProvider :: "env \<Rightarrow> bool \<Rightarrow> EmbeddedProvider" where
  "commonProvider E isZeroTrust =
     (let f = \<lambda>n. EmbedFile E ''common'' (''files/'' @ n);
          oobNetFile = (if isZeroTrust then ''oob_net0_zt.nmconnection'' else ''oob_net0.nmconnection'')
      in \<lparr>ep_files = [
       fileDef ''/etc/systemd/network/10-tmfifo_net.link'' 420
         (SourceBytes (f ''10-tmfifo_net.link'')),
       fileDef ''/etc/systemd/network/10-oob_net.link'' 420 (SourceBytes (f ''10-oob_net.link'')),
       fileDef ''/etc/NetworkManager/system-connections/tmfifo_net0.nmconnection'' 384
         (SourceBytes (f ''tmfifo_net0.nmconnection'')),
       fileDef ''/etc/NetworkManager/system-connections/oob_net0.nmconnection'' 384
         (SourceBytes (f oobNetFile)),
       fileDef ''/etc/NetworkManager/conf.d/10-oob-net0.conf'' 420
         (SourceBytes (f ''10-oob-net0.conf'')),
       fileDef ''/usr/local/bin/dpuagent-client.py'' 493 (SourceBytes (f ''dpuagent-client.py'')),
       fileDef ''/usr/local/bin/bflog.sh'' 493 (SourceBytes (f ''bflog.sh'')),
       fileDef ''/usr/local/bin/bfupsignal.sh'' 493 (SourceBytes (f ''bfupsignal.sh'')),
       fileDef ''/usr/local/bin/setup-vfs-devlink.sh'' 493
         (SourceBytes (f ''setup-vfs-devlink.sh''))],
     ep_links = [], ep_systemd = Some (''common'', [''devlink-activate.service'']), ep_skipUnits = []\<rparr>)"

definition liveProvider :: "env \<Rightarrow> bool \<Rightarrow> EmbeddedProvider" where
  "liveProvider E zeroTrust =
     (let f = \<lambda>n. EmbedFile E ''live'' (''files/'' @ n);
          dpuMode = (if zeroTrust then ''zero-trust'' else ''trusted'')
      in \<lparr>ep_files = [
       fileDef ''/etc/temp_bfcfg_strings.env'' 420
         (SourceURI ''data:,bfb_pre_install%20bfb_modify_os%20bfb_post_install''),
       fileDef ''/etc/hostname'' 420 (SourceURI ''data:,{{.DPUHostName}}''),
       fileDef ''/etc/dpf/environment'' 420 (SourceURI (''data:,''
         @ ''DPUName={{.DPUName}}%0A'' @ ''DPUNamespace={{.DPUNamespace}}%0A'' @ ''DPUUID={{.DPUUID}}%0A''
         @ ''DPUMode='' @ dpuMode @ ''%0A'' @ ''ControlPlaneMTU={{.ControlPlaneMTU}}%0A'')),
       fileDef ''/usr/local/bin/install-rhcos-dpf.sh'' 493 (SourceBytes (f ''install-rhcos-dpf.sh'')),
       fileDef ''/usr/local/bin/update_ignition.py'' 493 (SourceBytes (f ''update_ignition.py''))]
       @ (if zeroTrust then [fileDef ''/var/lib/dpf/dpuagent/bootstrap-kubeconfig'' 384
            (SourceURI ''data:;base64,{{ .BootstrapKubeconfig | b64enc }}'')] else []),
     ep_links = [], ep_systemd = Some (''live'', [''install-rhcos-dpf.service'']), ep_skipUnits = []\<rparr>)"

subsection \<open>validate.go\<close>

definition ValidateConfig :: "env \<Rightarrow> IgnConfig \<Rightarrow> goerror option" where
  "ValidateConfig E cfg =
     (case k_semverMajor (cod E) (ig_version cfg) of
        Inl e \<Rightarrow> Some (wrap (''ignition config has invalid version '' @ Quote (ig_version cfg)) e)
      | Inr major \<Rightarrow>
          if major \<noteq> 3 then Some (Errorf (''ignition config has unsupported version ''
                 @ Quote (ig_version cfg) @ '': only spec 3.x is supported''))
          else (let cfgCopy = cfg\<lparr>ig_version := ''3.4.0''\<rparr> in
            (case k_marshalIgnition (cod E) cfgCopy of
               Inl e \<Rightarrow> Some (wrap ''failed to marshal ignition config for validation'' e)
             | Inr raw \<Rightarrow>
                 (case k_validateIgnition (cod E) cfgCopy raw of
                    None \<Rightarrow> None
                  | Some rpt \<Rightarrow> Some (Errorf (''ignition config validation failed: '' @ rpt))))))"

subsection \<open>Helper lemmas\<close>

lemma mapE_Inr: "mapE f xs = Inr ys \<Longrightarrow> list_all2 (\<lambda>x y. f x = Inr y) xs ys"
  by (induction xs arbitrary: ys) (auto split: sum.splits)

text \<open>The bytes a resource stands for, decoded the way the package decodes them.\<close>

definition payload :: "env \<Rightarrow> Resource \<Rightarrow> string option" where
  "payload E r =
     (case r_source r of
        None \<Rightarrow> None
      | Some source \<Rightarrow>
          (case rawSource source of
             Inr (Some raw) \<Rightarrow>
               (if r_compression r = None \<or> r_compression r = Some [] then Some raw
                else (case k_gunzip (cod E) raw of Inl e \<Rightarrow> None | Inr x \<Rightarrow> Some x))
           | _ \<Rightarrow> None))"

lemma afterFirst_base64: "afterFirst (''data:;base64,'' @ s) '';base64,'' = Some s"
  by (simp add: HasPrefix_def)

lemma rawSource_gzipResource: "rawSource (''data:;base64,'' @ base64Encode buf) = Inr (Some buf)"
  by (simp only: rawSource_def afterFirst_base64 base64_roundtrip option.case sum.case)

lemma payload_gzipResource:
  "payload E (gzipResource buf) = (case k_gunzip (cod E) buf of Inl e \<Rightarrow> None | Inr x \<Rightarrow> Some x)"
  by (simp only: payload_def gzipResource_def rawSource_gzipResource Resource.simps option.case sum.case)
    simp

lemma rawSource_Nil [simp]: "rawSource [] = Inr None"
  by (simp add: rawSource_def HasPrefix_def)

lemma payload_simps:
  "r_source r = None \<Longrightarrow> payload E r = None"
  "r_source r = Some [] \<Longrightarrow> payload E r = None"
  "r_source r = Some source \<Longrightarrow> rawSource source = Inr None \<Longrightarrow> payload E r = None"
  "r_source r = Some source \<Longrightarrow> rawSource source = Inr (Some raw) \<Longrightarrow>
     r_compression r = None \<or> r_compression r = Some [] \<Longrightarrow> payload E r = Some raw"
  by (auto simp: payload_def rawSource_def HasPrefix_def)

lemma gzipResource_compression [simp]: "r_compression (gzipResource buf) = Some ''gzip''"
  by (simp add: gzipResource_def)

text \<open>What compression may change of a file: nothing but the representation of its contents.\<close>

definition sameFile :: "env \<Rightarrow> IgnFile \<Rightarrow> IgnFile \<Rightarrow> bool" where
  "sameFile E f g \<longleftrightarrow>
     f_path g = f_path f \<and> f_overwrite g = f_overwrite f \<and> f_mode g = f_mode f
     \<and> f_append g = f_append f \<and> payload E (f_contents g) = payload E (f_contents f)
     \<and> (payload E (f_contents f) \<noteq> None \<longrightarrow> r_compression (f_contents g) \<noteq> None)"

lemma gzipFile_same:
  assumes "\<And>x buf. k_gzip (cod E) x = Inr buf \<Longrightarrow> k_gunzip (cod E) buf = Inr x"
    and "gzipFile E f = Inr g"
  shows "sameFile E f g"
proof (cases "r_compression (f_contents f) \<noteq> None \<and> r_compression (f_contents f) \<noteq> Some []")
  case True
  then show ?thesis using assms(2) by (auto simp: gzipFile_def sameFile_def)
next
  case False
  then show ?thesis
    using assms by (auto simp: gzipFile_def sameFile_def payload_gzipResource payload_simps split: option.splits sum.splits if_splits)
qed

subsection \<open>Properties\<close>


definition plainIgnition :: IgnConfig where
  "plainIgnition = addFile (mkFile ''/a'' 420 (plainResource ''data:,hello%20dpu'')) (NewEmptyIgnition [])"


lemma QueryUnescape_plain:
  "\<forall>c \<in> set s. unreserved c \<or> c = CHR ''+'' \<Longrightarrow>
   QueryUnescape s = Inr (map (\<lambda>c. if c = CHR ''+'' then CHR '' '' else c) s)"
proof (induction s)
  case (Cons c s)
  moreover have "c \<noteq> CHR ''%''" using Cons.prems by (auto simp: unreserved_def)
  ultimately show ?case by simp
qed simp

lemma afterFirst_no_char: "x \<notin> set s \<Longrightarrow> afterFirst s (x # sep) = None"
  by (induction s) (auto simp: HasPrefix_def)

text \<open>
  \<^verbatim>\<open>GzipIgnitionFiles\<close> reads the text of a data URI with \<^verbatim>\<open>url.QueryUnescape\<close>, the decoding of
  HTML forms. In a data URI (RFC 2397) a plus sign stands for itself; here every literal plus sign
  of the source becomes a space in the compressed file.
\<close>

lemma GzipIgnitionFiles_plus_becomes_space:
  assumes "\<forall>c \<in> set s. unreserved c \<or> c = CHR ''+''" and "k_gzip (cod E) (map (\<lambda>c. if c = CHR ''+'' then CHR '' '' else c) s) = Inr buf"
    and "f_contents f = plainResource (''data:,'' @ s)"
  shows "gzipFile E f = Inr (f\<lparr>f_contents := gzipResource buf\<rparr>)"
proof -
  have "CHR '';'' \<notin> set s" using assms(1) by (auto simp: unreserved_def)
  then have "afterFirst (''data:,'' @ s) '';base64,'' = None" by (intro afterFirst_no_char) simp
  moreover have "Index (''data:,'' @ s) (CHR '','') = Some 5" by (simp add: numeral_eq_Suc)
  ultimately have "rawSource (''data:,'' @ s) = Inr (Some (map (\<lambda>c. if c = CHR ''+'' then CHR '' '' else c) s))"
    using QueryUnescape_plain [OF assms(1)] by (simp add: rawSource_def HasPrefix_def del: Index.simps)
  then show ?thesis
    using assms(2,3) by (simp add: gzipFile_def plainResource_def)
qed

lemma GzipIgnitionFiles_plus_becomes_space_instance:
  "gzipFile emptyEnv (mkFile ''/a'' 420 (plainResource ''data:,a+b''))
     = Inr (mkFile ''/a'' 420 (gzipResource ''a b''))"
proof -
  have "f_contents (mkFile ''/a'' 420 (plainResource ''data:,a+b'')) = plainResource (''data:,'' @ ''a+b'')"
    by (simp add: mkFile_def)
  from GzipIgnitionFiles_plus_becomes_space [OF _ _ this, of emptyEnv "''a b''"]
  show ?thesis by (simp add: unreserved_def env_defs) (simp add: mkFile_def)
qed

fun stripped :: "(string \<times> json) list \<Rightarrow> bool" and strippedItems :: "json list \<Rightarrow> bool" where
  "stripped [] = True"
| "stripped ((k, JObj m) # r) = (m \<noteq> [] \<and> stripped m \<and> stripped r)"
| "stripped ((k, JArr xs) # r) = (strippedItems xs \<and> stripped r)"
| "stripped ((k, v) # r) = stripped r"
| "strippedItems [] = True"
| "strippedItems (JObj m # xs) = (stripped m \<and> strippedItems xs)"
| "strippedItems (x # xs) = strippedItems xs"

lemma stripEmpty_stripped: "stripped (stripEmpty m)" "strippedItems (stripItems xs)"
  by (induction m and xs rule: stripEmpty_stripItems.induct) (auto simp: Let_def)

lemma stripped_stripEmpty:
  "stripped m \<Longrightarrow> stripEmpty m = m" "strippedItems xs \<Longrightarrow> stripItems xs = xs"
  by (induction m and xs rule: stripEmpty_stripItems.induct) (auto simp: Let_def)

text \<open>
  \<^verbatim>\<open>stripEmpty\<close> leaves no empty object behind as the value of a field, at any depth it visits,
  and changes nothing in an object that has none; so stripping twice is stripping once.
\<close>

lemma stripEmpty_normal_form:
  "stripped (stripEmpty m) \<and> (stripped m \<longleftrightarrow> stripEmpty m = m) \<and> stripEmpty (stripEmpty m) = stripEmpty m"
  using stripEmpty_stripped(1) stripped_stripEmpty(1) by metis

text \<open>The machine config that a data URI carries.\<close>

definition machineConfigOf :: "env \<Rightarrow> string \<Rightarrow> (string \<times> json) list option" where
  "machineConfigOf E source =
     (case QueryUnescape (TrimPrefix source ''data:,'') of
        Inl e \<Rightarrow> None
      | Inr t \<Rightarrow> (case k_unmarshalJSON (cod E) t of
          Inl e \<Rightarrow> None
        | Inr j \<Rightarrow> (case asObject j of Inl e \<Rightarrow> None | Inr m \<Rightarrow> Some m)))"

text \<open>\<open>newOS config' config url\<close>: \<open>config'\<close> is \<open>config\<close> with the OS image of its spec set to \<open>url\<close>.\<close>

definition newOS :: "(string \<times> json) list \<Rightarrow> (string \<times> json) list \<Rightarrow> string \<Rightarrow> bool" where
  "newOS config' config url \<longleftrightarrow> (\<exists>spec spec'.
     map_of config ''spec'' = Some (JObj spec) \<and> map_of config' ''spec'' = Some (JObj spec')
     \<and> (\<forall>k. k \<noteq> ''spec'' \<longrightarrow> map_of config' k = map_of config k)
     \<and> map_of spec' ''osImageURL'' = Some (JStr url)
     \<and> (\<forall>k. k \<noteq> ''osImageURL'' \<longrightarrow> map_of spec' k = map_of spec k))"

lemma replaceSource_newOS:
  assumes json: "\<And>j t. k_marshalJSON (cod E) j = Inr t \<Longrightarrow> k_unmarshalJSON (cod E) t = Inr j"
    and "replaceSource E url src0 = Inr src'"
  shows "\<exists>src config config'. src0 = Some src \<and> machineConfigOf E src = Some config
    \<and> machineConfigOf E src' = Some config' \<and> newOS config' config url"
proof -
  obtain src t j config spec m where src: "src0 = Some src"
    and t: "QueryUnescape (TrimPrefix src ''data:,'') = Inr t" and j: "k_unmarshalJSON (cod E) t = Inr j"
    and config: "asObject j = Inr config" and spec: "map_of config ''spec'' = Some (JObj spec)"
    and m: "k_marshalJSON (cod E) (JObj (mset_key config ''spec''
              (JObj (mset_key spec ''osImageURL'' (JStr url))))) = Inr m"
    and src': "src' = ''data:,'' @ QueryEscape m"
    using assms(2) by (auto simp: replaceSource_def split: option.splits if_splits sum.splits json.splits)
  have "TrimPrefix src' ''data:,'' = QueryEscape m"
    unfolding src' by (rule TrimPrefix_append)
  then have "machineConfigOf E src' = Some (mset_key config ''spec''
      (JObj (mset_key spec ''osImageURL'' (JStr url))))"
    using json [OF m] by (simp add: machineConfigOf_def encoding_simps asObject_def)
  moreover have "machineConfigOf E src = Some config"
    using t j config by (simp add: machineConfigOf_def)
  ultimately show ?thesis using src spec by (auto simp: newOS_def)
qed

lemma replaceInFiles_split:
  "replaceInFiles E url fs = Inr fs' \<Longrightarrow> \<exists>pre f post src'. fs = pre @ f # post
     \<and> f_path f = machineConfigPath \<and> (\<forall>g \<in> set pre. f_path g \<noteq> machineConfigPath)
     \<and> replaceSource E url (r_source (f_contents f)) = Inr src'
     \<and> fs' = pre @ f\<lparr>f_contents := (f_contents f)\<lparr>r_source := Some src'\<rparr>\<rparr> # post"
proof (induction fs arbitrary: fs')
  case (Cons g fs)
  show ?case
  proof (cases "f_path g = machineConfigPath")
    case True
    with Cons.prems show ?thesis by (intro exI [of _ "[]"]) (auto split: sum.splits)
  next
    case False
    with Cons.prems obtain fs'' where rest: "replaceInFiles E url fs = Inr fs''" and fs': "fs' = g # fs''"
      by (auto split: sum.splits)
    obtain pre f post src' where "fs = pre @ f # post" "f_path f = machineConfigPath"
      "\<forall>g \<in> set pre. f_path g \<noteq> machineConfigPath" "replaceSource E url (r_source (f_contents f)) = Inr src'"
      "fs'' = pre @ f\<lparr>f_contents := (f_contents f)\<lparr>r_source := Some src'\<rparr>\<rparr> # post"
      using Cons.IH [OF rest] by blast
    then show ?thesis using False fs' by (intro exI [of _ "g # pre"]) auto
  qed
qed simp

text \<open>
  When \<^verbatim>\<open>ReplaceMachineOSURL\<close> succeeds it has changed exactly one thing: in the first file with the
  path of the encapsulated machine config, the field \<^verbatim>\<open>spec.osImageURL\<close> of the JSON document is now
  the given URL; every other field of the document, every other file and every other section of the
  configuration is as before. (Hypothesis: unmarshalling what \<^verbatim>\<open>json.Marshal\<close> produced gives the value
  back.)
\<close>

lemma ReplaceMachineOSURL_changes_only_url:
  assumes json: "\<And>j t. k_marshalJSON (cod E) j = Inr t \<Longrightarrow> k_unmarshalJSON (cod E) t = Inr j"
    and run: "ReplaceMachineOSURL E ign url = Inr ign'"
  shows "\<exists>pre f post src src' config config'. ig_files ign = pre @ f # post
    \<and> f_path f = machineConfigPath \<and> (\<forall>g \<in> set pre. f_path g \<noteq> machineConfigPath)
    \<and> ign' = ign\<lparr>ig_files := pre @ f\<lparr>f_contents := (f_contents f)\<lparr>r_source := Some src'\<rparr>\<rparr> # post\<rparr>
    \<and> r_source (f_contents f) = Some src \<and> machineConfigOf E src = Some config
    \<and> machineConfigOf E src' = Some config' \<and> newOS config' config url"
proof -
  obtain fs where fs: "replaceInFiles E url (ig_files ign) = Inr fs" and ign': "ign' = ign\<lparr>ig_files := fs\<rparr>"
    using run by (auto simp: ReplaceMachineOSURL_def split: sum.splits)
  obtain pre f post src' where *: "ig_files ign = pre @ f # post" "f_path f = machineConfigPath"
    "\<forall>g \<in> set pre. f_path g \<noteq> machineConfigPath"
    "fs = pre @ f\<lparr>f_contents := (f_contents f)\<lparr>r_source := Some src'\<rparr>\<rparr> # post"
    and src': "replaceSource E url (r_source (f_contents f)) = Inr src'"
    using replaceInFiles_split [OF fs] by blast
  show ?thesis
    using replaceSource_newOS [OF json src'] * ign' by blast
qed

text \<open>A JSON library that knows two documents, and a configuration that carries the first.\<close>

definition machineJSON :: "string \<Rightarrow> json" where
  "machineJSON url = JObj [(''kind'', JStr ''MachineConfig''), (''spec'', JObj [(''osImageURL'', JStr url)])]"

definition machineEnv :: env where
  "machineEnv = emptyEnv\<lparr>cod := emptyCodecs\<lparr>
     k_marshalJSON := \<lambda>j. if j = machineJSON ''new'' then Inr ''n'' else Inl notFoundErr,
     k_unmarshalJSON := \<lambda>t. if t = ''n'' then Inr (machineJSON ''new'')
       else if t = ''o'' then Inr (machineJSON ''old'') else Inl notFoundErr\<rparr>\<rparr>"

lemma ReplaceMachineOSURL_changes_only_url_witness:
  "\<exists>ign' config. ReplaceMachineOSURL machineEnv
       (addFile (mkFile machineConfigPath 420 (plainResource ''data:,o'')) (NewEmptyIgnition [])) ''new'' = Inr ign'
     \<and> (\<exists>f \<in> set (ig_files ign'). \<exists>src. r_source (f_contents f) = Some src
          \<and> machineConfigOf machineEnv src = Some config \<and> newOS config config ''new'')"
proof -
  let ?ign = "addFile (mkFile machineConfigPath 420 (plainResource ''data:,o'')) (NewEmptyIgnition [])"
  have json: "k_unmarshalJSON (cod machineEnv) t = Inr j" if "k_marshalJSON (cod machineEnv) j = Inr t" for j t
    using that by (auto simp: machineEnv_def split: if_splits)
  have "\<not> isl (ReplaceMachineOSURL machineEnv ?ign ''new'')" by code_simp
  then obtain ign' where run: "ReplaceMachineOSURL machineEnv ?ign ''new'' = Inr ign'"
    by (cases "ReplaceMachineOSURL machineEnv ?ign ''new''") auto
  then show ?thesis
    using ReplaceMachineOSURL_changes_only_url [OF json run] by (fastforce simp: newOS_def)
qed

text \<open>
  Encoding a configuration for embedding and decoding it again gives the configuration back.
  (Hypotheses: gzip and JSON are inverted by their readers, and a configuration is read back from its
  own JSON whether or not empty objects were stripped from it.)
\<close>

lemma EncodeIgnition_roundtrip:
  assumes gz: "\<And>x buf. k_gzip (cod E) x = Inr buf \<Longrightarrow> k_gunzip (cod E) buf = Inr x"
    and ign: "\<And>raw m t. k_marshalIgnition (cod E) ign = Inr raw \<Longrightarrow>
      k_unmarshalJSON (cod E) raw = Inr (JObj m) \<Longrightarrow> k_marshalJSON (cod E) (JObj (stripEmpty m)) = Inr t \<Longrightarrow>
      k_unmarshalIgnition (cod E) t = Inr ign"
    and obj: "\<And>raw. k_marshalIgnition (cod E) ign = Inr raw \<Longrightarrow> \<exists>m. k_unmarshalJSON (cod E) raw = Inr (JObj m)"
    and enc: "EncodeIgnition E ign = Inr s"
  shows "DecodeIgnition E s = Inr ign"
proof -
  obtain t buf where t: "MarshalJSON E ign = Inr t" and buf: "k_gzip (cod E) t = Inr buf"
    and s: "s = base64Encode buf"
    using enc by (auto simp: EncodeIgnition_def split: sum.splits)
  obtain raw where raw: "k_marshalIgnition (cod E) ign = Inr raw" and strip: "stripEmptyObjects E raw = Inr t"
    using t by (auto simp: MarshalJSON_def split: sum.splits)
  obtain m where m: "k_unmarshalJSON (cod E) raw = Inr (JObj m)" using obj [OF raw] by blast
  have "k_marshalJSON (cod E) (JObj (stripEmpty m)) = Inr t"
    using strip m by (simp add: stripEmptyObjects_def asObject_def)
  then have "k_unmarshalIgnition (cod E) t = Inr ign" by (rule ign [OF raw m])
  then show ?thesis
    using gz [OF buf] by (simp add: DecodeIgnition_def s encoding_simps)
qed

text \<open>Codecs that know the empty configuration and its JSON.\<close>

definition oneConfigEnv :: env where
  "oneConfigEnv = emptyEnv\<lparr>cod := emptyCodecs\<lparr>
     k_marshalIgnition := \<lambda>_. Inr ''raw'', k_unmarshalJSON := \<lambda>_. Inr (JObj [(''ignition'', JObj [])]),
     k_marshalJSON := \<lambda>_. Inr ''{}'', k_unmarshalIgnition := \<lambda>_. Inr (NewEmptyIgnition [])\<rparr>\<rparr>"

lemma EncodeIgnition_roundtrip_instance:
  "EncodeIgnition oneConfigEnv (NewEmptyIgnition []) = Inr (base64Encode ''{}'')
   \<and> DecodeIgnition oneConfigEnv (base64Encode ''{}'') = Inr (NewEmptyIgnition [])"
proof -
  have enc: "EncodeIgnition oneConfigEnv (NewEmptyIgnition []) = Inr (base64Encode ''{}'')"
    by (simp add: EncodeIgnition_def MarshalJSON_def stripEmptyObjects_def asObject_def oneConfigEnv_def
        emptyCodecs_def del: base64Encode.simps)
  have "DecodeIgnition oneConfigEnv (base64Encode ''{}'') = Inr (NewEmptyIgnition [])"
    by (rule EncodeIgnition_roundtrip [OF _ _ _ enc]) (auto simp: oneConfigEnv_def emptyCodecs_def)
  then show ?thesis using enc by simp
qed

lemma embedded_paths:
  "map fd_path (targetFiles E) = map fd_path (targetFiles emptyEnv)"
  "map fd_path (ep_files (commonProvider E z)) = map fd_path (ep_files (commonProvider emptyEnv False))"
  "map fd_path (ep_files (liveProvider E z)) = map fd_path (ep_files (liveProvider emptyEnv z))"
  by (simp_all add: targetFiles_def commonProvider_def liveProvider_def fileDef_def)

lemma distinct_filter_append:
  "distinct (map f xs @ ys) \<Longrightarrow> distinct (map f (filter P xs) @ ys)"
  by (auto simp: distinct_map_filter)

text \<open>
  The content embedded in the binary never collides: in either mode, no path occurs twice among
  the files that go into the target configuration (target and common content) nor among those of the
  live configuration, and no systemd unit name occurs twice, the rendered \<^verbatim>\<open>dpu-agent.service\<close>
  included. Ignition rejects configurations with duplicates.
\<close>

lemma embedded_content_distinct:
  "distinct (map fd_path (ep_files (targetProvider E z) @ ep_files (commonProvider E z)))
   \<and> distinct (map fd_path (ep_files (liveProvider E z) @ ep_files (commonProvider E z)))
   \<and> distinct (''dpu-agent.service'' # map fst (GetSystemdUnits E (targetProvider E z)
         @ GetSystemdUnits E (commonProvider E z)))"
proof (intro conjI)
  have "distinct (map fd_path (targetFiles emptyEnv) @ map fd_path (ep_files (commonProvider emptyEnv False)))"
    by code_simp
  then have "distinct (map fd_path (targetFiles E) @ map fd_path (ep_files (commonProvider E z)))"
    by (simp only: embedded_paths [of E])
  then show "distinct (map fd_path (ep_files (targetProvider E z) @ ep_files (commonProvider E z)))"
    by (simp only: targetProvider_def EmbeddedProvider.simps map_append)
      (auto intro: distinct_filter_append simp: distinct_map_filter split: if_splits)
  have live: "distinct (map fd_path (ep_files (liveProvider emptyEnv True)) @ map fd_path (ep_files (commonProvider emptyEnv False)))"
    "distinct (map fd_path (ep_files (liveProvider emptyEnv False)) @ map fd_path (ep_files (commonProvider emptyEnv False)))"
    by code_simp+
  have "distinct (map fd_path (ep_files (liveProvider emptyEnv z)) @ map fd_path (ep_files (commonProvider emptyEnv False)))"
    using live by (cases z) simp_all
  then show "distinct (map fd_path (ep_files (liveProvider E z) @ ep_files (commonProvider E z)))"
    by (simp only: embedded_paths [of E] map_append)
  show "distinct (''dpu-agent.service'' # map fst (GetSystemdUnits E (targetProvider E z)
      @ GetSystemdUnits E (commonProvider E z)))"
    by (auto simp: GetSystemdUnits_def LoadSystemdUnits_def targetProvider_def commonProvider_def Let_def
        distinct_map_filter comp_def distinct_map)
qed

end
