(* ===== verification/Release_Image.thy ===== *)
theory Release_Image
  imports Steps
begin

section \<open>Components of a release payload\<close>

text \<open>
  \<^verbatim>\<open>internal/controller/dpuservicetemplate/release_image.go\<close>: the reader that finds the image of a
  component in an OpenShift release, and the split of an image reference. The hugepages manager and
  the service templates share it. The tar stream and the JSON decoder of the standard library are
  parameters; the lemmas show which reference a successful read returns and that splitting loses
  nothing.
\<close>

definition imageReferencesPath :: string where
  "imageReferencesPath = ''release-manifests/image-references''"

definition ovnKubernetesName :: string where
  "ovnKubernetesName = ''ovn-kubernetes''"

text \<open>The loop over the tags of the decoded manifest: name of the tag and name of its image.\<close>

fun findTag :: "(string \<times> string) list \<Rightarrow> string \<Rightarrow> goerror + string" where
  "findTag [] componentName = Inl (Errorf (''component '' @ Quote componentName @ '' not found in '' @ imageReferencesPath))"
| "findTag ((name, from) # tags) componentName =
     (if name = componentName
      then (if from = [] then Inl (Errorf (''component '' @ Quote componentName @ '' has empty image reference''))
            else Inr from)
      else findTag tags componentName)"

fun findInEntries ::
    "env \<Rightarrow> (string \<times> (goerror + string)) list \<Rightarrow> goerror option \<Rightarrow> string \<Rightarrow> goerror + string" where
  "findInEntries E [] None componentName =
     Inl (Errorf (''file '' @ imageReferencesPath @ '' not found in release image''))"
| "findInEntries E [] (Some e) componentName = Inl (wrap ''reading tar'' e)"
| "findInEntries E ((name, content) # entries) tarEnd componentName =
     (if name \<noteq> imageReferencesPath then findInEntries E entries tarEnd componentName
      else (case content of
        Inl e \<Rightarrow> Inl (wrap (''reading '' @ imageReferencesPath) e)
      | Inr data \<Rightarrow> (case k_unmarshalImageReferences (cod E) data of
            Inl e \<Rightarrow> Inl (wrap (''parsing '' @ imageReferencesPath) e)
          | Inr tags \<Rightarrow> findTag tags componentName)))"

definition findComponentInImageReferences :: "env \<Rightarrow> TarStream \<Rightarrow> string \<Rightarrow> goerror + string" where
  "findComponentInImageReferences E reader componentName =
     findInEntries E (tar_entries reader) (tar_end reader) componentName"

definition GetComponentImage :: "env \<Rightarrow> string \<Rightarrow> string \<Rightarrow> string gomap \<Rightarrow> (goerror + string) io" where
  "GetComponentImage E releaseImageRef componentName keychain =
     (case k_parseReference (cod E) releaseImageRef of
        Inl e \<Rightarrow> State_Monad.return (Inl (wrap (''parsing release image ref '' @ Quote releaseImageRef) e))
      | Inr ref \<Rightarrow> do {
          r \<leftarrow> registryImage E ref (Resolve keychain ref);
          (case r of
             Some e \<Rightarrow> State_Monad.return (Inl (wrap (''pulling release image '' @ Quote releaseImageRef) e))
           | None \<Rightarrow> do {
               reader \<leftarrow> registryExtract E ref (Resolve keychain ref);
               State_Monad.return (case findComponentInImageReferences E reader componentName of
                 Inl e \<Rightarrow> Inl (wrap (''extracting '' @ componentName @ '' from release image '' @ Quote releaseImageRef) e)
               | Inr imageRef \<Rightarrow> Inr imageRef)
             })
        })"

text \<open>\<^verbatim>\<open>strings.LastIndex\<close> of a string; \<open>None\<close> is the \<^verbatim>\<open>-1\<close> of the library.\<close>

fun LastIndexStr :: "string \<Rightarrow> string \<Rightarrow> nat option" where
  "LastIndexStr [] p = (if p = [] then Some 0 else None)"
| "LastIndexStr (c # s) p =
     (case LastIndexStr s p of
        Some i \<Rightarrow> Some (Suc i)
      | None \<Rightarrow> if HasPrefix (c # s) p then Some 0 else None)"

definition splitTag :: "string \<Rightarrow> goerror + (string \<times> string)" where
  "splitTag img =
     (case LastIndexStr img '':'' of
        Some (Suc i) \<Rightarrow>
          if \<not> Contains (drop (Suc i) img) ''/''
          then Inr (take (Suc i) img, drop (Suc (Suc i)) img)
          else Inl (Errorf (''image reference '' @ Quote img @ '' has no tag or digest''))
      | _ \<Rightarrow> Inl (Errorf (''image reference '' @ Quote img @ '' has no tag or digest'')))"

definition splitImage :: "string \<Rightarrow> goerror + (string \<times> string)" where
  "splitImage img =
     (if img = [] then Inl (Errorf ''empty image reference'')
      else (case LastIndexStr img ''@sha256:'' of
        Some (Suc i) \<Rightarrow> Inr (take (Suc i) img @ ''@sha256'', drop (Suc i + 8) img)
      | _ \<Rightarrow> splitTag img))"

subsection \<open>Facts\<close>

lemma findTag_Inr:
  "findTag tags c = Inr img \<Longrightarrow> img \<noteq> [] \<and> map_of tags c = Some img"
  by (induction tags c rule: findTag.induct) (auto split: if_splits)

lemma findInEntries_Inr:
  "findInEntries E entries tarEnd c = Inr img \<Longrightarrow>
   \<exists>data tags. map_of entries imageReferencesPath = Some (Inr data)
     \<and> k_unmarshalImageReferences (cod E) data = Inr tags \<and> img \<noteq> [] \<and> map_of tags c = Some img"
  by (induction E entries tarEnd c rule: findInEntries.induct)
    (auto split: if_splits sum.splits dest: findTag_Inr)

text \<open>
  A successful read is the first tag of that name in the first manifest file of the payload that was
  pulled for this reference with the credentials of the keychain; it is never empty.
\<close>

lemma GetComponentImage_reads_payload:
  assumes "run_state (GetComponentImage E releaseImageRef c keychain) s = (Inr img, s')"
  shows "\<exists>ref data tags. k_parseReference (cod E) releaseImageRef = Inr ref
    \<and> st_history s' = RegistryExtract ref (Resolve keychain ref) # RegistryImage ref (Resolve keychain ref) # st_history s
    \<and> map_of (tar_entries (s_registryExtract (srv E) (tl (st_history s')) ref (Resolve keychain ref))) imageReferencesPath = Some (Inr data)
    \<and> k_unmarshalImageReferences (cod E) data = Inr tags \<and> img \<noteq> [] \<and> map_of tags c = Some img"
proof -
  have "wp (GetComponentImage E releaseImageRef c keychain) (\<lambda>r t. \<forall>img. r = Inr img \<longrightarrow>
     (\<exists>ref data tags. k_parseReference (cod E) releaseImageRef = Inr ref
    \<and> st_history t = RegistryExtract ref (Resolve keychain ref) # RegistryImage ref (Resolve keychain ref) # st_history s
    \<and> map_of (tar_entries (s_registryExtract (srv E) (tl (st_history t)) ref (Resolve keychain ref))) imageReferencesPath = Some (Inr data)
    \<and> k_unmarshalImageReferences (cod E) data = Inr tags \<and> img \<noteq> [] \<and> map_of tags c = Some img)) s"
    by (auto simp: GetComponentImage_def findComponentInImageReferences_def wp_simps
        split: sum.splits option.splits dest!: findInEntries_Inr)
  then show ?thesis using assms by (auto dest: wp_run)
qed

lemma footprint_GetComponentImage [footprint_intros]:
  "(\<And>r a. P (RegistryImage r a)) \<Longrightarrow> (\<And>r a. P (RegistryExtract r a)) \<Longrightarrow>
   footprint M S W P (GetComponentImage E i c kc)"
  unfolding GetComponentImage_def by (intro footprint_intros; simp)

lemma LastIndexStr_split:
  "LastIndexStr s p = Some i \<Longrightarrow> i \<le> length s \<and> take (length p) (drop i s) = p"
  by (induction s p arbitrary: i rule: LastIndexStr.induct)
    (auto simp: HasPrefix_def split: if_splits option.splits)

lemma LastIndexStr_take: "LastIndexStr s p = Some i \<Longrightarrow> take i s @ p @ drop (i + length p) s = s"
  using LastIndexStr_split [of s p i]
  by (metis add.commute append_take_drop_id drop_drop)

lemma LastIndexStr_char: "LastIndexStr s [x] = Some i \<Longrightarrow> x \<notin> set (drop (Suc i) s)"
proof (induction s arbitrary: i)
  case (Cons c s)
  have none: "LastIndexStr s [x] = None \<Longrightarrow> x \<notin> set s" for s
    by (induction s) (auto simp: HasPrefix_def split: option.splits if_splits)
  show ?case
    using Cons by (auto split: option.splits if_splits dest: none)
qed simp

lemma Contains_single: "Contains s [x] \<longleftrightarrow> x \<in> set s"
  by (induction s) (auto simp: HasPrefix_def)

text \<open>
  Splitting an image reference loses nothing: repository and tag, joined by a colon, are the
  reference again, and the tag holds neither a colon nor, unless the reference is by digest, a slash.
\<close>

lemma splitImage_roundtrip:
  assumes "splitImage img = Inr (repo, tag)"
  shows "repo @ '':'' @ tag = img \<and> repo \<noteq> []
    \<and> (HasSuffix repo ''@sha256'' \<or> (CHR '':'' \<notin> set tag \<and> CHR ''/'' \<notin> set tag))"
proof (cases "\<exists>i. LastIndexStr img ''@sha256:'' = Some (Suc i)")
  case True
  then obtain i where i: "LastIndexStr img ''@sha256:'' = Some (Suc i)" by blast
  then have "repo = take (Suc i) img @ ''@sha256''" "tag = drop (Suc i + 8) img"
    using assms by (auto simp: splitImage_def split: if_splits)
  then show ?thesis
    using LastIndexStr_take [OF i] by (simp add: go_string_simps eval_nat_numeral)
next
  case False
  then have tag: "splitTag img = Inr (repo, tag)"
    using assms by (auto simp: splitImage_def split: if_splits option.splits nat.splits)
  then obtain i where i: "LastIndexStr img '':'' = Some (Suc i)" and "\<not> Contains (drop (Suc i) img) ''/''"
    and rt: "repo = take (Suc i) img" "tag = drop (Suc (Suc i)) img"
    by (auto simp: splitTag_def split: option.splits nat.splits if_splits)
  then have "CHR ''/'' \<notin> set tag" 
    by (auto simp: Contains_single dest: in_set_dropD) (metis drop_Suc_Cons drop_drop in_set_dropD plus_1_eq_Suc)
  then show ?thesis
    using LastIndexStr_take [OF i] LastIndexStr_char [OF i] rt LastIndexStr_split [OF i] by auto
qed

lemma splitImage_roundtrip_witness:
  "splitImage ''quay.io/ocp@sha256:ab'' = Inr (''quay.io/ocp@sha256'', ''ab'')
   \<and> ''quay.io/ocp@sha256'' @ '':'' @ ''ab'' = ''quay.io/ocp@sha256:ab''"
proof -
  have run: "splitImage ''quay.io/ocp@sha256:ab'' = Inr (''quay.io/ocp@sha256'', ''ab'')" by code_simp
  show ?thesis using splitImage_roundtrip [OF run] run by simp
qed

end
