(* ===== verification/OVS_Hugepages.thy ===== *)
theory OVS_Hugepages
  imports Image_Lookup Hosted_Client Release_Image "HOL-Library.Word"
begin

section \<open>The hugepages reservation in the hosted cluster\<close>

text \<open>
  \<^verbatim>\<open>internal/controller/ovs-hugepages\<close>: a DaemonSet in the hosted cluster whose idle pods reserve
  hugepages on every node. The size of a page is one of those the \<^verbatim>\<open>DPFHCPProvisionerConfig\<close> API
  admits (1Gi, 2Mi, 32Mi, 64Ki): a decimal number with a binary suffix. The quantity is computed on
  64-bit integers as in the code; the lemmas show that no admissible configuration overflows, that
  the reserved amount is a whole number of pages, that a second run has nothing to do, and when the
  cached client is dropped.
\<close>

subsection \<open>Constants\<close>

definition pausePayloadImage :: string where
  "pausePayloadImage = ''pod''"

definition DefaultHugepagesSize :: string where
  "DefaultHugepagesSize = ''2Mi''"

definition DefaultHugepagesAmount :: int where
  "DefaultHugepagesAmount = 250"

definition OVSHugepagesNamespace :: string where
  "OVSHugepagesNamespace = ''openshift-doca-hugepages-holder''"

definition DaemonSetName :: string where
  "DaemonSetName = ''ovs-hugepages-reservation''"

definition containerName :: string where
  "containerName = ''allocate''"

definition reservationPriorityClassName :: string where
  "reservationPriorityClassName = ''system-node-critical''"

definition reservationLabels :: "string gomap" where
  "reservationLabels =
     [(''app.kubernetes.io/name'', DaemonSetName),
      (''app.kubernetes.io/managed-by'', ''dpf-hcp-provisioner-operator'')]"

subsection \<open>Quantities\<close>

text \<open>
  \<^verbatim>\<open>resource.MustParse(size).Value()\<close> for a decimal number with suffix Ki, Mi or Gi; \<open>None\<close> for
  everything else, which the API does not admit.
\<close>

fun parseDigits :: "string \<Rightarrow> int \<Rightarrow> int option" where
  "parseDigits [] n = Some n"
| "parseDigits (c # cs) n =
     (let d = of_char c - 48 :: int in
      if 0 \<le> d \<and> d < 10 then parseDigits cs (10 * n + d) else None)"

definition binarySuffix :: "string \<Rightarrow> int option" where
  "binarySuffix s =
     (if s = ''Ki'' then Some 1024
      else if s = ''Mi'' then Some 1048576
      else if s = ''Gi'' then Some 1073741824
      else None)"

definition pageBytes :: "string \<Rightarrow> int option" where
  "pageBytes psize =
     (let n = length psize - 2 in
      if length psize < 3 then None
      else (case (parseDigits (take n psize) 0, binarySuffix (drop n psize)) of
              (Some v, Some m) \<Rightarrow> Some (v * m)
            | _ \<Rightarrow> None))"

text \<open>\<^verbatim>\<open>pageSize.Value()*int64(amount)\<close>, with the wrap-around of a 64-bit product.\<close>

definition int64_mult :: "int \<Rightarrow> int \<Rightarrow> int" where
  "int64_mult a b = sint (word_of_int a * word_of_int b :: 64 word)"

definition hugepagesQuantity :: "string \<Rightarrow> int \<Rightarrow> int option" where
  "hugepagesQuantity psize amount = map_option (\<lambda>p. int64_mult p amount) (pageBytes psize)"

subsection \<open>The DaemonSet\<close>

text \<open>CPU is in thousandths of a core, memory and hugepages in bytes.\<close>

definition reservationTemplate :: "string \<Rightarrow> string \<Rightarrow> int \<Rightarrow> PodTemplate" where
  "reservationTemplate img psize qty = \<lparr>
     pt_labels = reservationLabels,
     pt_priorityClass = reservationPriorityClassName,
     pt_tolerations = [''Exists''],
     pt_containerName = containerName,
     pt_image = img,
     pt_requests = [(''cpu'', 1), (''memory'', 33554432), (''hugepages-'' @ psize, qty)],
     pt_limits = [(''cpu'', 1), (''memory'', 67108864), (''hugepages-'' @ psize, qty)],
     pt_rest = []\<rparr>"

definition buildDaemonSet :: "string \<Rightarrow> string \<Rightarrow> int \<Rightarrow> DaemonSet option" where
  "buildDaemonSet img psize amount =
     map_option (\<lambda>qty. \<lparr>ds_labels = reservationLabels, ds_selector = reservationLabels,
         ds_template = reservationTemplate img psize qty, ds_rest = []\<rparr>)
       (hugepagesQuantity psize amount)"

definition sameTemplate :: "PodTemplate \<Rightarrow> PodTemplate \<Rightarrow> bool" where
  "sameTemplate a b \<longleftrightarrow>
     map_eq (pt_labels a) (pt_labels b) \<and> pt_priorityClass a = pt_priorityClass b
     \<and> pt_tolerations a = pt_tolerations b \<and> pt_containerName a = pt_containerName b
     \<and> pt_image a = pt_image b \<and> map_eq (pt_requests a) (pt_requests b)
     \<and> map_eq (pt_limits a) (pt_limits b) \<and> pt_rest a = pt_rest b"

definition sameDaemonSet :: "DaemonSet \<Rightarrow> DaemonSet \<Rightarrow> bool" where
  "sameDaemonSet a b \<longleftrightarrow>
     map_eq (ds_labels a) (ds_labels b) \<and> map_eq (ds_selector a) (ds_selector b)
     \<and> sameTemplate (ds_template a) (ds_template b) \<and> ds_rest a = ds_rest b"

definition dsFullName :: string where
  "dsFullName = OVSHugepagesNamespace @ ''/'' @ DaemonSetName"

definition mutateDaemonSet :: "DaemonSet \<Rightarrow> DaemonSet \<Rightarrow> DaemonSet" where
  "mutateDaemonSet desired ds =
     ds\<lparr>ds_labels := ds_labels desired, ds_template := ds_template desired\<rparr>"

definition ensureDaemonSet :: "env \<Rightarrow> HostedClient \<Rightarrow> string \<Rightarrow> string \<Rightarrow> int \<Rightarrow> goerror option io" where
  "ensureDaemonSet E c img psize amount =
     (if amount = 0 then do {
        w \<leftarrow> apiWrite E (HostedDeleteDaemonSet c OVSHugepagesNamespace DaemonSetName);
        State_Monad.return (case w of
          Some e \<Rightarrow> if IsNotFound e then None
                    else Some (wrap (''failed to delete DaemonSet '' @ dsFullName) e)
        | None \<Rightarrow> None)
      } else (case buildDaemonSet img psize amount of
        None \<Rightarrow> State_Monad.return (Some (panicError (''cannot parse '' @ sq psize)))
      | Some desired \<Rightarrow> do {
          (_, e) \<leftarrow> hostedCreateOrUpdate
            (hostedGetDaemonSet E c OVSHugepagesNamespace DaemonSetName)
            (\<lambda>ds. apiWrite E (HostedCreateDaemonSet c OVSHugepagesNamespace DaemonSetName ds))
            (\<lambda>ds. apiWrite E (HostedUpdateDaemonSet c OVSHugepagesNamespace DaemonSetName ds))
            (\<lambda>_. NN OVSHugepagesNamespace DaemonSetName) sameDaemonSet desired
            (\<lambda>ds. Inr (mutateDaemonSet desired ds));
          State_Monad.return (map_option (wrap (''failed to ensure DaemonSet '' @ dsFullName)) e)
        }))"

definition mutateNamespace :: "string gomap \<Rightarrow> string gomap" where
  "mutateNamespace labels = fold (\<lambda>(k, v) m. mset_key m k v) reservationLabels labels"

definition ensureNamespace :: "env \<Rightarrow> HostedClient \<Rightarrow> goerror option io" where
  "ensureNamespace E c = do {
     (_, e) \<leftarrow> hostedCreateOrUpdate
       (hostedGetNamespace E c OVSHugepagesNamespace)
       (\<lambda>l. apiWrite E (HostedCreateNamespace c OVSHugepagesNamespace l))
       (\<lambda>l. apiWrite E (HostedUpdateNamespace c OVSHugepagesNamespace l))
       (\<lambda>_. NN [] OVSHugepagesNamespace) map_eq [] (\<lambda>l. Inr (mutateNamespace l));
     State_Monad.return
       (map_option (wrap (''failed to ensure namespace '' @ OVSHugepagesNamespace)) e)
   }"

subsection \<open>The pause image\<close>

definition tryAarch64Release :: "env \<Rightarrow> string \<Rightarrow> string gomap \<Rightarrow> (goerror + string) io" where
  "tryAarch64Release E releaseImage keychain = do {
     v \<leftarrow> lookupOCPVersion E releaseImage keychain;
     (case v of
        Inl e \<Rightarrow> State_Monad.return (Inl (wrap ''extracting OCP version'' e))
      | Inr version \<Rightarrow>
          (let aarch64Release = Aarch64ReleaseImage releaseImage version in do {
             r \<leftarrow> GetComponentImage E aarch64Release pausePayloadImage keychain;
             State_Monad.return (case r of
               Inl e \<Rightarrow> Inl (wrap (''reading release '' @ Quote aarch64Release) e)
             | Inr resolved \<Rightarrow>
                 if resolved = []
                 then Inl (Errorf (''component '' @ Quote pausePayloadImage
                        @ '' resolved to an empty image from release '' @ Quote aarch64Release))
                 else Inr resolved)
           }))
   }"

definition resolveFromRelease :: "env \<Rightarrow> string \<Rightarrow> string gomap \<Rightarrow> (goerror + string) io" where
  "resolveFromRelease E releaseImage keychain = do {
     multi \<leftarrow> IsMultiArchReleaseImage E releaseImage keychain;
     if multi then do {
       r \<leftarrow> GetComponentImage E releaseImage pausePayloadImage keychain;
       State_Monad.return (case r of
         Inl e \<Rightarrow> Inl (wrap (''resolving pause image from release '' @ Quote releaseImage) e)
       | Inr resolved \<Rightarrow>
           if resolved = []
           then Inl (Errorf (''component '' @ Quote pausePayloadImage
                  @ '' resolved to an empty image from release '' @ Quote releaseImage))
           else Inr resolved)
     } else do {
       r \<leftarrow> tryAarch64Release E releaseImage keychain;
       State_Monad.return (case r of
         Inl e \<Rightarrow> Inl (wrap (''resolving aarch64 pause image from release '' @ Quote releaseImage) e)
       | Inr resolved \<Rightarrow> Inr resolved)
     }
   }"

definition resolvePauseImage :: "env \<Rightarrow> (goerror + string) io" where
  "resolvePauseImage E = with_cr (\<lambda>cr. do {
     cache \<leftarrow> gets st_pauseImages;
     (case map_of cache (sp_ocpReleaseImage (cr_spec cr)) of
        Some cached \<Rightarrow> State_Monad.return (Inr cached)
      | None \<Rightarrow> do {
          k \<leftarrow> KeychainFromPullSecret E (sp_pullSecretRef (cr_spec cr)) (cr_namespace cr);
          (case k of
             Inl e \<Rightarrow> State_Monad.return (Inl (wrap ''getting pull secret keychain'' e))
           | Inr keychain \<Rightarrow> do {
               r \<leftarrow> resolveFromRelease E (sp_ocpReleaseImage (cr_spec cr)) keychain;
               (case r of
                  Inl e \<Rightarrow> State_Monad.return (Inl e)
                | Inr resolved \<Rightarrow> do {
                    _ \<leftarrow> modify_st (\<lambda>s. s\<lparr>st_pauseImages :=
                           mset_key (st_pauseImages s) (sp_ocpReleaseImage (cr_spec cr)) resolved\<rparr>);
                    State_Monad.return (Inr resolved)
                  })
             })
        })
   })"

subsection \<open>The step\<close>

definition invalidateStaleClient :: "unit io" where
  "invalidateStaleClient = with_cr (\<lambda>cr. InvalidateClient (cr_namespace cr) (cr_name cr))"

text \<open>\<^verbatim>\<open>if err != nil { m.invalidateStaleClient(cr); return err }\<close>.\<close>

definition orInvalidate :: "goerror option io \<Rightarrow> goerror option io \<Rightarrow> goerror option io" where
  "orInvalidate m k = do {
     r \<leftarrow> m;
     (case r of
        Some e \<Rightarrow> do { _ \<leftarrow> invalidateStaleClient; State_Monad.return (Some e) }
      | None \<Rightarrow> k)
   }"

text \<open>
  A page size that does not parse makes \<^verbatim>\<open>buildDaemonSet\<close> panic, which unwinds past the invalidation.
\<close>

definition ReconcileHugepagesDaemonSet :: "env \<Rightarrow> string \<Rightarrow> int \<Rightarrow> goerror option io" where
  "ReconcileHugepagesDaemonSet E psize0 amount0 = with_cr (\<lambda>cr.
     let psize = (if psize0 = [] then DefaultHugepagesSize else psize0);
         amount = (if amount0 < 0 then DefaultHugepagesAmount else amount0)
     in do {
       h \<leftarrow> GetHostedClusterClient E (cr_namespace cr) (cr_name cr);
       (case h of
          Inl e \<Rightarrow> State_Monad.return (Some (wrap ''failed to get hosted cluster client'' e))
        | Inr hcClient \<Rightarrow>
            if amount = 0 then
              orInvalidate (ensureDaemonSet E hcClient [] psize amount) (State_Monad.return None)
            else orInvalidate (ensureNamespace E hcClient) (do {
              p \<leftarrow> resolvePauseImage E;
              (case p of
                 Inl e \<Rightarrow> State_Monad.return (Some e)
               | Inr pauseImage \<Rightarrow>
                   if pageBytes psize = None
                   then State_Monad.return (Some (panicError (''cannot parse '' @ sq psize)))
                   else orInvalidate (ensureDaemonSet E hcClient pauseImage psize amount)
                     (State_Monad.return None))
            }))
     })"

subsection \<open>Quantities that fit\<close>

definition admittedSizes :: "string list" where
  "admittedSizes = [''1Gi'', ''2Mi'', ''32Mi'', ''64Ki'']"

lemma int64_mult_small:
  assumes "- (2 ^ 63) \<le> a * b" and "a * b < 2 ^ 63"
  shows "int64_mult a b = a * b"
proof -
  have "int64_mult a b = signed_take_bit 63 (a * b)"
    unfolding int64_mult_def by (simp flip: of_int_mult add: signed_of_int)
  then show ?thesis using assms by (simp add: signed_take_bit_int_eq_self)
qed

lemma pageBytes_admitted:
  assumes "psize \<in> set admittedSizes"
  obtains p where "pageBytes psize = Some p" and "0 < p" and "p \<le> 1073741824"
proof -
  have "list_all (\<lambda>z. case pageBytes z of None \<Rightarrow> False | Some p \<Rightarrow> 0 < p \<and> p \<le> 1073741824) admittedSizes"
    by code_simp
  then have "case pageBytes psize of None \<Rightarrow> False | Some p \<Rightarrow> 0 < p \<and> p \<le> 1073741824"
    using assms by (simp add: list_all_iff)
  then show ?thesis using that by (auto split: option.splits)
qed

subsection \<open>Footprint\<close>

text \<open>
  The requests of the step: it reads secrets and the registry, and in the hosted cluster it touches
  the reservation namespace and the reservation DaemonSet only.
\<close>

fun reservationRequest :: "ObjectMeta \<Rightarrow> DPFHCPProvisionerSpec \<Rightarrow> call \<Rightarrow> bool" where
  "reservationRequest M S (HostedCreateNamespace c n l) = (n = OVSHugepagesNamespace)"
| "reservationRequest M S (HostedUpdateNamespace c n l) = (n = OVSHugepagesNamespace)"
| "reservationRequest M S (HostedCreateDaemonSet c ns n d) = (ns = OVSHugepagesNamespace \<and> n = DaemonSetName)"
| "reservationRequest M S (HostedUpdateDaemonSet c ns n d) = (ns = OVSHugepagesNamespace \<and> n = DaemonSetName)"
| "reservationRequest M S (HostedDeleteDaemonSet c ns n) = (ns = OVSHugepagesNamespace \<and> n = DaemonSetName)"
| "reservationRequest M S c = (\<not> is_write c)"

lemma footprint_hostedCreateOrUpdate [footprint_intros]:
  assumes "footprint M S W P g" and "\<And>x. footprint M S W P (cr x)" and "\<And>x. footprint M S W P (up x)"
  shows "footprint M S W P (hostedCreateOrUpdate g cr up nm same obj mu)"
  unfolding hostedCreateOrUpdate_def by (intro footprint_intros assms)

lemma footprint_lookupOCPVersion [footprint_intros]:
  "(\<And>r a. P (RegistryGet r a)) \<Longrightarrow> (\<And>r a. P (RegistryImage r a)) \<Longrightarrow>
   (\<And>r a. P (RegistryConfigFile r a)) \<Longrightarrow> footprint M S W P (lookupOCPVersion E i k)"
  unfolding lookupOCPVersion_def by (intro footprint_intros)

interpretation hugepages: reconcile_step "\<lambda>E. ReconcileHugepagesDaemonSet E psize amount" "{}" reservationRequest
  by unfold_locales
    (unfold ReconcileHugepagesDaemonSet_def orInvalidate_def invalidateStaleClient_def ensureNamespace_def
       ensureDaemonSet_def resolvePauseImage_def resolveFromRelease_def tryAarch64Release_def,
     intro footprint_intros, simp_all)

subsection \<open>Properties\<close>

text \<open>
  C31: For every page size the configuration API admits and every 32-bit amount the product of page
  size and amount does not overflow the 64-bit integer it is computed in: the reservation built by
  \<^verbatim>\<open>buildDaemonSet\<close> requests exactly amount times the page size, a multiple of the page size, both as
  request and as limit.
\<close>

theorem buildDaemonSet_reserves_exactly:
  assumes "psize \<in> set admittedSizes" and "0 \<le> amount" and "amount < 2 ^ 31"
  shows "\<exists>p ds. pageBytes psize = Some p \<and> 0 < p \<and> buildDaemonSet img psize amount = Some ds
    \<and> map_of (pt_requests (ds_template ds)) (''hugepages-'' @ psize) = Some (p * amount)
    \<and> map_of (pt_limits (ds_template ds)) (''hugepages-'' @ psize) = Some (p * amount)
    \<and> p dvd p * amount"
proof -
  obtain p where p: "pageBytes psize = Some p" "0 < p" "p \<le> 1073741824"
    using assms(1) by (rule pageBytes_admitted)
  have "p * amount \<le> 1073741824 * 2 ^ 31" by (rule mult_mono) (use p assms in auto)
  moreover have "0 \<le> p * amount" using p assms by simp
  ultimately have "int64_mult p amount = p * amount" by (intro int64_mult_small) auto
  then show ?thesis
    using p by (simp add: buildDaemonSet_def hugepagesQuantity_def reservationTemplate_def)
qed

theorem buildDaemonSet_reserves_exactly_witness:
  "\<exists>ds. buildDaemonSet ''img'' ''2Mi'' 250 = Some ds
     \<and> map_of (pt_requests (ds_template ds)) ''hugepages-2Mi'' = Some 524288000"
proof -
  have "''2Mi'' \<in> set admittedSizes" by (simp add: admittedSizes_def)
  moreover have "pageBytes ''2Mi'' = Some 2097152" by code_simp
  ultimately show ?thesis using buildDaemonSet_reserves_exactly [of "''2Mi''" 250 "''img''"] by auto
qed

text \<open>
  In the hosted cluster the step writes nothing but the reservation namespace and the
  reservation DaemonSet, it writes nothing to the management cluster, and it leaves the resource in
  memory as it was.
\<close>

lemma ReconcileHugepagesDaemonSet_confined:
  assumes run: "run_state (ReconcileHugepagesDaemonSet E psize amount) s = (r, s')"
    and new: "c \<in> set (st_history s')" "c \<notin> set (st_history s)" and "is_write c"
  shows "reservationRequest (cr_meta (st_cr s)) (cr_spec (st_cr s)) c
    \<and> (\<exists>hc. c = HostedDeleteDaemonSet hc OVSHugepagesNamespace DaemonSetName
         \<or> (\<exists>x. c = HostedCreateNamespace hc OVSHugepagesNamespace x)
         \<or> (\<exists>x. c = HostedUpdateNamespace hc OVSHugepagesNamespace x)
         \<or> (\<exists>x. c = HostedCreateDaemonSet hc OVSHugepagesNamespace DaemonSetName x)
         \<or> (\<exists>x. c = HostedUpdateDaemonSet hc OVSHugepagesNamespace DaemonSetName x))"
proof -
  have "reservationRequest (cr_meta (st_cr s)) (cr_spec (st_cr s)) c"
    using hugepages.requests_allowed [OF run new(1)] new(2) by simp
  then show ?thesis using \<open>is_write c\<close> by (cases c) auto
qed

text \<open>A hosted cluster that is reachable through a stored kubeconfig and serves a multi-arch release.\<close>

definition reservedEnv :: env where
  "reservedEnv = kubeconfigEnv\<lparr>srv := (srv kubeconfigEnv)\<lparr>
     s_registryImage := \<lambda>_ _ _. None,
     s_registryExtract := \<lambda>_ _ _. \<lparr>tar_entries = [(imageReferencesPath, Inr ''refs'')], tar_end = None\<rparr>\<rparr>,
     cod := (cod kubeconfigEnv)\<lparr>k_unmarshalImageReferences := \<lambda>_. Inr [(pausePayloadImage, ''quay.io/pause'')]\<rparr>\<rparr>"

lemma ReconcileHugepagesDaemonSet_confined_witness:
  "\<exists>c \<in> set (st_history (snd (run_state (ReconcileHugepagesDaemonSet reservedEnv [] 0) (startState sampleCR)))).
     is_write c \<and> reservationRequest (cr_meta sampleCR) (cr_spec sampleCR) c"
proof -
  let ?run = "run_state (ReconcileHugepagesDaemonSet reservedEnv [] 0) (startState sampleCR)"
  obtain r s' where run: "?run = (r, s')" by (rule prod.exhaust)
  have "st_history (snd ?run) \<noteq> [] \<and> is_write (hd (st_history (snd ?run)))" by code_simp
  then have "hd (st_history s') \<in> set (st_history s')" "is_write (hd (st_history s'))"
    by (simp_all add: run)
  then show ?thesis
    using ReconcileHugepagesDaemonSet_confined [OF run, of "hd (st_history s')"] by (auto simp: run)
qed

text \<open>The requests of the step that go to the hosted cluster.\<close>

definition toHosted :: "call \<Rightarrow> bool" where
  "toHosted c \<longleftrightarrow> (\<exists>hc. (\<exists>n. c = HostedGetNamespace hc n) \<or> (\<exists>n l. c = HostedCreateNamespace hc n l)
     \<or> (\<exists>n l. c = HostedUpdateNamespace hc n l) \<or> (\<exists>ns n. c = HostedGetDaemonSet hc ns n)
     \<or> (\<exists>ns n d. c = HostedCreateDaemonSet hc ns n d) \<or> (\<exists>ns n d. c = HostedUpdateDaemonSet hc ns n d)
     \<or> (\<exists>ns n. c = HostedDeleteDaemonSet hc ns n))"

lemma toHosted_simps [simp]:
  "\<not> toHosted (GetSecret k)" "\<not> toHosted (RegistryHead i a)" "\<not> toHosted (RegistryGet i a)"
  "\<not> toHosted (RegistryImage i a)" "\<not> toHosted (RegistryConfigFile i a)"
  "\<not> toHosted (RegistryExtract i a)"
  by (simp_all add: toHosted_def)

text \<open>The post-condition: an error right after a request to the hosted cluster leaves no client cached.\<close>

definition forgets :: "DPFHCPProvisioner \<Rightarrow> goerror option \<Rightarrow> st \<Rightarrow> bool" where
  "forgets cr r s \<longleftrightarrow> r \<noteq> None \<longrightarrow> toHosted (hd (st_history s)) \<longrightarrow>
     map_of (st_hcClients s) (clientKey (cr_namespace cr) (cr_name cr)) = None"

lemma wp_orInvalidate:
  assumes "wp m (\<lambda>r t. cr_meta (st_cr t) = cr_meta cr \<and> (r = None \<longrightarrow> wp k (forgets cr) t)) s"
  shows "wp (orInvalidate m k) (forgets cr) s"
  unfolding orInvalidate_def wp_bind
  using assms by (rule wp_mono)
    (auto simp: wp_simps invalidateStaleClient_def InvalidateClient_def forgets_def delete_conv'
      split: option.splits)

lemma wp_hostedCreateOrUpdate:
  "wp (hostedCreateOrUpdate (request g r) (\<lambda>x. request (cr x) (cr' x)) (\<lambda>x. request (up x) (up' x)) nm same obj mu)
     (\<lambda>_ t. st_cr t = st_cr s) s"
  unfolding hostedCreateOrUpdate_def by (auto simp: wp_simps split: sum.splits option.splits)

lemma footprint_resolveFromRelease:
  "footprint M S {} (\<lambda>c. \<not> toHosted c) (resolveFromRelease E i k)"
  unfolding resolveFromRelease_def tryAarch64Release_def by (intro footprint_intros) simp_all

lemma issued_hd: "issued P h h' \<Longrightarrow> h \<noteq> [] \<Longrightarrow> P (hd h) \<Longrightarrow> P (hd h')"
  by (auto simp: issued_def hd_append)

lemma wp_resolveFromRelease:
  assumes "st_history s \<noteq> []" and "\<not> toHosted (hd (st_history s))"
  shows "wp (resolveFromRelease E i k) (\<lambda>r t. cr_meta (st_cr t) = cr_meta (st_cr s)
     \<and> \<not> toHosted (hd (st_history t))) s"
  using footprintD [OF footprint_resolveFromRelease refl refl]
  by (rule wp_mono) (use assms in \<open>auto dest: agree_outside_meta issued_hd\<close>)

lemma wp_resolvePauseImage:
  "wp (resolvePauseImage E) (\<lambda>r t. cr_meta (st_cr t) = cr_meta (st_cr s)
     \<and> (\<forall>e. r = Inl e \<longrightarrow> \<not> toHosted (hd (st_history t)))) s"
  unfolding resolvePauseImage_def KeychainFromPullSecret_def
  by (auto simp: wp_simps intro!: wp_mono [OF wp_resolveFromRelease] split: sum.splits option.splits)

text \<open>
  When the hosted cluster fails a request, the next reconcile starts with a fresh client: if the
  step returns an error and the last request it made went to the hosted cluster, no client of this
  hosted cluster is cached any more (the page size being one the configuration admits).
\<close>

lemma hugepages_failure_forgets_client:
  assumes run: "run_state (ReconcileHugepagesDaemonSet E psize amount) s = (Some e, s')"
    and "psize \<in> set admittedSizes" and "toHosted (hd (st_history s'))"
  shows "map_of (st_hcClients s') (clientKey (cr_namespace (st_cr s)) (cr_name (st_cr s))) = None"
proof -
  let ?cr = "st_cr s"
  obtain p where p: "pageBytes psize = Some p" using assms(2) by (rule pageBytes_admitted)
  have psize: "psize \<noteq> []" using assms(2) by (auto simp: admittedSizes_def)
  have ds: "wp (orInvalidate (ensureDaemonSet E c img psize n) (State_Monad.return None)) (forgets ?cr) t"
    if "cr_meta (st_cr t) = cr_meta ?cr" for c img n t
    using that by (intro wp_orInvalidate) (auto simp: ensureDaemonSet_def client_defs wp_simps forgets_def
        split: option.splits intro!: wp_mono [OF wp_hostedCreateOrUpdate])
  have ns: "wp (orInvalidate (ensureNamespace E c) k) (forgets ?cr) t"
    if "cr_meta (st_cr t) = cr_meta ?cr" "\<And>t. cr_meta (st_cr t) = cr_meta ?cr \<Longrightarrow> wp k (forgets ?cr) t" for c k t
    using that by (intro wp_orInvalidate) (auto simp: ensureNamespace_def client_defs wp_simps
        split: option.splits intro!: wp_mono [OF wp_hostedCreateOrUpdate])
  have pause: "wp (resolvePauseImage E) (\<lambda>p. wp (case p of Inl e \<Rightarrow> State_Monad.return (Some e) | Inr i \<Rightarrow>
         if pageBytes psize = None then State_Monad.return (Some (panicError (''cannot parse '' @ sq psize)))
         else orInvalidate (ensureDaemonSet E c i psize n) (State_Monad.return None)) (forgets ?cr)) t"
    if "cr_meta (st_cr t) = cr_meta ?cr" for c n t
    using wp_resolvePauseImage
    by (rule wp_mono) (use p that ds in \<open>auto simp: wp_return forgets_def split: sum.splits\<close>)
  have "wp (ReconcileHugepagesDaemonSet E psize amount) (forgets ?cr) s"
    unfolding ReconcileHugepagesDaemonSet_def Let_def wp_with_cr wp_bind
    by (rule wp_GetHostedClusterClient)
      (auto simp: wp_return wp_bind psize forgets_def [of _ "Some e" for e] intro!: ds ns pause)
  then have "forgets ?cr (Some e) s'" using run by (rule wp_run)
  then show ?thesis using assms(3) by (simp add: forgets_def)
qed

definition failingHostedEnv :: env where
  "failingHostedEnv = reservedEnv\<lparr>srv := (srv reservedEnv)\<lparr>
     s_hostedGetNamespace := \<lambda>_ _ _. Inl (Errorf ''connection refused'')\<rparr>\<rparr>"

lemma hugepages_failure_forgets_client_instance:
  "map_of (st_hcClients (snd (run_state (ReconcileHugepagesDaemonSet failingHostedEnv ''2Mi'' 250)
     (startState sampleCR)))) (clientKey ''clusters'' ''hcp'') = None"
proof -
  let ?run = "run_state (ReconcileHugepagesDaemonSet failingHostedEnv ''2Mi'' 250) (startState sampleCR)"
  obtain r s' where run: "?run = (r, s')" by (rule prod.exhaust)
  have "fst ?run \<noteq> None
      \<and> (case hd (st_history (snd ?run)) of HostedGetNamespace _ _ \<Rightarrow> True | _ \<Rightarrow> False)"
    by code_simp
  then obtain e where "r = Some e" "toHosted (hd (st_history s'))"
    by (auto simp: run toHosted_def split: call.splits)
  moreover have "''2Mi'' \<in> set admittedSizes" by (simp add: admittedSizes_def)
  moreover have "cr_namespace sampleCR = ''clusters''" "cr_name sampleCR = ''hcp''"
    by (simp_all add: sample_defs)
  ultimately show ?thesis
    using hugepages_failure_forgets_client [of failingHostedEnv "''2Mi''" 250 "startState sampleCR" e s'] run
    by simp
qed

end
