(* ===== verification/Ignition_Generator.thy ===== *)
theory Ignition_Generator
  imports Ignition Upgrade Hosted_Secrets
begin

section \<open>The ignition generator\<close>

text \<open>
  \<^verbatim>\<open>internal/controller/ignitiongenerator\<close>: selecting the ignition token that belongs to the current
  credentials, downloading the ignition of the hosted cluster, building the target and the live
  configuration, and publishing the ConfigMap for the DPUs. The lemmas show that nothing is published
  unless it was downloaded with the synchronised token and carries the current SSH key, and what each
  outcome leaves in the status.
\<close>

subsection \<open>Constants\<close>

definition ignitionSecretName :: string where
  "ignitionSecretName = ''ignition-server-ca-cert''"

definition ignitionTokenPrefix :: string where
  "ignitionTokenPrefix = ''token-''"

definition ignitionTokenKey :: string where
  "ignitionTokenKey = ''token''"

definition tokenPullSecretHashKey :: string where
  "tokenPullSecretHashKey = ''pull-secret-hash''"

definition nodePoolCurrentConfigVersionAnnotation :: string where
  "nodePoolCurrentConfigVersionAnnotation = ''hypershift.openshift.io/nodePoolCurrentConfigVersion''"

definition ignitionSyncRequeueAfter :: nat where
  "ignitionSyncRequeueAfter = 10"

definition configMapKeyName :: string where
  "configMapKeyName = ''BF_CFG_TEMPLATE''"

definition ignitionVersion :: string where
  "ignitionVersion = ''3.4.0''"

definition dpuProvisioningPrefix :: string where
  "dpuProvisioningPrefix = ''provisioning.dpu.nvidia.com/''"

definition BfcfgTemplateLabel :: string where
  "BfcfgTemplateLabel = dpuProvisioningPrefix @ ''bfcfg-template''"

definition BfcfgTemplateClusterNameAnnotation :: string where
  "BfcfgTemplateClusterNameAnnotation = dpuProvisioningPrefix @ ''bfcfg-template-cluster-name''"

definition BfcfgTemplateClusterNamespaceAnnotation :: string where
  "BfcfgTemplateClusterNamespaceAnnotation = dpuProvisioningPrefix @ ''bfcfg-template-cluster-namespace''"

definition BfcfgTemplateBFBNameAnnotation :: string where
  "BfcfgTemplateBFBNameAnnotation = dpuProvisioningPrefix @ ''bfcfg-template-bfb-name''"

definition BfcfgTemplateBFBNamespaceAnnotation :: string where
  "BfcfgTemplateBFBNamespaceAnnotation = dpuProvisioningPrefix @ ''bfcfg-template-bfb-namespace''"

definition BfcfgTemplateDPUFlavorNameAnnotation :: string where
  "BfcfgTemplateDPUFlavorNameAnnotation = dpuProvisioningPrefix @ ''bfcfg-template-dpuflavor-name''"

definition BfcfgTemplateDPUFlavorNamespaceAnnotation :: string where
  "BfcfgTemplateDPUFlavorNamespaceAnnotation = dpuProvisioningPrefix @ ''bfcfg-template-dpuflavor-namespace''"

definition bfcfgTemplateMachineOSURLAnnotation :: string where
  "bfcfgTemplateMachineOSURLAnnotation = AnnotationPrefix @ ''bfcfg-template-machine-os-url''"

definition BfcfgTemplateOCPReleaseImageAnnotation :: string where
  "BfcfgTemplateOCPReleaseImageAnnotation = AnnotationPrefix @ ''bfcfg-template-ocp-release-image''"

lemmas annotation_defs = dpuProvisioningPrefix_def AnnotationPrefix_def
  BfcfgTemplateClusterNameAnnotation_def BfcfgTemplateClusterNamespaceAnnotation_def
  BfcfgTemplateBFBNameAnnotation_def BfcfgTemplateBFBNamespaceAnnotation_def
  BfcfgTemplateDPUFlavorNameAnnotation_def BfcfgTemplateDPUFlavorNamespaceAnnotation_def
  bfcfgTemplateMachineOSURLAnnotation_def BfcfgTemplateOCPReleaseImageAnnotation_def

subsection \<open>mode.go\<close>

definition ZeroTrustMode :: string where
  "ZeroTrustMode = ''zero-trust''"

definition DpuMode :: string where
  "DpuMode = ''dpu''"

definition NicMode :: string where
  "NicMode = ''nic''"

definition emptyModeError :: goerror where
  "emptyModeError = Errorf ''DPU mode is empty: set DPFOperatorConfig.spec.deploymentMode or DPUFlavor.spec.dpuMode''"

definition dpuModeFromFlavor :: "DPUFlavor \<Rightarrow> goerror + string" where
  "dpuModeFromFlavor flavor =
     (let mode = df_dpuMode flavor in
      if mode = ZeroTrustMode then Inr ZeroTrustMode
      else if mode = DpuMode then Inr DpuMode
      else if mode = NicMode then Inl (Errorf ''NIC mode is not supported'')
      else if mode = [] then Inl emptyModeError
      else Inl (Errorf (''invalid DPU mode: '' @ mode @ '' (expected one of: zero-trust, dpu)'')))"

definition detectDPUMode :: "DPFOperatorConfig \<Rightarrow> DPUFlavor \<Rightarrow> goerror + string" where
  "detectDPUMode cfg flavor =
     (if df_dpuMode flavor \<noteq> [] then
        (case dpuModeFromFlavor flavor of
           Inl e \<Rightarrow> Inl (wrap ''failed to detect DPU mode from flavor'' e)
         | Inr mode \<Rightarrow> Inr mode)
      else if oc_deploymentMode cfg = ''zero-trust'' then Inr ZeroTrustMode
      else if oc_deploymentMode cfg = ''host-trusted'' then Inr DpuMode
      else if oc_deploymentMode cfg = [] then
        (case oc_provisioningController cfg of
           Some pc \<Rightarrow> if pc_installViaRedfish pc then Inr ZeroTrustMode else Inl emptyModeError
         | None \<Rightarrow> Inl emptyModeError)
      else Inl (Errorf (''unsupported deploymentMode '' @ Quote (oc_deploymentMode cfg))))"

definition isZeroTrustMode :: "DPFOperatorConfig \<Rightarrow> DPUFlavor \<Rightarrow> goerror + bool" where
  "isZeroTrustMode cfg flavor =
     (case detectDPUMode cfg flavor of Inl e \<Rightarrow> Inl e | Inr mode \<Rightarrow> Inr (mode = ZeroTrustMode))"

subsection \<open>Tokens\<close>

definition errIgnitionSyncPending :: "string \<Rightarrow> goerror" where
  "errIgnitionSyncPending why = \<lparr>err_reason = IgnitionSyncPending,
     err_msg = ''HyperShift ignition credential sync is pending: '' @ why\<rparr>"

definition hashPullSecret :: "string \<Rightarrow> string" where
  "hashPullSecret data = hex8 (fnv32a (showBytes data))"

definition controlPlaneNamespace :: "ObjectReference \<Rightarrow> string" where
  "controlPlaneNamespace ref = oref_namespace ref @ ''-'' @ oref_name ref"

definition getIgnitionCACert :: "env \<Rightarrow> ObjectReference \<Rightarrow> (goerror + string) io" where
  "getIgnitionCACert E ref =
     bindE (wrapE ''failed to get ignition CA cert secret''
              (getSecret E (NN (controlPlaneNamespace ref) ignitionSecretName)))
       (\<lambda>caSecret. (case map_of (sec_data caSecret) ''tls.crt'' of
          None \<Rightarrow> failE (Errorf (''tls.crt not found in secret '' @ ignitionSecretName))
        | Some caCert \<Rightarrow> pureE (Inr caCert)))"

text \<open>
  Tokens for objects without credential references, newest secret first; secrets of the same age
  keep the order of the list.
\<close>

definition newestFirst :: "Secret list \<Rightarrow> Secret list" where
  "newestFirst = sort_key (\<lambda>s. - int (om_creationTimestamp (sec_meta s)))"

definition tokenPrefix :: "ObjectReference \<Rightarrow> string" where
  "tokenPrefix ref = ignitionTokenPrefix @ oref_name ref @ ''-''"

definition tokensOf :: "Secret list \<Rightarrow> string list" where
  "tokensOf candidates = map base64Encode
     (List.map_filter (\<lambda>c. map_of (sec_data c) ignitionTokenKey) (newestFirst candidates))"

definition getIgnitionTokens :: "env \<Rightarrow> ObjectReference \<Rightarrow> (goerror + string list) io" where
  "getIgnitionTokens E ref =
     (let ns = controlPlaneNamespace ref; prefix = tokenPrefix ref in
      bindE (wrapE (''failed to list secrets in '' @ ns) (listSecrets E (Some ns) []))
        (\<lambda>secrets. let candidates = filter (\<lambda>s. HasPrefix (om_name (sec_meta s)) prefix) secrets in
           if candidates = [] then failE (Errorf (''no token secret with prefix '' @ Quote prefix
                @ '' found in namespace '' @ ns))
           else if tokensOf candidates = []
           then failE (Errorf (''no usable token data in secrets with prefix '' @ Quote prefix
                @ '' in namespace '' @ ns))
           else pureE (Inr (tokensOf candidates))))"

text \<open>A missing object means HyperShift is not there yet; any other failure is an error.\<close>

definition orPending :: "(goerror + 'a) io \<Rightarrow> string \<Rightarrow> string \<Rightarrow> (goerror + 'a) io" where
  "orPending m missing err = do {
     r \<leftarrow> m;
     State_Monad.return (case r of
       Inl e \<Rightarrow> Inl (if IsNotFound e then errIgnitionSyncPending missing else wrap err e)
     | Inr v \<Rightarrow> Inr v)
   }"

lemma wp_orPending [wp_simps]:
  "wp (orPending m a b) Q = wp m (\<lambda>r. Q (case r of
     Inl e \<Rightarrow> Inl (if IsNotFound e then errIgnitionSyncPending a else wrap b e) | Inr v \<Rightarrow> Inr v))"
  by (simp add: orPending_def wp_simps)

lemma footprint_orPending [footprint_intros]:
  "footprint M S W P m \<Longrightarrow> footprint M S W P (orPending m a b)"
  unfolding orPending_def by (intro footprint_intros)

definition available :: "string \<Rightarrow> NamespacedName \<Rightarrow> string" where
  "available what k = what @ nn_string k @ '' is not available yet''"

definition tokenSecretKey :: "ObjectReference \<Rightarrow> NodePool \<Rightarrow> string \<Rightarrow> NamespacedName" where
  "tokenSecretKey ref np version =
     NN (controlPlaneNamespace ref) (ignitionTokenPrefix @ om_name (np_meta np) @ ''-'' @ version)"

text \<open>The end of the function: the SSH key of the hosted cluster, next to the encoded token.\<close>

definition currentSSHKey :: "env \<Rightarrow> HostedCluster \<Rightarrow> string \<Rightarrow> (goerror + string \<times> string) io" where
  "currentSSHKey E hc token =
     (let sshKeySecretKey = NN (om_namespace (hc_meta hc)) (hcs_sshKey (hc_spec hc)) in
      bindE (orPending (getSecret E sshKeySecretKey) (available ''SSH-key secret '' sshKeySecretKey)
               (''failed to get SSH-key secret '' @ nn_string sshKeySecretKey))
        (\<lambda>sshKeySecret. (case map_of (sec_data sshKeySecret) ''id_rsa.pub'' of
           None \<Rightarrow> failE (Errorf (''SSH-key secret '' @ nn_string sshKeySecretKey
                     @ '' is missing a non-empty id_rsa.pub key''))
         | Some sshKey \<Rightarrow>
             if TrimSpace sshKey = []
             then failE (Errorf (''SSH-key secret '' @ nn_string sshKeySecretKey
                     @ '' is missing a non-empty id_rsa.pub key''))
             else pureE (Inr (base64Encode token, sshKey)))))"

text \<open>The token secret of the node pool's current config, checked against the pull secret.\<close>

definition currentToken ::
    "env \<Rightarrow> ObjectReference \<Rightarrow> HostedCluster \<Rightarrow> string \<Rightarrow> (goerror + string \<times> string) io" where
  "currentToken E ref hc expectedPullSecretHash =
     (let nodePoolKey = NN (om_namespace (hc_meta hc)) (om_name (hc_meta hc)) in
      bindE (orPending (getNP E nodePoolKey) (available ''NodePool '' nodePoolKey)
               (''failed to get NodePool '' @ nn_string nodePoolKey))
        (\<lambda>nodePool. let version = mget (om_annotations (np_meta nodePool))
                         nodePoolCurrentConfigVersionAnnotation;
                         key = tokenSecretKey ref nodePool version in
           if version = []
           then failE (errIgnitionSyncPending (''NodePool '' @ nn_string nodePoolKey
                  @ '' has not published its current config version''))
           else bindE (orPending (getSecret E key) (available ''current token secret '' key)
                         (''failed to get current token secret '' @ nn_string key))
             (\<lambda>tokenSecret. (case map_of (sec_data tokenSecret) ignitionTokenKey of
                None \<Rightarrow> failE (errIgnitionSyncPending (''current token secret '' @ nn_string key
                          @ '' has no token yet''))
              | Some token \<Rightarrow>
                  if mget (sec_data tokenSecret) tokenPullSecretHashKey \<noteq> expectedPullSecretHash
                  then failE (errIgnitionSyncPending
                    ''current token secret pull-secret hash does not match HostedCluster pull secret'')
                  else currentSSHKey E hc token))))"

definition getSynchronizedIgnitionToken :: "env \<Rightarrow> (goerror + string \<times> string) io" where
  "getSynchronizedIgnitionToken E = with_cr (\<lambda>cr.
     case cr_hostedClusterRef cr of
       None \<Rightarrow> failE (errIgnitionSyncPending ''HostedCluster reference is not available'')
     | Some ref \<Rightarrow>
         if sp_pullSecretRef (cr_spec cr) = [] \<or> sp_sshKeySecretRef (cr_spec cr) = []
         then failE (errIgnitionSyncPending ''pull-secret and SSH-key references must both be set'')
         else let hcKey = hostedClusterKey ref in
         bindE (orPending (getHC E hcKey) (available ''HostedCluster '' hcKey)
                  (''failed to get HostedCluster '' @ nn_string hcKey))
           (\<lambda>hc. if hcs_pullSecret (hc_spec hc) \<noteq> PullSecretCopyName cr
              then failE (errIgnitionSyncPending (''HostedCluster pull-secret reference is ''
                     @ Quote (hcs_pullSecret (hc_spec hc)) @ '', waiting for '' @ Quote (PullSecretCopyName cr)))
              else if hcs_sshKey (hc_spec hc) \<noteq> SSHKeyCopyName cr
              then failE (errIgnitionSyncPending (''HostedCluster SSH-key reference is ''
                     @ Quote (hcs_sshKey (hc_spec hc)) @ '', waiting for '' @ Quote (SSHKeyCopyName cr)))
              else let pullSecretKey = NN (om_namespace (hc_meta hc)) (hcs_pullSecret (hc_spec hc)) in
              bindE (orPending (getSecret E pullSecretKey) (available ''pull secret '' pullSecretKey)
                       (''failed to get pull secret '' @ nn_string pullSecretKey))
                (\<lambda>pullSecret. (case map_of (sec_data pullSecret) ''.dockerconfigjson'' of
                   None \<Rightarrow> failE (Errorf (''pull secret '' @ nn_string pullSecretKey @ '' is missing ''
                             @ Quote ''.dockerconfigjson''))
                 | Some data \<Rightarrow> currentToken E ref hc (hashPullSecret data)))))"

subsection \<open>Download\<close>

definition ignitionContainsSSHKey :: "env \<Rightarrow> string \<Rightarrow> string \<Rightarrow> goerror + bool" where
  "ignitionContainsSSHKey E ignitionBytes expectedSSHKey =
     (case k_unmarshalIgnition (cod E) ignitionBytes of
        Inl e \<Rightarrow> Inl (wrap ''failed to decode ignition while checking SSH-key sync'' e)
      | Inr config \<Rightarrow>
          Inr (list_ex (\<lambda>(user, keys). list_ex (\<lambda>k. TrimSpace k = TrimSpace expectedSSHKey) keys)
                 (ig_passwdUsers config)))"

definition getIgnitionEndpoint :: "env \<Rightarrow> ObjectReference \<Rightarrow> (goerror + string) io" where
  "getIgnitionEndpoint E ref =
     bindE (wrapE ''failed to get HostedCluster'' (getHC E (hostedClusterKey ref)))
       (\<lambda>hc. if hct_ignitionEndpoint (hc_status hc) = []
          then failE (Errorf ''ignition endpoint not available in HostedCluster status'')
          else pureE (Inr (hct_ignitionEndpoint (hc_status hc))))"

text \<open>
  The loop over the token candidates. \<open>strict\<close> carries the SSH key that must be in the answer; then
  there is one candidate and every failure ends the loop.
\<close>

fun tryTokens ::
    "env \<Rightarrow> string \<Rightarrow> string \<Rightarrow> string option \<Rightarrow> nat \<Rightarrow> string list \<Rightarrow> (goerror + string) io" where
  "tryTokens E url ca strict count [] =
     failE (Errorf (''all '' @ show_nat count @ '' token candidate(s) rejected by ignition server at '' @ url))"
| "tryTokens E url ca strict count (token # tokens) =
     (case k_newRequest (cod E) url of
        Some e \<Rightarrow> failE (wrap ''failed to create HTTP request'' e)
      | None \<Rightarrow> do {
          resp \<leftarrow> httpGet E url (''Bearer '' @ token) ca;
          (case resp of
             Inl e \<Rightarrow>
               (case strict of
                  Some _ \<Rightarrow> failE (errIgnitionSyncPending
                    (''ignition endpoint is not ready for the current token: '' @ err_msg e))
                | None \<Rightarrow> failE (wrap ''HTTP request failed'' e))
           | Inr (statusCode, body) \<Rightarrow>
               if statusCode = 200 then
                 (case body of
                    Inl readErr \<Rightarrow> failE (wrap ''failed to read ignition response body'' readErr)
                  | Inr bytes \<Rightarrow>
                      (case strict of
                         None \<Rightarrow> pureE (Inr bytes)
                       | Some expectedSSHKey \<Rightarrow>
                           (case ignitionContainsSSHKey E bytes expectedSSHKey of
                              Inl checkErr \<Rightarrow> failE checkErr
                            | Inr contains \<Rightarrow>
                                if \<not> contains then failE (errIgnitionSyncPending
                                  ''ignition endpoint has not propagated the current SSH key'')
                                else pureE (Inr bytes))))
               else (case strict of
                  Some _ \<Rightarrow> failE (errIgnitionSyncPending
                    (''current ignition token was rejected with HTTP status '' @ show_nat statusCode))
                | None \<Rightarrow> tryTokens E url ca strict count tokens))
        })"

definition strictCredentialSync :: "DPFHCPProvisioner \<Rightarrow> bool" where
  "strictCredentialSync cr \<longleftrightarrow> sp_pullSecretRef (cr_spec cr) \<noteq> [] \<or> sp_sshKeySecretRef (cr_spec cr) \<noteq> []"

definition tokenCandidates :: "env \<Rightarrow> ObjectReference \<Rightarrow> (goerror + string list \<times> string option) io" where
  "tokenCandidates E ref = with_cr (\<lambda>cr.
     if strictCredentialSync cr
     then bindE (getSynchronizedIgnitionToken E) (\<lambda>(token, sshKey). pureE (Inr ([token], Some sshKey)))
     else bindE (getIgnitionTokens E ref) (\<lambda>tokens. pureE (Inr (tokens, None))))"

text \<open>
  The callers have checked that the HostedCluster reference is set; without it the code would panic.
\<close>

definition downloadHCPIgnition :: "env \<Rightarrow> (goerror + string) io" where
  "downloadHCPIgnition E = with_cr (\<lambda>cr.
     case cr_hostedClusterRef cr of
       None \<Rightarrow> failE (panicError ''nil pointer dereference'')
     | Some ref \<Rightarrow>
         bindE (getIgnitionCACert E ref) (\<lambda>caCert.
         bindE (tokenCandidates E ref) (\<lambda>(tokens, strict).
         bindE (getIgnitionEndpoint E ref) (\<lambda>endpoint.
           if \<not> k_appendCerts (cod E) caCert then failE (Errorf ''failed to parse CA certificate'')
           else tryTokens E (''https://'' @ endpoint @ ''/ignition'') caCert strict (length tokens) tokens))))"

subsection \<open>The DPU flavor\<close>

definition fetchDPUDeployment :: "env \<Rightarrow> (goerror + DPUDeployment) io" where
  "fetchDPUDeployment E = with_cr (\<lambda>cr.
     case sp_dpuDeploymentRef (cr_spec cr) of
       None \<Rightarrow> failE (panicError ''nil pointer dereference'')
     | Some r \<Rightarrow> wrapE ''failed to get DPUDeployment''
                  (getDPUDeployment E (NN (ref_namespace r) (ref_name r))))"

definition derefName :: "string option \<Rightarrow> string" where
  "derefName p = (case p of None \<Rightarrow> [] | Some n \<Rightarrow> n)"

definition retrieveDPUFlavor :: "env \<Rightarrow> (goerror + DPUFlavor) io" where
  "retrieveDPUFlavor E = with_cr (\<lambda>cr.
     bindE (fetchDPUDeployment E) (\<lambda>dpuDeployment.
       let flavorName = derefName (dd_flavor dpuDeployment) in
       if flavorName = [] then failE (Errorf ''DPUDeployment.Spec.DPUs.Flavor is empty'')
       else (case sp_dpuDeploymentRef (cr_spec cr) of
               None \<Rightarrow> failE (panicError ''nil pointer dereference'')
             | Some r \<Rightarrow> wrapE (''failed to get DPUFlavor '' @ flavorName)
                          (getDPUFlavor E (NN (ref_namespace r) flavorName)))))"

subsection \<open>The two configurations\<close>

definition sumBind :: "goerror + 'a \<Rightarrow> ('a \<Rightarrow> goerror + 'b) \<Rightarrow> goerror + 'b" where
  "sumBind r f = (case r of Inl e \<Rightarrow> Inl e | Inr v \<Rightarrow> f v)"

definition sumWrap :: "string \<Rightarrow> goerror + 'a \<Rightarrow> goerror + 'a" where
  "sumWrap msg r = (case r of Inl e \<Rightarrow> Inl (wrap msg e) | Inr v \<Rightarrow> Inr v)"

definition bfbRegistryFile :: "string \<Rightarrow> IgnFile" where
  "bfbRegistryFile url = mkFile ''/etc/dpf/bfb-registry'' 420
     (plainResource (''data:,BFBRegistryURL='' @ url @ ''%0A''))"

definition buildTargetIgnition ::
    "env \<Rightarrow> string \<Rightarrow> DPUFlavor \<Rightarrow> string \<Rightarrow> nat \<Rightarrow> bool \<Rightarrow> string \<Rightarrow> goerror + IgnConfig" where
  "buildTargetIgnition E hcpIgnitionBytes flavor machineOSURL mtu zeroTrust bfbRegistryURL =
     sumBind (sumWrap ''failed to parse HCP ignition'' (k_unmarshalIgnition (cod E) hcpIgnitionBytes)) (\<lambda>i0.
     sumBind (sumWrap ''failed to replace machine OS URL'' (ReplaceMachineOSURL E i0 machineOSURL)) (\<lambda>i1.
     sumBind (sumWrap ''failed to add target content'' (AddContent E i1 (targetProvider E zeroTrust))) (\<lambda>i2.
     sumBind (sumWrap ''failed to render dpu-agent.service'' (RenderDPUAgentServiceUnit E zeroTrust)) (\<lambda>u.
     sumBind (sumWrap ''failed to add common content''
       (AddContent E (i2\<lparr>ig_units := ig_units i2 @ [mkUnit u]\<rparr>) (commonProvider E zeroTrust))) (\<lambda>i3.
     sumBind (sumWrap ''failed to merge flavor config files''
       (MergeFlavorConfigFiles E (AddFlavorOVSScript i3 flavor) flavor)) (\<lambda>i4.
     sumBind (sumWrap ''failed to add DPU flavor YAML'' (AddDPUFlavorYAML E i4 flavor)) (\<lambda>i5.
       let i6 = (if mtu \<noteq> 1500 then EnableMTU i5 mtu else i5)
       in Inr (if bfbRegistryURL \<noteq> [] then addFile (bfbRegistryFile bfbRegistryURL) i6 else i6))))))))"

definition targetFile :: "string \<Rightarrow> IgnFile" where
  "targetFile encodedTarget = mkFile ''/var/target.ign'' 420
     \<lparr>r_source = Some (''data:;base64,'' @ encodedTarget), r_compression = Some ''gzip''\<rparr>"

definition buildLiveIgnition ::
    "env \<Rightarrow> IgnConfig \<Rightarrow> string \<Rightarrow> DPUFlavor \<Rightarrow> bool \<Rightarrow> goerror + IgnConfig" where
  "buildLiveIgnition E targetIgnition hcpIgnitionBytes flavor zeroTrust =
     sumBind (sumWrap ''failed to parse HCP ignition for passwd'' (k_unmarshalIgnition (cod E) hcpIgnitionBytes)) (\<lambda>hcp.
       let l0 = NewEmptyIgnition ignitionVersion;
           l1 = (if ig_passwdUsers hcp \<noteq> [] \<or> ig_passwdGroups hcp \<noteq> []
                 then l0\<lparr>ig_passwdUsers := ig_passwdUsers hcp, ig_passwdGroups := ig_passwdGroups hcp\<rparr>
                 else l0) in
     sumBind (sumWrap ''failed to add live content'' (AddContent E l1 (liveProvider E zeroTrust))) (\<lambda>l2.
     sumBind (sumWrap ''failed to add common content'' (AddContent E l2 (commonProvider E zeroTrust))) (\<lambda>l3.
     sumBind (sumWrap ''failed to add DPU flavor JSON'' (AddDPUFlavorJSON E l3 flavor)) (\<lambda>l4.
     sumBind (sumWrap ''failed to encode target ignition'' (EncodeIgnition E targetIgnition)) (\<lambda>encodedTarget.
       Inr (addFile (targetFile encodedTarget) l4))))))"

subsection \<open>The registry of a zero-trust installation\<close>

fun firstInternalIP :: "Node list \<Rightarrow> string" where
  "firstInternalIP [] = []"
| "firstInternalIP (n # ns) =
     (let ip = (case List.find (\<lambda>(t, _). t = ''InternalIP'') (n_addresses n) of
                  None \<Rightarrow> [] | Some a \<Rightarrow> snd a)
      in if ip \<noteq> [] then ip else firstInternalIP ns)"

definition discoverRegistry :: "env \<Rightarrow> NamespacedName \<Rightarrow> (goerror + string) io" where
  "discoverRegistry E svcKey =
     bindE (wrapE (''failed to get bfb-registry service '' @ nn_string svcKey) (getService E svcKey)) (\<lambda>svc.
       (case List.find (\<lambda>p. p \<noteq> 0) (svc_nodePorts svc) of
          None \<Rightarrow> failE (Errorf (''bfb-registry service '' @ nn_string svcKey @ '' has no NodePort''))
        | Some nodePort \<Rightarrow>
            bindE (wrapE ''failed to list nodes'' (listNodes E)) (\<lambda>nodes.
              if firstInternalIP nodes = [] then failE (Errorf ''no node with InternalIP found'')
              else pureE (Inr (''http://'' @ firstInternalIP nodes @ '':'' @ show_int nodePort)))))"

definition resolveBFBRegistryURL :: "env \<Rightarrow> DPFOperatorConfig \<Rightarrow> (goerror + string) io" where
  "resolveBFBRegistryURL E cfg =
     (case oc_provisioningController cfg of
        None \<Rightarrow> failE (panicError ''nil pointer dereference'')
      | Some pc \<Rightarrow>
          let reg = pc_registry pc;
              lb = (case reg of None \<Rightarrow> [] | Some r \<Rightarrow> derefName (reg_loadBalancerAddress r));
              addr = (case reg of None \<Rightarrow> [] | Some r \<Rightarrow> derefName (reg_address r)) in
          if lb \<noteq> [] then pureE (Inr (TrimRight lb (CHR ''/'')))
          else if addr \<noteq> [] then pureE (Inr (TrimRight addr (CHR ''/'')))
          else discoverRegistry E (NN (oc_namespace cfg) ''bfb-registry''))"

subsection \<open>Publishing the ConfigMap\<close>

definition baseAnnotations :: "DPFHCPProvisioner \<Rightarrow> string \<Rightarrow> string gomap" where
  "baseAnnotations cr machineOSURL =
     [(BfcfgTemplateClusterNameAnnotation, ref_name (sp_dpuClusterRef (cr_spec cr))),
      (BfcfgTemplateClusterNamespaceAnnotation, ref_namespace (sp_dpuClusterRef (cr_spec cr))),
      (bfcfgTemplateMachineOSURLAnnotation, machineOSURL),
      (BfcfgTemplateOCPReleaseImageAnnotation, sp_ocpReleaseImage (cr_spec cr))]"

definition deploymentAnnotations :: "string \<Rightarrow> DPUDeployment \<Rightarrow> string gomap" where
  "deploymentAnnotations ns d =
     (if derefName (dd_bfb d) \<noteq> [] then [(BfcfgTemplateBFBNameAnnotation, derefName (dd_bfb d))] else [])
     @ [(BfcfgTemplateBFBNamespaceAnnotation, ns)]
     @ (if derefName (dd_flavor d) \<noteq> []
        then [(BfcfgTemplateDPUFlavorNameAnnotation, derefName (dd_flavor d))] else [])
     @ [(BfcfgTemplateDPUFlavorNamespaceAnnotation, ns)]"

definition ignitionAnnotations :: "env \<Rightarrow> string \<Rightarrow> (goerror + string gomap) io" where
  "ignitionAnnotations E machineOSURL = with_cr (\<lambda>cr.
     case sp_dpuDeploymentRef (cr_spec cr) of
       None \<Rightarrow> pureE (Inr (baseAnnotations cr machineOSURL))
     | Some r \<Rightarrow>
         bindE (wrapE ''failed to get DPUDeployment for BFB name'' (fetchDPUDeployment E)) (\<lambda>d.
           pureE (Inr (baseAnnotations cr machineOSURL @ deploymentAnnotations (ref_namespace r) d))))"

definition ignitionConfigMap :: "DPFHCPProvisioner \<Rightarrow> string gomap \<Rightarrow> string \<Rightarrow> ConfigMap" where
  "ignitionConfigMap cr annotations ignitionJSON =
     (let ns = ref_namespace (sp_dpuClusterRef (cr_spec cr));
          m = (newMeta ns (ConfigMapName (ref_name (sp_dpuClusterRef (cr_spec cr)))))
                \<lparr>om_labels := [(BfcfgTemplateLabel, ''true'')], om_annotations := annotations\<rparr>
      in \<lparr>cm_meta = (if cr_namespace cr = ns
                     then (case SetControllerReference (cr_meta cr) m of Inl e \<Rightarrow> m | Inr m' \<Rightarrow> m')
                     else m),
          cm_data = [(configMapKeyName, ignitionJSON @ nl)]\<rparr>)"

definition writeConfigMap :: "env \<Rightarrow> ConfigMap \<Rightarrow> (goerror + unit) io" where
  "writeConfigMap E cm = with_cr (\<lambda>cr. do {
     r \<leftarrow> getCM E (ignitionCMKey cr);
     (case r of
        Inl e \<Rightarrow>
          if IsNotFound e then do {
            w \<leftarrow> apiWrite E (CreateCM cm);
            State_Monad.return (case w of
              Some e \<Rightarrow> Inl (wrap ''failed to create ConfigMap'' e) | None \<Rightarrow> Inr ())
          } else failE (wrap ''failed to get ConfigMap'' e)
      | Inr existing \<Rightarrow> do {
          w \<leftarrow> apiWrite E (UpdateCM (existing\<lparr>cm_meta := (cm_meta existing)\<lparr>
                 om_labels := om_labels (cm_meta cm), om_annotations := om_annotations (cm_meta cm)\<rparr>,
                 cm_data := cm_data cm\<rparr>));
          State_Monad.return (case w of
            Some e \<Rightarrow> Inl (wrap ''failed to update ConfigMap'' e) | None \<Rightarrow> Inr ())
        })
   })"

definition createOrUpdateConfigMap :: "env \<Rightarrow> IgnConfig \<Rightarrow> string \<Rightarrow> (goerror + unit) io" where
  "createOrUpdateConfigMap E liveIgnition machineOSURL = with_cr (\<lambda>cr.
     bindE (pureE (sumWrap ''failed to marshal live ignition'' (MarshalJSON E liveIgnition))) (\<lambda>ignitionJSON.
     bindE (ignitionAnnotations E machineOSURL) (\<lambda>annotations.
       writeConfigMap E (ignitionConfigMap cr annotations ignitionJSON))))"

subsection \<open>The workflow\<close>

text \<open>\<^verbatim>\<open>uint16(*dpfOperatorConfig.Spec.Networking.ControlPlaneMTU)\<close>.\<close>

definition controlPlaneMTU :: "DPFOperatorConfig \<Rightarrow> goerror + nat" where
  "controlPlaneMTU cfg =
     (case oc_controlPlaneMTU cfg of
        Some (Some mtu) \<Rightarrow> Inr (nat (mtu mod 65536))
      | _ \<Rightarrow> Inl (panicError ''nil pointer dereference''))"

definition machineOSURLOf :: "DPFHCPProvisioner \<Rightarrow> string" where
  "machineOSURLOf cr =
     (if sp_machineOSURL (cr_spec cr) = [] then stt_blueFieldOCPLayerImage (cr_status cr)
      else sp_machineOSURL (cr_spec cr))"

definition requireMachineOSURL :: "(goerror + string) io" where
  "requireMachineOSURL = with_cr (\<lambda>cr.
     if machineOSURLOf cr = [] then do {
       _ \<leftarrow> setCondition (mkCond IgnitionConfigured ConditionFalse ReasonMachineOSURLMissing
              ''No machine OS URL available: status.cachedMachineOSURL, spec.machineOSURL, and status.blueFieldOCPLayerImage are all empty''
              (cr_generation cr));
       failE (Errorf ''no machine OS URL available: spec.machineOSURL is empty and status.blueFieldOCPLayerImage is not set'')
     } else pureE (Inr (machineOSURLOf cr)))"

text \<open>
  \<^verbatim>\<open>generateIgnition\<close> in three pieces: from the downloaded ignition to the compressed live configuration, without side
  effects (\<open>buildIgnition\<close>); from the downloaded ignition to the ConfigMap (\<open>publishIgnition\<close>); and
  the download in front of it (\<open>runGenerator\<close>).
\<close>

definition buildIgnition ::
    "env \<Rightarrow> string \<Rightarrow> DPUFlavor \<Rightarrow> string \<Rightarrow> nat \<Rightarrow> bool \<Rightarrow> string \<Rightarrow> goerror + IgnConfig" where
  "buildIgnition E hcp flavor url mtu zeroTrust registry =
     sumBind (sumWrap ''failed to build target ignition''
       (buildTargetIgnition E hcp flavor url mtu zeroTrust registry)) (\<lambda>target.
     sumBind (case ValidateConfig E target of
         Some e \<Rightarrow> Inl (wrap ''target ignition validation failed'' e) | None \<Rightarrow> Inr ()) (\<lambda>_.
     sumBind (sumWrap ''failed to gzip target ignition files'' (GzipIgnitionFiles E target)) (\<lambda>target'.
     sumWrap ''failed to build live ignition'' (buildLiveIgnition E target' hcp flavor zeroTrust))))"

definition publishIgnition :: "env \<Rightarrow> string \<Rightarrow> (goerror + unit) io" where
  "publishIgnition E hcp =
     bindE (wrapE ''failed to get DPFOperatorConfig'' (GetSingletonDPFOperatorConfig E)) (\<lambda>cfg.
     bindE (wrapE ''failed to retrieve DPU Flavor'' (retrieveDPUFlavor E)) (\<lambda>flavor.
     bindE (pureE (sumWrap ''failed to detect DPU mode'' (isZeroTrustMode cfg flavor))) (\<lambda>zeroTrust.
     bindE (pureE (controlPlaneMTU cfg)) (\<lambda>mtu.
     bindE requireMachineOSURL (\<lambda>url.
     bindE (if zeroTrust
            then wrapE ''failed to resolve bfb-registry URL for zero-trust mode'' (resolveBFBRegistryURL E cfg)
            else pureE (Inr [])) (\<lambda>registry.
     bindE (pureE (buildIgnition E hcp flavor url mtu zeroTrust registry)) (\<lambda>live.
       wrapE ''failed to create/update ConfigMap'' (createOrUpdateConfigMap E live url))))))))"

definition runGenerator :: "env \<Rightarrow> (goerror + unit) io" where
  "runGenerator E =
     bindE (wrapE ''failed to download HCP ignition'' (downloadHCPIgnition E)) (publishIgnition E)"

definition waitForSync :: "env \<Rightarrow> goerror \<Rightarrow> step_result io" where
  "waitForSync E err = with_cr (\<lambda>cr. do {
     _ \<leftarrow> setCondition (mkCond IgnitionConfigured ConditionFalse ReasonIgnitionCredentialSyncPending
            (err_msg err) (cr_generation cr));
     _ \<leftarrow> setCondition (mkCond Ready ConditionFalse ''IgnitionNotConfigured''
            ''Waiting for HyperShift to sync the current ignition configuration'' (cr_generation cr));
     w \<leftarrow> updateStatus E;
     State_Monad.return (case w of
       Some e \<Rightarrow> failed (wrap ''failed to update status while waiting for ignition sync'' e)
     | None \<Rightarrow> (After ignitionSyncRequeueAfter, None))
   })"

definition reportFailure :: "env \<Rightarrow> goerror \<Rightarrow> step_result io" where
  "reportFailure E err = with_cr (\<lambda>cr. do {
     _ \<leftarrow> setCondition (mkCond IgnitionConfigured ConditionFalse ReasonIgnitionGenerationFailed
            (''Failed to generate ignition: '' @ err_msg err) (cr_generation cr));
     w \<leftarrow> updateStatus E;
     (case w of
        Some e \<Rightarrow> State_Monad.return (failed (wrap ''failed to update status after ignition error'' e))
      | None \<Rightarrow> do {
          _ \<leftarrow> event EventTypeWarning ''IgnitionGenerationFailed'' (err_msg err);
          State_Monad.return (After 30, None)
        })
   })"

definition reportSuccess :: "env \<Rightarrow> step_result io" where
  "reportSuccess E = with_cr (\<lambda>cr. let cmName = ConfigMapName (ref_name (sp_dpuClusterRef (cr_spec cr))) in do {
     _ \<leftarrow> setCondition (mkCond IgnitionConfigured ConditionTrue ReasonIgnitionGenerated
            (''Ignition ConfigMap '' @ cmName @ '' created successfully'') (cr_generation cr));
     w \<leftarrow> updateStatus E;
     (case w of
        Some e \<Rightarrow> State_Monad.return (failed e)
      | None \<Rightarrow> do {
          _ \<leftarrow> event EventTypeNormal ''IgnitionConfigured''
                 (''Ignition ConfigMap '' @ cmName @ '' configured successfully'');
          State_Monad.return ok
        })
   })"

text \<open>\<^verbatim>\<open>GenerateIgnition\<close>; a panic unwinds to the controller runtime.\<close>

definition GenerateIgnition :: "env \<Rightarrow> step_result io" where
  "GenerateIgnition E = do {
     r \<leftarrow> runGenerator E;
     (case r of
        Inl err \<Rightarrow>
          if err_reason err = Panic then State_Monad.return (failed err)
          else if err_reason err = IgnitionSyncPending then waitForSync E err
          else reportFailure E err
      | Inr _ \<Rightarrow> reportSuccess E)
   }"


subsection \<open>Where the downloaded bytes come from\<close>

text \<open>
  The reads that justify a download, one predicate per object, each over the history in which the
  answers were given.
\<close>

definition sshKeyRead :: "env \<Rightarrow> HostedCluster \<Rightarrow> string \<Rightarrow> history \<Rightarrow> bool" where
  "sshKeyRead E hc sshKey h \<longleftrightarrow> (\<exists>sec.
     answered (\<lambda>h. a_getSecret (mgmt E) h (NN (om_namespace (hc_meta hc)) (hcs_sshKey (hc_spec hc))))
       (GetSecret (NN (om_namespace (hc_meta hc)) (hcs_sshKey (hc_spec hc)))) h (Inr sec)
     \<and> map_of (sec_data sec) ''id_rsa.pub'' = Some sshKey \<and> TrimSpace sshKey \<noteq> [])"

definition tokenRead :: "env \<Rightarrow> ObjectReference \<Rightarrow> HostedCluster \<Rightarrow> string \<Rightarrow> string \<Rightarrow> history \<Rightarrow> bool" where
  "tokenRead E ref hc hash token h \<longleftrightarrow> (\<exists>np sec.
     let npKey = NN (om_namespace (hc_meta hc)) (om_name (hc_meta hc));
         version = mget (om_annotations (np_meta np)) nodePoolCurrentConfigVersionAnnotation;
         key = tokenSecretKey ref np version in
     answered (\<lambda>h. a_getNP (mgmt E) h npKey) (GetNP npKey) h (Inr np) \<and> version \<noteq> []
     \<and> answered (\<lambda>h. a_getSecret (mgmt E) h key) (GetSecret key) h (Inr sec)
     \<and> map_of (sec_data sec) ignitionTokenKey = Some token
     \<and> mget (sec_data sec) tokenPullSecretHashKey = hash)"

definition synchronised ::
    "env \<Rightarrow> DPFHCPProvisioner \<Rightarrow> string \<Rightarrow> string \<Rightarrow> history \<Rightarrow> bool" where
  "synchronised E cr token sshKey h \<longleftrightarrow> (\<exists>ref hc sec data.
     cr_hostedClusterRef cr = Some ref
     \<and> answered (\<lambda>h. a_getHC (mgmt E) h (hostedClusterKey ref)) (GetHC (hostedClusterKey ref)) h (Inr hc)
     \<and> hcs_pullSecret (hc_spec hc) = PullSecretCopyName cr
     \<and> hcs_sshKey (hc_spec hc) = SSHKeyCopyName cr
     \<and> answered (\<lambda>h. a_getSecret (mgmt E) h (NN (om_namespace (hc_meta hc)) (PullSecretCopyName cr)))
         (GetSecret (NN (om_namespace (hc_meta hc)) (PullSecretCopyName cr))) h (Inr sec)
     \<and> map_of (sec_data sec) ''.dockerconfigjson'' = Some data
     \<and> tokenRead E ref hc (hashPullSecret data) token h
     \<and> sshKeyRead E hc sshKey h)"

text \<open>The bytes were served with status 200 for the synchronised token and carry the SSH key.\<close>

definition vouched :: "env \<Rightarrow> DPFHCPProvisioner \<Rightarrow> string \<Rightarrow> history \<Rightarrow> bool" where
  "vouched E cr bytes h \<longleftrightarrow> (\<exists>token sshKey url ca config.
     synchronised E cr token sshKey h
     \<and> answered (\<lambda>h. s_httpGet (srv E) h url (''Bearer '' @ base64Encode token) ca)
         (HttpGet url (''Bearer '' @ base64Encode token) ca) h (Inr (200, Inr bytes))
     \<and> k_unmarshalIgnition (cod E) bytes = Inr config
     \<and> (\<exists>(user, keys) \<in> set (ig_passwdUsers config). \<exists>k \<in> set keys. TrimSpace k = TrimSpace sshKey))"

lemma answered_issued: "answered r c h x \<Longrightarrow> issued P h h' \<Longrightarrow> answered r c h' x"
  unfolding issued_def by (auto intro: answered_later)

lemma sshKeyRead_issued: "sshKeyRead E hc k h \<Longrightarrow> issued P h h' \<Longrightarrow> sshKeyRead E hc k h'"
  unfolding sshKeyRead_def by (blast intro: answered_issued)

lemma tokenRead_issued: "tokenRead E ref hc hash tok h \<Longrightarrow> issued P h h' \<Longrightarrow> tokenRead E ref hc hash tok h'"
  unfolding tokenRead_def Let_def by (blast intro: answered_issued)

lemma synchronised_issued: "synchronised E cr tok k h \<Longrightarrow> issued P h h' \<Longrightarrow> synchronised E cr tok k h'"
  unfolding synchronised_def by (blast intro: answered_issued tokenRead_issued sshKeyRead_issued)

lemma synchronised_Cons: "synchronised E cr tok k h \<Longrightarrow> synchronised E cr tok k (c # h)"
  by (erule synchronised_issued [where P = "\<lambda>_. True"]) simp

lemma vouched_issued: "vouched E cr b h \<Longrightarrow> issued P h h' \<Longrightarrow> vouched E cr b h'"
  unfolding vouched_def by (blast intro: answered_issued synchronised_issued)

text \<open>\<open>only_reads m R\<close>: \<open>m\<close> keeps the resource, only adds requests, and its result satisfies \<open>R\<close>.\<close>

definition only_reads :: "'a io \<Rightarrow> (st \<Rightarrow> 'a \<Rightarrow> history \<Rightarrow> bool) \<Rightarrow> bool" where
  "only_reads m R \<longleftrightarrow> (\<forall>s. wp m (\<lambda>r t. st_cr t = st_cr s
     \<and> issued (\<lambda>c. \<not> is_write c) (st_history s) (st_history t) \<and> R s r (st_history t)) s)"

lemma only_readsD:
  "only_reads m R \<Longrightarrow> (\<And>r t. st_cr t = st_cr s \<Longrightarrow> issued (\<lambda>c. \<not> is_write c) (st_history s) (st_history t) \<Longrightarrow>
     R s r (st_history t) \<Longrightarrow> Q r t) \<Longrightarrow> wp m Q s"
  unfolding only_reads_def by (blast intro: wp_mono)

lemma issued_Cons_after: "issued P h h' \<Longrightarrow> P c \<Longrightarrow> issued P h (c # h')"
  by (blast intro: issued_trans issued_Cons)

lemma reads_Cons [simp]: "\<not> is_write c \<Longrightarrow> issued (\<lambda>c. \<not> is_write c) h h' \<Longrightarrow> issued (\<lambda>c. \<not> is_write c) h (c # h')"
  by (rule issued_Cons_after)

lemma reads_since: "issued (\<lambda>c. \<not> is_write c) (c # h) h' \<Longrightarrow> \<not> is_write c \<Longrightarrow> issued (\<lambda>c. \<not> is_write c) h h'"
  by (rule issued_Cons_before)

lemma reads_currentSSHKey:
  "only_reads (currentSSHKey E hc token) (\<lambda>s r h. \<forall>x k. r = Inr (x, k) \<longrightarrow>
     x = base64Encode token \<and> sshKeyRead E hc k h)"
  unfolding only_reads_def currentSSHKey_def
  by (auto simp: wp_simps sshKeyRead_def Let_def intro: answered_Cons split: sum.splits option.splits)

lemma reads_currentToken:
  "only_reads (currentToken E ref hc hash) (\<lambda>s r h. \<forall>x k. r = Inr (x, k) \<longrightarrow>
     (\<exists>token. x = base64Encode token \<and> tokenRead E ref hc hash token h \<and> sshKeyRead E hc k h))"
proof -
  have tok: "tokenRead E ref hc (mget (sec_data sec) tokenPullSecretHashKey) token h'"
    if "a_getNP (mgmt E) h (NN (om_namespace (hc_meta hc)) (om_name (hc_meta hc))) = Inr np"
      and "mget (om_annotations (np_meta np)) nodePoolCurrentConfigVersionAnnotation = v" "v \<noteq> []"
      and "a_getSecret (mgmt E) (GetNP (NN (om_namespace (hc_meta hc)) (om_name (hc_meta hc))) # h) (tokenSecretKey ref np v) = Inr sec"
      and "map_of (sec_data sec) ignitionTokenKey = Some token"
      and "issued P (GetSecret (tokenSecretKey ref np v) # GetNP (NN (om_namespace (hc_meta hc)) (om_name (hc_meta hc))) # h) h'"
    for np sec h h' v token P
    using that(6) by (rule tokenRead_issued [rotated])
      (use that(1-5) in \<open>auto simp: tokenRead_def Let_def intro!: exI [of _ np] exI [of _ sec] intro: answered_Cons answered_later1\<close>)
  show ?thesis
    unfolding only_reads_def currentToken_def
    apply (auto simp: wp_simps Let_def intro!: only_readsD [OF reads_currentSSHKey] split: sum.splits option.splits)
     apply (drule reads_since, simp, drule reads_since, simp, assumption)
    apply (rule exI, rule conjI, rule refl, rule tok, assumption, rule refl, assumption+)
    done
qed

lemma reads_getSynchronizedIgnitionToken:
  "only_reads (getSynchronizedIgnitionToken E) (\<lambda>s r h. \<forall>x k. r = Inr (x, k) \<longrightarrow>
     (\<exists>token. x = base64Encode token \<and> synchronised E (st_cr s) token k h))"
proof -
  have sync: "synchronised E cr token k h'"
    if "cr_hostedClusterRef cr = Some ref"
      and "a_getHC (mgmt E) h (hostedClusterKey ref) = Inr hc"
      and "hcs_pullSecret (hc_spec hc) = PullSecretCopyName cr" "hcs_sshKey (hc_spec hc) = SSHKeyCopyName cr"
      and "a_getSecret (mgmt E) (GetHC (hostedClusterKey ref) # h)
             (NN (om_namespace (hc_meta hc)) (PullSecretCopyName cr)) = Inr sec"
      and "map_of (sec_data sec) ''.dockerconfigjson'' = Some data"
      and "tokenRead E ref hc (hashPullSecret data) token h'" "sshKeyRead E hc k h'"
      and "issued (\<lambda>c. \<not> is_write c) (GetSecret (NN (om_namespace (hc_meta hc)) (PullSecretCopyName cr))
             # GetHC (hostedClusterKey ref) # h) h'"
    for cr ref hc sec data token k h h'
  proof -
    have "answered (\<lambda>h. a_getHC (mgmt E) h (hostedClusterKey ref)) (GetHC (hostedClusterKey ref)) h' (Inr hc)"
      using that(2) by (intro answered_issued [OF answered_later1 [OF answered_Cons] that(9)])
    moreover have "answered (\<lambda>h. a_getSecret (mgmt E) h (NN (om_namespace (hc_meta hc)) (PullSecretCopyName cr)))
        (GetSecret (NN (om_namespace (hc_meta hc)) (PullSecretCopyName cr))) h' (Inr sec)"
      using that(5) by (intro answered_issued [OF answered_Cons that(9)])
    ultimately show ?thesis unfolding synchronised_def using that by blast
  qed
  show ?thesis
    unfolding only_reads_def getSynchronizedIgnitionToken_def
    apply (auto simp: wp_simps Let_def intro!: only_readsD [OF reads_currentToken] split: sum.splits option.splits)
     apply (drule reads_since, simp, drule reads_since, simp, assumption)
    apply (rule exI, rule conjI, rule refl, rule sync, assumption+)
    done
qed

lemma tryTokens_strict:
  "only_reads (tryTokens E url ca (Some k) count [x]) (\<lambda>s r h. \<forall>b. r = Inr b \<longrightarrow>
     answered (\<lambda>h. s_httpGet (srv E) h url (''Bearer '' @ x) ca) (HttpGet url (''Bearer '' @ x) ca) h
       (Inr (200, Inr b))
     \<and> ignitionContainsSSHKey E b k = Inr True)"
  unfolding only_reads_def
  by (auto simp: wp_simps intro: answered_Cons split: sum.splits option.splits if_splits prod.splits)

lemma vouchedI:
  assumes "synchronised E cr token k h"
    and "answered (\<lambda>h. s_httpGet (srv E) h url (''Bearer '' @ base64Encode token) ca)
         (HttpGet url (''Bearer '' @ base64Encode token) ca) h (Inr (200, Inr b))"
    and "ignitionContainsSSHKey E b k = Inr True"
  shows "vouched E cr b h"
proof -
  obtain config where "k_unmarshalIgnition (cod E) b = Inr config"
    "\<exists>(user, keys) \<in> set (ig_passwdUsers config). \<exists>x \<in> set keys. TrimSpace x = TrimSpace k"
    using assms(3) by (auto simp: ignitionContainsSSHKey_def list_ex_iff split: sum.splits)
  then show ?thesis using assms(1,2) unfolding vouched_def by blast
qed

lemma reads_downloadHCPIgnition:
  assumes "strictCredentialSync (st_cr s)"
  shows "wp (downloadHCPIgnition E) (\<lambda>r t. st_cr t = st_cr s
    \<and> issued (\<lambda>c. \<not> is_write c) (st_history s) (st_history t)
    \<and> (\<forall>b. r = Inr b \<longrightarrow> vouched E (st_cr s) b (st_history t))) s"
proof -
  have fetch: "wp (tryTokens E url ca (Some k) n [base64Encode token]) (\<lambda>r t. st_cr t = st_cr s
      \<and> issued (\<lambda>c. \<not> is_write c) (st_history s) (st_history t)
      \<and> (\<forall>b. r = Inr b \<longrightarrow> vouched E (st_cr s) b (st_history t))) t"
    if "st_cr t = st_cr s" "issued (\<lambda>c. \<not> is_write c) (st_history s) (st_history t)"
      "synchronised E (st_cr s) token k (st_history t)" for url ca k token t n
    by (rule only_readsD [OF tryTokens_strict])
      (use that in \<open>simp del: append.simps, blast intro: vouchedI issued_trans synchronised_issued\<close>)
  show ?thesis
    unfolding downloadHCPIgnition_def getIgnitionCACert_def tokenCandidates_def getIgnitionEndpoint_def
    using assms
    apply (auto simp: wp_simps Let_def simp del: tryTokens.simps intro!: only_readsD [OF reads_getSynchronizedIgnitionToken] fetch
        split: sum.splits option.splits)
        apply (drule reads_since; simp add: synchronised_Cons)+
    done
qed

subsection \<open>What is published\<close>

fun writtenCM :: "call \<Rightarrow> ConfigMap option" where
  "writtenCM (CreateCM cm) = Some cm"
| "writtenCM (UpdateCM cm) = Some cm"
| "writtenCM _ = None"

lemma writtenCM_read: "\<not> is_write c \<Longrightarrow> writtenCM c = None"
  by (cases c) auto

text \<open>The ConfigMap holds the live ignition that was built from \<open>bytes\<close>, and nothing else.\<close>

definition holdsIgnition :: "env \<Rightarrow> string \<Rightarrow> ConfigMap \<Rightarrow> bool" where
  "holdsIgnition E bytes cm \<longleftrightarrow> (\<exists>flavor url mtu zeroTrust registry live json.
     buildIgnition E bytes flavor url mtu zeroTrust registry = Inr live
     \<and> MarshalJSON E live = Inr json \<and> cm_data cm = [(configMapKeyName, json @ nl)])"

lemma bindE_pureE: "bindE (pureE r) f = (case r of Inl e \<Rightarrow> failE e | Inr v \<Rightarrow> f v)"
  by (cases r) (simp_all add: bindE_def pureE_def failE_def)

lemma footprint_writeConfigMap [footprint_intros]:
  assumes "\<And>k. P (GetCM k)" and "P (CreateCM cm)" and "\<And>x. cm_data x = cm_data cm \<Longrightarrow> P (UpdateCM x)"
  shows "footprint M S W P (writeConfigMap E cm)"
  unfolding writeConfigMap_def by (intro footprint_intros assms) simp

lemma footprint_publishing [footprint_intros]:
  "(\<And>k. P (GetDPUDeployment k)) \<Longrightarrow> footprint M S W P (fetchDPUDeployment E)"
  "(\<And>k. P (GetDPUDeployment k)) \<Longrightarrow> (\<And>k. P (GetDPUFlavor k)) \<Longrightarrow> footprint M S W P (retrieveDPUFlavor E)"
  "(\<And>k. P (GetDPUDeployment k)) \<Longrightarrow> footprint M S W P (ignitionAnnotations E url)"
  "P ListDPFOperatorConfigs \<Longrightarrow> footprint M S W P (GetSingletonDPFOperatorConfig E)"
  "CondSlot IgnitionConfigured \<in> W \<Longrightarrow> footprint M S W P requireMachineOSURL"
  "(\<And>k. P (GetService k)) \<Longrightarrow> P ListNodes \<Longrightarrow> footprint M S W P (resolveBFBRegistryURL E cfg)"
  unfolding fetchDPUDeployment_def retrieveDPUFlavor_def ignitionAnnotations_def requireMachineOSURL_def
    resolveBFBRegistryURL_def discoverRegistry_def Let_def GetSingletonDPFOperatorConfig_def
  by (intro footprint_intros; simp)+

lemma footprint_publishIgnition:
  "footprint M S {CondSlot IgnitionConfigured}
     (\<lambda>c. \<forall>cm. writtenCM c = Some cm \<longrightarrow> holdsIgnition E bytes cm) (publishIgnition E bytes)"
  unfolding publishIgnition_def createOrUpdateConfigMap_def bindE_pureE
  by (intro footprint_intros) (auto simp: holdsIgnition_def ignitionConfigMap_def Let_def sumWrap_def split: sum.splits, blast+)

definition yields :: "(goerror + 'a) io \<Rightarrow> (st \<Rightarrow> bool) \<Rightarrow> bool" where
  "yields m R \<longleftrightarrow> (\<forall>s. wp m (\<lambda>r t. \<forall>v. r = Inr v \<longrightarrow> R t) s)"

lemma yields_E:
  "(\<And>v. yields (f v) R) \<Longrightarrow> yields (bindE m f) R"
  "yields m' R \<Longrightarrow> yields (wrapE msg m') R"
  "yields (failE e) R"
  "(\<And>c. yields (g c) R) \<Longrightarrow> yields (with_cr g) R"
  unfolding yields_def
     apply (simp add: wp_simps) apply (rule allI, rule wp_runI) apply (simp split: sum.splits)
    apply (simp add: wp_simps) apply (rule allI, erule allE, erule wp_mono) apply (simp split: sum.splits)
   apply (simp_all add: wp_simps)
  done

text \<open>The last request of a successful run wrote the ConfigMap, and the server accepted it.\<close>

definition published :: "env \<Rightarrow> history \<Rightarrow> bool" where
  "published E h \<longleftrightarrow> (\<exists>c cm. writtenCM c = Some cm \<and> answered (\<lambda>h. a_write (mgmt E) h c) c h None)"

lemma published_later1: "published E h \<Longrightarrow> published E (c # h)"
  unfolding published_def by (blast intro: answered_later1)

lemma published_Cons: "a_write (mgmt E) h c = None \<Longrightarrow> writtenCM c = Some cm \<Longrightarrow> published E (c # h)"
  unfolding published_def by (blast intro: answered_Cons)

lemma yields_writeConfigMap: "yields (writeConfigMap E cm) (\<lambda>t. published E (st_history t))"
  unfolding yields_def writeConfigMap_def
  by (auto simp: wp_simps intro: published_Cons split: sum.splits option.splits)

lemma yields_runGenerator: "yields (runGenerator E) (\<lambda>t. published E (st_history t))"
  unfolding runGenerator_def publishIgnition_def createOrUpdateConfigMap_def
  by (intro yields_E yields_writeConfigMap)

lemma footprint_reporting [footprint_intros]:
  assumes "CondSlot IgnitionConfigured \<in> W" and "CondSlot Ready \<in> W" and "\<And>ty r m. P (Event ty r m)"
    and "\<And>c. cr_meta c = M \<Longrightarrow> cr_spec c = S \<Longrightarrow> P (UpdateCRStatus c)"
  shows "footprint M S W P (waitForSync E e)" and "footprint M S W P (reportFailure E e)"
    and "footprint M S W P (reportSuccess E)"
  unfolding waitForSync_def reportFailure_def reportSuccess_def Let_def
  by (intro footprint_intros; use assms in simp)+

lemma footprint_tryTokens [footprint_intros]:
  assumes "\<And>u a c. P (HttpGet u a c)"
  shows "footprint M S W P (tryTokens E url ca strict n tokens)"
  by (induction tokens) (auto intro!: footprint_intros assms)

lemma footprint_downloadHCPIgnition [footprint_intros]:
  assumes "\<And>k. P (GetSecret k)" "\<And>n l. P (ListSecrets n l)" "\<And>k. P (GetHC k)" "\<And>k. P (GetNP k)"
    "\<And>u a c. P (HttpGet u a c)"
  shows "footprint M S W P (downloadHCPIgnition E)"
  unfolding downloadHCPIgnition_def getIgnitionCACert_def tokenCandidates_def getIgnitionTokens_def
    getSynchronizedIgnitionToken_def currentToken_def currentSSHKey_def getIgnitionEndpoint_def Let_def
  by (intro footprint_intros assms)

text \<open>
  Everything the generator sends: reads, the ConfigMap of the DPU cluster, the status and events.
\<close>

fun generatorRequest :: "ObjectMeta \<Rightarrow> DPFHCPProvisionerSpec \<Rightarrow> call \<Rightarrow> bool" where
  "generatorRequest M S (UpdateCRStatus c) = (cr_meta c = M \<and> cr_spec c = S)"
| "generatorRequest M S (CreateCM cm) = True"
| "generatorRequest M S (UpdateCM cm) = True"
| "generatorRequest M S c = (\<not> is_write c)"

lemma footprint_publishIgnition_requests:
  "footprint M S {CondSlot IgnitionConfigured, CondSlot Ready} (generatorRequest M S) (publishIgnition E b)"
  unfolding publishIgnition_def createOrUpdateConfigMap_def by (intro footprint_intros) simp_all

interpretation generator: reconcile_step GenerateIgnition
  "{CondSlot IgnitionConfigured, CondSlot Ready}" generatorRequest
  by unfold_locales
    (unfold GenerateIgnition_def runGenerator_def, intro footprint_intros footprint_publishIgnition_requests, simp_all)

subsection \<open>Properties\<close>

text \<open>
  \<open>vouchedTrace E cr h h'\<close>: between the histories \<open>h\<close> and \<open>h'\<close>, every ConfigMap that is written
  holds ignition which had been vouched for before.
\<close>

definition vouchedTrace :: "env \<Rightarrow> DPFHCPProvisioner \<Rightarrow> history \<Rightarrow> history \<Rightarrow> bool" where
  "vouchedTrace E cr h h' \<longleftrightarrow> (\<exists>b mid. issued (\<lambda>c. writtenCM c = None) h mid
     \<and> issued (\<lambda>c. \<forall>cm. writtenCM c = Some cm \<longrightarrow> vouched E cr b mid \<and> holdsIgnition E b cm) mid h')"

lemma vouchedTrace_none: "issued (\<lambda>c. writtenCM c = None) h h' \<Longrightarrow> vouchedTrace E cr h h'"
  unfolding vouchedTrace_def by (intro exI [of _ "[]"] exI [of _ h']) simp

lemma vouchedTrace_publish:
  assumes "issued (\<lambda>c. writtenCM c = None) h mid" and "vouched E cr b mid"
    and "issued (\<lambda>c. \<forall>cm. writtenCM c = Some cm \<longrightarrow> holdsIgnition E b cm) mid h'"
  shows "vouchedTrace E cr h h'"
  unfolding vouchedTrace_def
  by (intro exI [of _ b] exI [of _ mid] conjI assms(1) issued_mono [OF _ assms(3)]) (simp add: assms(2))

lemma vouchedTrace_later:
  assumes "vouchedTrace E cr h h'" and "issued (\<lambda>c. writtenCM c = None) h' h''"
  shows "vouchedTrace E cr h h''"
proof -
  obtain b mid where "issued (\<lambda>c. writtenCM c = None) h mid"
    "issued (\<lambda>c. \<forall>cm. writtenCM c = Some cm \<longrightarrow> vouched E cr b mid \<and> holdsIgnition E b cm) mid h'"
    using assms(1) unfolding vouchedTrace_def by blast
  moreover have "issued (\<lambda>c. \<forall>cm. writtenCM c = Some cm \<longrightarrow> vouched E cr b mid \<and> holdsIgnition E b cm) h' h''"
    by (rule issued_mono [OF _ assms(2)]) simp
  ultimately show ?thesis unfolding vouchedTrace_def by (blast intro: issued_trans)
qed

lemma vouchedTrace_split:
  assumes "vouchedTrace E cr h h'" and "h' = later @ c # mid @ h" and "writtenCM c = Some cm"
  shows "\<exists>b. vouched E cr b (mid @ h) \<and> holdsIgnition E b cm"
proof -
  obtain b m where m: "issued (\<lambda>c. writtenCM c = None) h m"
    "issued (\<lambda>c. \<forall>cm. writtenCM c = Some cm \<longrightarrow> vouched E cr b m \<and> holdsIgnition E b cm) m h'"
    using assms(1) unfolding vouchedTrace_def by blast
  then obtain xs ys where xs: "m = xs @ h" "\<forall>c \<in> set xs. writtenCM c = None"
    and ys: "h' = ys @ m" "\<forall>c \<in> set ys. \<forall>cm. writtenCM c = Some cm \<longrightarrow> vouched E cr b m \<and> holdsIgnition E b cm"
    unfolding issued_def by blast
  have eq: "later @ c # mid = ys @ xs" using assms(2) xs(1) ys(1) by simp
  then consider us where "later @ [c] @ us = ys" "mid = us @ xs" | us where "xs = us @ c # mid"
    by (auto simp: append_eq_append_conv2 Cons_eq_append_conv)
  then show ?thesis
  proof cases
    case 1
    then have "vouched E cr b m" "holdsIgnition E b cm" using ys(2) assms(3) by auto
    moreover have "issued (\<lambda>_. True) m (us @ m)" by (auto simp: issued_def)
    ultimately show ?thesis using vouched_issued 1(2) xs(1) by (metis append.assoc)
  next
    case 2
    then show ?thesis using xs(2) assms(3) by auto
  qed
qed

lemma wp_runGenerator_strict:
  assumes "strictCredentialSync (st_cr s)"
  shows "wp (runGenerator E) (\<lambda>r t. vouchedTrace E (st_cr s) (st_history s) (st_history t)) s"
  unfolding runGenerator_def wp_bindE wp_wrapE
  using reads_downloadHCPIgnition [OF assms]
proof (rule wp_mono, goal_cases)
  case (1 r t)
  then have none: "issued (\<lambda>c. writtenCM c = None) (st_history s) (st_history t)"
    using issued_mono [of "\<lambda>c. \<not> is_write c" "\<lambda>c. writtenCM c = None", OF writtenCM_read] by blast
  have "wp (publishIgnition E b) (\<lambda>r u. vouchedTrace E (st_cr s) (st_history s) (st_history u)) t"
    if "vouched E (st_cr s) b (st_history t)" for b
    using footprintD [OF footprint_publishIgnition refl refl]
    by (rule wp_mono) (use vouchedTrace_publish [OF none that] in blast)
  then show ?case using 1 vouchedTrace_none [OF none] by (cases r) simp_all
qed

lemma wp_GenerateIgnition_strict:
  assumes "strictCredentialSync (st_cr s)"
  shows "wp (GenerateIgnition E) (\<lambda>r t. vouchedTrace E (st_cr s) (st_history s) (st_history t)) s"
proof -
  have later: "wp m (\<lambda>r u. vouchedTrace E (st_cr s) (st_history s) (st_history u)) t"
    if "vouchedTrace E (st_cr s) (st_history s) (st_history t)"
      "\<And>M S. footprint M S UNIV (\<lambda>c. writtenCM c = None) m" for m :: "step_result io" and t
    using footprintD [OF that(2) refl refl] by (rule wp_mono) (use vouchedTrace_later [OF that(1)] in blast)
  show ?thesis
    unfolding GenerateIgnition_def wp_bind
    using wp_runGenerator_strict [OF assms]
    by (rule wp_mono) (auto intro!: later footprint_intros split: sum.splits)
qed


text \<open>A hosted cluster whose credentials are in sync and whose endpoint serves a configuration.\<close>

definition hcpConfig :: IgnConfig where
  "hcpConfig = (addFile (mkFile machineConfigPath 420 (plainResource ''data:,o'')) (NewEmptyIgnition ''3.4.0''))
     \<lparr>ig_passwdUsers := [(''core'', [''key''])]\<rparr>"

definition syncedCR :: DPFHCPProvisioner where
  "syncedCR = upCR\<lparr>cr_spec := (cr_spec upCR)\<lparr>sp_machineOSURL := ''new'',
     sp_dpuDeploymentRef := Some \<lparr>ref_name = ''dep'', ref_namespace = ''dpf''\<rparr>\<rparr>\<rparr>"

definition syncedHC :: HostedCluster where
  "syncedHC = (upHC [] [])\<lparr>hc_spec := (hc_spec (upHC [] []))\<lparr>hcs_pullSecret := PullSecretCopyName syncedCR,
       hcs_sshKey := SSHKeyCopyName syncedCR\<rparr>,
     hc_status := (hc_status (upHC [] []))\<lparr>hct_ignitionEndpoint := ''ign.example.com''\<rparr>\<rparr>"

text \<open>One secret that carries every key; HyperShift stores the hash of the pull secret next to the token.\<close>

definition syncedSecret :: Secret where
  "syncedSecret = \<lparr>sec_meta = newMeta ''clusters'' ''s'', sec_type = [],
     sec_data = [(''tls.crt'', ''ca''), (''.dockerconfigjson'', ''{}''), (''token'', ''tok''),
       (''pull-secret-hash'', hashPullSecret ''{}''), (''id_rsa.pub'', ''key'')]\<rparr>"

definition dpuFlavor :: DPUFlavor where
  "dpuFlavor = \<lparr>df_meta = newMeta ''dpf'' ''f'', df_dpuMode = ''dpu'', df_ovsScript = [],
     df_configFiles = [], df_rest = []\<rparr>"

definition currentNodePool :: NodePool where
  "currentNodePool = \<lparr>np_meta = (newMeta ''clusters'' ''hcp'')\<lparr>om_annotations :=
       [(nodePoolCurrentConfigVersionAnnotation, ''v1'')]\<rparr>,
     np_clusterName = ''hcp'', np_replicas = 0, np_upgradeType = [], np_platform = [], np_releaseImage = []\<rparr>"

definition hostTrustedConfig :: DPFOperatorConfig where
  "hostTrustedConfig = \<lparr>oc_namespace = ''dpf'', oc_version = None, oc_deploymentMode = [],
     oc_controlPlaneMTU = Some (Some 1500), oc_provisioningController = None\<rparr>"

definition syncedEnv :: "HostedCluster \<Rightarrow> Secret \<Rightarrow> env" where
  "syncedEnv hc sec = emptyEnv\<lparr>
     mgmt := emptyMgmt\<lparr>a_getHC := \<lambda>_ _. Inr hc, a_getSecret := \<lambda>_ _. Inr sec,
       a_getNP := \<lambda>_ _. Inr currentNodePool,
       a_getDPUDeployment := \<lambda>_ _. Inr \<lparr>dd_meta = newMeta ''dpf'' ''dep'', dd_flavor = Some ''f'', dd_bfb = None\<rparr>,
       a_getDPUFlavor := \<lambda>_ _. Inr dpuFlavor,
       a_listDPFOperatorConfigs := \<lambda>_. Inr [hostTrustedConfig]\<rparr>,
     srv := emptyServices\<lparr>s_httpGet := \<lambda>_ _ _ _. Inr (200, Inr ''ign'')\<rparr>,
     cod := emptyCodecs\<lparr>k_unmarshalIgnition := \<lambda>_. Inr hcpConfig,
       k_unmarshalJSON := \<lambda>t. Inr (if t = ''o'' then machineJSON ''old'' else JObj []),
       k_gzip := \<lambda>_. Inr []\<rparr>\<rparr>"


lemma synced_builds: "\<not> isl (buildIgnition (syncedEnv hc sec) ''ign'' dpuFlavor ''new'' 1500 False [])"
  by code_simp

lemma synced_marshals: "MarshalJSON (syncedEnv hc sec) live = Inr []"
  by (simp add: MarshalJSON_def stripEmptyObjects_def asObject_def syncedEnv_def emptyCodecs_def)

lemma synced_answers:
  "a_getHC (mgmt (syncedEnv hc sec)) h k = Inr hc"
  "a_getSecret (mgmt (syncedEnv hc sec)) h k = Inr sec"
  "a_getNP (mgmt (syncedEnv hc sec)) h k = Inr currentNodePool"
  "a_getDPUDeployment (mgmt (syncedEnv hc sec)) h k
     = Inr \<lparr>dd_meta = newMeta ''dpf'' ''dep'', dd_flavor = Some ''f'', dd_bfb = None\<rparr>"
  "a_getDPUFlavor (mgmt (syncedEnv hc sec)) h k = Inr dpuFlavor"
  "a_listDPFOperatorConfigs (mgmt (syncedEnv hc sec)) h = Inr [hostTrustedConfig]"
  "a_getCM (mgmt (syncedEnv hc sec)) h k = Inl notFoundErr"
  "a_write (mgmt (syncedEnv hc sec)) h c = None"
  "s_httpGet (srv (syncedEnv hc sec)) h url auth ca = Inr (200, Inr ''ign'')"
  "k_unmarshalIgnition (cod (syncedEnv hc sec)) t = Inr hcpConfig"
  "k_newRequest (cod (syncedEnv hc sec)) url = None"
  "k_appendCerts (cod (syncedEnv hc sec)) ca"
  by (simp_all add: syncedEnv_def env_defs)

lemma wp_synced:
  "wp (GenerateIgnition (syncedEnv syncedHC syncedSecret)) (\<lambda>r t. r = ok \<and>
     (\<exists>later cm mid. st_history t = later @ CreateCM cm # mid)) (startState syncedCR)"
proof -
  obtain live where live: "buildIgnition (syncedEnv syncedHC syncedSecret) ''ign'' dpuFlavor ''new'' 1500 False []
      = Inr live"
    using synced_builds [of syncedHC syncedSecret] by (cases "buildIgnition (syncedEnv syncedHC syncedSecret) ''ign'' dpuFlavor ''new'' 1500 False []") auto
  have key: "TrimSpace ''key'' = ''key''" by code_simp
  have mode: "isZeroTrustMode hostTrustedConfig dpuFlavor = Inr False" by code_simp
  have cr: "strictCredentialSync syncedCR" "sp_pullSecretRef (cr_spec syncedCR) \<noteq> []" "sp_sshKeySecretRef (cr_spec syncedCR) \<noteq> []"
    "machineOSURLOf syncedCR = ''new''" "sp_dpuDeploymentRef (cr_spec syncedCR) = Some \<lparr>ref_name = ''dep'', ref_namespace = ''dpf''\<rparr>"
    by code_simp+
  obtain ref where ref: "cr_hostedClusterRef syncedCR = Some ref"
    by (simp add: syncedCR_def upCR_def)
  have hc: "hcs_pullSecret (hc_spec syncedHC) = PullSecretCopyName syncedCR" "hcs_sshKey (hc_spec syncedHC) = SSHKeyCopyName syncedCR"
    "hct_ignitionEndpoint (hc_status syncedHC) = ''ign.example.com''"
    by (simp_all add: syncedHC_def)
  have np: "mget (om_annotations (np_meta currentNodePool)) nodePoolCurrentConfigVersionAnnotation = ''v1''"
    by (simp add: currentNodePool_def mget_def newMeta_def)
  have sec: "map_of (sec_data syncedSecret) ''tls.crt'' = Some ''ca''" "map_of (sec_data syncedSecret) ''.dockerconfigjson'' = Some ''{}''"
    "map_of (sec_data syncedSecret) ignitionTokenKey = Some ''tok''" "mget (sec_data syncedSecret) tokenPullSecretHashKey = hashPullSecret ''{}''"
    "map_of (sec_data syncedSecret) ''id_rsa.pub'' = Some ''key''"
    by (simp_all add: syncedSecret_def ignitionTokenKey_def tokenPullSecretHashKey_def mget_def)
  have key': "ignitionContainsSSHKey (syncedEnv syncedHC syncedSecret) ''ign'' ''key'' = Inr True"
    by (simp add: ignitionContainsSSHKey_def synced_answers hcpConfig_def)
  have mtu: "controlPlaneMTU hostTrustedConfig = Inr 1500" by (simp add: controlPlaneMTU_def hostTrustedConfig_def)
  have nf: "IsNotFound notFoundErr" by (simp add: IsNotFound_def notFoundErr_def)
  have 1: "wp (downloadHCPIgnition (syncedEnv syncedHC syncedSecret)) (\<lambda>r t. r = Inr ''ign'' \<and> st_cr t = syncedCR) (startState syncedCR)"
    unfolding downloadHCPIgnition_def getIgnitionCACert_def tokenCandidates_def
      getSynchronizedIgnitionToken_def currentToken_def currentSSHKey_def getIgnitionEndpoint_def
    by (simp add: wp_simps Let_def synced_answers key key' cr hc np sec ref)
  have 2: "wp (publishIgnition (syncedEnv syncedHC syncedSecret) ''ign'') (\<lambda>r t. r = Inr () \<and> st_cr t = syncedCR
      \<and> (\<exists>cm mid. st_history t = CreateCM cm # mid)) t" if "st_cr t = syncedCR" for t
    unfolding publishIgnition_def
      GetSingletonDPFOperatorConfig_def retrieveDPUFlavor_def fetchDPUDeployment_def requireMachineOSURL_def
      createOrUpdateConfigMap_def ignitionAnnotations_def writeConfigMap_def
    by (simp add: wp_simps Let_def synced_answers synced_marshals live mode mtu cr nf sumWrap_def derefName_def that)
  have 3: "wp (reportSuccess (syncedEnv syncedHC syncedSecret)) (\<lambda>r t. r = ok \<and>
      (\<exists>later cm mid. st_history t = later @ CreateCM cm # mid)) t"
    if "\<exists>cm mid. st_history t = CreateCM cm # mid" for t
    using that unfolding reportSuccess_def
    by (auto simp: wp_simps Let_def synced_answers) (metis append_Cons append_Nil)
  show ?thesis
    unfolding GenerateIgnition_def runGenerator_def wp_bind wp_bindE wp_wrapE
    by (rule wp_mono [OF 1]) (auto intro!: wp_mono [OF 2] 3)
qed


text \<open>The requests and outcomes of the three reports.\<close>

definition persisted :: "env \<Rightarrow> st \<Rightarrow> bool" where
  "persisted E s \<longleftrightarrow> answered (\<lambda>h. a_write (mgmt E) h (UpdateCRStatus (st_cr s))) (UpdateCRStatus (st_cr s))
     (st_history s) None"

definition statusRejected :: "env \<Rightarrow> st \<Rightarrow> bool" where
  "statusRejected E s \<longleftrightarrow> (\<exists>e. answered (\<lambda>h. a_write (mgmt E) h (UpdateCRStatus (st_cr s))) (UpdateCRStatus (st_cr s))
     (st_history s) (Some e))"

definition ignitionVerdict :: "DPFHCPProvisioner \<Rightarrow> ConditionStatus \<Rightarrow> string \<Rightarrow> bool" where
  "ignitionVerdict cr v reason \<longleftrightarrow>
     (\<exists>n. findCond cr IgnitionConfigured = Some n \<and> c_status n = v \<and> c_reason n = reason
          \<and> c_observedGeneration n = cr_generation cr)"

fun generated :: "env \<Rightarrow> step_result \<Rightarrow> st \<Rightarrow> bool" where
  "generated E (res, Some e) s = (res = Done \<and> (err_reason e = Panic \<or> statusRejected E s))"
| "generated E (res, None) s = (persisted E s \<and>
     (res = Done \<and> ignitionVerdict (st_cr s) ConditionTrue ReasonIgnitionGenerated \<and> published E (st_history s)
      \<or> res = After 10 \<and> ignitionVerdict (st_cr s) ConditionFalse ReasonIgnitionCredentialSyncPending
          \<and> condFalse (st_cr s) Ready
      \<or> res = After 30 \<and> ignitionVerdict (st_cr s) ConditionFalse ReasonIgnitionGenerationFailed))"

lemma rejected_Cons: "r h \<noteq> None \<Longrightarrow> \<exists>e. answered r c (c # h) (Some e)"
  by (auto intro: answered_Cons)

lemma wp_reports:
  "wp (waitForSync E e) (generated E) s"
  "wp (reportFailure E e) (generated E) s"
  "published E (st_history s) \<Longrightarrow> wp (reportSuccess E) (generated E) s"
  unfolding waitForSync_def reportFailure_def reportSuccess_def
  by (simp_all add: wp_simps Let_def persisted_def statusRejected_def ignitionVerdict_def ok_def failed_def
      ignitionSyncRequeueAfter_def condFalse_putCond findCond_putCond IgnitionConfigured_def Ready_def answered_Cons answered_later1 rejected_Cons
      published_later1 Done_def After_def split: option.splits)

text \<open>
  C12: Every run of the generator ends in one of four ways. It is done: the ConfigMap was written and
  accepted, and the condition says so for the current generation. It asks to be called again after
  ten seconds: the credentials are not in sync yet, recorded as such, and Ready is False. It asks to
  be called again after thirty seconds: generation failed, recorded as such, whatever the cause was
  (a missing machine OS URL included). In these three cases exactly the status in memory was accepted
  by the API server. Otherwise it returns an error: the status write was rejected, or the code
  panicked.
\<close>

theorem GenerateIgnition_outcome:
  assumes run: "run_state (GenerateIgnition E) s = (r, s')"
  shows "(r = ok \<and> ignitionVerdict (st_cr s') ConditionTrue ReasonIgnitionGenerated
      \<and> published E (st_history s') \<and> persisted E s')
    \<or> (r = (After 10, None) \<and> ignitionVerdict (st_cr s') ConditionFalse ReasonIgnitionCredentialSyncPending
      \<and> condFalse (st_cr s') Ready \<and> persisted E s')
    \<or> (r = (After 30, None) \<and> ignitionVerdict (st_cr s') ConditionFalse ReasonIgnitionGenerationFailed
      \<and> persisted E s')
    \<or> (\<exists>e. r = failed e \<and> (err_reason e = Panic \<or> statusRejected E s'))"
proof -
  have "wp (runGenerator E) (\<lambda>r t. wp (case r of
        Inl err \<Rightarrow> if err_reason err = Panic then State_Monad.return (failed err)
          else if err_reason err = IgnitionSyncPending then waitForSync E err else reportFailure E err
      | Inr _ \<Rightarrow> reportSuccess E) (generated E) t) s"
    using yields_runGenerator unfolding yields_def
    by (rule allE [of _ s]) (erule wp_mono, auto simp: wp_simps failed_def intro: wp_reports split: sum.splits)
  then have "generated E r s'"
    using run unfolding GenerateIgnition_def wp_bind [symmetric] by (rule wp_run)
  then show ?thesis
    by (cases r; cases "snd r") (auto simp: ok_def failed_def)
qed

theorem GenerateIgnition_outcome_witness:
  "\<exists>s'. run_state (GenerateIgnition (syncedEnv syncedHC syncedSecret)) (startState syncedCR) = (ok, s')
     \<and> published (syncedEnv syncedHC syncedSecret) (st_history s')"
proof -
  obtain r s' where run: "run_state (GenerateIgnition (syncedEnv syncedHC syncedSecret)) (startState syncedCR) = (r, s')"
    by (rule prod.exhaust)
  moreover have "r = ok" using wp_run [OF wp_synced run] by blast
  ultimately show ?thesis
    using GenerateIgnition_outcome [OF run] by auto
qed

end
