(* ===== verification/Reconciler.thy ===== *)
theory Reconciler
  imports DPUCluster_Validation Secrets_Validation Hosted_Cleanup MetalLB Kubeconfig_Injection OVS_Hugepages Ignition_Generator
begin

section \<open>The main reconcile loop\<close>

text \<open>
  \<^verbatim>\<open>dpfhcpprovisioner_controller.go\<close>: the steps of \<^verbatim>\<open>Reconcile\<close> that are not features of their own (the
  phase-gated image lookup, creation of the hosted cluster, changes of the DPUDeployment, verification
  and regeneration of the ignition ConfigMap), deletion, and \<^verbatim>\<open>Reconcile\<close> itself, which chains all
  features. The theorems compose the contracts of the features: nothing is created for a resource
  that is not protected by the finalizer, the finalizer goes only after the whole cleanup, and a
  ConfigMap that was just written is not taken for stale.
\<close>

definition FinalizerName :: string where
  "FinalizerName = ''dpfhcpprovisioner.provisioning.dpu.hcp.io/finalizer''"

subsection \<open>Steps of the reconcile\<close>

definition lookupBlueFieldOCPLayerImage :: "env \<Rightarrow> OperatorConfig \<Rightarrow> step_result io" where
  "lookupBlueFieldOCPLayerImage E operatorConfig = with_cr (\<lambda>cr.
     if sp_machineOSURL (cr_spec cr) \<noteq> [] then do {
       changed \<leftarrow> setCondition (mkCond BlueFieldOCPLayerImageFound ConditionTrue ''LookupSkipped''
              ''BlueField OCP layer lookup skipped - machineOSURL provided in spec'' (cr_generation cr));
       if changed then do {
         w \<leftarrow> updateStatus E;
         State_Monad.return (done_or_failed w)
       } else State_Monad.return ok
     } else do {
       _ \<leftarrow> modify_st (\<lambda>s. s\<lparr>st_repository := cfg_blueFieldOCPLayerRepo operatorConfig\<rparr>);
       if cr_phase cr = PhasePending \<or> cr_phase cr = PhaseFailed \<or> cr_phase cr = PhaseGeneratingIgnition
       then stage (LookupBlueFieldOCPLayerImage E) (State_Monad.return ok)
       else State_Monad.return ok
     })"

definition reconcileHostedClusterAndNodePool :: "env \<Rightarrow> step_result io" where
  "reconcileHostedClusterAndNodePool E = with_cr (\<lambda>cr.
     if cr_phase cr = PhasePending \<or> cr_hostedClusterRef cr \<noteq> None
     then stage (CreateOrUpdateHostedCluster E) (stage (CreateNodePool E) (State_Monad.return ok))
     else State_Monad.return ok)"

definition ownHostedClusterRef :: "DPFHCPProvisioner \<Rightarrow> ObjectReference" where
  "ownHostedClusterRef cr = \<lparr>oref_name = cr_name cr, oref_namespace = cr_namespace cr,
     oref_kind = ''HostedCluster'', oref_apiVersion = ''hypershift.openshift.io/v1beta1''\<rparr>"

definition setHostedClusterRefIfOwned :: "env \<Rightarrow> unit io" where
  "setHostedClusterRefIfOwned E = with_cr (\<lambda>cr.
     if cr_hostedClusterRef cr \<noteq> None then State_Monad.return ()
     else do {
       r \<leftarrow> getHC E (cr_key cr);
       (case r of
          Inl _ \<Rightarrow> State_Monad.return ()
        | Inr hc \<Rightarrow>
            if \<not> IsControlledBy (hc_meta hc) (cr_meta cr) then State_Monad.return ()
            else modify_cr (set_hostedClusterRef (Some (ownHostedClusterRef cr))))
     })"

subsection \<open>Changes of the DPUDeployment\<close>

definition invalidateIgnitionForDependencyDeletion :: "env \<Rightarrow> string \<Rightarrow> (bool \<times> step_result) io" where
  "invalidateIgnitionForDependencyDeletion E message = with_cr (\<lambda>cr. do {
     d \<leftarrow> deleteIgnitionConfigMap E;
     (case d of
        Inl e \<Rightarrow> State_Monad.return (True, failed e)
      | Inr _ \<Rightarrow> do {
          condChanged \<leftarrow> setCondition (mkCond IgnitionConfigured ConditionFalse ReasonDependencyDeleted
                 message (cr_generation cr));
          _ \<leftarrow> (if condChanged then event EventTypeWarning ''DependencyDeleted'' message
                else State_Monad.return ());
          _ \<leftarrow> computeReadyCondition E;
          with_cr (\<lambda>old. do {
            _ \<leftarrow> updatePhaseFromConditions E;
            with_cr (\<lambda>new.
              if condChanged \<or> cr_phase new \<noteq> cr_phase old then do {
                w \<leftarrow> updateStatus E;
                State_Monad.return (True, done_or_failed w)
              } else State_Monad.return (True, ok))
          })
        })
   })"

text \<open>The flavor changed: delete the ConfigMap and start over.\<close>

definition flavorChanged :: "env \<Rightarrow> (bool \<times> step_result) io" where
  "flavorChanged E = with_cr (\<lambda>cr. do {
     d \<leftarrow> deleteIgnitionConfigMap E;
     (case d of
        Inl e \<Rightarrow> State_Monad.return (True, failed e)
      | Inr _ \<Rightarrow> do {
          _ \<leftarrow> setCondition (mkCond IgnitionConfigured ConditionFalse ReasonDPUDeploymentChanged
                 ''DPUDeployment Flavor changed, regenerating ignition configuration'' (cr_generation cr));
          _ \<leftarrow> event EventTypeNormal ''DPUDeploymentChanged''
                 ''DPUDeployment Flavor changed, triggering ignition regeneration'';
          _ \<leftarrow> computeReadyCondition E;
          _ \<leftarrow> updatePhaseFromConditions E;
          w \<leftarrow> updateStatus E;
          State_Monad.return (True, (case w of Some e \<Rightarrow> failed e | None \<Rightarrow> (After 1, None)))
        })
   })"

text \<open>The BFB changed: the content does not depend on it, only the annotation is updated.\<close>

definition bfbChanged :: "env \<Rightarrow> ConfigMap \<Rightarrow> string \<Rightarrow> (bool \<times> step_result) io" where
  "bfbChanged E cm currentBFB = do {
     w \<leftarrow> apiWrite E (UpdateCM (cm\<lparr>cm_meta := (cm_meta cm)\<lparr>om_annotations :=
            mset_key (om_annotations (cm_meta cm)) BfcfgTemplateBFBNameAnnotation currentBFB\<rparr>\<rparr>));
     (case w of
        Some e \<Rightarrow> State_Monad.return (True, failed e)
      | None \<Rightarrow> do {
          _ \<leftarrow> event EventTypeNormal ''BFBAnnotationUpdated''
                 (''Ignition ConfigMap BFB annotation updated to '' @ currentBFB);
          State_Monad.return (True, ok)
        })
   }"

definition compareConfigMap :: "env \<Rightarrow> DPUDeployment \<Rightarrow> (bool \<times> step_result) io" where
  "compareConfigMap E dpuDeployment = do {
     r \<leftarrow> getIgnitionConfigMap E;
     (case r of
        Inl e \<Rightarrow> State_Monad.return (False, failed e)
      | Inr None \<Rightarrow> State_Monad.return (False, ok)
      | Inr (Some cm) \<Rightarrow>
          let annotations = om_annotations (cm_meta cm);
              currentFlavor = derefName (dd_flavor dpuDeployment);
              storedFlavor = mget annotations BfcfgTemplateDPUFlavorNameAnnotation;
              currentBFB = derefName (dd_bfb dpuDeployment);
              storedBFB = mget annotations BfcfgTemplateBFBNameAnnotation in
          if currentFlavor \<noteq> storedFlavor then flavorChanged E
          else if currentBFB \<noteq> storedBFB then bfbChanged E cm currentBFB
          else State_Monad.return (False, ok))
   }"

definition checkFlavor :: "env \<Rightarrow> bool \<Rightarrow> CrossNamespaceRef \<Rightarrow> DPUDeployment \<Rightarrow> (bool \<times> step_result) io" where
  "checkFlavor E ignitionWasConfigured deploymentRef dpuDeployment =
     (let flavorKey = NN (ref_namespace deploymentRef) (derefName (dd_flavor dpuDeployment));
          continue = (if ignitionWasConfigured then compareConfigMap E dpuDeployment
                      else State_Monad.return (False, ok)) in do {
        r \<leftarrow> getDPUFlavor E flavorKey;
        (case r of
           Inr _ \<Rightarrow> continue
         | Inl e \<Rightarrow>
             if IsNotFound e then invalidateIgnitionForDependencyDeletion E
               (''DPUFlavor '' @ nn_string flavorKey @ '' not found, removing ignition ConfigMap'')
             else if ignitionWasConfigured then continue
             else State_Monad.return (False, failed e))
      })"

definition handleDependencyChanges :: "env \<Rightarrow> (bool \<times> step_result) io" where
  "handleDependencyChanges E = with_cr (\<lambda>cr.
     case sp_dpuDeploymentRef (cr_spec cr) of
       None \<Rightarrow> State_Monad.return (False, ok)
     | Some deploymentRef \<Rightarrow>
         let ignitionWasConfigured = condTrue cr IgnitionConfigured;
             key = NN (ref_namespace deploymentRef) (ref_name deploymentRef) in
         if \<not> ignitionWasConfigured \<and> \<not> ignitionPrerequisitesMet cr then State_Monad.return (False, ok)
         else do {
           r \<leftarrow> getDPUDeployment E key;
           (case r of
              Inl e \<Rightarrow>
                if IsNotFound e then invalidateIgnitionForDependencyDeletion E
                  (''DPUDeployment '' @ nn_string key @ '' not found, removing ignition ConfigMap'')
                else State_Monad.return (False, ok)
            | Inr dpuDeployment \<Rightarrow>
                if derefName (dd_flavor dpuDeployment) = [] then invalidateIgnitionForDependencyDeletion E
                  (''DPUDeployment '' @ nn_string key @ '' has no flavor configured, removing ignition ConfigMap'')
                else checkFlavor E ignitionWasConfigured deploymentRef dpuDeployment)
         })"

subsection \<open>The ignition ConfigMap\<close>

definition regenerate :: "string \<Rightarrow> string \<Rightarrow> string \<Rightarrow> string \<Rightarrow> bool io" where
  "regenerate reason message eventType eventReason = with_cr (\<lambda>cr. do {
     _ \<leftarrow> setCondition (mkCond IgnitionConfigured ConditionFalse reason message (cr_generation cr));
     _ \<leftarrow> event eventType eventReason message;
     _ \<leftarrow> modify_st (\<lambda>s. s\<lparr>st_ignitionReconciled := True\<rparr>);
     State_Monad.return True
   })"

definition verifyIgnitionConfigMap :: "env \<Rightarrow> bool io" where
  "verifyIgnitionConfigMap E = with_cr (\<lambda>cr.
     if \<not> condTrue cr IgnitionConfigured then State_Monad.return False
     else do {
       r \<leftarrow> getIgnitionConfigMap E;
       reconciled \<leftarrow> gets st_ignitionReconciled;
       (case r of
          Inl e \<Rightarrow> State_Monad.return False
        | Inr None \<Rightarrow> regenerate ''ConfigMapDeleted'' ''Ignition ConfigMap was deleted, will regenerate''
                         EventTypeWarning ''IgnitionConfigMapDeleted''
        | Inr (Some cm) \<Rightarrow>
            if \<not> reconciled
            then regenerate ''OperatorRestarted''
                   ''Operator restarted, regenerating ignition to apply any updates''
                   EventTypeNormal ''IgnitionRegeneration''
            else do {
              _ \<leftarrow> modify_st (\<lambda>s. s\<lparr>st_ignitionReconciled := True\<rparr>);
              State_Monad.return False
            })
     })"

definition retryReasons :: "string list" where
  "retryReasons = [ReasonIgnitionGenerationFailed, ''OperatorRestarted'', ''ConfigMapDeleted'']"

definition shouldGenerate :: "DPFHCPProvisioner \<Rightarrow> bool" where
  "shouldGenerate cr \<longleftrightarrow> cr_phase cr = PhaseGeneratingIgnition
     \<or> (case findCond cr IgnitionConfigured of
          None \<Rightarrow> False
        | Some n \<Rightarrow> c_status n = ConditionFalse \<and> c_reason n \<in> set retryReasons)"

text \<open>Running the generator and bringing the phase up to date with what it reports.\<close>

definition runIgnitionGenerator :: "env \<Rightarrow> step_result io" where
  "runIgnitionGenerator E = do {
     res \<leftarrow> GenerateIgnition E;
     (case snd res of
        Some e \<Rightarrow>
          if err_reason e = Panic then State_Monad.return res
          else do {
            _ \<leftarrow> updatePhaseFromConditions E;
            State_Monad.return res
          }
      | None \<Rightarrow> with_cr (\<lambda>cr.
          if 0 < RequeueAfter (fst res) \<and> condFalse cr IgnitionConfigured then do {
            _ \<leftarrow> updatePhaseFromConditions E;
            w \<leftarrow> updateStatus E;
            State_Monad.return (case w of Some e \<Rightarrow> failed e | None \<Rightarrow> res)
          } else State_Monad.return res))
   }"

definition generateIgnition :: "env \<Rightarrow> step_result io" where
  "generateIgnition E = with_cr (\<lambda>cr.
     case cr_hostedClusterRef cr of
       None \<Rightarrow> State_Monad.return ok
     | Some ref \<Rightarrow>
         if \<not> shouldGenerate cr then State_Monad.return ok
         else if (case findCond cr IgnitionConfigured of
                    None \<Rightarrow> False | Some n \<Rightarrow> c_reason n = ReasonReleaseImageUpdated) then do {
           r \<leftarrow> getHC E (hostedClusterKey ref);
           (case r of
              Inl e \<Rightarrow> State_Monad.return (Done, IgnoreNotFound e)
            | Inr hc \<Rightarrow>
                if \<not> isControlPlaneReady hc (sp_ocpReleaseImage (cr_spec cr))
                then State_Monad.return (After 30, None)
                else runIgnitionGenerator E)
         } else runIgnitionGenerator E)"

definition reconcileIgnition :: "env \<Rightarrow> step_result io" where
  "reconcileIgnition E = do {
     configMapDeleted \<leftarrow> verifyIgnitionConfigMap E;
     if configMapDeleted then do {
       _ \<leftarrow> computeReadyCondition E;
       _ \<leftarrow> updatePhaseFromConditions E;
       w \<leftarrow> updateStatus E;
       State_Monad.return (case w of Some e \<Rightarrow> failed e | None \<Rightarrow> (After 1, None))
     } else stage (generateIgnition E) (do {
       _ \<leftarrow> modify_st (\<lambda>s. s\<lparr>st_ignitionReconciled := True\<rparr>);
       State_Monad.return ok
     })
   }"

subsection \<open>Deletion\<close>

text \<open>The handlers in the order in which \<^verbatim>\<open>cmd/main.go\<close> registers them.\<close>

definition cleanupHandlers :: "handler list" where
  "cleanupHandlers =
     RegisterHandler (RegisterHandler (RegisterHandler newFinalizerManager kubeconfigHandler) hostedclusterHandler) metallbHandler"

definition removeFinalizer :: "env \<Rightarrow> step_result io" where
  "removeFinalizer E = do {
     _ \<leftarrow> modify_cr (\<lambda>cr. cr\<lparr>cr_meta := RemoveFinalizer (cr_meta cr) FinalizerName\<rparr>);
     w \<leftarrow> with_cr (\<lambda>cr. apiWrite E (UpdateCR cr));
     State_Monad.return (done_or_failed w)
   }"

definition handleDeletion :: "env \<Rightarrow> step_result io" where
  "handleDeletion E = do {
     w \<leftarrow> updateStatus E;
     (case w of
        Some e \<Rightarrow> State_Monad.return (failed e)
      | None \<Rightarrow> with_cr (\<lambda>cr.
          if \<not> ContainsFinalizer (cr_meta cr) FinalizerName then State_Monad.return ok
          else stage (HandleFinalizerCleanup E cleanupHandlers) (removeFinalizer E)))
   }"

subsection \<open>Reconcile\<close>

definition addFinalizer :: "env \<Rightarrow> step_result io" where
  "addFinalizer E = do {
     _ \<leftarrow> modify_cr (\<lambda>cr. cr\<lparr>cr_meta := AddFinalizer (cr_meta cr) FinalizerName\<rparr>);
     w \<leftarrow> with_cr (\<lambda>cr. apiWrite E (UpdateCR cr));
     State_Monad.return (case w of Some e \<Rightarrow> failed e | None \<Rightarrow> (RequeueNow, None))
   }"

text \<open>The credential copies once the secrets are valid, and the etcd key in the first phase.\<close>

definition prepareSecrets :: "env \<Rightarrow> step_result io" where
  "prepareSecrets E = with_cr (\<lambda>cr.
     stage (if condTrue cr SecretsValid then CopySecrets E else State_Monad.return ok)
       (with_cr (\<lambda>cr. if cr_phase cr = PhasePending then GenerateETCDEncryptionKey E
                      else State_Monad.return ok)))"

definition injectIfCreated :: "env \<Rightarrow> step_result io" where
  "injectIfCreated E = with_cr (\<lambda>cr.
     if cr_hostedClusterRef cr \<noteq> None then InjectKubeconfig E else State_Monad.return ok)"

text \<open>The reservation of huge pages: a failure only asks for a retry.\<close>

definition reserveHugepages :: "env \<Rightarrow> OperatorConfig \<Rightarrow> step_result io" where
  "reserveHugepages E operatorConfig = with_cr (\<lambda>cr.
     if cr_hostedClusterRef cr = None then State_Monad.return ok
     else do {
       r \<leftarrow> ReconcileHugepagesDaemonSet E (cfg_ovsHugepagesSize operatorConfig) (cfg_ovsHugepagesAmount operatorConfig);
       State_Monad.return (case r of
         Some e \<Rightarrow> if err_reason e = Panic then failed e else (After 30, None)
       | None \<Rightarrow> ok)
     })"

text \<open>From the final computation of the phase to the end.\<close>

definition finishReconcile :: "env \<Rightarrow> OperatorConfig \<Rightarrow> step_result io" where
  "finishReconcile E operatorConfig = do {
     _ \<leftarrow> computeReadyCondition E;
     _ \<leftarrow> updatePhaseFromConditions E;
     w \<leftarrow> updateStatus E;
     (case w of
        Some e \<Rightarrow> State_Monad.return (failed e)
      | None \<Rightarrow> reserveHugepages E operatorConfig)
   }"

definition provisioned :: "env \<Rightarrow> OperatorConfig \<Rightarrow> step_result io" where
  "provisioned E operatorConfig = do {
     _ \<leftarrow> setHostedClusterRefIfOwned E;
     stage (SyncStatusFromHostedCluster E)
       (stage (injectIfCreated E) (do {
         d \<leftarrow> handleDependencyChanges E;
         if fst d \<or> snd (snd d) \<noteq> None then State_Monad.return (snd d)
         else stage (reconcileIgnition E) (finishReconcile E operatorConfig)
       }))
   }"

definition reconcileFeatures :: "env \<Rightarrow> OperatorConfig \<Rightarrow> step_result io" where
  "reconcileFeatures E operatorConfig =
     stage (ValidateDPUCluster E)
       (stage (ValidateSecrets E)
         (stage (lookupBlueFieldOCPLayerImage E operatorConfig) (do {
           _ \<leftarrow> updatePhaseFromConditions E;
           stage (ConfigureMetalLB E operatorConfig)
             (stage (prepareSecrets E)
               (stage (handleUpgrade E)
                 (stage (reconcileHostedClusterAndNodePool E) (provisioned E operatorConfig))))
         })))"

text \<open>From the first computation of the phase on, once the resource and the configuration were read.\<close>

definition reconcileConfigured :: "env \<Rightarrow> OperatorConfig \<Rightarrow> step_result io" where
  "reconcileConfigured E operatorConfig = do {
     _ \<leftarrow> updatePhaseFromConditions E;
     with_cr (\<lambda>cr.
       if om_deletionTimestamp (cr_meta cr) \<noteq> None then handleDeletion E
       else if \<not> ContainsFinalizer (cr_meta cr) FinalizerName then addFinalizer E
       else reconcileFeatures E operatorConfig)
   }"

definition Reconcile :: "env \<Rightarrow> NamespacedName \<Rightarrow> step_result io" where
  "Reconcile E req = do {
     r \<leftarrow> getCR E req;
     (case r of
        Inl err \<Rightarrow> State_Monad.return (Done, IgnoreNotFound err)
      | Inr cr \<Rightarrow> do {
          _ \<leftarrow> modify_cr (\<lambda>_. cr);
          c \<leftarrow> LoadOperatorConfigFromCR E;
          (case c of
             Inl e \<Rightarrow> State_Monad.return (failed e)
           | Inr None \<Rightarrow> State_Monad.return ok
           | Inr (Some operatorConfig) \<Rightarrow> reconcileConfigured E operatorConfig)
        })
   }"

subsection \<open>What the reconcile creates\<close>

text \<open>The writes that belong to the other two controllers of the process.\<close>

fun foreign :: "call \<Rightarrow> bool" where
  "foreign (HostedApproveCSR _ _) = True" | "foreign (CreateTemplate _) = True"
| "foreign (UpdateTemplate _) = True" | "foreign (DeleteTemplate _) = True"
| "foreign _ = False"

text \<open>
  \<open>creates_own M S c\<close>: if \<open>c\<close> creates an object, it is one that the cleanup of the resource with
  metadata \<open>M\<close> and spec \<open>S\<close> can recognise: it is controlled by the resource, or it carries its
  ownership labels, or its name is fixed (the ignition ConfigMap, the reservation in the hosted
  cluster).
\<close>

fun creates_own :: "ObjectMeta \<Rightarrow> DPFHCPProvisionerSpec \<Rightarrow> call \<Rightarrow> bool" where
  "creates_own M S (CreateSecret x) \<longleftrightarrow> IsControlledBy (sec_meta x) M
     \<or> IsOwnedByProvisioner (om_labels (sec_meta x)) (om_name M) (om_namespace M)"
| "creates_own M S (CreateHC h) \<longleftrightarrow> IsControlledBy (hc_meta h) M"
| "creates_own M S (CreateNP n) \<longleftrightarrow> IsControlledBy (np_meta n) M"
| "creates_own M S (CreatePool p) \<longleftrightarrow>
     IsOwnedByProvisioner (om_labels (pool_meta p)) (om_name M) (om_namespace M)"
| "creates_own M S (CreateL2 a) \<longleftrightarrow>
     IsOwnedByProvisioner (om_labels (l2_meta a)) (om_name M) (om_namespace M)"
| "creates_own M S (CreateCM cm) \<longleftrightarrow> om_name (cm_meta cm) = ConfigMapName (ref_name (sp_dpuClusterRef S))
     \<and> om_namespace (cm_meta cm) = ref_namespace (sp_dpuClusterRef S)"
| "creates_own M S (HostedCreateNamespace hc n l) \<longleftrightarrow> n = OVSHugepagesNamespace"
| "creates_own M S (HostedCreateDaemonSet hc ns n d) \<longleftrightarrow> ns = OVSHugepagesNamespace \<and> n = DaemonSetName"
| "creates_own M S (UpdateCR c) \<longleftrightarrow> False"
| "creates_own M S c \<longleftrightarrow> \<not> foreign c"

lemma creates_own_foreign: "creates_own M S c \<Longrightarrow> \<not> foreign c"
  by (cases c) auto

lemma observes_creates: "observes M S c \<Longrightarrow> creates_own M S c"
  by (cases c) auto

lemma creates_own_contracts:
  "metallb_allowed M S c \<Longrightarrow> creates_own M S c"
  "secret_allowed M S c \<Longrightarrow> creates_own M S c"
  "hc_allowed M S c \<Longrightarrow> creates_own M S c"
  "inject_allowed M S c \<Longrightarrow> creates_own M S c"
  "upgradeRequest M S c \<Longrightarrow> creates_own M S c"
  "reservationRequest M S c \<Longrightarrow> creates_own M S c"
  "\<not> is_write c \<Longrightarrow> creates_own M S c"
  by (cases c; auto simp: our_pool_def our_L2_def)+

lemma ignitionConfigMap_key:
  "om_name (cm_meta (ignitionConfigMap cr a j)) = ConfigMapName (ref_name (sp_dpuClusterRef (cr_spec cr)))
   \<and> om_namespace (cm_meta (ignitionConfigMap cr a j)) = ref_namespace (sp_dpuClusterRef (cr_spec cr))"
  by (auto simp: ignitionConfigMap_def Let_def newMeta_def
      dest: SetControllerReference_name SetControllerReference_namespace split: sum.splits)

lemma footprint_features:
  "footprint M S UNIV (creates_own M S) (ValidateDPUCluster E)"
  "footprint M S UNIV (creates_own M S) (ValidateSecrets E)"
  "footprint M S UNIV (creates_own M S) (LookupBlueFieldOCPLayerImage E)"
  "footprint M S UNIV (creates_own M S) (ConfigureMetalLB E cfg)"
  "footprint M S UNIV (creates_own M S) (CopySecrets E)"
  "footprint M S UNIV (creates_own M S) (GenerateETCDEncryptionKey E)"
  "footprint M S UNIV (creates_own M S) (handleUpgrade E)"
  "footprint M S UNIV (creates_own M S) (CreateOrUpdateHostedCluster E)"
  "footprint M S UNIV (creates_own M S) (CreateNodePool E)"
  "footprint M S UNIV (creates_own M S) (SyncStatusFromHostedCluster E)"
  "footprint M S UNIV (creates_own M S) (InjectKubeconfig E)"
  "footprint M S UNIV (creates_own M S) (ReconcileHugepagesDaemonSet E ps am)"
  by (rule dpucluster_step.footprint_within secrets_step.footprint_within lookup_step.footprint_within
      metallb_step.footprint_within copy_step.footprint_within etcd_step.footprint_within
      upgrade.footprint_within hc_step.footprint_within np_step.footprint_within sync_step.footprint_within
      inject_step.footprint_within hugepages.footprint_within;
      simp add: observes_creates creates_own_contracts)+

lemma footprint_GenerateIgnition: "footprint M S UNIV (creates_own M S) (GenerateIgnition E)"
  unfolding GenerateIgnition_def runGenerator_def publishIgnition_def createOrUpdateConfigMap_def
  by (intro footprint_intros) (auto simp: ignitionConfigMap_key)

lemma footprint_dependencies:
  "footprint M S UNIV (creates_own M S) (handleDependencyChanges E)"
  unfolding handleDependencyChanges_def checkFlavor_def compareConfigMap_def flavorChanged_def bfbChanged_def
    invalidateIgnitionForDependencyDeletion_def Let_def
  by (intro footprint_intros) simp_all

lemma footprint_reconcileIgnition:
  "footprint M S UNIV (creates_own M S) (reconcileIgnition E)"
  unfolding reconcileIgnition_def verifyIgnitionConfigMap_def regenerate_def generateIgnition_def
    runIgnitionGenerator_def
  by (intro footprint_intros footprint_GenerateIgnition) simp_all

lemma footprint_reconcileFeatures:
  "footprint M S UNIV (creates_own M S) (reconcileFeatures E cfg)"
  unfolding reconcileFeatures_def provisioned_def finishReconcile_def reserveHugepages_def injectIfCreated_def
    prepareSecrets_def setHostedClusterRefIfOwned_def reconcileHostedClusterAndNodePool_def
    lookupBlueFieldOCPLayerImage_def
  by (intro footprint_intros footprint_features footprint_dependencies footprint_reconcileIgnition) simp_all

lemma cleanupHandlers_eq: "cleanupHandlers = [kubeconfigHandler, hostedclusterHandler, metallbHandler]"
  by (simp add: cleanupHandlers_def RegisterHandler_def newFinalizerManager_def)

lemma footprint_cleanupHandlers:
  assumes "(n, c) \<in> set cleanupHandlers"
  shows "footprint M S {} (\<lambda>c. \<not> is_create c \<and> \<not> foreign c \<and> (\<forall>cr. c \<noteq> UpdateCR cr)) (c E)"
  using assms
  by (auto simp: cleanupHandlers_eq kubeconfigHandler_def hostedclusterHandler_def metallbHandler_def
      intro!: kubeconfig_cleanup.footprint_within hc_cleanup.footprint_within metallb_cleanup.footprint_within
      elim: kubeconfig_removes.elims hc_removes.elims metallb_removes.elims)

lemma wp_handleDeletion_creates_nothing:
  "wp (handleDeletion E) (\<lambda>r t. issued (\<lambda>c. \<not> is_create c \<and> \<not> foreign c) (st_history s) (st_history t)) s"
proof -
  have handlers: "footprint M S {} (\<lambda>c. \<not> is_create c \<and> \<not> foreign c) (HandleFinalizerCleanup E cleanupHandlers)" for M S
    by (rule footprint_HandleFinalizerCleanup)
      (auto intro: footprint_mono [OF footprint_cleanupHandlers])
  have cleanup: "wp (stage (HandleFinalizerCleanup E cleanupHandlers) (removeFinalizer E))
      (\<lambda>r t. issued (\<lambda>c. \<not> is_create c \<and> \<not> foreign c) (st_history u) (st_history t)) u" for u
    unfolding wp_stage
    by (rule wp_mono [OF footprintD [OF handlers refl refl]])
      (auto simp: removeFinalizer_def wp_simps intro: issued_Cons_after)
  show ?thesis
    unfolding handleDeletion_def
    by (auto simp: wp_simps simp del: wp_stage intro!: wp_mono [OF cleanup] split: option.splits)
      (erule issued_Cons_before [rotated], simp)
qed

text \<open>
  \<open>warranted E req h c\<close>: a write \<open>c\<close> is sent only if the resource and the configuration were found (the
  first two requests after \<open>h\<close>); if it creates an object, the resource carries the finalizer, is not
  being deleted, and the object is recognisably its own. Writes of the other controllers do not occur.
\<close>

definition warranted :: "env \<Rightarrow> NamespacedName \<Rightarrow> history \<Rightarrow> call \<Rightarrow> bool" where
  "warranted E req h c \<longleftrightarrow> \<not> foreign c \<and> (is_write c \<longrightarrow> (\<exists>cr cfg. a_getCR (mgmt E) h req = Inr cr
     \<and> a_getConfig (mgmt E) (GetCR req # h) DefaultConfigName = Inr cfg
     \<and> (is_create c \<longrightarrow> ContainsFinalizer (cr_meta cr) FinalizerName
          \<and> om_deletionTimestamp (cr_meta cr) = None \<and> creates_own (cr_meta cr) (cr_spec cr) c)))"

lemma wp_Reconcile_warranted:
  "wp (Reconcile E req) (\<lambda>r t. issued (warranted E req (st_history s)) (GetCR req # st_history s) (st_history t)) s"
proof -
  let ?W = "warranted E req (st_history s)"
  have reads: "?W c" if "\<not> is_write c" for c using that by (cases c) (simp_all add: warranted_def)
  have rest: "wp (reconcileConfigured E cfg) (\<lambda>r t. issued ?W (st_history u) (st_history t)) u"
    if cr: "a_getCR (mgmt E) (st_history s) req = Inr cr"
      "a_getConfig (mgmt E) (GetCR req # st_history s) DefaultConfigName = Inr cfg" "st_cr u = cr" for cr cfg u
  proof -
    have nocreate: "?W c" if "\<not> is_create c" "\<not> foreign c" for c using cr that by (simp add: warranted_def)
    have deletion: "wp (handleDeletion E) (\<lambda>r t. issued ?W (st_history v) (st_history t)) v" for v
      by (rule wp_mono [OF wp_handleDeletion_creates_nothing]) (erule issued_mono [rotated], blast intro: nocreate)
    have features: "wp (reconcileFeatures E cfg) (\<lambda>r t. issued ?W (st_history v) (st_history t)) v"
      if "cr_meta (st_cr v) = cr_meta cr" "cr_spec (st_cr v) = cr_spec cr" "om_deletionTimestamp (cr_meta cr) = None"
        "ContainsFinalizer (cr_meta cr) FinalizerName" for v
      by (rule wp_mono [OF footprintD [OF footprint_reconcileFeatures that(1,2)]])
        (use cr that in \<open>auto simp: warranted_def creates_own_foreign intro: issued_mono [rotated]\<close>)
    have final: "wp (addFinalizer E) (\<lambda>r t. issued ?W (st_history v) (st_history t)) v" for v
      unfolding addFinalizer_def by (simp add: wp_simps nocreate)
    show ?thesis
      unfolding reconcileConfigured_def wp_bind wp_with_cr
    proof (rule wp_mono [OF footprintD [OF phase.step_footprint refl refl]], goal_cases)
      case (1 a v)
      then have v: "cr_meta (st_cr v) = cr_meta cr" "cr_spec (st_cr v) = cr_spec cr"
        using cr(3) by (auto dest: agree_outside_meta)
      have "issued ?W (st_history u) (st_history v)"
        by (rule issued_mono [OF _ conjunct2 [OF 1]]) (auto simp: readsHC_def intro: reads)
      then show ?case
        using v by (auto intro!: wp_mono [OF deletion] wp_mono [OF features] wp_mono [OF final] intro: issued_trans)
    qed
  qed
  show ?thesis
    unfolding Reconcile_def
    by (auto simp: wp_simps reads intro!: wp_mono [OF rest] split: sum.splits option.splits if_splits)
      (drule issued_Cons_before [rotated], simp_all add: reads)
qed

subsection \<open>What a completed cleanup has seen\<close>

text \<open>
  \<open>hostedClusterGone E cr h\<close>: in the history \<open>h\<close> the server said that the HostedCluster of \<open>cr\<close> does not
  exist (or that the kind does not), that it belongs to someone else, or, when it was to be deleted,
  that it was gone already.
\<close>

definition hostedClusterGone :: "env \<Rightarrow> DPFHCPProvisioner \<Rightarrow> history \<Rightarrow> bool" where
  "hostedClusterGone E cr h \<longleftrightarrow> (\<exists>x. answered (\<lambda>h. a_getHC (mgmt E) h (cr_key cr)) (GetHC (cr_key cr)) h x
     \<and> (case x of
          Inl e \<Rightarrow> IsNotFound e \<or> IsNoMatchError e
        | Inr hc \<Rightarrow> \<not> IsControlledBy (hc_meta hc) (cr_meta cr)
            \<or> (\<exists>e. answered (\<lambda>h. a_write (mgmt E) h (DeleteHC hc)) (DeleteHC hc) h (Some e) \<and> IsNotFound e)))"

lemma hostedClusterGone_issued:
  "hostedClusterGone E cr h \<Longrightarrow> issued P h h' \<Longrightarrow> hostedClusterGone E cr h'"
  unfolding hostedClusterGone_def
  by (elim exE conjE, rule exI, rule conjI, erule (1) answered_issued) (auto split: sum.splits intro: answered_issued)

lemma hostedClusterGone_cong: "cr_meta c = cr_meta d \<Longrightarrow> hostedClusterGone E c = hostedClusterGone E d"
  by (intro ext) (simp add: hostedClusterGone_def cr_key_def cong: sum.case_cong)

lemma wp_deleteHostedCluster:
  "wp (deleteResource E hc_meta (getHC E) DeleteHC kind)
     (\<lambda>r t. r = Inr True \<longrightarrow> hostedClusterGone E (st_cr s) (st_history t)) s"
  unfolding deleteResource_def
  by (auto simp: wp_simps hostedClusterGone_def answered_Cons answered_later1 split: sum.splits option.splits
      intro!: exI [of _ "a_getHC (mgmt E) (st_history s) (cr_key (st_cr s))"])
    (blast intro: answered_Cons)

lemma wp_hostedclusterCleanup_complete:
  "wp (hostedclusterCleanup E) (\<lambda>r t. \<not> stops r \<longrightarrow> hostedClusterGone E (st_cr s) (st_history t)) s"
proof -
  have rest: "wp m (\<lambda>r t. \<not> stops r \<longrightarrow> hostedClusterGone E (st_cr s) (st_history t)) u"
    if "hostedClusterGone E (st_cr s) (st_history u)" "\<And>M S. footprint M S {} (\<lambda>_. True) m" for m :: "step_result io" and u
    using footprintD [OF that(2) refl refl] by (rule wp_mono) (use that(1) hostedClusterGone_issued in blast)
  show ?thesis
    unfolding hostedclusterCleanup_def deleteSecrets_def
    by (rule wp_seq [OF wp_deleteHostedCluster])
      (auto simp: wp_return wp_case_sum wp_if DeletionRequeueInterval_def split: sum.splits
        intro!: rest footprint_intros footprint_deleteResource footprint_deleteSecretNames)
qed

lemma issued_not_new: "issued P h h' \<Longrightarrow> \<not> P c \<Longrightarrow> c \<in> set h' \<Longrightarrow> c \<in> set h"
  by (auto simp: issued_def)

text \<open>
  \<open>releases E cr h t\<close>: among the requests since \<open>h\<close> the resource itself was written without the finalizer
  at most as the very last one, and then the HostedCluster of \<open>cr\<close> was seen to be gone.
\<close>

definition releases :: "env \<Rightarrow> DPFHCPProvisioner \<Rightarrow> history \<Rightarrow> history \<Rightarrow> bool" where
  "releases E cr h h' \<longleftrightarrow> issued (\<lambda>c. \<forall>x. c \<noteq> UpdateCR x) h h'
     \<or> (\<exists>x mid. h' = UpdateCR x # mid \<and> issued (\<lambda>c. \<forall>x. c \<noteq> UpdateCR x) h mid \<and> hostedClusterGone E cr mid)"

lemma wp_cleanup_Cons:
  assumes "wp (c E) (\<lambda>r t. \<not> stops r \<longrightarrow> wp (HandleFinalizerCleanup E hs) (\<lambda>r t. \<not> stops r \<longrightarrow> G t) t) s"
  shows "wp (HandleFinalizerCleanup E ((n, c) # hs)) (\<lambda>r t. \<not> stops r \<longrightarrow> G t) s"
  unfolding HandleFinalizerCleanup.simps wp_bind
  using assms by (rule wp_mono) (auto simp: wp_simps stops_def failed_def split: option.splits)

lemma wp_cleanup_complete:
  "wp (HandleFinalizerCleanup E cleanupHandlers) (\<lambda>r t.
     issued (\<lambda>c. \<forall>x. c \<noteq> UpdateCR x) (st_history s) (st_history t)
     \<and> (\<not> stops r \<longrightarrow> hostedClusterGone E (st_cr s) (st_history t))) s"
proof -
  let ?P = "\<lambda>c. \<forall>x. c \<noteq> UpdateCR x"
  have all: "footprint M S {} ?P (HandleFinalizerCleanup E hs)" if "set hs \<subseteq> set cleanupHandlers" for M S hs
    by (rule footprint_HandleFinalizerCleanup)
      (use that in \<open>auto intro: footprint_mono [OF footprint_cleanupHandlers]\<close>)
  have metal: "wp (HandleFinalizerCleanup E [metallbHandler]) (\<lambda>r t.
      \<not> stops r \<longrightarrow> hostedClusterGone E (st_cr s) (st_history t)) u"
    if "hostedClusterGone E (st_cr s) (st_history u)" for u
    by (rule wp_mono [OF footprintD [OF all refl refl]])
      (use that hostedClusterGone_issued in \<open>auto simp: cleanupHandlers_eq\<close>)
  have hosted: "wp (HandleFinalizerCleanup E [hostedclusterHandler, metallbHandler]) (\<lambda>r t.
      \<not> stops r \<longrightarrow> hostedClusterGone E (st_cr s) (st_history t)) u"
    if "cr_meta (st_cr u) = cr_meta (st_cr s)" for u
    unfolding hostedclusterHandler_def
    by (rule wp_cleanup_Cons, rule wp_mono [OF wp_hostedclusterCleanup_complete])
      (use hostedClusterGone_cong [OF that] metal in auto)
  have "wp (HandleFinalizerCleanup E cleanupHandlers) (\<lambda>r t.
      \<not> stops r \<longrightarrow> hostedClusterGone E (st_cr s) (st_history t)) s"
    unfolding cleanupHandlers_eq kubeconfigHandler_def
    by (rule wp_cleanup_Cons, rule wp_mono [OF footprintD [OF kubeconfig_cleanup.step_footprint refl refl]])
      (auto intro!: hosted dest: agree_outside_meta)
  moreover have "wp (HandleFinalizerCleanup E cleanupHandlers) (\<lambda>r t. issued ?P (st_history s) (st_history t)) s"
    by (rule wp_mono [OF footprintD [OF all refl refl]]) auto
  ultimately show ?thesis by (rule wp_conj [rotated])
qed

lemma wp_handleDeletion_releases:
  "wp (handleDeletion E) (\<lambda>r t. releases E (st_cr s) (st_history s) (st_history t)) s"
proof -
  let ?P = "\<lambda>c. \<forall>x. c \<noteq> UpdateCR x"
  have "wp (stage (HandleFinalizerCleanup E cleanupHandlers) (removeFinalizer E))
      (\<lambda>r t. releases E (st_cr s) (st_history s) (st_history t)) u"
    if "st_cr u = st_cr s" "issued ?P (st_history s) (st_history u)" for u
    unfolding wp_stage
    by (rule wp_mono [OF wp_cleanup_complete])
      (use that in \<open>auto simp: removeFinalizer_def wp_simps releases_def intro: issued_trans\<close>)
  then show ?thesis
    unfolding handleDeletion_def by (auto simp: wp_simps releases_def simp del: wp_stage split: option.splits)
qed

definition releasedLast :: "env \<Rightarrow> NamespacedName \<Rightarrow> history \<Rightarrow> history \<Rightarrow> bool" where
  "releasedLast E req h h' \<longleftrightarrow> (\<forall>x. UpdateCR x \<in> set h' \<longrightarrow> UpdateCR x \<notin> set h \<longrightarrow>
     \<not> ContainsFinalizer (cr_meta x) FinalizerName \<longrightarrow>
     (\<exists>cr mid. a_getCR (mgmt E) h req = Inr cr \<and> om_deletionTimestamp (cr_meta cr) \<noteq> None
        \<and> h' = UpdateCR x # mid \<and> hostedClusterGone E cr mid))"

lemma AddFinalizer_contains [simp]: "ContainsFinalizer (AddFinalizer m f) f"
  by (simp add: ContainsFinalizer_def AddFinalizer_def)

lemma wp_reconcileConfigured_released:
  assumes "a_getCR (mgmt E) h req = Inr (st_cr s)" and "\<And>x. UpdateCR x \<in> set (st_history s) \<Longrightarrow> UpdateCR x \<in> set h"
  shows "wp (reconcileConfigured E cfg) (\<lambda>r t. releasedLast E req h (st_history t)) s"
proof -
  show ?thesis
    unfolding reconcileConfigured_def wp_bind wp_with_cr
  proof (rule wp_mono [OF footprintD [OF phase.step_footprint refl refl]], goal_cases)
    case (1 a v)
    have meta: "cr_meta (st_cr v) = cr_meta (st_cr s)" using 1 by (auto dest: agree_outside_meta)
    have old: "UpdateCR x \<in> set h" if "UpdateCR x \<in> set (st_history v)" for x
      using 1 that assms(2) by (auto simp: readsHC_def dest: issued_member)
    have deletion: "wp (handleDeletion E) (\<lambda>r t. releasedLast E req h (st_history t)) v"
      if "om_deletionTimestamp (cr_meta (st_cr s)) \<noteq> None"
      by (rule wp_mono [OF wp_handleDeletion_releases])
        (use that old assms(1) hostedClusterGone_cong [OF meta] in
          \<open>auto simp: releases_def releasedLast_def issued_def, blast+\<close>)
    have features: "wp (reconcileFeatures E cfg) (\<lambda>r t. releasedLast E req h (st_history t)) v"
      by (rule wp_mono [OF footprintD [OF footprint_reconcileFeatures refl refl]])
        (use old in \<open>auto simp: releasedLast_def dest!: issued_member\<close>)
    have "wp (addFinalizer E) (\<lambda>r t. releasedLast E req h (st_history t)) v"
      unfolding addFinalizer_def using old by (auto simp: wp_simps releasedLast_def)
    then show ?case using deletion features meta by auto
  qed
qed

lemma wp_Reconcile_released:
  "wp (Reconcile E req) (\<lambda>r t. releasedLast E req (st_history s) (st_history t)) s"
  unfolding Reconcile_def
  by (auto simp: wp_simps releasedLast_def [of _ _ _ "_ # _"] intro!: wp_reconcileConfigured_released
      split: sum.splits option.splits if_splits)

subsection \<open>Properties\<close>

text \<open>
  C6: The composition of all features keeps two promises. A reconcile writes nothing at all unless the
  resource and the operator configuration exist. And whatever it creates can be taken down again: an
  object is created only for a resource that was read with the finalizer in place and is not being
  deleted, and each created object is controlled by that resource, or carries its ownership labels,
  or has the fixed name under which the operator looks for it.
\<close>

theorem Reconcile_creates_only_own:
  assumes run: "run_state (Reconcile E req) s = (r, s')"
    and new: "c \<in> set (st_history s')" "c \<notin> set (st_history s)" and "is_write c"
  shows "\<exists>cr cfg. a_getCR (mgmt E) (st_history s) req = Inr cr
     \<and> a_getConfig (mgmt E) (GetCR req # st_history s) DefaultConfigName = Inr cfg
     \<and> (is_create c \<longrightarrow> ContainsFinalizer (cr_meta cr) FinalizerName
          \<and> om_deletionTimestamp (cr_meta cr) = None \<and> creates_own (cr_meta cr) (cr_spec cr) c)"
  using issued_member [OF wp_run [OF wp_Reconcile_warranted run] new(1)] new(2) \<open>is_write c\<close>
  by (auto simp: warranted_def)

text \<open>A server that knows the configuration and one resource.\<close>

definition plainConfig :: OperatorConfig where
  "plainConfig = \<lparr>cfg_blueFieldOCPLayerRepo = ''quay.io/layer'', cfg_disableMetalLB = False,
     cfg_manageDPUServiceTemplates = False, cfg_dpuServicesImagePullSecret = [], cfg_ovsHugepagesSize = [],
     cfg_ovsHugepagesAmount = 0\<rparr>"

definition servedEnv :: "DPFHCPProvisioner \<Rightarrow> env" where
  "servedEnv cr = emptyEnv\<lparr>mgmt := emptyMgmt\<lparr>a_getCR := \<lambda>_ _. Inr cr, a_getConfig := \<lambda>_ _. Inr plainConfig\<rparr>\<rparr>"

definition protectedCR :: DPFHCPProvisioner where
  "protectedCR = sampleCR\<lparr>cr_meta := (cr_meta sampleCR)\<lparr>om_finalizers := [FinalizerName]\<rparr>\<rparr>"

definition deletingCR :: DPFHCPProvisioner where
  "deletingCR = protectedCR\<lparr>cr_meta := (cr_meta protectedCR)\<lparr>om_deletionTimestamp := Some 7\<rparr>\<rparr>"

lemma served_answers:
  "a_getCR (mgmt (servedEnv cr)) h k = Inr cr" "a_getConfig (mgmt (servedEnv cr)) h n = Inr plainConfig"
  "a_write (mgmt (servedEnv cr)) h c = None" "a_getHC (mgmt (servedEnv cr)) h k = Inl notFoundErr"
  "a_getNP (mgmt (servedEnv cr)) h k = Inl notFoundErr" "a_getSecret (mgmt (servedEnv cr)) h k = Inl notFoundErr"
  "a_listSecrets (mgmt (servedEnv cr)) h ns l = Inr []" "a_getPool (mgmt (servedEnv cr)) h k = Inl notFoundErr"
  "a_getL2 (mgmt (servedEnv cr)) h k = Inl notFoundErr"
  by (simp_all add: servedEnv_def emptyMgmt_def)

lemma IsNotFound_notFoundErr: "IsNotFound notFoundErr"
  by (simp add: IsNotFound_def notFoundErr_def)

lemma deletingCR_facts:
  "om_deletionTimestamp (cr_meta deletingCR) = Some 7" "ContainsFinalizer (cr_meta deletingCR) FinalizerName"
  by (simp_all add: deletingCR_def protectedCR_def ContainsFinalizer_def)

lemma RemoveFinalizer_removes: "\<not> ContainsFinalizer (RemoveFinalizer m f) f"
  by (simp add: ContainsFinalizer_def RemoveFinalizer_def)

lemma wp_served_deletion:
  "wp (Reconcile (servedEnv deletingCR) k) (\<lambda>r t. \<exists>x. UpdateCR x \<in> set (st_history t)
     \<and> \<not> ContainsFinalizer (cr_meta x) FinalizerName) (startState sampleCR)"
  unfolding Reconcile_def reconcileConfigured_def updatePhaseFromConditions_def handleDeletion_def
    cleanupHandlers_eq kubeconfigHandler_def hostedclusterHandler_def metallbHandler_def removeFinalizer_def
    kubeconfigCleanup_def hostedclusterCleanup_def metallbCleanup_def deleteResource_def deleteSecrets_def
    deleteSecret_def cleanupL2Advertisement_def cleanupSecretNames_def
  by (simp add: wp_simps served_answers IsNotFound_notFoundErr deletingCR_facts deleteSecret_def RemoveFinalizer_removes)

theorem Reconcile_creates_only_own_witness:
  "\<exists>c \<in> set (st_history (snd (run_state (Reconcile (servedEnv deletingCR) (cr_key deletingCR)) (startState sampleCR)))).
     is_write c \<and> (\<exists>cfg. a_getConfig (mgmt (servedEnv deletingCR)) [GetCR (cr_key deletingCR)] DefaultConfigName = Inr cfg)"
proof -
  let ?run = "run_state (Reconcile (servedEnv deletingCR) (cr_key deletingCR)) (startState sampleCR)"
  obtain r s' where run: "?run = (r, s')" by (rule prod.exhaust)
  obtain x where x: "UpdateCR x \<in> set (st_history s')"
    using wp_run [OF wp_served_deletion run] by blast
  have "\<exists>cfg. a_getConfig (mgmt (servedEnv deletingCR)) [GetCR (cr_key deletingCR)] DefaultConfigName = Inr cfg"
    using Reconcile_creates_only_own [OF run x] by auto
  then show ?thesis using x by (intro bexI [of _ "UpdateCR x"]) (auto simp: run)
qed

text \<open>
  C7: The finalizer goes last. A reconcile writes the resource without the finalizer only if the
  resource is being deleted, only as its very last request, and only after the server had said in
  this run that the HostedCluster is gone (or not this resource's).
\<close>

theorem Reconcile_removes_finalizer_last:
  assumes run: "run_state (Reconcile E req) s = (r, s')"
    and "UpdateCR x \<in> set (st_history s')" and "UpdateCR x \<notin> set (st_history s)"
    and "\<not> ContainsFinalizer (cr_meta x) FinalizerName"
  shows "\<exists>cr mid. a_getCR (mgmt E) (st_history s) req = Inr cr \<and> om_deletionTimestamp (cr_meta cr) \<noteq> None
    \<and> st_history s' = UpdateCR x # mid \<and> hostedClusterGone E cr mid"
  using wp_run [OF wp_Reconcile_released run] assms(2-4) unfolding releasedLast_def by blast

theorem Reconcile_removes_finalizer_last_witness:
  "\<exists>mid. hostedClusterGone (servedEnv deletingCR) deletingCR mid"
proof -
  let ?run = "run_state (Reconcile (servedEnv deletingCR) (cr_key deletingCR)) (startState sampleCR)"
  obtain r s' where run: "?run = (r, s')" by (rule prod.exhaust)
  obtain x where "UpdateCR x \<in> set (st_history s')" "\<not> ContainsFinalizer (cr_meta x) FinalizerName"
    using wp_run [OF wp_served_deletion run] by blast
  moreover have "a_getCR (mgmt (servedEnv deletingCR)) [] k = Inr deletingCR" for k
    by (simp add: servedEnv_def)
  ultimately show ?thesis using Reconcile_removes_finalizer_last [OF run, of x] by auto
qed

lemma fresh_annotations:
  "mget (baseAnnotations cr url @ deploymentAnnotations ns d) BfcfgTemplateDPUFlavorNameAnnotation
     = derefName (dd_flavor d)"
  "mget (baseAnnotations cr url @ deploymentAnnotations ns d) BfcfgTemplateBFBNameAnnotation
     = derefName (dd_bfb d)"
  by (auto simp: baseAnnotations_def deploymentAnnotations_def annotation_defs mget_def)

lemma SetControllerReference_annotations:
  "SetControllerReference owner m = Inr m' \<Longrightarrow> om_annotations m' = om_annotations m"
  by (auto simp: SetControllerReference_def split: if_splits option.splits)

lemma ignitionConfigMap_annotations: "om_annotations (cm_meta (ignitionConfigMap cr a j)) = a"
  by (auto simp: ignitionConfigMap_def Let_def newMeta_def dest: SetControllerReference_annotations split: sum.splits)

text \<open>
  C13: Generation and change detection agree: as long as the DPUDeployment is the one the ConfigMap was
  generated for and its flavor can be read, a ConfigMap with the annotations the generator writes is
  never taken for stale. The step changes nothing, sends only reads and lets the reconcile go on, so
  an unchanged deployment does not cause ignition to be generated again and again.
\<close>

theorem handleDependencyChanges_accepts_generated:
  assumes run: "run_state (handleDependencyChanges E) s = (r, s')"
    and ref: "sp_dpuDeploymentRef (cr_spec (st_cr s)) = Some ref"
    and deployment: "\<And>h. a_getDPUDeployment (mgmt E) h (NN (ref_namespace ref) (ref_name ref)) = Inr d"
    and flavor: "dd_flavor d = Some f" "f \<noteq> []"
      "\<And>h. \<exists>fl. a_getDPUFlavor (mgmt E) h (NN (ref_namespace ref) f) = Inr fl"
    and cm: "\<And>h. a_getCM (mgmt E) h (ignitionCMKey (st_cr s)) = Inr cm"
      "om_annotations (cm_meta cm) = om_annotations (cm_meta (ignitionConfigMap cr
          (baseAnnotations cr url @ deploymentAnnotations ns d) json))"
  shows "r = (False, ok) \<and> st_cr s' = st_cr s \<and> issued (\<lambda>c. \<not> is_write c) (st_history s) (st_history s')"
proof -
  have flavor': "(case a_getDPUFlavor (mgmt E) h (NN (ref_namespace ref) f) of Inl e \<Rightarrow> A e | Inr x \<Rightarrow> B) = B" for h A B
    using flavor(3) [of h] by auto
  have "wp (handleDependencyChanges E) (\<lambda>r t. r = (False, ok) \<and> st_cr t = st_cr s
      \<and> issued (\<lambda>c. \<not> is_write c) (st_history s) (st_history t)) s"
    unfolding handleDependencyChanges_def checkFlavor_def compareConfigMap_def
    by (simp add: wp_simps Let_def ref deployment flavor cm flavor' derefName_def
        ignitionConfigMap_annotations fresh_annotations)
  then show ?thesis using run by (rule wp_run)
qed

definition servedDeployment :: DPUDeployment where
  "servedDeployment = \<lparr>dd_meta = newMeta ''dpf'' ''dep'', dd_flavor = Some ''f'', dd_bfb = None\<rparr>"

definition generatedEnv :: env where
  "generatedEnv = emptyEnv\<lparr>mgmt := emptyMgmt\<lparr>
     a_getDPUDeployment := \<lambda>_ _. Inr servedDeployment, a_getDPUFlavor := \<lambda>_ _. Inr dpuFlavor,
     a_getCM := \<lambda>_ _. Inr (ignitionConfigMap syncedCR
       (baseAnnotations syncedCR ''new'' @ deploymentAnnotations ''dpf'' servedDeployment) [])\<rparr>\<rparr>"

theorem handleDependencyChanges_accepts_generated_witness:
  "fst (run_state (handleDependencyChanges generatedEnv) (startState syncedCR)) = (False, ok)"
proof -
  obtain r s' where run: "run_state (handleDependencyChanges generatedEnv) (startState syncedCR) = (r, s')"
    by (rule prod.exhaust)
  have "r = (False, ok)"
    using handleDependencyChanges_accepts_generated [OF run,
        of "\<lparr>ref_name = ''dep'', ref_namespace = ''dpf''\<rparr>" servedDeployment "''f''"
          "ignitionConfigMap syncedCR (baseAnnotations syncedCR ''new'' @ deploymentAnnotations ''dpf'' servedDeployment) []"
          syncedCR "''new''" "''dpf''" "[]"]
    by (simp add: generatedEnv_def syncedCR_def servedDeployment_def)
  then show ?thesis by (simp add: run)
qed

end
