(* ===== verification/Events.thy ===== *)
theory Events
  imports Kube_Objects
begin

section \<open>Watch events\<close>

text \<open>
  The events of \<^verbatim>\<open>controller-runtime\<close> that the predicates of the controllers decide on, and
  \<^verbatim>\<open>predicate.GenerationChangedPredicate\<close>.
\<close>

datatype 'a watchEvent = CreateEvent 'a | UpdateEvent 'a 'a | DeleteEvent 'a | GenericEvent 'a

fun GenerationChangedPredicate :: "('a \<Rightarrow> ObjectMeta) \<Rightarrow> 'a watchEvent \<Rightarrow> bool" where
  "GenerationChangedPredicate md (UpdateEvent old new) = (om_generation (md new) \<noteq> om_generation (md old))"
| "GenerationChangedPredicate md _ = True"

end
