(* ===== verification/Watches.thy ===== *)
theory Watches
  imports Reconciler Events
begin

section \<open>Watches of the main controller\<close>

text \<open>
  \<^verbatim>\<open>dpfhcpprovisioner_controller.go\<close>, \<^verbatim>\<open>SetupWithManager\<close>: which events of which objects start a
  reconcile of which resource. The predicates decide on an event, the mapping functions name the
  resources to reconcile. The lemmas show that the changes the reconcile depends on are not missed: a
  deleted ignition ConfigMap and a changed flavor reach exactly the resources they matter to, and a
  HostedCluster update is dropped only if nothing the operator reads has changed.
\<close>

subsection \<open>Events and predicates\<close>

definition dpuClusterPredicate :: "DPUCluster watchEvent \<Rightarrow> bool" where
  "dpuClusterPredicate e = True"

definition secretPredicate :: "Secret watchEvent \<Rightarrow> bool" where
  "secretPredicate e = True"

text \<open>The comparison of two condition slices; \<open>oldMap\<close> keeps the last condition of each type.\<close>

definition sameReport :: "Condition \<Rightarrow> Condition \<Rightarrow> bool" where
  "sameReport a b \<longleftrightarrow> c_status a = c_status b \<and> c_reason a = c_reason b \<and> c_message a = c_message b"

definition conditionsEqual :: "Condition list \<Rightarrow> Condition list \<Rightarrow> bool" where
  "conditionsEqual oldConds newConds =
     (if length oldConds \<noteq> length newConds then False
      else let oldMap = fold (\<lambda>c m. mset_key m (c_type c) c) oldConds [] in
        list_all (\<lambda>newCond. case map_of oldMap (c_type newCond) of
            None \<Rightarrow> False
          | Some oldCond \<Rightarrow> sameReport oldCond newCond) newConds)"

fun hostedClusterPredicate :: "HostedCluster watchEvent \<Rightarrow> bool" where
  "hostedClusterPredicate (UpdateEvent hcOld hcNew) =
     (if \<not> conditionsEqual (hct_conditions (hc_status hcOld)) (hct_conditions (hc_status hcNew)) then True
      else hct_controlPlaneVersion (hc_status hcOld) \<noteq> hct_controlPlaneVersion (hc_status hcNew))"
| "hostedClusterPredicate _ = True"

definition configPredicate :: "ObjectMeta watchEvent \<Rightarrow> bool" where
  "configPredicate = GenerationChangedPredicate (\<lambda>m. m)"

fun ignitionConfigMapPredicate :: "ConfigMap watchEvent \<Rightarrow> bool" where
  "ignitionConfigMapPredicate (DeleteEvent cm) = (mget (om_labels (cm_meta cm)) BfcfgTemplateLabel = ''true'')"
| "ignitionConfigMapPredicate _ = False"

subsection \<open>Mapping functions\<close>

text \<open>The resources of the list that satisfy a test; an error of the list is logged and dropped.\<close>

definition requestsFor :: "env \<Rightarrow> (DPFHCPProvisioner \<Rightarrow> bool) \<Rightarrow> NamespacedName list io" where
  "requestsFor E affected = do {
     r \<leftarrow> listCRs E;
     State_Monad.return (case r of Inl _ \<Rightarrow> [] | Inr items \<Rightarrow> map cr_key (filter affected items))
   }"

definition dpuClusterToRequests :: "env \<Rightarrow> DPUCluster \<Rightarrow> NamespacedName list io" where
  "dpuClusterToRequests E dpuCluster = requestsFor E (\<lambda>p.
     ref_name (sp_dpuClusterRef (cr_spec p)) = dc_name dpuCluster
     \<and> ref_namespace (sp_dpuClusterRef (cr_spec p)) = dc_namespace dpuCluster)"

definition secretToRequests :: "env \<Rightarrow> Secret \<Rightarrow> NamespacedName list io" where
  "secretToRequests E secret = requestsFor E (\<lambda>p.
     (let isSSHKeySecret = sp_sshKeySecretRef (cr_spec p) = om_name (sec_meta secret)
            \<and> cr_namespace p = om_namespace (sec_meta secret);
          isPullSecret = sp_pullSecretRef (cr_spec p) = om_name (sec_meta secret)
            \<and> cr_namespace p = om_namespace (sec_meta secret)
      in isSSHKeySecret \<or> isPullSecret))"

definition configToRequests :: "env \<Rightarrow> NamespacedName list io" where
  "configToRequests E = requestsFor E (\<lambda>_. True)"

definition ignitionConfigMapToRequests :: "env \<Rightarrow> ConfigMap \<Rightarrow> NamespacedName list io" where
  "ignitionConfigMapToRequests E cm =
     (let annotations = om_annotations (cm_meta cm);
          dpuClusterName = mget annotations BfcfgTemplateClusterNameAnnotation;
          dpuClusterNamespace = mget annotations BfcfgTemplateClusterNamespaceAnnotation in
      if dpuClusterName = [] \<or> dpuClusterNamespace = [] then State_Monad.return []
      else do {
        r \<leftarrow> listCRs E;
        State_Monad.return (case r of
          Inl _ \<Rightarrow> []
        | Inr items \<Rightarrow>
            (case List.find (\<lambda>p. ref_name (sp_dpuClusterRef (cr_spec p)) = dpuClusterName
                \<and> ref_namespace (sp_dpuClusterRef (cr_spec p)) = dpuClusterNamespace) items of
               None \<Rightarrow> [] | Some p \<Rightarrow> [cr_key p]))
      })"

definition dpuDeploymentToRequests :: "env \<Rightarrow> DPUDeployment \<Rightarrow> NamespacedName list io" where
  "dpuDeploymentToRequests E dpuDeployment = requestsFor E (\<lambda>p.
     case sp_dpuDeploymentRef (cr_spec p) of
       None \<Rightarrow> False
     | Some ref \<Rightarrow> ref_name ref = om_name (dd_meta dpuDeployment)
         \<and> ref_namespace ref = om_namespace (dd_meta dpuDeployment))"

fun flavorUsers :: "env \<Rightarrow> ObjectMeta \<Rightarrow> DPFHCPProvisioner list \<Rightarrow> NamespacedName list io" where
  "flavorUsers E obj [] = State_Monad.return []"
| "flavorUsers E obj (p # ps) =
     (case sp_dpuDeploymentRef (cr_spec p) of
        None \<Rightarrow> flavorUsers E obj ps
      | Some ref \<Rightarrow>
          if ref_namespace ref \<noteq> om_namespace obj then flavorUsers E obj ps
          else do {
            r \<leftarrow> getDPUDeployment E (NN (ref_namespace ref) (ref_name ref));
            rest \<leftarrow> flavorUsers E obj ps;
            State_Monad.return (case r of
              Inl _ \<Rightarrow> rest
            | Inr dd \<Rightarrow> if derefName (dd_flavor dd) = om_name obj then cr_key p # rest else rest)
          })"

definition dpuFlavorToRequests :: "env \<Rightarrow> DPUFlavor \<Rightarrow> NamespacedName list io" where
  "dpuFlavorToRequests E flavor = do {
     r \<leftarrow> listCRs E;
     (case r of
        Inl _ \<Rightarrow> State_Monad.return []
      | Inr items \<Rightarrow> flavorUsers E (df_meta flavor) items)
   }"

subsection \<open>Properties\<close>

text \<open>What the comparison looks at.\<close>

definition reported :: "Condition \<Rightarrow> string \<times> ConditionStatus \<times> string \<times> string" where
  "reported c = (c_type c, c_status c, c_reason c, c_message c)"

lemma map_of_fold_conditions:
  "t \<notin> c_type ` set cs \<Longrightarrow> map_of (fold (\<lambda>c m. mset_key m (c_type c) c) cs m0) t = map_of m0 t"
  by (induction cs arbitrary: m0) (auto simp: map_of_mset_key)

lemma map_of_fold_distinct:
  "distinct (map c_type cs) \<Longrightarrow> c \<in> set cs \<Longrightarrow>
   map_of (fold (\<lambda>c m. mset_key m (c_type c) c) cs m0) (c_type c) = Some c"
  by (induction cs arbitrary: m0) (auto simp: map_of_fold_conditions map_of_mset_key)

lemma conditionsEqual_subset:
  assumes "distinct (map c_type olds)"
  shows "conditionsEqual olds news \<longleftrightarrow> length olds = length news \<and> reported ` set news \<subseteq> reported ` set olds"
proof -
  let ?m = "fold (\<lambda>c m. mset_key m (c_type c) c) olds []"
  have "(case map_of ?m (c_type n) of None \<Rightarrow> False | Some c \<Rightarrow> sameReport c n) \<longleftrightarrow> reported n \<in> reported ` set olds" for n
  proof (cases "c_type n \<in> c_type ` set olds")
    case True
    then obtain c where c: "c \<in> set olds" "c_type n = c_type c" by auto
    have "c' = c" if "c' \<in> set olds" "c_type c' = c_type c" for c'
      using assms c(1) that by (auto simp: distinct_map dest: inj_onD)
    then show ?thesis
      using c map_of_fold_distinct [OF assms c(1), of "[]"]
      by (auto simp: sameReport_def reported_def image_iff)
  next
    case False
    then show ?thesis
      using map_of_fold_conditions [OF False, of "[]"] by (auto simp: reported_def)
  qed
  then show ?thesis by (auto simp: conditionsEqual_def list_all_iff)
qed

lemma card_reported: "distinct (map c_type cs) \<Longrightarrow> card (reported ` set cs) = length cs"
  by (subst card_image) (auto simp: distinct_map reported_def distinct_card inj_on_def)

text \<open>
  The one-sided comparison of the HostedCluster watch decides equality: for condition lists with
  one condition per type (as the API server keeps them), \<^verbatim>\<open>conditionsEqual\<close> holds exactly when both
  lists report the same types with the same status, reason and message, in whatever order. An update
  is therefore dropped only if no condition and no control plane version has changed.
\<close>

lemma conditionsEqual_iff:
  assumes "distinct (map c_type olds)" and "distinct (map c_type news)"
  shows "conditionsEqual olds news \<longleftrightarrow> reported ` set olds = reported ` set news"
  using conditionsEqual_subset [OF assms(1)] card_reported [OF assms(1)] card_reported [OF assms(2)]
    card_subset_eq [of "reported ` set olds" "reported ` set news"]
  by auto

lemma conditionsEqual_iff_witness:
  "conditionsEqual [mkCond ''a'' ConditionTrue [] [] 1, mkCond ''b'' ConditionFalse [] [] 1]
     [mkCond ''b'' ConditionFalse [] [] 2, mkCond ''a'' ConditionTrue [] [] 2]"
  using conditionsEqual_iff [of "[mkCond ''a'' ConditionTrue [] [] 1, mkCond ''b'' ConditionFalse [] [] 1]"
     "[mkCond ''b'' ConditionFalse [] [] 2, mkCond ''a'' ConditionTrue [] [] 2]"]
  by (auto simp: reported_def)

lemma base_cluster_annotations:
  "mget (baseAnnotations cr url @ rest) BfcfgTemplateClusterNameAnnotation = ref_name (sp_dpuClusterRef (cr_spec cr))"
  "mget (baseAnnotations cr url @ rest) BfcfgTemplateClusterNamespaceAnnotation = ref_namespace (sp_dpuClusterRef (cr_spec cr))"
  by (auto simp: baseAnnotations_def annotation_defs mget_def)

lemma SetControllerReference_labels:
  "SetControllerReference owner m = Inr m' \<Longrightarrow> om_labels m' = om_labels m"
  by (auto simp: SetControllerReference_def split: if_splits option.splits)

lemma ignitionConfigMap_labels: "om_labels (cm_meta (ignitionConfigMap cr a j)) = [(BfcfgTemplateLabel, ''true'')]"
  by (auto simp: ignitionConfigMap_def Let_def newMeta_def dest: SetControllerReference_labels split: sum.splits)

text \<open>
  A deleted ignition ConfigMap comes back: when a ConfigMap that the generator wrote for a resource is
  deleted, the event passes the predicate and is mapped to exactly that resource, provided it is
  still listed and no other resource refers to the same DPUCluster (which the exclusivity check of
  the validator guarantees).
\<close>

lemma deleted_ignition_requeues:
  assumes "run_state (ignitionConfigMapToRequests E cm) s = (requests, s')"
    and "cm = ignitionConfigMap cr (baseAnnotations cr url @ deployment) json"
    and "ref_name (sp_dpuClusterRef (cr_spec cr)) \<noteq> []" and "ref_namespace (sp_dpuClusterRef (cr_spec cr)) \<noteq> []"
    and "a_listCRs (mgmt E) (st_history s) = Inr items" and "cr \<in> set items"
    and "\<And>p. p \<in> set items \<Longrightarrow> sp_dpuClusterRef (cr_spec p) = sp_dpuClusterRef (cr_spec cr) \<Longrightarrow> cr_key p = cr_key cr"
  shows "ignitionConfigMapPredicate (DeleteEvent cm) \<and> requests = [cr_key cr]"
proof -
  have pred: "ignitionConfigMapPredicate (DeleteEvent cm)"
    by (simp add: assms(2) ignitionConfigMap_labels mget_def)
  let ?test = "\<lambda>p. ref_name (sp_dpuClusterRef (cr_spec p)) = ref_name (sp_dpuClusterRef (cr_spec cr))
      \<and> ref_namespace (sp_dpuClusterRef (cr_spec p)) = ref_namespace (sp_dpuClusterRef (cr_spec cr))"
  obtain p where p: "List.find ?test items = Some p"
    using assms(6) by (cases "List.find ?test items") (auto simp: find_None_iff)
  then have "p \<in> set items" "?test p" by (auto dest: find_SomeD)
  then have "cr_key p = cr_key cr" using assms(7) by (intro assms(7)) simp_all
  then have "wp (ignitionConfigMapToRequests E cm) (\<lambda>r t. r = [cr_key cr]) s"
    using p assms(3-5)
    by (simp add: ignitionConfigMapToRequests_def assms(2) ignitionConfigMap_annotations base_cluster_annotations
        wp_simps)
  then show ?thesis using pred assms(1) by (auto dest: wp_run)
qed

definition listedEnv :: env where
  "listedEnv = emptyEnv\<lparr>mgmt := emptyMgmt\<lparr>a_listCRs := \<lambda>_. Inr [syncedCR]\<rparr>\<rparr>"

lemma deleted_ignition_requeues_witness:
  "fst (run_state (ignitionConfigMapToRequests listedEnv
     (ignitionConfigMap syncedCR (baseAnnotations syncedCR ''new'' @ deploymentAnnotations ''dpf'' servedDeployment) [])) (startState sampleCR)) = [cr_key syncedCR]"
proof -
  let ?cm = "ignitionConfigMap syncedCR (baseAnnotations syncedCR ''new'' @ deploymentAnnotations ''dpf'' servedDeployment) []"
  obtain r s' where run: "run_state (ignitionConfigMapToRequests listedEnv ?cm) (startState sampleCR) = (r, s')"
    by (rule prod.exhaust)
  have "ref_name (sp_dpuClusterRef (cr_spec syncedCR)) \<noteq> []" "ref_namespace (sp_dpuClusterRef (cr_spec syncedCR)) \<noteq> []"
    by (simp_all add: syncedCR_def upCR_def sample_defs set_status_defs)
  then have "r = [cr_key syncedCR]"
    using deleted_ignition_requeues [OF run refl, of "[syncedCR]"] by (simp add: listedEnv_def)
  then show ?thesis by (simp add: run)
qed

text \<open>
  A changed flavor reaches every user: with stable answers, the mapping names exactly the listed
  resources whose DPUDeployment, in the namespace of the flavor, uses it.
\<close>

definition usesFlavor :: "(NamespacedName \<Rightarrow> goerror + DPUDeployment) \<Rightarrow> ObjectMeta \<Rightarrow> DPFHCPProvisioner \<Rightarrow> bool" where
  "usesFlavor D obj p \<longleftrightarrow> (\<exists>ref dd. sp_dpuDeploymentRef (cr_spec p) = Some ref \<and> ref_namespace ref = om_namespace obj
     \<and> D (NN (ref_namespace ref) (ref_name ref)) = Inr dd \<and> derefName (dd_flavor dd) = om_name obj)"

lemma wp_flavorUsers:
  assumes "\<And>h k. a_getDPUDeployment (mgmt E) h k = D k"
  shows "wp (flavorUsers E obj ps) (\<lambda>r t. r = map cr_key (filter (usesFlavor D obj) ps)) s"
proof (induction ps arbitrary: s)
  case (Cons p ps)
  show ?case
    by (auto simp: wp_simps assms usesFlavor_def [of D obj p] intro!: Cons [THEN wp_mono] split: option.splits sum.splits)
qed (simp add: wp_simps)

lemma dpuFlavorToRequests_exact:
  assumes "run_state (dpuFlavorToRequests E flavor) s = (requests, s')"
    and "\<And>h k. a_getDPUDeployment (mgmt E) h k = D k" and "a_listCRs (mgmt E) (st_history s) = Inr items"
  shows "requests = map cr_key (filter (usesFlavor D (df_meta flavor)) items)"
proof -
  have "wp (dpuFlavorToRequests E flavor) (\<lambda>r t. r = map cr_key (filter (usesFlavor D (df_meta flavor)) items)) s"
    unfolding dpuFlavorToRequests_def using wp_flavorUsers [OF assms(2)] assms(3) by (simp add: wp_simps)
  then show ?thesis using assms(1) by (rule wp_run)
qed

end
