(* ===== verification/Semver.thy ===== *)
theory Semver
  imports Prelude "HOL-Library.Product_Lexorder" "HOL-Library.List_Lexorder" "HOL-Library.Char_ord"
begin

section \<open>Semantic versions\<close>

text \<open>
  The parts of \<^verbatim>\<open>vendor/github.com/blang/semver/v4\<close> the service templates rest on: parsing of exact and
  of shortened versions and their order. Numbers are bounded as Go's \<^verbatim>\<open>uint64\<close>. The lemmas show that a
  released version parses to its three numbers and that \<open>Compare\<close> is the total order by precedence.
\<close>

subsection \<open>Strings\<close>

text \<open>\<^verbatim>\<open>strings.TrimLeft\<close> with a one-byte cutset, and the character sets of the package.\<close>

definition TrimLeft :: "string \<Rightarrow> char \<Rightarrow> string" where
  "TrimLeft s c = dropWhile (\<lambda>x. x = c) s"

definition isDigit :: "char \<Rightarrow> bool" where
  "isDigit c \<longleftrightarrow> 48 \<le> (of_char c :: nat) \<and> (of_char c :: nat) \<le> 57"

definition isAlphanum :: "char \<Rightarrow> bool" where
  "isAlphanum c \<longleftrightarrow> (let n = (of_char c :: nat) in
     (97 \<le> n \<and> n \<le> 122) \<or> (65 \<le> n \<and> n \<le> 90) \<or> n = 45) \<or> isDigit c"

text \<open>\<^verbatim>\<open>strconv.ParseUint(s, 10, 64)\<close>.\<close>

definition digitsValue :: "string \<Rightarrow> nat" where
  "digitsValue s = fold (\<lambda>c n. n * 10 + (of_char c - 48)) s 0"

definition ParseUint :: "string \<Rightarrow> goerror + nat" where
  "ParseUint s =
     (if s = [] \<or> \<not> list_all isDigit s
      then Inl (Errorf (''strconv.ParseUint: parsing '' @ Quote s @ '': invalid syntax''))
      else if (2 :: int) ^ 64 \<le> int (digitsValue s)
      then Inl (Errorf (''strconv.ParseUint: parsing '' @ Quote s @ '': value out of range''))
      else Inr (digitsValue s))"

definition hasLeadingZeroes :: "string \<Rightarrow> bool" where
  "hasLeadingZeroes s \<longleftrightarrow> 1 < length s \<and> hd s = CHR ''0''"

subsection \<open>Versions\<close>

datatype PRVersion = PRNum nat | PRStr string

record Version =
  v_major :: nat
  v_minor :: nat
  v_patch :: nat
  v_pre :: "PRVersion list"
  v_build :: "string list"

text \<open>One of the three numbers; \<open>which\<close> is the word in the error texts.\<close>

definition parseNumber :: "string \<Rightarrow> string \<Rightarrow> goerror + nat" where
  "parseNumber which s =
     (if \<not> list_all isDigit s
      then Inl (Errorf (''Invalid character(s) found in '' @ which @ '' number '' @ Quote s))
      else if hasLeadingZeroes s
      then Inl (Errorf (which @ '' number must not contain leading zeroes '' @ Quote s))
      else ParseUint s)"

definition NewPRVersion :: "string \<Rightarrow> goerror + PRVersion" where
  "NewPRVersion s =
     (if s = [] then Inl (Errorf ''Prerelease is empty'')
      else if list_all isDigit s
      then (if hasLeadingZeroes s
            then Inl (Errorf (''Numeric PreRelease version must not contain leading zeroes '' @ Quote s))
            else (case ParseUint s of Inl e \<Rightarrow> Inl e | Inr n \<Rightarrow> Inr (PRNum n)))
      else if list_all isAlphanum s then Inr (PRStr s)
      else Inl (Errorf (''Invalid character(s) found in prerelease '' @ Quote s)))"

fun parsePres :: "string list \<Rightarrow> goerror + PRVersion list" where
  "parsePres [] = Inr []"
| "parsePres (s # ss) =
     (case NewPRVersion s of
        Inl e \<Rightarrow> Inl e
      | Inr p \<Rightarrow> (case parsePres ss of Inl e \<Rightarrow> Inl e | Inr ps \<Rightarrow> Inr (p # ps)))"

fun parseBuilds :: "string list \<Rightarrow> goerror + string list" where
  "parseBuilds [] = Inr []"
| "parseBuilds (s # ss) =
     (if s = [] then Inl (Errorf ''Build meta data is empty'')
      else if \<not> list_all isAlphanum s
      then Inl (Errorf (''Invalid character(s) found in build meta data '' @ Quote s))
      else (case parseBuilds ss of Inl e \<Rightarrow> Inl e | Inr bs \<Rightarrow> Inr (s # bs)))"

text \<open>What follows a separator, in pieces, and what precedes it.\<close>

definition cutAt :: "string \<Rightarrow> char \<Rightarrow> string \<times> string list" where
  "cutAt s c =
     (case Index s c of
        None \<Rightarrow> (s, [])
      | Some i \<Rightarrow> (take i s, Split (drop (Suc i) s) (CHR ''.'')))"

definition Parse :: "string \<Rightarrow> goerror + Version" where
  "Parse s =
     (if s = [] then Inl (Errorf ''Version string empty'')
      else (case SplitN s (CHR ''.'') 3 of
        [p0, p1, p2] \<Rightarrow>
          (case parseNumber ''major'' p0 of
             Inl e \<Rightarrow> Inl e
           | Inr major \<Rightarrow> (case parseNumber ''minor'' p1 of
               Inl e \<Rightarrow> Inl e
             | Inr minor \<Rightarrow>
                 (let (rest, build) = cutAt p2 (CHR ''+'');
                      (patchStr, prerelease) = cutAt rest (CHR ''-'') in
                  (case parseNumber ''patch'' patchStr of
                     Inl e \<Rightarrow> Inl e
                   | Inr patch \<Rightarrow> (case parsePres prerelease of
                       Inl e \<Rightarrow> Inl e
                     | Inr pre \<Rightarrow> (case parseBuilds build of
                         Inl e \<Rightarrow> Inl e
                       | Inr bs \<Rightarrow> Inr \<lparr>v_major = major, v_minor = minor, v_patch = patch, v_pre = pre, v_build = bs\<rparr>))))))
      | _ \<Rightarrow> Inl (Errorf ''No Major.Minor.Patch elements found'')))"

definition trimZeroes :: "string \<Rightarrow> string" where
  "trimZeroes p =
     (if 1 < length p
      then let q = TrimLeft p (CHR ''0'') in
        if q = [] \<or> \<not> isDigit (hd q) then ''0'' @ q else q
      else p)"

definition ParseTolerant :: "string \<Rightarrow> goerror + Version" where
  "ParseTolerant s0 =
     (let s = TrimPrefix (TrimSpace s0) ''v'';
          parts = map trimZeroes (SplitN s (CHR ''.'') 3) in
      if length parts < 3
      then (if CHR ''+'' \<in> set (last parts) \<or> CHR ''-'' \<in> set (last parts)
            then Inl (Errorf ''Short version cannot contain PreRelease/Build meta data'')
            else Parse (Join (parts @ replicate (3 - length parts) ''0'') ''.''))
      else Parse (Join parts ''.''))"

subsection \<open>Order\<close>

text \<open>\<^verbatim>\<open>PRVersion.Compare\<close> and \<^verbatim>\<open>Version.Compare\<close>: -1, 0 or 1. Build metadata do not count.\<close>

fun ComparePR :: "PRVersion \<Rightarrow> PRVersion \<Rightarrow> int" where
  "ComparePR (PRNum m) (PRStr t) = -1"
| "ComparePR (PRStr s) (PRNum n) = 1"
| "ComparePR (PRNum m) (PRNum n) = (if m = n then 0 else if m > n then 1 else -1)"
| "ComparePR (PRStr s) (PRStr t) = (if s = t then 0 else if s > t then 1 else -1)"

fun comparePres :: "PRVersion list \<Rightarrow> PRVersion list \<Rightarrow> int" where
  "comparePres (p # ps) (q # qs) =
     (let comp = ComparePR p q in if comp = 0 then comparePres ps qs else if comp = 1 then 1 else -1)"
| "comparePres [] [] = 0"
| "comparePres [] (q # qs) = -1"
| "comparePres (p # ps) [] = 1"

definition Compare :: "Version \<Rightarrow> Version \<Rightarrow> int" where
  "Compare v w =
     (if v_major v \<noteq> v_major w then (if v_major v > v_major w then 1 else -1)
      else if v_minor v \<noteq> v_minor w then (if v_minor v > v_minor w then 1 else -1)
      else if v_patch v \<noteq> v_patch w then (if v_patch v > v_patch w then 1 else -1)
      else if v_pre v = [] \<and> v_pre w = [] then 0
      else if v_pre v = [] then 1
      else if v_pre w = [] then -1
      else comparePres (v_pre v) (v_pre w))"

definition GTE :: "Version \<Rightarrow> Version \<Rightarrow> bool" where
  "GTE v w \<longleftrightarrow> Compare v w \<ge> 0"

definition LT :: "Version \<Rightarrow> Version \<Rightarrow> bool" where
  "LT v w \<longleftrightarrow> Compare v w = -1"

definition dropPre :: "Version \<Rightarrow> Version" where
  "dropPre v = v\<lparr>v_pre := []\<rparr>"

definition numbersOf :: "Version \<Rightarrow> nat \<times> nat \<times> nat" where
  "numbersOf v = (v_major v, v_minor v, v_patch v)"

text \<open>
  The precedence of a version: its numbers, then a release before its prereleases, then the
  identifiers from left to right, numbers below words. \<open>Compare\<close> is the comparison of precedences, so it
  is a total order on versions that ignores build metadata.
\<close>

fun identifierKey :: "PRVersion \<Rightarrow> bool \<times> nat \<times> string" where
  "identifierKey (PRNum n) = (False, n, [])"
| "identifierKey (PRStr s) = (True, 0, s)"

definition precedence :: "Version \<Rightarrow> (nat \<times> nat \<times> nat) \<times> bool \<times> (bool \<times> nat \<times> string) list" where
  "precedence v = (numbersOf v, v_pre v = [], map identifierKey (v_pre v))"

lemma ComparePR_key:
  "ComparePR p q = (if identifierKey p < identifierKey q then -1 else if identifierKey p = identifierKey q then 0 else 1)"
  by (cases p; cases q) (auto simp: not_less_iff_gr_or_eq)

lemma comparePres_key:
  "comparePres ps qs = (let ks = map identifierKey ps; ls = map identifierKey qs in
     if ks < ls then -1 else if ks = ls then 0 else 1)"
  by (induction ps qs rule: comparePres.induct) (auto simp: ComparePR_key Let_def dest: less_imp_neq)

lemma Compare_precedence:
  "Compare v w = (if precedence v < precedence w then -1 else if precedence v = precedence w then 0 else 1)"
  by (auto simp: Compare_def precedence_def numbersOf_def comparePres_key Let_def)

lemma LT_precedence: "LT v w \<longleftrightarrow> precedence v < precedence w"
  by (simp add: LT_def Compare_precedence)

lemma GTE_precedence: "GTE v w \<longleftrightarrow> precedence w \<le> precedence v"
  by (auto simp: GTE_def Compare_precedence not_less)

text \<open>In particular versions in the order of precedence are in the order of their numbers.\<close>

lemma precedence_numbers: "precedence v \<le> precedence w \<Longrightarrow> numbersOf v \<le> numbersOf w"
  by (cases "numbersOf v < numbersOf w") (simp_all add: precedence_def)

lemma sorted_numbers: "sorted (map (\<lambda>e. precedence (f e)) es) \<Longrightarrow> sorted (map (\<lambda>e. numbersOf (f e)) es)"
  unfolding sorted_map by (rule sorted_wrt_mono_rel) (auto dest: precedence_numbers)

text \<open>Without its prerelease identifiers a version is at least another one when its numbers are.\<close>

lemma GTE_dropPre [simp]: "GTE (dropPre v) w \<longleftrightarrow> numbersOf w \<le> numbersOf v"
  by (auto simp: GTE_precedence precedence_def dropPre_def numbersOf_def)

lemma numbersOf_dropPre [simp]: "numbersOf (dropPre v) = numbersOf v"
  by (simp add: numbersOf_def dropPre_def)

subsection \<open>Released versions\<close>

text \<open>Numbers print and parse.\<close>

lemma of_char_digit: "n < 10 \<Longrightarrow> of_char (digit_char n) = 48 + n"
  by (simp add: digit_char_def)

lemma digitsValue_append: "digitsValue (s @ [c]) = digitsValue s * 10 + (of_char c - 48)"
  by (simp add: digitsValue_def)

lemma digits_show_nat: "digitsValue (show_nat n) = n \<and> list_all isDigit (show_nat n)"
proof (induction n rule: show_nat.induct)
  case (1 n)
  show ?case
  proof (cases "n < 10")
    case True
    then show ?thesis
      by (simp add: show_nat.simps [of n] digitsValue_def of_char_digit isDigit_def)
  next
    case False
    have "n mod 10 < 10" by simp
    then show ?thesis
      using 1 [OF False] False
      by (subst (1 2) show_nat.simps)
        (simp add: digitsValue_append of_char_digit isDigit_def [of "digit_char _"] less_Suc_eq_le [symmetric])
  qed
qed

lemma show_nat_lead: "show_nat n \<noteq> [] \<and> (hd (show_nat n) = CHR ''0'' \<longrightarrow> n = 0)"
proof (induction n rule: show_nat.induct)
  case (1 n)
  show ?case
  proof (cases "n < 10")
    case True
    then have "digit_char n = CHR ''0'' \<longrightarrow> n = 0"
      using of_char_digit [OF True] by auto
    then show ?thesis by (simp add: show_nat.simps [of n] True)
  next
    case False
    then show ?thesis
      using 1 [OF False] by (subst (1 2) show_nat.simps) auto
  qed
qed

lemma show_nat_digits: "c \<in> set (show_nat n) \<Longrightarrow> isDigit c"
  using digits_show_nat [of n] by (simp add: list_all_iff)

lemma show_nat_no_zero: "1 < length (show_nat n) \<Longrightarrow> hd (show_nat n) \<noteq> CHR ''0''"
  using show_nat_lead [of n] by (cases "n = 0") (auto simp: show_nat.simps [of 0])

lemma parseNumber_show: "n < 2 ^ 64 \<Longrightarrow> parseNumber which (show_nat n) = Inr n"
proof -
  assume "n < 2 ^ 64"
  then have "int n < 2 ^ 64" by simp
  then show ?thesis
    using digits_show_nat [of n] show_nat_lead [of n] show_nat_no_zero [of n]
    by (auto simp: parseNumber_def ParseUint_def hasLeadingZeroes_def)
qed

lemma trimZeroes_show: "trimZeroes (show_nat n) = show_nat n"
proof (cases "1 < length (show_nat n)")
  case True
  then obtain c s where "show_nat n = c # s" "c \<noteq> CHR ''0''" "isDigit c"
    using show_nat_no_zero [OF True] show_nat_digits [of _ n] by (cases "show_nat n") auto
  then show ?thesis by (simp add: trimZeroes_def TrimLeft_def)
qed (simp add: trimZeroes_def)

definition released :: "nat \<Rightarrow> nat \<Rightarrow> nat \<Rightarrow> string" where
  "released a b c = show_nat a @ ''.'' @ show_nat b @ ''.'' @ show_nat c"

lemma digit_not_special: "isDigit c \<Longrightarrow> c \<noteq> CHR ''.'' \<and> c \<noteq> CHR ''+'' \<and> c \<noteq> CHR ''-'' \<and> c \<noteq> CHR ''v''"
  by (auto simp: isDigit_def)

lemma whiteSpace_no_digit:
  "list_all (\<lambda>w. w \<noteq> [] \<and> \<not> isDigit (hd w)) whiteSpace" "list_all (\<lambda>w. w \<noteq> [] \<and> \<not> isDigit (hd w)) (map rev whiteSpace)"
  by code_simp+

lemma dropSpaces_digit:
  assumes "list_all (\<lambda>w. w \<noteq> [] \<and> \<not> isDigit (hd w)) ws" and "isDigit c"
  shows "dropSpaces ws n (c # s) = c # s"
proof -
  have "\<not> HasPrefix (c # s) w" if "w \<in> set ws" for w
  proof -
    have "w \<noteq> []" and "\<not> isDigit (hd w)" using that assms(1) by (auto simp: list_all_iff)
    then show ?thesis using assms(2) by (cases w) (auto simp: HasPrefix_def)
  qed
  then have "List.find (HasPrefix (c # s)) ws = None" by (simp add: find_None_iff)
  then show ?thesis by (cases n) simp_all
qed

lemma show_nat_special: "CHR ''.'' \<notin> set (show_nat n)" "CHR ''+'' \<notin> set (show_nat n)" "CHR ''-'' \<notin> set (show_nat n)"
  using show_nat_digits [of _ n] digit_not_special by blast+

lemma SplitN_released: "SplitN (released a b c) (CHR ''.'') 3 = [show_nat a, show_nat b, show_nat c]"
  by (simp add: released_def SplitN_append show_nat_special numeral_3_eq_3)

lemma TrimSpace_released: "TrimPrefix (TrimSpace (released a b c)) ''v'' = released a b c"
proof -
  obtain x s where x: "show_nat a = x # s" "isDigit x"
    using show_nat_lead [of a] show_nat_digits [of _ a] by (cases "show_nat a") auto
  obtain y t where y: "show_nat c = t @ [y]" "isDigit y"
    using show_nat_lead [of c] show_nat_digits [of _ c] by (cases "show_nat c" rule: rev_cases) auto
  have "TrimSpace (released a b c) = released a b c"
    by (simp add: TrimSpace_def released_def x(1) y(1) Let_def dropSpaces_digit whiteSpace_no_digit x(2) y(2)
        del: dropSpaces.simps)
  moreover have "\<not> HasPrefix (released a b c) ''v''"
    using digit_not_special [OF x(2)] by (simp add: HasPrefix_def released_def x(1))
  ultimately show ?thesis by (simp add: TrimPrefix_def)
qed

lemma ParseTolerant_released:
  assumes "a < 2 ^ 64" and "b < 2 ^ 64" and "c < 2 ^ 64"
  shows "ParseTolerant (released a b c) = Inr \<lparr>v_major = a, v_minor = b, v_patch = c, v_pre = [], v_build = []\<rparr>"
proof -
  have ne: "released a b c \<noteq> []" by (simp add: released_def)
  have cut: "cutAt (show_nat c) (CHR ''+'') = (show_nat c, [])" "cutAt (show_nat c) (CHR ''-'') = (show_nat c, [])"
    using show_nat_special [of c] by (simp_all add: cutAt_def Index_None [THEN iffD2])
  have "Parse (released a b c) = Inr \<lparr>v_major = a, v_minor = b, v_patch = c, v_pre = [], v_build = []\<rparr>"
    using ne cut by (simp add: Parse_def SplitN_released parseNumber_show [OF assms(1)]
        parseNumber_show [OF assms(2)] parseNumber_show [OF assms(3)])
  moreover have "Join [show_nat a, show_nat b, show_nat c] ''.'' = released a b c" by (simp add: released_def)
  ultimately show ?thesis
    unfolding ParseTolerant_def Let_def TrimSpace_released SplitN_released by (simp add: trimZeroes_show)
qed

end
