(* ===== verification/Dpf_Defaults.thy ===== *)
theory Dpf_Defaults
  imports Steps "HOL-Library.Char_ord" "HOL-Library.List_Lexorder"
begin

section \<open>Values of the service templates\<close>

text \<open>
  \<^verbatim>\<open>internal/dpfdefaults/defaults.go\<close> with its embedded table \<^verbatim>\<open>dpfversions.json\<close>, and
  \<^verbatim>\<open>dpuservicetemplatevalues.go\<close>: the chart and image pins per DPF version and the overrides of the user,
  which \<^verbatim>\<open>encoding/json\<close> decodes on top of them. The decoder is modelled as the library documents it: names
  of fields match without regard to case, \<^verbatim>\<open>null\<close> changes nothing, a value of another type, a number
  that does not fit and an unknown field are errors. The lemmas show that every DPF version has values,
  and that an override changes the fields it names and no other.
\<close>

subsection \<open>The table\<close>

record OVNTemplateValues =
  ovn_chartRepoURL :: string
  ovn_chartName :: string
  ovn_chartVersion :: string

record DTSTemplateValues =
  dts_chartRepoURL :: string
  dts_chartName :: string
  dts_chartVersion :: string
  dts_imageDTS :: string
  dts_prometheusPort :: int

record HBNTemplateValues =
  hbn_chartRepoURL :: string
  hbn_chartName :: string
  hbn_chartVersion :: string
  hbn_imageRepo :: string
  hbn_imageTag :: string
  hbn_bfSFCount :: int

record DPUServiceTemplateValues =
  tv_ovn :: OVNTemplateValues
  tv_dts :: DTSTemplateValues
  tv_hbn :: HBNTemplateValues
  tv_imagePullSecret :: string

record versionEntry =
  ve_docaVersion :: string
  ve_ovn :: OVNTemplateValues
  ve_dts :: DTSTemplateValues
  ve_hbn :: HBNTemplateValues

definition row264 :: versionEntry where
  "row264 = \<lparr>
     ve_docaVersion = ''3.4'',
     ve_ovn = \<lparr>
       ovn_chartRepoURL = ''oci://ghcr.io/mellanox/charts'',
       ovn_chartName = ''ovn-kubernetes-chart'',
       ovn_chartVersion = ''v26.4.1-ocp-release-v4.22''\<rparr>,
     ve_dts = \<lparr>
       dts_chartRepoURL = ''https://helm.ngc.nvidia.com/nvidia/doca'',
       dts_chartName = ''doca-telemetry'',
       dts_chartVersion = ''1.25.5'',
       dts_imageDTS = ''nvcr.io/nvidia/doca/doca_telemetry:1.25.5-doca3.4.0'',
       dts_prometheusPort = 9189\<rparr>,
     ve_hbn = \<lparr>
       hbn_chartRepoURL = ''https://helm.ngc.nvidia.com/nvidia/doca'',
       hbn_chartName = ''doca-hbn'',
       hbn_chartVersion = ''3.4.0'',
       hbn_imageRepo = ''nvcr.io/nvidia/doca/doca_hbn'',
       hbn_imageTag = ''3.4.0-doca3.4.0'',
       hbn_bfSFCount = 3\<rparr>\<rparr>"

definition defaultKey :: string where
  "defaultKey = ''default''"

text \<open>Both rows of the embedded table are the same.\<close>

definition byMajorMinor :: "versionEntry gomap" where
  "byMajorMinor = [(''26.4'', row264), (''default'', row264)]"

definition entry :: "string \<Rightarrow> goerror + versionEntry" where
  "entry majorMinor =
     (if majorMinor = [] then Inl (Errorf (''unsupported DPF version '' @ Quote majorMinor))
      else (case map_of byMajorMinor majorMinor of
        Some row \<Rightarrow> Inr row
      | None \<Rightarrow> Inr (the (map_of byMajorMinor defaultKey))))"

definition DocaVersion :: "string \<Rightarrow> goerror + string" where
  "DocaVersion majorMinor =
     (case entry majorMinor of
        Inl e \<Rightarrow> Inl e
      | Inr row \<Rightarrow>
          if ve_docaVersion row = []
          then Inl (Errorf (''docaVersion is empty for DPF version '' @ Quote majorMinor))
          else Inr (ve_docaVersion row))"

definition TemplateValues :: "string \<Rightarrow> goerror + DPUServiceTemplateValues" where
  "TemplateValues majorMinor =
     (case entry majorMinor of
        Inl e \<Rightarrow> Inl e
      | Inr row \<Rightarrow> Inr \<lparr>tv_ovn = ve_ovn row, tv_dts = ve_dts row, tv_hbn = ve_hbn row, tv_imagePullSecret = []\<rparr>)"

definition SupportedDPFVersions :: "string list" where
  "SupportedDPFVersions = sort (filter (\<lambda>v. v \<noteq> defaultKey) (map fst byMajorMinor))"

subsection \<open>Decoding into a struct\<close>

text \<open>
  \<^verbatim>\<open>foldName\<close> of \<^verbatim>\<open>encoding/json\<close> on the bytes of a key: letters without case; the long s (U+017F) and
  the Kelvin sign (U+212A) fold to s and k.
\<close>

definition upperChar :: "char \<Rightarrow> char" where
  "upperChar c = (let n = (of_char c :: nat) in if 97 \<le> n \<and> n \<le> 122 then char_of (n - 32) else c)"

fun foldName :: "string \<Rightarrow> string" where
  "foldName (a # b # s) =
     (if a = CHR 0xC5 \<and> b = CHR 0xBF then CHR ''S'' # foldName s
      else (case s of
        c # t \<Rightarrow> if a = CHR 0xE2 \<and> b = CHR 0x84 \<and> c = CHR 0xAA then CHR ''K'' # foldName t
                 else upperChar a # foldName (b # s)
      | [] \<Rightarrow> upperChar a # foldName (b # s)))"
| "foldName (a # []) = [upperChar a]"
| "foldName [] = []"

text \<open>
  The members of an object one after the other. \<open>fs\<close> holds the decoder of each field under its name;
  an exact match is preferred over one up to case.
\<close>

definition fieldDecoder :: "(string \<times> 'f) list \<Rightarrow> string \<Rightarrow> 'f option" where
  "fieldDecoder fs key =
     (case map_of fs key of
        Some d \<Rightarrow> Some d
      | None \<Rightarrow> map_of (map (\<lambda>(n, d). (foldName n, d)) fs) (foldName key))"

fun decodeMembers ::
    "(string \<times> (json \<Rightarrow> 'a \<Rightarrow> goerror + 'a)) list \<Rightarrow> (string \<times> json) list \<Rightarrow> 'a \<Rightarrow> goerror + 'a" where
  "decodeMembers fs [] v = Inr v"
| "decodeMembers fs ((key, j) # ms) v =
     (case fieldDecoder fs key of
        None \<Rightarrow> Inl (Errorf (''json: unknown field '' @ Quote key))
      | Some d \<Rightarrow> (case d j v of Inl e \<Rightarrow> Inl e | Inr v' \<Rightarrow> decodeMembers fs ms v'))"

definition decodeStruct ::
    "(string \<times> (json \<Rightarrow> 'a \<Rightarrow> goerror + 'a)) list \<Rightarrow> json \<Rightarrow> 'a \<Rightarrow> goerror + 'a" where
  "decodeStruct fs j v =
     (case j of
        JNull \<Rightarrow> Inr v
      | JObj ms \<Rightarrow> decodeMembers fs ms v
      | _ \<Rightarrow> Inl (Errorf ''json: cannot unmarshal into Go struct''))"

definition decodeString :: "(string \<Rightarrow> 'a \<Rightarrow> 'a) \<Rightarrow> json \<Rightarrow> 'a \<Rightarrow> goerror + 'a" where
  "decodeString upd j v =
     (case j of
        JNull \<Rightarrow> Inr v
      | JStr s \<Rightarrow> Inr (upd s v)
      | _ \<Rightarrow> Inl (Errorf ''json: cannot unmarshal into Go value of type string''))"

text \<open>An \<^verbatim>\<open>int32\<close>: an optional sign and decimal digits, within 32 bits.\<close>

definition decimal :: "string \<Rightarrow> int option" where
  "decimal s =
     (if s = [] \<or> \<not> list_all (\<lambda>c. 48 \<le> (of_char c :: nat) \<and> (of_char c :: nat) \<le> 57) s then None
      else Some (fold (\<lambda>c n. n * 10 + (of_char c - 48)) s 0))"

definition ParseInt32 :: "string \<Rightarrow> int option" where
  "ParseInt32 s =
     (case (if HasPrefix s ''-'' then map_option uminus (decimal (drop 1 s)) else decimal s) of
        None \<Rightarrow> None
      | Some n \<Rightarrow> if - (2 ^ 31) \<le> n \<and> n < 2 ^ 31 then Some n else None)"

definition decodeInt32 :: "(int \<Rightarrow> 'a \<Rightarrow> 'a) \<Rightarrow> json \<Rightarrow> 'a \<Rightarrow> goerror + 'a" where
  "decodeInt32 upd j v =
     (case j of
        JNull \<Rightarrow> Inr v
      | JNum t \<Rightarrow> (case ParseInt32 t of
            Some n \<Rightarrow> Inr (upd n v)
          | None \<Rightarrow> Inl (Errorf ''json: cannot unmarshal number into Go value of type int32''))
      | _ \<Rightarrow> Inl (Errorf ''json: cannot unmarshal into Go value of type int32''))"

definition ovnFields :: "(string \<times> (json \<Rightarrow> OVNTemplateValues \<Rightarrow> goerror + OVNTemplateValues)) list" where
  "ovnFields = [
     (''chartRepoURL'', decodeString (\<lambda>s. ovn_chartRepoURL_update (\<lambda>_. s))),
     (''chartName'', decodeString (\<lambda>s. ovn_chartName_update (\<lambda>_. s))),
     (''chartVersion'', decodeString (\<lambda>s. ovn_chartVersion_update (\<lambda>_. s)))]"

definition dtsFields :: "(string \<times> (json \<Rightarrow> DTSTemplateValues \<Rightarrow> goerror + DTSTemplateValues)) list" where
  "dtsFields = [
     (''chartRepoURL'', decodeString (\<lambda>s. dts_chartRepoURL_update (\<lambda>_. s))),
     (''chartName'', decodeString (\<lambda>s. dts_chartName_update (\<lambda>_. s))),
     (''chartVersion'', decodeString (\<lambda>s. dts_chartVersion_update (\<lambda>_. s))),
     (''imageDTS'', decodeString (\<lambda>s. dts_imageDTS_update (\<lambda>_. s))),
     (''prometheusPort'', decodeInt32 (\<lambda>n. dts_prometheusPort_update (\<lambda>_. n)))]"

definition hbnFields :: "(string \<times> (json \<Rightarrow> HBNTemplateValues \<Rightarrow> goerror + HBNTemplateValues)) list" where
  "hbnFields = [
     (''chartRepoURL'', decodeString (\<lambda>s. hbn_chartRepoURL_update (\<lambda>_. s))),
     (''chartName'', decodeString (\<lambda>s. hbn_chartName_update (\<lambda>_. s))),
     (''chartVersion'', decodeString (\<lambda>s. hbn_chartVersion_update (\<lambda>_. s))),
     (''imageRepo'', decodeString (\<lambda>s. hbn_imageRepo_update (\<lambda>_. s))),
     (''imageTag'', decodeString (\<lambda>s. hbn_imageTag_update (\<lambda>_. s))),
     (''bfSFCount'', decodeInt32 (\<lambda>n. hbn_bfSFCount_update (\<lambda>_. n)))]"

text \<open>A field of struct type: decoded into the struct that is there.\<close>

definition within :: "('a \<Rightarrow> 'b) \<Rightarrow> ('b \<Rightarrow> 'a \<Rightarrow> 'a) \<Rightarrow> (json \<Rightarrow> 'b \<Rightarrow> goerror + 'b) \<Rightarrow> json \<Rightarrow> 'a \<Rightarrow> goerror + 'a" where
  "within get upd d j v = (case d j (get v) of Inl e \<Rightarrow> Inl e | Inr b \<Rightarrow> Inr (upd b v))"

definition valuesFields :: "(string \<times> (json \<Rightarrow> DPUServiceTemplateValues \<Rightarrow> goerror + DPUServiceTemplateValues)) list" where
  "valuesFields = [
     (''ovn'', within tv_ovn (\<lambda>b. tv_ovn_update (\<lambda>_. b)) (decodeStruct ovnFields)),
     (''dts'', within tv_dts (\<lambda>b. tv_dts_update (\<lambda>_. b)) (decodeStruct dtsFields)),
     (''hbn'', within tv_hbn (\<lambda>b. tv_hbn_update (\<lambda>_. b)) (decodeStruct hbnFields))]"

definition decodeValues :: "json \<Rightarrow> DPUServiceTemplateValues \<Rightarrow> goerror + DPUServiceTemplateValues" where
  "decodeValues = decodeStruct valuesFields"

subsection \<open>Overrides\<close>

definition overridesConfigMapName :: string where
  "overridesConfigMapName = ''dpuservicetemplate-overrides''"

text \<open>
  The member of the document for one version; of several members with one name the last counts, and
  \<^verbatim>\<open>null\<close> decodes to a nil map.
\<close>

definition overrideFor :: "json \<Rightarrow> string \<Rightarrow> goerror + json option" where
  "overrideFor doc version =
     (case doc of
        JObj ms \<Rightarrow> Inr (map_of (rev ms) version)
      | JNull \<Rightarrow> Inr None
      | _ \<Rightarrow> Inl (Errorf ''json: cannot unmarshal into Go value of type map[string]json.RawMessage''))"

definition applyOverrides :: "env \<Rightarrow> string \<Rightarrow> string \<Rightarrow> DPUServiceTemplateValues \<Rightarrow> goerror + DPUServiceTemplateValues" where
  "applyOverrides E rawOverridesJSON version values =
     (case k_parseJSON (cod E) rawOverridesJSON of
        Inl e \<Rightarrow> Inl (wrap ''parsing overrides configmap'' e)
      | Inr doc \<Rightarrow> (case overrideFor doc version of
          Inl e \<Rightarrow> Inl (wrap ''parsing overrides configmap'' e)
        | Inr None \<Rightarrow> Inr values
        | Inr (Some currentVersionOverride) \<Rightarrow> decodeValues currentVersionOverride values))"

definition applyOverridesFromConfigMap ::
    "env \<Rightarrow> string \<Rightarrow> string \<Rightarrow> DPUServiceTemplateValues \<Rightarrow> (goerror + DPUServiceTemplateValues) io" where
  "applyOverridesFromConfigMap E operatorNamespace version values = do {
     r \<leftarrow> readCM E (NN operatorNamespace overridesConfigMapName);
     State_Monad.return (case r of
       Inl e \<Rightarrow> if IsNotFound e then Inr values else Inl (wrap ''getting overrides configmap'' e)
     | Inr cm \<Rightarrow> (case map_of (cm_data cm) ''overrides.json'' of
           None \<Rightarrow> Inr values
         | Some rawOverridesJSON \<Rightarrow>
             if rawOverridesJSON = [] then Inr values
             else applyOverrides E rawOverridesJSON version values))
   }"

subsection \<open>Facts\<close>

lemma entry_total: "majorMinor \<noteq> [] \<Longrightarrow> \<exists>row. entry majorMinor = Inr row \<and> row \<in> snd ` set byMajorMinor"
  by (auto simp: entry_def byMajorMinor_def defaultKey_def)

lemma fieldDecoder_mem:
  "fieldDecoder fs k = Some d \<Longrightarrow> \<exists>n. (n, d) \<in> set fs \<and> foldName n = foldName k"
  by (fastforce simp: fieldDecoder_def split: option.splits dest: map_of_SomeD)

lemma decodeMembers_inv:
  assumes "decodeMembers fs ms v = Inr v'" and "P v"
    and "\<And>k j n d v v'. (k, j) \<in> set ms \<Longrightarrow> (n, d) \<in> set fs \<Longrightarrow> foldName n = foldName k \<Longrightarrow> P v \<Longrightarrow> d j v = Inr v' \<Longrightarrow> P v'"
  shows "P v'"
  using assms
proof (induction fs ms v rule: decodeMembers.induct)
  case (2 fs key j ms v)
  then obtain d v1 where d: "fieldDecoder fs key = Some d" "d j v = Inr v1" "decodeMembers fs ms v1 = Inr v'"
    by (auto split: option.splits sum.splits)
  then obtain n where "(n, d) \<in> set fs" "foldName n = foldName key"
    by (auto dest: fieldDecoder_mem)
  then have "P v1" using "2.prems"(2) d(2) by (intro "2.prems"(3) [of key j n d v v1]) simp_all
  then show ?case
    by (rule "2.IH" [OF d]) (rule "2.prems"(3), rule set_subset_Cons [THEN subsetD])
qed simp

lemma decodeMembers_known:
  assumes "decodeMembers fs ms v = Inr v'" and "(k, j) \<in> set ms"
  shows "foldName k \<in> foldName ` fst ` set fs"
  using assms
proof (induction fs ms v rule: decodeMembers.induct)
  case (2 fs key j' ms v)
  then show ?case
    by (auto split: option.splits sum.splits dest!: fieldDecoder_mem) (metis fst_conv image_eqI)+
qed simp

text \<open>The values of a template whose numbers fit their Go types.\<close>

definition int32 :: "int \<Rightarrow> bool" where
  "int32 n \<longleftrightarrow> - (2 ^ 31) \<le> n \<and> n < 2 ^ 31"

definition wellTyped :: "DPUServiceTemplateValues \<Rightarrow> bool" where
  "wellTyped v \<longleftrightarrow> int32 (dts_prometheusPort (tv_dts v)) \<and> int32 (hbn_bfSFCount (tv_hbn v))"

lemma decodeString_Inr: "decodeString upd j v = Inr v' \<Longrightarrow> v' = v \<or> (\<exists>s. j = JStr s \<and> v' = upd s v)"
  by (auto simp: decodeString_def split: json.splits)

lemma decodeInt32_Inr: "decodeInt32 upd j v = Inr v' \<Longrightarrow> v' = v \<or> (\<exists>n. int32 n \<and> v' = upd n v)"
  by (auto simp: decodeInt32_def ParseInt32_def int32_def split: json.splits option.splits if_splits)

lemma decodeStruct_inv:
  assumes "decodeStruct fs j v = Inr v'" and "P v"
    and "\<And>j n d v v'. (n, d) \<in> set fs \<Longrightarrow> P v \<Longrightarrow> d j v = Inr v' \<Longrightarrow> P v'"
  shows "P v'"
  using assms
  by (cases j) (auto simp: decodeStruct_def elim!: decodeMembers_inv [where P = P])

lemma decode_dts_int32:
  "decodeStruct dtsFields j v = Inr v' \<Longrightarrow> int32 (dts_prometheusPort v) \<Longrightarrow> int32 (dts_prometheusPort v')"
  by (erule decodeStruct_inv) (auto simp: dtsFields_def dest!: decodeString_Inr decodeInt32_Inr)

lemma decode_hbn_int32:
  "decodeStruct hbnFields j v = Inr v' \<Longrightarrow> int32 (hbn_bfSFCount v) \<Longrightarrow> int32 (hbn_bfSFCount v')"
  by (erule decodeStruct_inv) (auto simp: hbnFields_def dest!: decodeString_Inr decodeInt32_Inr)

lemma within_Inr:
  "within get upd d j v = Inr v' \<longleftrightarrow> (\<exists>b. d j (get v) = Inr b \<and> v' = upd b v)"
  by (auto simp: within_def split: sum.splits)

definition names :: "(string \<times> json) list \<Rightarrow> string \<Rightarrow> bool" where
  "names ms f \<longleftrightarrow> foldName f \<in> set (map (\<lambda>(k, _). foldName k) ms)"

lemma not_names: "\<not> names ms f \<Longrightarrow> (k, j) \<in> set ms \<Longrightarrow> foldName k \<noteq> foldName f"
  by (force simp: names_def)

lemma decodeValues_sections:
  assumes "decodeMembers valuesFields ms v = Inr v'"
  shows "tv_imagePullSecret v' = tv_imagePullSecret v"
    and "wellTyped v \<Longrightarrow> wellTyped v'"
    and "\<not> names ms ''ovn'' \<Longrightarrow> tv_ovn v' = tv_ovn v"
    and "\<not> names ms ''dts'' \<Longrightarrow> tv_dts v' = tv_dts v"
    and "\<not> names ms ''hbn'' \<Longrightarrow> tv_hbn v' = tv_hbn v"
  by (rule decodeMembers_inv [OF assms];
      force simp: valuesFields_def within_Inr wellTyped_def dest: decode_dts_int32 decode_hbn_int32 not_names)+

lemma foldName_sections: "foldName ''ovn'' = ''OVN''" "foldName ''dts'' = ''DTS''" "foldName ''hbn'' = ''HBN''"
  by code_simp+

text \<open>
  C28: Overrides are merged, not replaced: when the decoder accepts an override, the pull secret stays
  as the operator configuration has it, a section the override does not name keeps its embedded
  values, the numbers still fit the 32-bit fields they are stored in, and the override names nothing
  but the three sections (in any spelling up to case).
\<close>

theorem decodeValues_merges:
  assumes "decodeValues (JObj ms) v = Inr v'"
  shows "tv_imagePullSecret v' = tv_imagePullSecret v
    \<and> (wellTyped v \<longrightarrow> wellTyped v')
    \<and> (\<not> names ms ''ovn'' \<longrightarrow> tv_ovn v' = tv_ovn v)
    \<and> (\<not> names ms ''dts'' \<longrightarrow> tv_dts v' = tv_dts v)
    \<and> (\<not> names ms ''hbn'' \<longrightarrow> tv_hbn v' = tv_hbn v)
    \<and> (\<forall>(k, j) \<in> set ms. foldName k \<in> {''OVN'', ''DTS'', ''HBN''})"
proof -
  have dec: "decodeMembers valuesFields ms v = Inr v'"
    using assms by (simp add: decodeValues_def decodeStruct_def)
  have "foldName ` fst ` set valuesFields = {''OVN'', ''DTS'', ''HBN''}"
    using foldName_sections by (auto simp: valuesFields_def)
  then have "foldName k \<in> {''OVN'', ''DTS'', ''HBN''}" if "(k, j) \<in> set ms" for k j
    using decodeMembers_known [OF dec that] by simp
  then show ?thesis
    using decodeValues_sections [OF dec] by blast
qed

definition sampleValues :: DPUServiceTemplateValues where
  "sampleValues = \<lparr>tv_ovn = ve_ovn row264, tv_dts = ve_dts row264, tv_hbn = ve_hbn row264, tv_imagePullSecret = []\<rparr>"

definition sampleOverride :: "(string \<times> json) list" where
  "sampleOverride = [(''Dts'', JObj [(''prometheusPort'', JNum ''9200'')])]"

theorem decodeValues_merges_witness:
  "\<exists>v'. decodeValues (JObj sampleOverride) sampleValues = Inr v' \<and> wellTyped v'
     \<and> dts_prometheusPort (tv_dts v') = 9200 \<and> tv_ovn v' = ve_ovn row264 \<and> tv_hbn v' = ve_hbn row264"
proof -
  let ?v = "sampleValues\<lparr>tv_dts := (ve_dts row264)\<lparr>dts_prometheusPort := 9200\<rparr>\<rparr>"
  have run: "decodeValues (JObj sampleOverride) sampleValues = Inr ?v" by code_simp
  have "\<not> names sampleOverride ''ovn''" "\<not> names sampleOverride ''hbn''" "wellTyped sampleValues"
    by code_simp+
  then show ?thesis
    using decodeValues_merges [OF run] by (intro exI [of _ ?v]) (simp add: run, simp add: sampleValues_def)
qed

end
