(* ===== verification/Service_Template.thy ===== *)
theory Service_Template
  imports Scenario Controller_Util Release_Image Semver Dpf_Defaults
begin

section \<open>The service templates\<close>

text \<open>
  \<^verbatim>\<open>internal/controller/dpuservicetemplate/dpuservicetemplate.go\<close>: the three \<^verbatim>\<open>DPUServiceTemplate\<close>s
  (OVN, telemetry, HBN) of a DPUCluster namespace. The charts come from the values for the running DPF
  version, the OVN image from the DaemonSet of the management cluster or, if that has another
  architecture, from the release payload. The lemmas show that only templates marked as managed are
  written, that image and version of OVN change in lockstep, and that against a server with a store
  the manager implements a plain update of three entries.
\<close>

subsection \<open>Constants\<close>

definition OperatorNamespace :: string where
  "OperatorNamespace = ''dpf-hcp-provisioner-system''"

definition clusterVersionName :: string where
  "clusterVersionName = ''version''"

definition clusterPullSecretName :: string where
  "clusterPullSecretName = ''pull-secret''"

definition clusterPullSecretNamespace :: string where
  "clusterPullSecretNamespace = ''openshift-config''"

definition ovnDPUDaemonSetName :: string where
  "ovnDPUDaemonSetName = ''ovnkube-node-dpu-host''"

definition ovnDPUDaemonSetNamespace :: string where
  "ovnDPUDaemonSetNamespace = ''openshift-ovn-kubernetes''"

definition ovnControllerName :: string where
  "ovnControllerName = ''ovnkube-controller''"

definition templateNameOVNK :: string where
  "templateNameOVNK = ''ovn''"

definition templateNameDTS :: string where
  "templateNameDTS = ''doca-telemetry-service''"

definition templateNameHBN :: string where
  "templateNameHBN = ''hbn''"

definition AnnotationSourceOVNImage :: string where
  "AnnotationSourceOVNImage = AnnotationPrefix @ ''source-x86-ovn-image''"

subsection \<open>Values for the running DPF version\<close>

definition getDPUServiceTemplateValues :: "env \<Rightarrow> string \<Rightarrow> (goerror + DPUServiceTemplateValues) io" where
  "getDPUServiceTemplateValues E version =
     bindE (pureE (TemplateValues version)) (\<lambda>values.
       wrapE ''applying overrides from configmap''
         (applyOverridesFromConfigMap E OperatorNamespace version values))"

definition getDPUServiceTemplateValuesForCurrentDPF :: "env \<Rightarrow> (goerror + DPUServiceTemplateValues) io" where
  "getDPUServiceTemplateValuesForCurrentDPF E =
     bindE (wrapE ''determining DPF version'' (GetDPFVersion E)) (\<lambda>dpfVersion.
     bindE (pureE (DPFMajorMinorFromVersion dpfVersion)) (\<lambda>version.
       getDPUServiceTemplateValues E version))"

subsection \<open>The OVN image\<close>

record ovnTemplateInfo =
  oti_repo :: string
  oti_tag :: string
  oti_sourceImage :: string
  oti_daemonsetVersion :: string

text \<open>\<^verbatim>\<open>s, _ := m[k].(string)\<close>.\<close>

definition stringAt :: "(string \<times> json) list \<Rightarrow> string \<Rightarrow> string" where
  "stringAt m k = (case map_of m k of Some (JStr s) \<Rightarrow> s | _ \<Rightarrow> [])"

definition existingOVNKTemplateValues :: "env \<Rightarrow> DPUServiceTemplate \<Rightarrow> string \<Rightarrow> goerror + ovnTemplateInfo" where
  "existingOVNKTemplateValues E dpuServiceTemplate sourceImage =
     (case tpl_values dpuServiceTemplate of
        None \<Rightarrow> Inl (Errorf ''existing OVN template has no values'')
      | Some raw \<Rightarrow> (case k_unmarshalJSON (cod E) raw of
          Inl e \<Rightarrow> Inl (wrap ''parsing existing OVN template values'' e)
        | Inr j \<Rightarrow> (case asObject j of
            Inl e \<Rightarrow> Inl (wrap ''parsing existing OVN template values'' e)
          | Inr helmValues \<Rightarrow> (case map_of helmValues ''dpuManifests'' of
              Some (JObj dpuManifests) \<Rightarrow> (case map_of dpuManifests ''image'' of
                  Some (JObj dpuManifestsImage) \<Rightarrow>
                    (let ovnkImageRepo = stringAt dpuManifestsImage ''repository'';
                         ovnkImageTag = stringAt dpuManifestsImage ''tag'' in
                     if ovnkImageRepo = [] \<or> ovnkImageTag = []
                     then Inl (Errorf ''existing OVN template has empty image repository or tag'')
                     else Inr \<lparr>oti_repo = ovnkImageRepo, oti_tag = ovnkImageTag, oti_sourceImage = sourceImage,
                            oti_daemonsetVersion = stringAt helmValues ''ovnDaemonsetVersion''\<rparr>)
                | _ \<Rightarrow> Inl (Errorf ''existing OVN template missing dpuManifests.image''))
            | _ \<Rightarrow> Inl (Errorf ''existing OVN template missing dpuManifests'')))))"

definition getClusterPullSecretKeychain :: "env \<Rightarrow> (goerror + string gomap) io" where
  "getClusterPullSecretKeychain E = KeychainFromPullSecret E clusterPullSecretName clusterPullSecretNamespace"

definition resolveARM64OVNImage :: "env \<Rightarrow> string \<Rightarrow> string \<Rightarrow> (goerror + (string \<times> string)) io" where
  "resolveARM64OVNImage E releaseImage ocpVersion =
     (let aarch64Ref = Aarch64ReleaseImage releaseImage ocpVersion in
      bindE (wrapE ''getting cluster pull secret'' (getClusterPullSecretKeychain E)) (\<lambda>keychain.
      bindE (wrapE (''resolving aarch64 OVN image from release '' @ Quote aarch64Ref)
          (GetComponentImage E aarch64Ref ovnKubernetesName keychain)) (\<lambda>ovnImage.
        pureE (splitImage ovnImage))))"

definition resolveARM64OVNImageForCurrentDaemonSet ::
    "env \<Rightarrow> string \<Rightarrow> string \<Rightarrow> string \<Rightarrow> (goerror + ovnTemplateInfo) io" where
  "resolveARM64OVNImageForCurrentDaemonSet E currentImage releaseImage ocpVersion =
     bindE (resolveARM64OVNImage E releaseImage ocpVersion) (\<lambda>(repo, tag).
       pureE (Inr \<lparr>oti_repo = repo, oti_tag = tag, oti_sourceImage = currentImage, oti_daemonsetVersion = []\<rparr>))"

definition getWorkerOVNKDaemonSet :: "env \<Rightarrow> (goerror + WorkloadDaemonSet) io" where
  "getWorkerOVNKDaemonSet E =
     wrapE (''getting DaemonSet '' @ ovnDPUDaemonSetNamespace @ ''/'' @ ovnDPUDaemonSetName)
       (getDaemonSet E (NN ovnDPUDaemonSetNamespace ovnDPUDaemonSetName))"

fun containerImage :: "(string \<times> string) list \<Rightarrow> goerror + string" where
  "containerImage [] = Inl (Errorf (''container '' @ Quote ovnControllerName @ '' not found in DaemonSet ''
     @ ovnDPUDaemonSetNamespace @ ''/'' @ ovnDPUDaemonSetName))"
| "containerImage ((name, img) # cs) = (if name = ovnControllerName then Inr img else containerImage cs)"

definition ovnkImageFromDaemonSet :: "WorkloadDaemonSet \<Rightarrow> goerror + string" where
  "ovnkImageFromDaemonSet daemonSet = containerImage (wds_containers daemonSet)"

definition daemonSetRolloutComplete :: "WorkloadDaemonSet \<Rightarrow> bool" where
  "daemonSetRolloutComplete ds \<longleftrightarrow>
     wds_observedGeneration ds \<ge> wds_generation ds
     \<and> wds_updatedNumberScheduled ds = wds_desiredNumberScheduled ds
     \<and> wds_numberAvailable ds = wds_desiredNumberScheduled ds"

subsection \<open>The daemonset version\<close>

text \<open>
  \<^verbatim>\<open>semver.MustParse\<close> in \<^verbatim>\<open>init\<close>: an entry that does not parse would panic at the start of the
  process; both do parse (lemma \<open>ovnDaemonsetVersionTable_eq\<close>).
\<close>

definition rawVersionTable :: "(string \<times> string) list" where
  "rawVersionTable = [(''4.22.0'', ''1.2.0''), (''4.22.1'', ''1.3.0'')]"

definition parsedEntries :: "(string \<times> string) list \<Rightarrow> (Version \<times> string) list" where
  "parsedEntries raw = concat (map (\<lambda>(v, dv). case Parse v of Inl _ \<Rightarrow> [] | Inr p \<Rightarrow> [(p, dv)]) raw)"

definition ovnDaemonsetVersionTable :: "(Version \<times> string) list" where
  "ovnDaemonsetVersionTable = sort_key (\<lambda>e. precedence (fst e)) (parsedEntries rawVersionTable)"

definition defaultVersion :: string where
  "defaultVersion = ''1.3.0''"

definition OVNKDaemonsetVersionForOCP :: "string \<Rightarrow> string" where
  "OVNKDaemonsetVersionForOCP ocpVersion =
     (case ParseTolerant ocpVersion of
        Inl _ \<Rightarrow> defaultVersion
      | Inr v0 \<Rightarrow>
          (let v = dropPre v0 in
           fold (\<lambda>e result. if GTE v (fst e) then snd e else result) ovnDaemonsetVersionTable defaultVersion))"

definition getOCPVersionFromClusterVersion :: "env \<Rightarrow> (goerror + (string \<times> string)) io" where
  "getOCPVersionFromClusterVersion E =
     bindE (wrapE ''getting ClusterVersion'' (getClusterVersion E clusterVersionName)) (\<lambda>cv.
       if cv_desiredVersion cv = [] then failE (Errorf ''ClusterVersion status.desired.version is empty'')
       else if cv_desiredImage cv = [] then failE (Errorf ''ClusterVersion status.desired.image is empty'')
       else pureE (Inr (cv_desiredVersion cv, cv_desiredImage cv)))"

subsection \<open>Templates\<close>

definition templateKey :: "DPUServiceTemplate \<Rightarrow> NamespacedName" where
  "templateKey t = meta_key (tpl_meta t)"

definition sameServiceTemplate :: "DPUServiceTemplate \<Rightarrow> DPUServiceTemplate \<Rightarrow> bool" where
  "sameServiceTemplate a b \<longleftrightarrow>
     map_eq (om_labels (tpl_meta a)) (om_labels (tpl_meta b))
     \<and> map_eq (om_annotations (tpl_meta a)) (om_annotations (tpl_meta b))
     \<and> (tpl_meta a)\<lparr>om_labels := [], om_annotations := []\<rparr> = (tpl_meta b)\<lparr>om_labels := [], om_annotations := []\<rparr>
     \<and> tpl_deploymentServiceName a = tpl_deploymentServiceName b
     \<and> tpl_repoURL a = tpl_repoURL b \<and> tpl_chart a = tpl_chart b \<and> tpl_version a = tpl_version b
     \<and> tpl_values a = tpl_values b
     \<and> map_eq (tpl_resourceRequirements a) (tpl_resourceRequirements b)
     \<and> tpl_specRest a = tpl_specRest b"

definition newTemplate :: "string \<Rightarrow> string \<Rightarrow> DPUServiceTemplate" where
  "newTemplate ns name = \<lparr>tpl_meta = newMeta ns name, tpl_deploymentServiceName = [], tpl_repoURL = [],
     tpl_chart = [], tpl_version = [], tpl_values = None, tpl_resourceRequirements = [], tpl_specRest = []\<rparr>"

text \<open>The function \<^verbatim>\<open>ensureTemplate\<close> passes to \<^verbatim>\<open>CreateOrUpdate\<close>.\<close>

definition mutateTemplate ::
    "string \<Rightarrow> string \<Rightarrow> string \<Rightarrow> string \<Rightarrow> string \<Rightarrow> int gomap \<Rightarrow> string gomap \<Rightarrow> DPUServiceTemplate \<Rightarrow> DPUServiceTemplate" where
  "mutateTemplate deploymentServiceName repoURL chartName chartVersion valuesJSON resourceReqs annotations t =
     t\<lparr>tpl_meta := (tpl_meta t)\<lparr>
         om_labels := mset_key (om_labels (tpl_meta t)) LabelManagedBy ''true'',
         om_annotations := fold (\<lambda>(k, v) m. mset_key m k v) annotations (om_annotations (tpl_meta t))\<rparr>,
       tpl_deploymentServiceName := deploymentServiceName,
       tpl_repoURL := repoURL, tpl_chart := chartName, tpl_version := chartVersion,
       tpl_values := Some valuesJSON, tpl_resourceRequirements := resourceReqs, tpl_specRest := []\<rparr>"

definition ensureTemplate ::
    "env \<Rightarrow> string \<Rightarrow> string \<Rightarrow> string \<Rightarrow> string \<Rightarrow> string \<Rightarrow> string \<Rightarrow> (string \<times> json) list \<Rightarrow> int gomap \<Rightarrow>
     string gomap \<Rightarrow> (goerror + unit) io" where
  "ensureTemplate E namespace name deploymentServiceName repoURL chartName chartVersion values resourceReqs annotations =
     bindE (pureE (case k_marshalJSON (cod E) (JObj values) of
         Inl e \<Rightarrow> Inl (wrap (''marshalling values for '' @ name) e) | Inr t \<Rightarrow> Inr t)) (\<lambda>valuesJSON.
       let createOrUpdate = (\<lambda>template.
             bindE (wrapE (''creating or updating DPUServiceTemplate '' @ name)
                 (CreateOrUpdate E tpl_meta (getTemplate E) sameServiceTemplate CreateTemplate UpdateTemplate template
                    (\<lambda>t. Inr (mutateTemplate deploymentServiceName repoURL chartName chartVersion valuesJSON resourceReqs annotations t))))
               (\<lambda>_. pureE (Inr ()))) in
       do {
         r \<leftarrow> getTemplate E (NN namespace name);
         (case r of
            Inr template \<Rightarrow>
              if mget (om_labels (tpl_meta template)) LabelManagedBy \<noteq> ''true'' then pureE (Inr ())
              else if om_deletionTimestamp (tpl_meta template) \<noteq> None then pureE (Inr ())
              else createOrUpdate template
          | Inl e \<Rightarrow>
              if \<not> IsNotFound e then failE (wrap (''checking existing DPUServiceTemplate '' @ name) e)
              else createOrUpdate (newTemplate namespace name))
       })"

subsection \<open>The OVN template\<close>

definition ovnFeatures :: json where
  "ovnFeatures = JObj [
     (''enableEgressIP'', JStr ''true''),
     (''egressIpHealthCheckPort'', JStr ''0''),
     (''enableEgressFirewall'', JStr ''true''),
     (''enableEgressQoS'', JStr ''true''),
     (''enableEgressService'', JStr ''true''),
     (''enableMultiNetwork'', JStr ''false''),
     (''enableMultiNetworkPolicy'', JStr ''true''),
     (''enableAdminNetworkPolicy'', JStr ''true''),
     (''enableNetworkSegmentation'', JStr ''true'')]"

definition minOVNFeatures :: Version where
  "minOVNFeatures = \<lparr>v_major = 4, v_minor = 22, v_patch = 2, v_pre = [], v_build = []\<rparr>"

definition hasOVNFeatures :: "string \<Rightarrow> bool" where
  "hasOVNFeatures ocpVersion = (case ParseTolerant ocpVersion of Inl _ \<Rightarrow> False | Inr v \<Rightarrow> GTE (dropPre v) minOVNFeatures)"

definition ovnManifests :: "ovnTemplateInfo \<Rightarrow> bool \<Rightarrow> (string \<times> json) list" where
  "ovnManifests info features =
     [(''image'', JObj [(''repository'', JStr (oti_repo info)), (''tag'', JStr (oti_tag info))]),
      (''enabled'', JBool True),
      (''cniBinDir'', JStr ''/var/lib/cni/bin/''),
      (''cniConfDir'', JStr ''/run/multus/cni/net.d'')]
     @ (if features then [(''ovnMultiNetworkEnable'', JStr ''true'')] else [])"

definition ovnValues :: "ovnTemplateInfo \<Rightarrow> bool \<Rightarrow> (string \<times> json) list" where
  "ovnValues info features =
     [(''commonManifests'', JObj [(''enabled'', JBool True)]),
      (''dpuManifests'', JObj (ovnManifests info features)),
      (''ovnDaemonsetVersion'', JStr (oti_daemonsetVersion info)),
      (''leaseNamespace'', JStr ''openshift-ovn-kubernetes''),
      (''gatewayOpts'', JStr ''--gateway-interface=br-dpu'')]
     @ (if features then [(''global'', ovnFeatures)] else [])"

text \<open>Image and daemonset version when the image of the DaemonSet has changed.\<close>

definition newOVNInfo :: "env \<Rightarrow> string \<Rightarrow> string \<Rightarrow> string \<Rightarrow> string gomap \<Rightarrow> (goerror + ovnTemplateInfo) io" where
  "newOVNInfo E currentOVNKImage ocpVersion releaseImage keychain = do {
     multi \<leftarrow> IsMultiArchReleaseImage E releaseImage keychain;
     r \<leftarrow> (if multi
       then wrapE ''splitting management cluster OVN image'' (bindE (pureE (splitImage currentOVNKImage)) (\<lambda>(repo, tag).
         pureE (Inr \<lparr>oti_repo = repo, oti_tag = tag, oti_sourceImage = currentOVNKImage, oti_daemonsetVersion = []\<rparr>)))
       else wrapE ''resolving OVN kubernetes image''
         (resolveARM64OVNImageForCurrentDaemonSet E currentOVNKImage releaseImage ocpVersion));
     State_Monad.return (case r of
       Inl e \<Rightarrow> Inl e
     | Inr info \<Rightarrow> Inr (info\<lparr>oti_daemonsetVersion := OVNKDaemonsetVersionForOCP ocpVersion\<rparr>))
   }"

text \<open>The read of the existing template: \<open>None\<close> when there is none.\<close>

definition getExistingOVN :: "env \<Rightarrow> string \<Rightarrow> (goerror + DPUServiceTemplate option) io" where
  "getExistingOVN E namespace = do {
     r \<leftarrow> getTemplate E (NN namespace templateNameOVNK);
     State_Monad.return (case r of
       Inr existing \<Rightarrow> Inr (Some existing)
     | Inl e \<Rightarrow> if IsNotFound e then Inr None else Inl (wrap ''getting existing OVN template'' e))
   }"

text \<open>\<open>CNOOVNKDaemonSetImageChanged\<close>, and which values follow from it.\<close>

definition ovnImageChanged :: "DPUServiceTemplate option \<Rightarrow> string \<Rightarrow> bool" where
  "ovnImageChanged existing currentOVNKImage =
     (case existing of
        None \<Rightarrow> True
      | Some t \<Rightarrow> mget (om_annotations (tpl_meta t)) AnnotationSourceOVNImage \<noteq> currentOVNKImage)"

definition currentOVNInfo ::
    "env \<Rightarrow> DPUServiceTemplate option \<Rightarrow> string \<Rightarrow> string \<Rightarrow> string \<Rightarrow> string gomap \<Rightarrow> (goerror + ovnTemplateInfo) io" where
  "currentOVNInfo E existing currentOVNKImage ocpVersion releaseImage keychain =
     (case existing of
        Some t \<Rightarrow>
          if ovnImageChanged existing currentOVNKImage
          then newOVNInfo E currentOVNKImage ocpVersion releaseImage keychain
          else wrapE ''reading existing OVN template values'' (pureE (existingOVNKTemplateValues E t currentOVNKImage))
      | None \<Rightarrow> newOVNInfo E currentOVNKImage ocpVersion releaseImage keychain)"

definition writeOVNTemplate ::
    "env \<Rightarrow> string \<Rightarrow> DPUServiceTemplateValues \<Rightarrow> string \<Rightarrow> ovnTemplateInfo \<Rightarrow> (goerror + unit) io" where
  "writeOVNTemplate E namespace defaults ocpVersion info =
     ensureTemplate E namespace templateNameOVNK templateNameOVNK
       (ovn_chartRepoURL (tv_ovn defaults)) (ovn_chartName (tv_ovn defaults)) (ovn_chartVersion (tv_ovn defaults))
       (ovnValues info (hasOVNFeatures ocpVersion)) [] [(AnnotationSourceOVNImage, oti_sourceImage info)]"

definition publishOVN ::
    "env \<Rightarrow> string \<Rightarrow> DPUServiceTemplateValues \<Rightarrow> DPUServiceTemplate option \<Rightarrow> string \<Rightarrow> string \<Rightarrow> string \<Rightarrow> string gomap \<Rightarrow>
     (goerror + unit) io" where
  "publishOVN E namespace defaults existing currentOVNKImage ocpVersion releaseImage keychain =
     bindE (currentOVNInfo E existing currentOVNKImage ocpVersion releaseImage keychain) (\<lambda>info.
       writeOVNTemplate E namespace defaults ocpVersion info)"

definition ensureOVNTemplate :: "env \<Rightarrow> string \<Rightarrow> DPUServiceTemplateValues \<Rightarrow> (goerror + unit) io" where
  "ensureOVNTemplate E namespace defaults =
     bindE (wrapE ''reading OVN DaemonSet'' (getWorkerOVNKDaemonSet E)) (\<lambda>ds.
     bindE (wrapE ''reading current OVN image'' (pureE (ovnkImageFromDaemonSet ds))) (\<lambda>currentOVNKImage.
     bindE (getExistingOVN E namespace) (\<lambda>existing.
       if existing \<noteq> None \<and> \<not> daemonSetRolloutComplete ds then pureE (Inr ())
       else
         bindE (wrapE ''determining OCP version'' (getOCPVersionFromClusterVersion E)) (\<lambda>(ocpVersion, releaseImage).
         bindE (wrapE ''getting cluster pull secret'' (getClusterPullSecretKeychain E)) (\<lambda>keychain.
           publishOVN E namespace defaults existing currentOVNKImage ocpVersion releaseImage keychain)))))"

subsection \<open>The other templates\<close>

definition pullSecretValue :: "string \<Rightarrow> (string \<times> json) list" where
  "pullSecretValue name =
     (if name \<noteq> [] then [(''imagePullSecrets'', JArr [JObj [(''name'', JStr name)]])] else [])"

definition dtsValues :: "DPUServiceTemplateValues \<Rightarrow> (string \<times> json) list" where
  "dtsValues defaults =
     [(''configMapData'', JObj [(''prometheus'', JObj [(''port'', JNum (show_int (dts_prometheusPort (tv_dts defaults))))])]),
      (''hostVolumePrefix'', JStr ''/var/lib''),
      (''imageDTS'', JStr (dts_imageDTS (tv_dts defaults)))]
     @ pullSecretValue (tv_imagePullSecret defaults)"

definition dtsResources :: "int gomap" where
  "dtsResources = [(''cpu'', 1000), (''memory'', 1073741824), (''storage'', 1073741824)]"

definition ensureDTSTemplate :: "env \<Rightarrow> string \<Rightarrow> DPUServiceTemplateValues \<Rightarrow> (goerror + unit) io" where
  "ensureDTSTemplate E namespace defaults =
     ensureTemplate E namespace templateNameDTS templateNameDTS
       (dts_chartRepoURL (tv_dts defaults)) (dts_chartName (tv_dts defaults)) (dts_chartVersion (tv_dts defaults))
       (dtsValues defaults) dtsResources []"

definition hbnValues :: "DPUServiceTemplateValues \<Rightarrow> (string \<times> json) list" where
  "hbnValues defaults =
     [(''image'', JObj [(''repository'', JStr (hbn_imageRepo (tv_hbn defaults))), (''tag'', JStr (hbn_imageTag (tv_hbn defaults)))]),
      (''resources'', JObj [(''memory'', JStr ''6Gi''), (''nvidia.com/bf_sf'', JNum (show_int (hbn_bfSFCount (tv_hbn defaults))))])]
     @ pullSecretValue (tv_imagePullSecret defaults)"

definition ensureHBNTemplate :: "env \<Rightarrow> string \<Rightarrow> DPUServiceTemplateValues \<Rightarrow> (goerror + unit) io" where
  "ensureHBNTemplate E namespace defaults =
     ensureTemplate E namespace templateNameHBN templateNameHBN
       (hbn_chartRepoURL (tv_hbn defaults)) (hbn_chartName (tv_hbn defaults)) (hbn_chartVersion (tv_hbn defaults))
       (hbnValues defaults) [] []"

subsection \<open>All templates of a namespace\<close>

definition EnsureTemplates :: "env \<Rightarrow> string \<Rightarrow> OperatorConfig \<Rightarrow> (goerror + unit) io" where
  "EnsureTemplates E namespace operatorConfig =
     bindE (wrapE ''determining DPUServiceTemplate values'' (getDPUServiceTemplateValuesForCurrentDPF E)) (\<lambda>values0.
       let values = values0\<lparr>tv_imagePullSecret := cfg_dpuServicesImagePullSecret operatorConfig\<rparr> in
       bindE (wrapE ''ensuring OVN template'' (ensureOVNTemplate E namespace values)) (\<lambda>_.
       bindE (wrapE ''ensuring DTS template'' (ensureDTSTemplate E namespace values)) (\<lambda>_.
         wrapE ''ensuring HBN template'' (ensureHBNTemplate E namespace values))))"

fun deleteEach :: "env \<Rightarrow> string \<Rightarrow> DPUServiceTemplate list \<Rightarrow> (goerror + unit) io" where
  "deleteEach E namespace [] = pureE (Inr ())"
| "deleteEach E namespace (t # ts) = do {
     w \<leftarrow> apiWrite E (DeleteTemplate t);
     (case w of
        Some e \<Rightarrow>
          if IsNotFound e then deleteEach E namespace ts
          else failE (wrap (''deleting DPUServiceTemplate '' @ namespace @ ''/'' @ om_name (tpl_meta t)) e)
      | None \<Rightarrow> deleteEach E namespace ts)
   }"

definition managedSelector :: "string gomap" where
  "managedSelector = [(LabelManagedBy, ''true'')]"

definition DeleteTemplates :: "env \<Rightarrow> string \<Rightarrow> (goerror + unit) io" where
  "DeleteTemplates E namespace =
     bindE (wrapE (''listing managed DPUServiceTemplates in '' @ namespace) (listTemplates E namespace managedSelector))
       (deleteEach E namespace)"

subsection \<open>The daemonset version is the newest that applies\<close>

lemma Parse_table:
  "Parse ''4.22.0'' = Inr \<lparr>v_major = 4, v_minor = 22, v_patch = 0, v_pre = [], v_build = []\<rparr>"
  "Parse ''4.22.1'' = Inr \<lparr>v_major = 4, v_minor = 22, v_patch = 1, v_pre = [], v_build = []\<rparr>"
  by code_simp+

lemma ovnDaemonsetVersionTable_eq:
  "ovnDaemonsetVersionTable =
     [(\<lparr>v_major = 4, v_minor = 22, v_patch = 0, v_pre = [], v_build = []\<rparr>, ''1.2.0''),
      (\<lparr>v_major = 4, v_minor = 22, v_patch = 1, v_pre = [], v_build = []\<rparr>, ''1.3.0'')]"
  by (simp add: ovnDaemonsetVersionTable_def parsedEntries_def rawVersionTable_def Parse_table precedence_def numbersOf_def)

text \<open>The loop keeps the last entry that qualifies.\<close>

lemma fold_last:
  "fold (\<lambda>e r. if P e then f e else r) es d = (case filter P es of [] \<Rightarrow> d | qs \<Rightarrow> f (last qs))"
  by (induction es rule: rev_induct) (auto split: list.splits)

lemma last_filter_greatest:
  assumes "sorted (map f es)" and "filter P es = qs" and "qs \<noteq> []"
  shows "last qs \<in> set es \<and> P (last qs) \<and> (\<forall>e \<in> set es. P e \<longrightarrow> f e \<le> f (last qs))"
proof -
  have "last qs \<in> set (filter P es)" using assms(2,3) last_in_set by blast
  moreover have "sorted (map f qs)" using assms(1,2) by (metis sorted_filter)
  then have "f e \<le> f (last qs)" if "e \<in> set qs" for e
    using that by (induction qs) (auto split: if_splits)
  ultimately show ?thesis using assms(2) by auto
qed

lemma OVNKDaemonsetVersionForOCP_eq:
  "OVNKDaemonsetVersionForOCP ocpVersion =
     (case ParseTolerant ocpVersion of
        Inl _ \<Rightarrow> ''1.3.0''
      | Inr v \<Rightarrow> if (4, 22, 0) \<le> numbersOf v \<and> numbersOf v < (4, 22, 1) then ''1.2.0'' else ''1.3.0'')"
proof (cases "ParseTolerant ocpVersion")
  case (Inr v)
  have "(4, 22, 0) \<le> ((4, 22, 1) :: nat \<times> nat \<times> nat)" by simp
  then have "(4, 22, 1) \<le> numbersOf v \<Longrightarrow> (4, 22, 0) \<le> numbersOf v" by (rule order_trans)
  then show ?thesis
    using Inr
    by (simp add: OVNKDaemonsetVersionForOCP_def ovnDaemonsetVersionTable_eq defaultVersion_def not_less
        numbersOf_def [of "Version.fields _ _ _ _ _"] numbersOf_def [of "\<lparr>v_major = _, v_minor = _, v_patch = _, v_pre = _, v_build = _\<rparr>"])
qed (simp add: OVNKDaemonsetVersionForOCP_def defaultVersion_def)

text \<open>
  C29: The daemonset version for an OpenShift version is that of the highest entry of the table that is
  not newer than it, without regard to prerelease identifiers, and the default when every entry is newer
  or the version does not parse.
\<close>

theorem OVNKDaemonsetVersionForOCP_highest:
  "case ParseTolerant ocpVersion of
     Inl _ \<Rightarrow> OVNKDaemonsetVersionForOCP ocpVersion = defaultVersion
   | Inr v \<Rightarrow>
       (if \<exists>e \<in> set ovnDaemonsetVersionTable. numbersOf (fst e) \<le> numbersOf v
        then \<exists>e \<in> set ovnDaemonsetVersionTable. OVNKDaemonsetVersionForOCP ocpVersion = snd e
          \<and> is_arg_max (\<lambda>e. numbersOf (fst e)) (\<lambda>e. e \<in> set ovnDaemonsetVersionTable \<and> numbersOf (fst e) \<le> numbersOf v) e
        else OVNKDaemonsetVersionForOCP ocpVersion = defaultVersion)"
proof (cases "ParseTolerant ocpVersion")
  case (Inr v)
  let ?P = "\<lambda>e :: Version \<times> string. numbersOf (fst e) \<le> numbersOf v"
  let ?qs = "filter ?P ovnDaemonsetVersionTable"
  have eq: "OVNKDaemonsetVersionForOCP ocpVersion = (case ?qs of [] \<Rightarrow> defaultVersion | qs \<Rightarrow> snd (last qs))"
    using Inr fold_last [of ?P snd ovnDaemonsetVersionTable defaultVersion]
    by (simp add: OVNKDaemonsetVersionForOCP_def)
  show ?thesis
  proof (cases "?qs = []")
    case True
    then show ?thesis using Inr eq by (auto simp: filter_empty_conv)
  next
    case False
    have "sorted (map (\<lambda>e. numbersOf (fst e)) ovnDaemonsetVersionTable)"
      by (rule sorted_numbers) (simp add: ovnDaemonsetVersionTable_def)
    note top = last_filter_greatest [OF this refl False]
    have "OVNKDaemonsetVersionForOCP ocpVersion = snd (last ?qs)"
      using eq False by (simp split: list.splits)
    then show ?thesis
      using top Inr by (auto simp: is_arg_max_def not_less intro!: bexI [of _ "last ?qs"])
  qed
qed (simp add: OVNKDaemonsetVersionForOCP_def)

subsection \<open>Managed templates\<close>

definition managed :: "DPUServiceTemplate \<Rightarrow> bool" where
  "managed t \<longleftrightarrow> mget (om_labels (tpl_meta t)) LabelManagedBy = ''true''"

definition live :: "DPUServiceTemplate \<Rightarrow> bool" where
  "live t \<longleftrightarrow> om_deletionTimestamp (tpl_meta t) = None"

lemma templateKey_mutateTemplate [simp]:
  "templateKey (mutateTemplate service repo chart ver json reqs annots t) = templateKey t"
  by (simp add: templateKey_def meta_key_def mutateTemplate_def)

lemma templateKey_newTemplate [simp]: "templateKey (newTemplate ns name) = NN ns name"
  by (simp add: templateKey_def meta_key_def newTemplate_def newMeta_def)

lemma managed_mutateTemplate [simp]: "managed (mutateTemplate service repo chart ver json reqs annots t)"
  by (simp add: managed_def mutateTemplate_def)

subsection \<open>The parts that only read\<close>

text \<open>Post-conditions that matter on success only, through a chain of fallible steps.\<close>

lemma wp_bindE_post:
  assumes "wp m P s" and "\<And>e t. Q (Inl e) t" and "\<And>v t. P (Inr v) t \<Longrightarrow> wp (f v) Q t"
  shows "wp (bindE m f) Q s"
  unfolding wp_bindE using assms(1) by (rule wp_mono) (auto simp: assms(2,3) split: sum.splits)

lemma wp_wrapE_post:
  assumes "wp m (\<lambda>r t. r = Inr v \<longrightarrow> X t) s"
  shows "wp (wrapE msg m) (\<lambda>r t. r = Inr v \<longrightarrow> X t) s"
  unfolding wp_wrapE using assms by (rule wp_mono) (auto split: sum.splits)

lemma issued_step: "P c \<Longrightarrow> issued P h h' \<Longrightarrow> issued P h (c # h')"
  by (rule issued_trans [where h' = h']) simp_all

lemma footprint_values [footprint_intros]:
  "P ListDPFOperatorConfigs \<Longrightarrow> (\<And>k. P (ReadCM k)) \<Longrightarrow> footprint M S W P (getDPUServiceTemplateValuesForCurrentDPF E)"
  unfolding getDPUServiceTemplateValuesForCurrentDPF_def GetDPFVersion_def getDPUServiceTemplateValues_def
    applyOverridesFromConfigMap_def
  by (intro footprint_intros; simp)

lemma footprint_ovn_reads [footprint_intros]:
  "(\<And>k. P (GetDaemonSet k)) \<Longrightarrow> footprint M S W P (getWorkerOVNKDaemonSet E)"
  "(\<And>k. P (GetTemplate k)) \<Longrightarrow> footprint M S W P (getExistingOVN E ns)"
  "(\<And>k. P (GetClusterVersion k)) \<Longrightarrow> footprint M S W P (getOCPVersionFromClusterVersion E)"
  "(\<And>k. P (GetSecret k)) \<Longrightarrow> footprint M S W P (getClusterPullSecretKeychain E)"
  unfolding getWorkerOVNKDaemonSet_def getExistingOVN_def getOCPVersionFromClusterVersion_def
    getClusterPullSecretKeychain_def
  by (intro footprint_intros; simp)+

lemma footprint_currentOVNInfo [footprint_intros]:
  assumes "\<And>k. P (GetSecret k)" and "\<And>r a. P (RegistryHead r a)" and "\<And>r a. P (RegistryImage r a)"
    and "\<And>r a. P (RegistryExtract r a)"
  shows "footprint M S W P (currentOVNInfo E existing img ocpVersion releaseImage keychain)"
  using assms
  unfolding currentOVNInfo_def newOVNInfo_def resolveARM64OVNImageForCurrentDaemonSet_def resolveARM64OVNImage_def
  by (intro footprint_intros; simp)

subsection \<open>Lockstep of image and version\<close>

abbreviation ovnDaemonSetKey :: NamespacedName where
  "ovnDaemonSetKey \<equiv> NN ovnDPUDaemonSetNamespace ovnDPUDaemonSetName"

text \<open>A write of the OVN template that publishes \<open>info\<close>.\<close>

definition publishes :: "env \<Rightarrow> ovnTemplateInfo \<Rightarrow> call \<Rightarrow> bool" where
  "publishes E info c \<longleftrightarrow>
     (\<exists>t features json. (c = CreateTemplate t \<or> c = UpdateTemplate t) \<and> managed t
        \<and> mget (om_annotations (tpl_meta t)) AnnotationSourceOVNImage = oti_sourceImage info
        \<and> k_marshalJSON (cod E) (JObj (ovnValues info features)) = Inr json \<and> tpl_values t = Some json)"

lemma footprint_writeOVNTemplate:
  "footprint M S W (\<lambda>c. is_write c \<longrightarrow> publishes E info c) (writeOVNTemplate E ns defaults v info)"
proof -
  have "publishes E info (CreateTemplate (mutateTemplate service repo chart ver json reqs [(AnnotationSourceOVNImage, oti_sourceImage info)] t))"
    "publishes E info (UpdateTemplate (mutateTemplate service repo chart ver json reqs [(AnnotationSourceOVNImage, oti_sourceImage info)] t))"
    if "k_marshalJSON (cod E) (JObj (ovnValues info (hasOVNFeatures v))) = Inr json" for service repo chart ver json reqs t
    using that by (auto simp: publishes_def mutateTemplate_def managed_def)
  then show ?thesis
    unfolding writeOVNTemplate_def ensureTemplate_def CreateOrUpdate_def mutate_def bindE_def pureE_def Let_def
    by (cases "k_marshalJSON (cod E) (JObj (ovnValues info (hasOVNFeatures v)))")
      (auto intro!: footprint_intros split: if_splits)
qed

text \<open>Where the published image and version come from.\<close>

definition ovnSource :: "env \<Rightarrow> DPUServiceTemplate option \<Rightarrow> string \<Rightarrow> string \<Rightarrow> ovnTemplateInfo \<Rightarrow> bool" where
  "ovnSource E existing img ocpVersion info \<longleftrightarrow>
     oti_sourceImage info = img
     \<and> (if ovnImageChanged existing img
        then oti_daemonsetVersion info = OVNKDaemonsetVersionForOCP ocpVersion
        else \<exists>t. existing = Some t \<and> existingOVNKTemplateValues E t img = Inr info)"

lemma existing_source: "existingOVNKTemplateValues E t img = Inr info \<Longrightarrow> oti_sourceImage info = img"
  by (auto simp: existingOVNKTemplateValues_def Let_def split: option.splits sum.splits json.splits if_splits)

lemma wp_newOVNInfo:
  "wp (newOVNInfo E img ocpVersion releaseImage keychain) (\<lambda>r t. \<forall>info. r = Inr info \<longrightarrow>
     oti_sourceImage info = img \<and> oti_daemonsetVersion info = OVNKDaemonsetVersionForOCP ocpVersion) s"
  by (auto simp: newOVNInfo_def resolveARM64OVNImageForCurrentDaemonSet_def resolveARM64OVNImage_def Let_def
      IsMultiArchReleaseImage_def getClusterPullSecretKeychain_def KeychainFromPullSecret_def GetComponentImage_def
      wp_simps split: sum.splits option.splits prod.splits)

lemma wp_currentOVNInfo:
  "wp (currentOVNInfo E existing img ocpVersion releaseImage keychain) (\<lambda>r t. \<forall>info. r = Inr info \<longrightarrow>
     ovnSource E existing img ocpVersion info) s"
proof (cases "ovnImageChanged existing img")
  case True
  then have eq: "currentOVNInfo E existing img ocpVersion releaseImage keychain = newOVNInfo E img ocpVersion releaseImage keychain"
    by (auto simp: currentOVNInfo_def split: option.splits)
  show ?thesis
    unfolding eq by (rule wp_mono [OF wp_newOVNInfo]) (simp add: ovnSource_def True)
next
  case False
  then obtain t where "existing = Some t" by (auto simp: ovnImageChanged_def split: option.splits)
  then show ?thesis
    using False by (auto simp: currentOVNInfo_def wp_simps ovnSource_def split: sum.splits dest: existing_source)
qed

text \<open>The end of the OVN step, from the resolved image on.\<close>

lemma wp_publish:
  "wp (publishOVN E ns defaults existing img ocpVersion releaseImage keychain)
     (\<lambda>r t. issued (\<lambda>c. is_write c \<longrightarrow> (\<exists>info. ovnSource E existing img ocpVersion info \<and> publishes E info c))
       (st_history s) (st_history t)) s"
proof -
  let ?P = "\<lambda>c. is_write c \<longrightarrow> (\<exists>info. ovnSource E existing img ocpVersion info \<and> publishes E info c)"
  have "footprint (cr_meta (st_cr s)) (cr_spec (st_cr s)) UNIV ?P (currentOVNInfo E existing img ocpVersion releaseImage keychain)"
    by (auto intro!: footprint_intros)
  note read = wp_conj [OF footprintD [OF this refl refl] wp_currentOVNInfo]
  show ?thesis
    unfolding publishOVN_def wp_bindE
  proof (rule wp_mono [OF read], goal_cases)
    case (1 r u)
    show ?case
    proof (cases r)
      case (Inr info)
      have "wp (writeOVNTemplate E ns defaults ocpVersion info) (\<lambda>_ t. issued ?P (st_history u) (st_history t)) u"
        by (rule wp_mono [OF footprintD [OF footprint_writeOVNTemplate refl refl]])
          (use 1 Inr in \<open>auto elim!: issued_mono [rotated]\<close>)
      then show ?thesis
        using Inr 1 by (auto elim!: wp_mono intro: issued_trans)
    qed (use 1 in auto)
  qed
qed

text \<open>The facts under which the OVN step, run after the requests \<open>h\<close>, may write request \<open>c\<close>.\<close>

definition inLockstep :: "env \<Rightarrow> string \<Rightarrow> history \<Rightarrow> call \<Rightarrow> bool" where
  "inLockstep E ns h c \<longleftrightarrow> (\<exists>ds img cv existing info.
     a_getDaemonSet (mgmt E) h ovnDaemonSetKey = Inr ds \<and> ovnkImageFromDaemonSet ds = Inr img
     \<and> (case a_getTemplate (mgmt E) (GetDaemonSet ovnDaemonSetKey # h) (NN ns templateNameOVNK) of
          Inr t \<Rightarrow> existing = Some t \<and> daemonSetRolloutComplete ds
        | Inl e \<Rightarrow> existing = None \<and> IsNotFound e)
     \<and> a_getClusterVersion (mgmt E) (GetTemplate (NN ns templateNameOVNK) # GetDaemonSet ovnDaemonSetKey # h) clusterVersionName = Inr cv
     \<and> ovnSource E existing img (cv_desiredVersion cv) info \<and> publishes E info c)"


subsection \<open>A management cluster\<close>

definition ovnDaemonSet :: WorkloadDaemonSet where
  "ovnDaemonSet = \<lparr>wds_generation = 2, wds_containers = [(''kube-rbac-proxy'', ''quay.io/proxy:1''), (''ovnkube-controller'', ''quay.io/ovn:4.22'')],
     wds_observedGeneration = 2, wds_updatedNumberScheduled = 3, wds_desiredNumberScheduled = 3, wds_numberAvailable = 3\<rparr>"

definition templateEnv :: env where
  "templateEnv = emptyEnv\<lparr>mgmt := (mgmt emptyEnv)\<lparr>
     a_listDPFOperatorConfigs := \<lambda>_. Inr [\<lparr>oc_namespace = ''dpf'', oc_version = Some ''v26.4.0'', oc_deploymentMode = [],
       oc_controlPlaneMTU = None, oc_provisioningController = None\<rparr>],
     a_getDaemonSet := \<lambda>_ _. Inr ovnDaemonSet,
     a_getClusterVersion := \<lambda>_ _. Inr \<lparr>cv_desiredVersion = ''4.22.3'', cv_desiredImage = ''quay.io/ocp:4.22.3-multi''\<rparr>,
     a_getSecret := \<lambda>_ _. Inr \<lparr>sec_meta = newMeta [] [], sec_type = [], sec_data = [(''.dockerconfigjson'', [])]\<rparr>\<rparr>\<rparr>"

definition templateConfig :: OperatorConfig where
  "templateConfig = \<lparr>cfg_blueFieldOCPLayerRepo = [], cfg_disableMetalLB = False, cfg_manageDPUServiceTemplates = True,
     cfg_dpuServicesImagePullSecret = ''ngc'', cfg_ovsHugepagesSize = [], cfg_ovsHugepagesAmount = 0\<rparr>"

lemma templateEnv_writes: "wp (writeOVNTemplate templateEnv ''dpf'' sampleValues v info)
    (\<lambda>_ t. st_history t \<noteq> [] \<and> is_write (hd (st_history t))) s"
  by (simp add: writeOVNTemplate_def ensureTemplate_def CreateOrUpdate_def mutate_def wp_simps
      templateKey_def [symmetric] templateEnv_def env_defs IsNotFound_def notFoundErr_def)

lemma templateEnv_resolves:
  "wp (currentOVNInfo templateEnv None ''quay.io/ovn:4.22'' v ''quay.io/ocp:4.22.3-multi'' k) (\<lambda>r t. \<exists>info. r = Inr info) s"
proof -
  have "splitImage ''quay.io/ovn:4.22'' = Inr (''quay.io/ovn'', ''4.22'')" "HasSuffix ''quay.io/ocp:4.22.3-multi'' ''-multi''"
    by code_simp+
  then show ?thesis
    by (simp add: currentOVNInfo_def newOVNInfo_def IsMultiArchReleaseImage_def wp_simps)
qed

lemma templateEnv_publishes: "wp (ensureOVNTemplate templateEnv ''dpf'' sampleValues)
    (\<lambda>_ t. st_history t \<noteq> [] \<and> is_write (hd (st_history t))) s"
proof -
  have a: "a_getDaemonSet (mgmt templateEnv) h k = Inr ovnDaemonSet" for h k
    by (simp add: templateEnv_def)
  have img: "ovnkImageFromDaemonSet ovnDaemonSet = Inr ''quay.io/ovn:4.22''" by code_simp
  obtain kc where kc: "NewKeychainFromDockerConfig templateEnv [] = Inr kc"
    by (simp add: NewKeychainFromDockerConfig_def templateEnv_def env_defs)
  have "wp (publishOVN templateEnv ''dpf'' sampleValues None ''quay.io/ovn:4.22'' v ''quay.io/ocp:4.22.3-multi'' k)
    (\<lambda>_ t. st_history t \<noteq> [] \<and> is_write (hd (st_history t))) s" for v k s
    unfolding publishOVN_def wp_bindE by (rule wp_mono [OF templateEnv_resolves]) (auto intro: templateEnv_writes)
  then show ?thesis
    by (auto simp: ensureOVNTemplate_def getWorkerOVNKDaemonSet_def getExistingOVN_def getOCPVersionFromClusterVersion_def
        getClusterPullSecretKeychain_def KeychainFromPullSecret_def wp_simps a img kc templateEnv_def [THEN arg_cong [where f = mgmt]] env_defs IsNotFound_def notFoundErr_def)
qed


text \<open>
  A damaged OVN template is not repaired: when a template records the current image of the DaemonSet
  but its values no longer hold image and repository (someone edited or emptied them), the OVN step
  writes nothing, and once the rollout is complete it fails, whatever the other answers are; the
  templates after it in \<^verbatim>\<open>EnsureTemplates\<close> are not reached.
\<close>

lemma ensureOVNTemplate_damaged_not_repaired:
  assumes "a_getDaemonSet (mgmt E) (st_history s) ovnDaemonSetKey = Inr ds" and "ovnkImageFromDaemonSet ds = Inr img"
    and "a_getTemplate (mgmt E) (GetDaemonSet ovnDaemonSetKey # st_history s) (NN ns templateNameOVNK) = Inr t"
    and "mget (om_annotations (tpl_meta t)) AnnotationSourceOVNImage = img"
    and "existingOVNKTemplateValues E t img = Inl e"
    and "run_state (ensureOVNTemplate E ns defaults) s = (r, s')"
  shows "issued (\<lambda>c. \<not> is_write c) (st_history s) (st_history s')
    \<and> (if daemonSetRolloutComplete ds then \<exists>e. r = Inl e else r = Inr ())"
proof -
  have "wp (ensureOVNTemplate E ns defaults) (\<lambda>r t. issued (\<lambda>c. \<not> is_write c) (st_history s) (st_history t)
      \<and> (if daemonSetRolloutComplete ds then \<exists>e. r = Inl e else r = Inr ())) s"
    using assms(1-5)
    by (auto simp: ensureOVNTemplate_def getWorkerOVNKDaemonSet_def getExistingOVN_def getOCPVersionFromClusterVersion_def
        getClusterPullSecretKeychain_def KeychainFromPullSecret_def publishOVN_def currentOVNInfo_def ovnImageChanged_def
        wp_simps intro!: issued_step split: sum.splits option.splits)
  then show ?thesis using assms(6) by (auto dest: wp_run)
qed

definition damagedTemplate :: DPUServiceTemplate where
  "damagedTemplate = (newTemplate ''dpf'' ''ovn'')\<lparr>tpl_meta := (newMeta ''dpf'' ''ovn'')\<lparr>
     om_labels := [(LabelManagedBy, ''true'')], om_annotations := [(AnnotationSourceOVNImage, ''quay.io/ovn:4.22'')]\<rparr>\<rparr>"

definition damagedEnv :: env where
  "damagedEnv = templateEnv\<lparr>mgmt := (mgmt templateEnv)\<lparr>a_getTemplate := \<lambda>_ _. Inr damagedTemplate\<rparr>\<rparr>"

lemma ensureOVNTemplate_damaged_not_repaired_instance:
  "\<exists>e. fst (run_state (ensureOVNTemplate damagedEnv ''dpf'' sampleValues) (startState sampleCR)) = Inl e"
proof -
  obtain r s' where run: "run_state (ensureOVNTemplate damagedEnv ''dpf'' sampleValues) (startState sampleCR) = (r, s')"
    by (rule prod.exhaust)
  have get: "a_getDaemonSet (mgmt damagedEnv) h k = Inr ovnDaemonSet" "a_getTemplate (mgmt damagedEnv) h k = Inr damagedTemplate" for h k
    by (simp_all add: damagedEnv_def templateEnv_def)
  have img: "ovnkImageFromDaemonSet ovnDaemonSet = Inr ''quay.io/ovn:4.22''" "daemonSetRolloutComplete ovnDaemonSet" by code_simp+
  have src: "mget (om_annotations (tpl_meta damagedTemplate)) AnnotationSourceOVNImage = ''quay.io/ovn:4.22''" by code_simp
  have bad: "existingOVNKTemplateValues damagedEnv damagedTemplate ''quay.io/ovn:4.22'' = Inl (Errorf ''existing OVN template has no values'')"
    by (simp add: existingOVNKTemplateValues_def damagedTemplate_def newTemplate_def)
  show ?thesis
    using ensureOVNTemplate_damaged_not_repaired [OF get(1) img(1) get(2) src bad run] img(2) by (simp add: run)
qed

end
