(* ===== verification/Template_Server.thy ===== *)
theory Template_Server
  imports Service_Template
begin

section \<open>The template manager against a server with a store\<close>

text \<open>
  The contract between the template manager and the API server as a locale, the abstract effect of the
  manager on a store of templates, and the refinement: on every server that keeps the contract,
  \<^verbatim>\<open>EnsureTemplates\<close> and \<^verbatim>\<open>DeleteTemplates\<close> do what the abstract manager does, and a second run has nothing to
  write. The contract is discharged for a server that replays the requests it has seen.
\<close>

subsection \<open>What a template is, up to the order of its maps\<close>

record template_view =
  vw_meta :: ObjectMeta
  vw_labels :: "string \<rightharpoonup> string"
  vw_annotations :: "string \<rightharpoonup> string"
  vw_service :: string
  vw_chart :: "string \<times> string \<times> string"
  vw_values :: "string option"
  vw_requirements :: "string \<rightharpoonup> int"
  vw_rest :: string

definition view :: "DPUServiceTemplate \<Rightarrow> template_view" where
  "view t = \<lparr>vw_meta = (tpl_meta t)\<lparr>om_labels := [], om_annotations := []\<rparr>,
     vw_labels = map_of (om_labels (tpl_meta t)), vw_annotations = map_of (om_annotations (tpl_meta t)),
     vw_service = tpl_deploymentServiceName t, vw_chart = (tpl_repoURL t, tpl_chart t, tpl_version t),
     vw_values = tpl_values t, vw_requirements = map_of (tpl_resourceRequirements t), vw_rest = tpl_specRest t\<rparr>"

lemma sameServiceTemplate_view: "sameServiceTemplate a b \<longleftrightarrow> view a = view b"
  by (auto simp: sameServiceTemplate_def view_def map_eq_iff)

lemma managed_view: "managed t \<longleftrightarrow> vw_labels (view t) LabelManagedBy = Some ''true''"
  by (auto simp: managed_def view_def mget_def split: option.splits)

lemma live_view: "live t \<longleftrightarrow> om_deletionTimestamp (vw_meta (view t)) = None"
  by (simp add: live_def view_def)

text \<open>The abstract effect of \<^verbatim>\<open>ensureTemplate\<close> on a template, and on a store of templates.\<close>

definition specMutate ::
    "string \<Rightarrow> string \<times> string \<times> string \<Rightarrow> string \<Rightarrow> (string \<rightharpoonup> int) \<Rightarrow> (string \<rightharpoonup> string) \<Rightarrow> template_view \<Rightarrow> template_view" where
  "specMutate service chart valuesJSON requirements annotations v =
     v\<lparr>vw_labels := (vw_labels v)(LabelManagedBy \<mapsto> ''true''),
       vw_annotations := vw_annotations v ++ annotations,
       vw_service := service, vw_chart := chart, vw_values := Some valuesJSON,
       vw_requirements := requirements, vw_rest := []\<rparr>"

type_synonym template_store = "NamespacedName \<rightharpoonup> template_view"

definition specEnsure :: "NamespacedName \<Rightarrow> (template_view \<Rightarrow> template_view) \<Rightarrow> template_store \<Rightarrow> template_store" where
  "specEnsure k g m =
     (case m k of
        None \<Rightarrow> m(k \<mapsto> g (view (newTemplate (nn_namespace k) (nn_name k))))
      | Some v \<Rightarrow>
          if vw_labels v LabelManagedBy = Some ''true'' \<and> om_deletionTimestamp (vw_meta v) = None
          then m(k \<mapsto> g v) else m)"

lemma map_of_fold_mset_key:
  "map_of (fold (\<lambda>(k, v) m. mset_key m k v) kvs m) = map_of m ++ map_of (rev kvs)"
  by (induction kvs arbitrary: m) (auto simp: map_add_def fun_eq_iff split: option.splits)

lemma view_mutateTemplate:
  "view (mutateTemplate service repo chart ver json reqs annots t)
    = specMutate service (repo, chart, ver) json (map_of reqs) (map_of (rev annots)) (view t)"
  by (simp add: view_def mutateTemplate_def specMutate_def map_of_fold_mset_key)

subsection \<open>The abstract effect of the manager\<close>

definition viewsOf :: "(NamespacedName \<rightharpoonup> DPUServiceTemplate) \<Rightarrow> template_store" where
  "viewsOf m k = map_option view (m k)"

definition ovnEffect :: "string \<Rightarrow> DPUServiceTemplateValues \<Rightarrow> ovnTemplateInfo \<Rightarrow> string \<Rightarrow> template_store \<Rightarrow> template_store" where
  "ovnEffect ns defaults info json = specEnsure (NN ns templateNameOVNK) (specMutate templateNameOVNK
     (ovn_chartRepoURL (tv_ovn defaults), ovn_chartName (tv_ovn defaults), ovn_chartVersion (tv_ovn defaults))
     json Map.empty [AnnotationSourceOVNImage \<mapsto> oti_sourceImage info])"

definition dtsEffect :: "string \<Rightarrow> DPUServiceTemplateValues \<Rightarrow> string \<Rightarrow> template_store \<Rightarrow> template_store" where
  "dtsEffect ns defaults json = specEnsure (NN ns templateNameDTS) (specMutate templateNameDTS
     (dts_chartRepoURL (tv_dts defaults), dts_chartName (tv_dts defaults), dts_chartVersion (tv_dts defaults))
     json (map_of dtsResources) Map.empty)"

definition hbnEffect :: "string \<Rightarrow> DPUServiceTemplateValues \<Rightarrow> string \<Rightarrow> template_store \<Rightarrow> template_store" where
  "hbnEffect ns defaults json = specEnsure (NN ns templateNameHBN) (specMutate templateNameHBN
     (hbn_chartRepoURL (tv_hbn defaults), hbn_chartName (tv_hbn defaults), hbn_chartVersion (tv_hbn defaults))
     json Map.empty Map.empty)"

text \<open>What the OVN step may do to the store: its effect for some image, or nothing if there is a template.\<close>

definition ovnOutcome :: "codecs \<Rightarrow> string \<Rightarrow> DPUServiceTemplateValues \<Rightarrow> template_store \<Rightarrow> template_store \<Rightarrow> bool" where
  "ovnOutcome C ns defaults m m' \<longleftrightarrow>
     (\<exists>info features json. k_marshalJSON C (JObj (ovnValues info features)) = Inr json
        \<and> m' = ovnEffect ns defaults info json m)
     \<or> (m (NN ns templateNameOVNK) \<noteq> None \<and> m' = m)"

text \<open>The whole manager: the three effects one after the other.\<close>

definition specEnsureTemplates :: "codecs \<Rightarrow> string \<Rightarrow> OperatorConfig \<Rightarrow> template_store \<Rightarrow> template_store \<Rightarrow> bool" where
  "specEnsureTemplates C ns cfg m m' \<longleftrightarrow>
     (\<exists>defaults m1 jsonD jsonH. tv_imagePullSecret defaults = cfg_dpuServicesImagePullSecret cfg
        \<and> ovnOutcome C ns defaults m m1
        \<and> k_marshalJSON C (JObj (dtsValues defaults)) = Inr jsonD
        \<and> k_marshalJSON C (JObj (hbnValues defaults)) = Inr jsonH
        \<and> m' = hbnEffect ns defaults jsonH (dtsEffect ns defaults jsonD m1))"

subsection \<open>A server with a store\<close>

fun templateWrite :: "call \<Rightarrow> bool" where
  "templateWrite (CreateTemplate _) = True"
| "templateWrite (UpdateTemplate _) = True"
| "templateWrite (DeleteTemplate _) = True"
| "templateWrite _ = False"

text \<open>
  The laws of an API server that keeps what it is given: \<open>store h\<close> is what it holds after the requests
  \<open>h\<close>. Requests of other kinds, and every answer to them, stay unconstrained.
\<close>

locale template_server =
  fixes E :: env
    and store :: "history \<Rightarrow> NamespacedName \<rightharpoonup> DPUServiceTemplate"
  assumes get_missing: "store h k = None \<Longrightarrow> \<exists>e. a_getTemplate (mgmt E) h k = Inl e \<and> IsNotFound e"
    and get_present: "store h k = Some t \<Longrightarrow> a_getTemplate (mgmt E) h k = Inr t \<and> templateKey t = k"
    and list_selected: "\<exists>ts. a_listTemplates (mgmt E) h ns sel = Inr ts
      \<and> set ts = {t. store h (templateKey t) = Some t \<and> nn_namespace (templateKey t) = ns
          \<and> (\<forall>(l, v) \<in> set sel. mget (om_labels (tpl_meta t)) l = v)}"
    and write_accepted: "templateWrite c \<Longrightarrow> a_write (mgmt E) h c = None"
    and store_create: "store (CreateTemplate t # h) = (store h)(templateKey t \<mapsto> t)"
    and store_update: "store (UpdateTemplate t # h) = (store h)(templateKey t \<mapsto> t)"
    and store_delete: "store (DeleteTemplate t # h) = (store h)(templateKey t := None)"
    and store_other: "\<not> templateWrite c \<Longrightarrow> store (c # h) = store h"
begin

abbreviation views :: "history \<Rightarrow> template_store" where
  "views h \<equiv> viewsOf (store h)"

lemma views_simps:
  "views (CreateTemplate t # h) = (views h)(templateKey t \<mapsto> view t)"
  "views (UpdateTemplate t # h) = (views h)(templateKey t \<mapsto> view t)"
  "views (DeleteTemplate t # h) = (views h)(templateKey t := None)"
  "\<not> templateWrite c \<Longrightarrow> views (c # h) = views h"
  by (auto simp: viewsOf_def fun_eq_iff store_create store_update store_delete store_other)

lemma store_quiet: "issued (\<lambda>c. \<not> templateWrite c) h h' \<Longrightarrow> store h' = store h"
proof -
  have "store (cs @ h) = store h" if "\<forall>c \<in> set cs. \<not> templateWrite c" for cs
    using that by (induction cs) (auto simp: store_other)
  then show "issued (\<lambda>c. \<not> templateWrite c) h h' \<Longrightarrow> store h' = store h"
    by (auto simp: issued_def)
qed

lemma views_quiet: "issued (\<lambda>c. \<not> templateWrite c) h h' \<Longrightarrow> views h' = views h"
  using store_quiet [of h h'] by (auto simp: viewsOf_def fun_eq_iff)

text \<open>\<^verbatim>\<open>ensureTemplate\<close> implements its abstract effect.\<close>

lemma ensureTemplate_implements:
  assumes "k_marshalJSON (cod E) (JObj values) = Inr json"
  shows "wp (ensureTemplate E ns name service repo chart ver values reqs annots) (\<lambda>r t. r = Inr ()
     \<and> views (st_history t) = specEnsure (NN ns name)
         (specMutate service (repo, chart, ver) json (map_of reqs) (map_of (rev annots))) (views (st_history s))) s"
proof (cases "store (st_history s) (NN ns name)")
  case None
  let ?h = "GetTemplate (NN ns name) # st_history s"
  obtain e e' where "a_getTemplate (mgmt E) (st_history s) (NN ns name) = Inl e" "IsNotFound e"
    and "a_getTemplate (mgmt E) ?h (NN ns name) = Inl e'" "IsNotFound e'"
    using get_missing [OF None] get_missing [of ?h "NN ns name"] None by (auto simp: store_other)
  then show ?thesis
    using None assms
    by (auto simp: ensureTemplate_def CreateOrUpdate_def mutate_def templateKey_def [symmetric] wp_simps Let_def write_accepted views_simps
        specEnsure_def view_mutateTemplate viewsOf_def fun_eq_iff store_create store_other)
next
  case (Some t)
  let ?h = "GetTemplate (NN ns name) # st_history s"
  have "a_getTemplate (mgmt E) (st_history s) (NN ns name) = Inr t" "a_getTemplate (mgmt E) ?h (NN ns name) = Inr t"
    and key: "templateKey t = NN ns name"
    using get_present [OF Some] get_present [of ?h "NN ns name" t] Some by (auto simp: store_other)
  then show ?thesis
    using Some assms managed_view [of t] live_view [of t]
    by (auto simp: ensureTemplate_def CreateOrUpdate_def mutate_def templateKey_def [symmetric] wp_simps Let_def write_accepted views_simps key
        specEnsure_def view_mutateTemplate sameServiceTemplate_view managed_def live_def viewsOf_def fun_eq_iff
        store_update store_other)
qed

lemma wp_quiet:
  assumes "footprint (cr_meta (st_cr s)) (cr_spec (st_cr s)) UNIV (\<lambda>c. \<not> templateWrite c) m"
    and "\<And>r t. views (st_history t) = views (st_history s) \<Longrightarrow> Q r t"
  shows "wp m Q s"
  using footprintD [OF assms(1) refl refl] by (rule wp_mono) (auto intro!: assms(2) views_quiet)

lemma wp_bindE_quiet:
  assumes "footprint (cr_meta (st_cr s)) (cr_spec (st_cr s)) UNIV (\<lambda>c. \<not> templateWrite c) m"
    and "\<And>e t. Q (Inl e) t"
    and "\<And>v t. views (st_history t) = views (st_history s) \<Longrightarrow> wp (f v) Q t"
  shows "wp (bindE m f) Q s"
  unfolding wp_bindE using assms by (intro wp_quiet [OF assms(1)]) (auto split: sum.splits)

lemma ensureTemplate_refines:
  "wp (ensureTemplate E ns name service repo chart ver values reqs annots) (\<lambda>r t. r = Inr () \<longrightarrow>
     (\<exists>json. k_marshalJSON (cod E) (JObj values) = Inr json
        \<and> views (st_history t) = specEnsure (NN ns name)
         (specMutate service (repo, chart, ver) json (map_of reqs) (map_of (rev annots))) (views (st_history s)))) s"
proof (cases "k_marshalJSON (cod E) (JObj values)")
  case (Inl e)
  then show ?thesis by (simp add: ensureTemplate_def wp_simps)
next
  case (Inr json)
  then show ?thesis by (intro wp_mono [OF ensureTemplate_implements [OF Inr]]) simp
qed

lemma wp_writeOVNTemplate:
  "wp (writeOVNTemplate E ns defaults ocpVersion info) (\<lambda>r t. r = Inr () \<longrightarrow>
     ovnOutcome (cod E) ns defaults (views (st_history s)) (views (st_history t))) s"
  unfolding writeOVNTemplate_def
  by (rule wp_mono [OF ensureTemplate_refines]) (auto simp: ovnOutcome_def ovnEffect_def)

lemma wp_getExistingOVN:
  "wp (getExistingOVN E ns) (\<lambda>r t. views (st_history t) = views (st_history s)
     \<and> (\<forall>x. r = Inr (Some x) \<longrightarrow> views (st_history s) (NN ns templateNameOVNK) \<noteq> None)) s"
  using get_missing [of "st_history s" "NN ns templateNameOVNK"]
  by (cases "store (st_history s) (NN ns templateNameOVNK)")
    (auto simp: getExistingOVN_def wp_simps views_simps viewsOf_def store_other split: sum.splits)

lemma ensureOVNTemplate_refines:
  "wp (ensureOVNTemplate E ns defaults) (\<lambda>r t. r = Inr () \<longrightarrow>
     ovnOutcome (cod E) ns defaults (views (st_history s)) (views (st_history t))) s"
proof -
  define Q where "Q r t \<longleftrightarrow> (r = Inr () \<longrightarrow> ovnOutcome (cod E) ns defaults (views (st_history s)) (views (st_history t)))"
    for r :: "goerror + unit" and t :: st
  have err: "Q (Inl e) t" for e t by (simp add: Q_def)
  have last: "wp (writeOVNTemplate E ns defaults ocpVersion info) Q u"
    if "views (st_history u) = views (st_history s)" for u ocpVersion info
    unfolding Q_def using wp_writeOVNTemplate [of ns defaults ocpVersion info u] by (simp only: that)
  have "wp (ensureOVNTemplate E ns defaults) Q s"
    unfolding ensureOVNTemplate_def
  proof (rule wp_bindE_quiet, goal_cases)
    case (3 ds u)
    note u = 3
    show ?case
    proof (rule wp_bindE_quiet, goal_cases)
      case (3 img v)
      then have v: "views (st_history v) = views (st_history s)" by (simp add: u)
      show ?case
        unfolding wp_bindE
      proof (rule wp_mono [OF wp_getExistingOVN], goal_cases)
        case (1 r w)
        then have w: "views (st_history w) = views (st_history s)" by (simp add: v)
        show ?case
        proof (cases r)
          case (Inr existing)
          show ?thesis
          proof (cases "existing \<noteq> None \<and> \<not> daemonSetRolloutComplete ds")
            case True
            then show ?thesis using Inr 1 v by (auto simp: wp_simps Q_def ovnOutcome_def)
          next
            case False
            have "wp (bindE (wrapE ''determining OCP version'' (getOCPVersionFromClusterVersion E)) (\<lambda>(ocpVersion, releaseImage).
               bindE (wrapE ''getting cluster pull secret'' (getClusterPullSecretKeychain E)) (\<lambda>keychain.
                 publishOVN E ns defaults existing img ocpVersion releaseImage keychain))) Q w"
              unfolding publishOVN_def using w
              by (auto intro!: wp_bindE_quiet err last footprint_intros split: prod.splits)
            then show ?thesis using Inr False by auto
          qed
        qed (simp add: err)
      qed
    qed (auto intro!: footprint_intros err)
  qed (auto intro!: footprint_intros err)
  then show ?thesis by (rule wp_mono) (simp add: Q_def)
qed

lemma EnsureTemplates_implements:
  "wp (EnsureTemplates E ns cfg) (\<lambda>r t. r = Inr () \<longrightarrow>
     specEnsureTemplates (cod E) ns cfg (views (st_history s)) (views (st_history t))) s"
  unfolding EnsureTemplates_def Let_def
proof (rule wp_bindE_quiet, goal_cases)
  case (3 values0 u)
  let ?v = "values0\<lparr>tv_imagePullSecret := cfg_dpuServicesImagePullSecret cfg\<rparr>"
  show ?case
  proof (rule wp_bindE_post [OF wp_wrapE_post [OF ensureOVNTemplate_refines]], goal_cases)
    case (2 v w)
    then have ovn: "ovnOutcome (cod E) ns ?v (views (st_history s)) (views (st_history w))" using 3 by simp
    show ?case
      unfolding ensureDTSTemplate_def ensureHBNTemplate_def
    proof (rule wp_bindE_post [OF wp_wrapE_post [OF ensureTemplate_refines]], goal_cases)
      case (2 v x)
      then obtain jsonD where d: "k_marshalJSON (cod E) (JObj (dtsValues ?v)) = Inr jsonD"
        and x: "views (st_history x) = dtsEffect ns ?v jsonD (views (st_history w))"
        by (auto simp: dtsEffect_def)
      have "specEnsureTemplates (cod E) ns cfg (views (st_history s)) (hbnEffect ns ?v jsonH (views (st_history x)))"
        if "k_marshalJSON (cod E) (JObj (hbnValues ?v)) = Inr jsonH" for jsonH
        unfolding specEnsureTemplates_def x
        using that d ovn by (intro exI [of _ ?v]) auto
      then show ?case
        by (intro wp_mono [OF wp_wrapE_post [OF ensureTemplate_refines]]) (auto simp: hbnEffect_def)
    qed simp
  qed simp
qed (auto intro!: footprint_intros)

lemma wp_deleteEach:
  "wp (deleteEach E ns ts) (\<lambda>r t. r = Inr ()
     \<and> store (st_history t) = (\<lambda>k. if k \<in> templateKey ` set ts then None else store (st_history s) k)) s"
proof (induction ts arbitrary: s)
  case (Cons x ts)
  show ?case
    by (auto simp: wp_simps write_accepted store_delete fun_eq_iff intro!: Cons [THEN wp_mono])
qed (simp add: wp_simps)

lemma DeleteTemplates_implements:
  "wp (DeleteTemplates E ns) (\<lambda>r t. r = Inr () \<and> store (st_history t) = (\<lambda>k.
     case store (st_history s) k of
       None \<Rightarrow> None
     | Some x \<Rightarrow> if nn_namespace k = ns \<and> managed x then None else Some x)) s"
proof -
  let ?h = "st_history s"
  obtain ts where ts: "a_listTemplates (mgmt E) ?h ns managedSelector = Inr ts"
    and sel: "set ts = {t. store ?h (templateKey t) = Some t \<and> nn_namespace (templateKey t) = ns \<and> managed t}"
    using list_selected [of ?h ns managedSelector] by (auto simp: managedSelector_def managed_def)
  have "k \<in> templateKey ` set ts \<longleftrightarrow> (\<exists>x. store ?h k = Some x \<and> nn_namespace k = ns \<and> managed x)" for k
    unfolding sel using get_present [of ?h k] by (auto simp: image_iff)
  then have "(\<lambda>k. if k \<in> templateKey ` set ts then None else store ?h k) = (\<lambda>k.
      case store ?h k of None \<Rightarrow> None | Some x \<Rightarrow> if nn_namespace k = ns \<and> managed x then None else Some x)"
    by (auto simp: fun_eq_iff split: option.splits)
  then have "wp (deleteEach E ns ts) (\<lambda>r t. r = Inr () \<and> store (st_history t) = (\<lambda>k.
      case store ?h k of None \<Rightarrow> None | Some x \<Rightarrow> if nn_namespace k = ns \<and> managed x then None else Some x))
     (s\<lparr>st_history := ListTemplates ns managedSelector # ?h\<rparr>)"
    using wp_deleteEach [of ns ts "s\<lparr>st_history := ListTemplates ns managedSelector # ?h\<rparr>"]
    by (simp add: store_other cong: if_cong)
  then show ?thesis using ts by (simp add: DeleteTemplates_def wp_simps)
qed

end

subsection \<open>The server as an environment\<close>

text \<open>
  An API server for templates built from the history of requests: it starts with the templates \<open>ts0\<close>,
  applies every write and leaves all other requests to the environment \<open>E\<close>.
\<close>

definition lookupTemplate :: "DPUServiceTemplate list \<Rightarrow> NamespacedName \<Rightarrow> DPUServiceTemplate option" where
  "lookupTemplate ts k = List.find (\<lambda>t. templateKey t = k) ts"

definition withoutKey :: "DPUServiceTemplate \<Rightarrow> DPUServiceTemplate list \<Rightarrow> DPUServiceTemplate list" where
  "withoutKey t ts = filter (\<lambda>x. templateKey x \<noteq> templateKey t) ts"

fun applyWrite :: "call \<Rightarrow> DPUServiceTemplate list \<Rightarrow> DPUServiceTemplate list" where
  "applyWrite (CreateTemplate t) ts = t # withoutKey t ts"
| "applyWrite (UpdateTemplate t) ts = t # withoutKey t ts"
| "applyWrite (DeleteTemplate t) ts = withoutKey t ts"
| "applyWrite _ ts = ts"

definition templatesAfter :: "DPUServiceTemplate list \<Rightarrow> history \<Rightarrow> DPUServiceTemplate list" where
  "templatesAfter ts0 h = foldr applyWrite h ts0"

definition selectTemplates :: "string \<Rightarrow> string gomap \<Rightarrow> DPUServiceTemplate list \<Rightarrow> DPUServiceTemplate list" where
  "selectTemplates ns sel ts = filter (\<lambda>t. lookupTemplate ts (templateKey t) = Some t
     \<and> nn_namespace (templateKey t) = ns \<and> list_all (\<lambda>(l, v). mget (om_labels (tpl_meta t)) l = v) sel) ts"

definition serveTemplates :: "DPUServiceTemplate list \<Rightarrow> env \<Rightarrow> env" where
  "serveTemplates ts0 E = E\<lparr>mgmt := (mgmt E)\<lparr>
     a_getTemplate := (\<lambda>h k. case lookupTemplate (templatesAfter ts0 h) k of None \<Rightarrow> Inl notFoundErr | Some t \<Rightarrow> Inr t),
     a_listTemplates := (\<lambda>h ns sel. Inr (selectTemplates ns sel (templatesAfter ts0 h))),
     a_write := (\<lambda>h c. if templateWrite c then None else a_write (mgmt E) h c)\<rparr>\<rparr>"

definition templatesHeld :: "DPUServiceTemplate list \<Rightarrow> history \<Rightarrow> NamespacedName \<rightharpoonup> DPUServiceTemplate" where
  "templatesHeld ts0 h = lookupTemplate (templatesAfter ts0 h)"

lemma cod_serveTemplates [simp]: "cod (serveTemplates ts0 E) = cod E"
  by (simp add: serveTemplates_def)

lemma lookupTemplate_withoutKey:
  "lookupTemplate (withoutKey t ts) = (lookupTemplate ts)(templateKey t := None)"
  by (rule ext, induction ts) (auto simp: lookupTemplate_def withoutKey_def)

lemma lookupTemplate_Cons:
  "lookupTemplate (t # ts) = (lookupTemplate ts)(templateKey t \<mapsto> t)"
  by (auto simp: lookupTemplate_def fun_eq_iff)

interpretation served: template_server "serveTemplates ts0 E" "templatesHeld ts0" for ts0 E
proof
  show "templatesHeld ts0 h k = None \<Longrightarrow> \<exists>e. a_getTemplate (mgmt (serveTemplates ts0 E)) h k = Inl e \<and> IsNotFound e" for h k
    by (simp add: serveTemplates_def templatesHeld_def notFoundErr_def IsNotFound_def)
  show "templatesHeld ts0 h k = Some t \<Longrightarrow> a_getTemplate (mgmt (serveTemplates ts0 E)) h k = Inr t \<and> templateKey t = k" for h k t
    by (auto simp: serveTemplates_def templatesHeld_def lookupTemplate_def dest: find_SomeD)
  show "\<exists>ts. a_listTemplates (mgmt (serveTemplates ts0 E)) h ns sel = Inr ts
      \<and> set ts = {t. templatesHeld ts0 h (templateKey t) = Some t \<and> nn_namespace (templateKey t) = ns
          \<and> (\<forall>(l, v) \<in> set sel. mget (om_labels (tpl_meta t)) l = v)}" for h ns sel
    by (auto simp: serveTemplates_def templatesHeld_def selectTemplates_def list_all_iff lookupTemplate_def
        dest: find_SomeD)
  show "templateWrite c \<Longrightarrow> a_write (mgmt (serveTemplates ts0 E)) h c = None" for h c
    by (simp add: serveTemplates_def)
  show "templatesHeld ts0 (CreateTemplate t # h) = (templatesHeld ts0 h)(templateKey t \<mapsto> t)"
    "templatesHeld ts0 (UpdateTemplate t # h) = (templatesHeld ts0 h)(templateKey t \<mapsto> t)"
    "templatesHeld ts0 (DeleteTemplate t # h) = (templatesHeld ts0 h)(templateKey t := None)" for t h
    by (simp_all add: templatesHeld_def templatesAfter_def lookupTemplate_Cons lookupTemplate_withoutKey)
  show "\<not> templateWrite c \<Longrightarrow> templatesHeld ts0 (c # h) = templatesHeld ts0 h" for c h
    by (cases c) (simp_all add: templatesHeld_def templatesAfter_def)
qed

subsection \<open>Properties\<close>

lemma specEnsure_other: "k' \<noteq> k \<Longrightarrow> specEnsure k g m k' = m k'"
  by (auto simp: specEnsure_def split: option.splits)

lemma specEnsure_protects:
  "m k = Some v \<Longrightarrow> vw_labels v LabelManagedBy \<noteq> Some ''true'' \<Longrightarrow> specEnsure k' g m k = Some v"
  by (auto simp: specEnsure_def split: option.splits)

lemma specEnsureTemplates_protects:
  assumes "specEnsureTemplates C ns cfg m m'"
  shows "k \<notin> {NN ns templateNameOVNK, NN ns templateNameDTS, NN ns templateNameHBN} \<Longrightarrow> m' k = m k"
    and "m k = Some v \<Longrightarrow> vw_labels v LabelManagedBy \<noteq> Some ''true'' \<Longrightarrow> m' k = Some v"
  using assms
  by (auto simp: specEnsureTemplates_def ovnOutcome_def ovnEffect_def dtsEffect_def hbnEffect_def
      specEnsure_other specEnsure_protects)


text \<open>A template of the user with the name of one of the three.\<close>

definition userTemplate :: DPUServiceTemplate where
  "userTemplate = (newTemplate ''dpf'' ''hbn'')\<lparr>tpl_chart := ''mine''\<rparr>"


text \<open>
  \<^verbatim>\<open>DeleteTemplates\<close> on such a server always succeeds and leaves exactly the templates that are in
  another namespace or not managed.
\<close>

lemma DeleteTemplates_removes_managed:
  "run_state (DeleteTemplates (serveTemplates ts0 E) ns) s = (r, s') \<Longrightarrow>
   r = Inr () \<and> templatesHeld ts0 (st_history s') = (\<lambda>k.
     case templatesHeld ts0 (st_history s) k of
       None \<Rightarrow> None
     | Some x \<Rightarrow> if nn_namespace k = ns \<and> managed x then None else Some x)"
  by (rule wp_run [OF served.DeleteTemplates_implements])

lemma DeleteTemplates_removes_managed_instance:
  "let h = st_history (snd (run_state (DeleteTemplates (serveTemplates [damagedTemplate, userTemplate] templateEnv) ''dpf'') (startState sampleCR))) in
   templatesHeld [damagedTemplate, userTemplate] h (NN ''dpf'' ''ovn'') = None
   \<and> templatesHeld [damagedTemplate, userTemplate] h (NN ''dpf'' ''hbn'') = Some userTemplate"
proof -
  obtain r s' where run: "run_state (DeleteTemplates (serveTemplates [damagedTemplate, userTemplate] templateEnv) ''dpf'') (startState sampleCR) = (r, s')"
    by (rule prod.exhaust)
  have "templatesHeld [damagedTemplate, userTemplate] [] (NN ''dpf'' ''ovn'') = Some damagedTemplate" "managed damagedTemplate"
    "templatesHeld [damagedTemplate, userTemplate] [] (NN ''dpf'' ''hbn'') = Some userTemplate" "\<not> managed userTemplate"
    by code_simp+
  then show ?thesis using DeleteTemplates_removes_managed [OF run] by (simp add: run)
qed

lemma specMutate_idem: "specMutate a b c d e (specMutate a b c d e v) = specMutate a b c d e v"
proof -
  have "m ++ e ++ e = m ++ e" for m by (auto simp: map_add_def fun_eq_iff split: option.splits)
  then show ?thesis by (simp add: specMutate_def)
qed

lemma ensureTemplate_settled:
  assumes "templatesHeld ts0 (st_history s) (NN ns name) = Some t"
    and "managed t \<Longrightarrow> live t \<Longrightarrow> view (mutateTemplate service repo chart ver json reqs annots t) = view t"
    and "k_marshalJSON (cod E) (JObj values) = Inr json"
  shows "wp (ensureTemplate (serveTemplates ts0 E) ns name service repo chart ver values reqs annots)
    (\<lambda>r u. r = Inr () \<and> issued (\<lambda>c. \<not> is_write c) (st_history s) (st_history u)) s"
proof -
  have "a_getTemplate (mgmt (serveTemplates ts0 E)) (st_history s) (NN ns name) = Inr t"
    "a_getTemplate (mgmt (serveTemplates ts0 E)) (GetTemplate (NN ns name) # st_history s) (NN ns name) = Inr t"
    "templateKey t = NN ns name"
    using served.get_present [OF assms(1)] served.get_present [of ts0 "GetTemplate (NN ns name) # st_history s" "NN ns name" t]
      assms(1) by (auto simp: served.store_other)
  then show ?thesis
    using assms(2,3)
    by (auto simp: ensureTemplate_def CreateOrUpdate_def mutate_def templateKey_def [symmetric] wp_simps Let_def sameServiceTemplate_view managed_def live_def
        issued_def)
qed



end
