(* ===== verification/Template_Controller.thy ===== *)
theory Template_Controller
  imports Template_Server Events
begin

section \<open>The template controller\<close>

text \<open>
  \<^verbatim>\<open>internal/controller/dpuservicetemplate/controller.go\<close>: a reconcile per DPUCluster namespace ensures the
  templates while a live provisioner refers to a live \<^verbatim>\<open>DPUDeployment\<close>, and deletes them otherwise; the
  mapping functions say which namespaces an event concerns. The lemmas show which templates a reconcile
  may touch, how it decides, what is left when it decides to delete, and that the namespaces a change of
  a \<^verbatim>\<open>DPUDeployment\<close> concerns are all requested, once each.
\<close>

subsection \<open>Reconcile\<close>

fun activeFrom ::
    "env \<Rightarrow> string \<Rightarrow> DPFHCPProvisioner list \<Rightarrow> NamespacedName list \<Rightarrow> (goerror + DPUDeployment list) io" where
  "activeFrom E dpuClusterNamespace [] seen = pureE (Inr [])"
| "activeFrom E dpuClusterNamespace (p # ps) seen =
     (if om_deletionTimestamp (cr_meta p) \<noteq> None \<or> ref_namespace (sp_dpuClusterRef (cr_spec p)) \<noteq> dpuClusterNamespace
      then activeFrom E dpuClusterNamespace ps seen
      else (case sp_dpuDeploymentRef (cr_spec p) of
        None \<Rightarrow> activeFrom E dpuClusterNamespace ps seen
      | Some ref \<Rightarrow>
          (let key = NN (ref_namespace ref) (ref_name ref) in
           if key \<in> set seen then activeFrom E dpuClusterNamespace ps seen
           else do {
             r \<leftarrow> getDPUDeployment E key;
             (case r of
                Inl e \<Rightarrow> if IsNotFound e then activeFrom E dpuClusterNamespace ps seen else failE e
              | Inr dpuDeployment \<Rightarrow>
                  if om_deletionTimestamp (dd_meta dpuDeployment) \<noteq> None
                  then activeFrom E dpuClusterNamespace ps seen
                  else bindE (activeFrom E dpuClusterNamespace ps (key # seen)) (\<lambda>rest.
                    pureE (Inr (dpuDeployment # rest))))
           })))"

definition activeDPUDeployments :: "env \<Rightarrow> DPFHCPProvisioner list \<Rightarrow> string \<Rightarrow> (goerror + DPUDeployment list) io" where
  "activeDPUDeployments E allProvisioners dpuClusterNamespace = activeFrom E dpuClusterNamespace allProvisioners []"

definition syncTemplates :: "env \<Rightarrow> string \<Rightarrow> OperatorConfig \<Rightarrow> (goerror + unit) io" where
  "syncTemplates E dpuClusterNS operatorConfig =
     bindE (listCRs E) (\<lambda>allProvisioners.
     bindE (activeDPUDeployments E allProvisioners dpuClusterNS) (\<lambda>deployments.
       if deployments = [] then DeleteTemplates E dpuClusterNS
       else EnsureTemplates E dpuClusterNS operatorConfig))"

definition ReconcileTemplates :: "env \<Rightarrow> string \<Rightarrow> step_result io" where
  "ReconcileTemplates E dpuClusterNS = do {
     r \<leftarrow> LoadOperatorConfigFromCR E;
     (case r of
        Inl e \<Rightarrow> State_Monad.return (failed e)
      | Inr None \<Rightarrow> State_Monad.return ok
      | Inr (Some operatorConfig) \<Rightarrow>
          if \<not> cfg_manageDPUServiceTemplates operatorConfig then State_Monad.return ok
          else do {
            x \<leftarrow> syncTemplates E dpuClusterNS operatorConfig;
            State_Monad.return (case x of Inl e \<Rightarrow> failed e | Inr _ \<Rightarrow> ok)
          })
   }"

subsection \<open>Mapping functions and predicates\<close>

text \<open>The loops over the provisioners that collect each namespace once.\<close>

fun uniqueNamespaces :: "string list \<Rightarrow> string list \<Rightarrow> NamespacedName list" where
  "uniqueNamespaces [] seen = []"
| "uniqueNamespaces (ns # nss) seen =
     (if ns \<in> set seen then uniqueNamespaces nss seen else NN [] ns # uniqueNamespaces nss (ns # seen))"

definition clusterNamespaces :: "DPFHCPProvisioner list \<Rightarrow> string list" where
  "clusterNamespaces ps = map (\<lambda>p. ref_namespace (sp_dpuClusterRef (cr_spec p))) ps"

definition provisionerToNamespace :: "DPFHCPProvisioner \<Rightarrow> NamespacedName list" where
  "provisionerToNamespace provisioner = [NN [] (ref_namespace (sp_dpuClusterRef (cr_spec provisioner)))]"

definition allProvisionerDPUClusterNamespaces :: "env \<Rightarrow> NamespacedName list io" where
  "allProvisionerDPUClusterNamespaces E = do {
     r \<leftarrow> listCRs E;
     State_Monad.return (case r of
       Inl _ \<Rightarrow> []
     | Inr provisioners \<Rightarrow> uniqueNamespaces (clusterNamespaces provisioners) [])
   }"

definition templateToNamespace :: "DPUServiceTemplate \<Rightarrow> NamespacedName list" where
  "templateToNamespace t = [NN [] (om_namespace (tpl_meta t))]"

definition refersTo :: "DPUDeployment \<Rightarrow> DPFHCPProvisioner \<Rightarrow> bool" where
  "refersTo dpuDeployment p \<longleftrightarrow>
     (case sp_dpuDeploymentRef (cr_spec p) of
        None \<Rightarrow> False
      | Some ref \<Rightarrow> ref_name ref = om_name (dd_meta dpuDeployment) \<and> ref_namespace ref = om_namespace (dd_meta dpuDeployment))"

definition dpuDeploymentToNamespace :: "env \<Rightarrow> DPUDeployment \<Rightarrow> NamespacedName list io" where
  "dpuDeploymentToNamespace E dpuDeployment = do {
     r \<leftarrow> listCRs E;
     State_Monad.return (case r of
       Inl _ \<Rightarrow> []
     | Inr provisioners \<Rightarrow> uniqueNamespaces (clusterNamespaces (filter (refersTo dpuDeployment) provisioners)) [])
   }"

definition overridesConfigMapPredicate :: "string \<Rightarrow> ObjectMeta watchEvent \<Rightarrow> bool" where
  "overridesConfigMapPredicate operatorNamespace e =
     (let isOverridesConfigMap = (\<lambda>m. om_name m = overridesConfigMapName \<and> om_namespace m = operatorNamespace) in
      case e of
        CreateEvent m \<Rightarrow> isOverridesConfigMap m
      | UpdateEvent _ m \<Rightarrow> isOverridesConfigMap m
      | DeleteEvent m \<Rightarrow> isOverridesConfigMap m
      | GenericEvent _ \<Rightarrow> True)"

definition ovnDaemonSetPredicate :: "ObjectMeta watchEvent \<Rightarrow> bool" where
  "ovnDaemonSetPredicate e =
     (let isOVNDaemonSet = (\<lambda>m. om_name m = ovnDPUDaemonSetName \<and> om_namespace m = ovnDPUDaemonSetNamespace) in
      case e of
        CreateEvent m \<Rightarrow> isOVNDaemonSet m
      | UpdateEvent _ m \<Rightarrow> isOVNDaemonSet m
      | DeleteEvent _ \<Rightarrow> False
      | GenericEvent _ \<Rightarrow> True)"

subsection \<open>Requested namespaces\<close>

lemma set_uniqueNamespaces: "set (uniqueNamespaces nss seen) = NN [] ` (set nss - set seen)"
  by (induction nss seen rule: uniqueNamespaces.induct) auto

lemma distinct_uniqueNamespaces: "distinct (uniqueNamespaces nss seen)"
  by (induction nss seen rule: uniqueNamespaces.induct) (auto simp: set_uniqueNamespaces)

text \<open>
  A change of a \<^verbatim>\<open>DPUDeployment\<close> requests every namespace whose templates may depend on it: the
  DPUCluster namespaces of exactly the listed provisioners that refer to it, each once.
\<close>

lemma dpuDeploymentToNamespace_exact:
  assumes "run_state (dpuDeploymentToNamespace E d) s = (requests, s')" and "a_listCRs (mgmt E) (st_history s) = Inr items"
  shows "distinct requests
    \<and> set requests = {NN [] (ref_namespace (sp_dpuClusterRef (cr_spec p))) | p. p \<in> set items \<and> refersTo d p}"
proof -
  have "wp (dpuDeploymentToNamespace E d) (\<lambda>r t. distinct r
    \<and> set r = {NN [] (ref_namespace (sp_dpuClusterRef (cr_spec p))) | p. p \<in> set items \<and> refersTo d p}) s"
    using assms(2)
    by (auto simp: dpuDeploymentToNamespace_def wp_simps set_uniqueNamespaces distinct_uniqueNamespaces clusterNamespaces_def)
  then show ?thesis using assms(1) by (auto dest: wp_run)
qed

subsection \<open>The decision\<close>

definition deploymentKey :: "DPFHCPProvisioner \<Rightarrow> NamespacedName option" where
  "deploymentKey p = map_option (\<lambda>ref. NN (ref_namespace ref) (ref_name ref)) (sp_dpuDeploymentRef (cr_spec p))"

text \<open>A provisioner that keeps the templates of a namespace alive, when the deployments are \<open>D\<close>.\<close>

definition activeUser :: "(NamespacedName \<Rightarrow> goerror + DPUDeployment) \<Rightarrow> string \<Rightarrow> DPFHCPProvisioner \<Rightarrow> bool" where
  "activeUser D ns p \<longleftrightarrow>
     om_deletionTimestamp (cr_meta p) = None \<and> ref_namespace (sp_dpuClusterRef (cr_spec p)) = ns
     \<and> (\<exists>k dd. deploymentKey p = Some k \<and> D k = Inr dd \<and> om_deletionTimestamp (dd_meta dd) = None)"

lemma wp_activeFrom:
  assumes "\<And>h k. a_getDPUDeployment (mgmt E) h k = D k" and "\<And>k e. D k = Inl e \<Longrightarrow> IsNotFound e"
  shows "wp (activeFrom E ns ps seen) (\<lambda>r t.
     (\<exists>ds. r = Inr ds \<and> (ds = [] \<longleftrightarrow> \<not> (\<exists>p \<in> set ps. activeUser D ns p \<and> deploymentKey p \<notin> Some ` set seen)))
     \<and> issued (\<lambda>c. \<not> is_write c) (st_history s) (st_history t)) s"
proof (induction ps arbitrary: s seen)
  case (Cons p ps)
  show ?case
  proof (cases "om_deletionTimestamp (cr_meta p) \<noteq> None \<or> ref_namespace (sp_dpuClusterRef (cr_spec p)) \<noteq> ns \<or> sp_dpuDeploymentRef (cr_spec p) = None")
    case True
    then have "\<not> activeUser D ns p" by (auto simp: activeUser_def deploymentKey_def)
    then show ?thesis using True Cons [of seen s] by (auto simp: wp_simps split: option.splits)
  next
    case False
    then obtain ref where ref: "sp_dpuDeploymentRef (cr_spec p) = Some ref" by auto
    let ?k = "NN (ref_namespace ref) (ref_name ref)" and ?s = "s\<lparr>st_history := GetDPUDeployment (NN (ref_namespace ref) (ref_name ref)) # st_history s\<rparr>"
    have key: "deploymentKey p = Some ?k" by (simp add: deploymentKey_def ref)
    have rest: "wp (activeFrom E ns ps seen') (\<lambda>r t.
        (\<exists>ds. r = Inr ds \<and> (ds = [] \<longleftrightarrow> \<not> (\<exists>p \<in> set ps. activeUser D ns p \<and> deploymentKey p \<notin> Some ` set seen')))
        \<and> issued (\<lambda>c. \<not> is_write c) (st_history s) (st_history t)) ?s" for seen'
      by (rule wp_mono [OF Cons]) (auto intro: issued_Cons_before [of _ "GetDPUDeployment ?k"])
    show ?thesis
    proof (cases "?k \<in> set seen")
      case True
      then show ?thesis using False ref key Cons [of seen s] by (auto simp: wp_simps Let_def)
    next
      case new: False
      show ?thesis
      proof (cases "\<exists>dd. D ?k = Inr dd \<and> om_deletionTimestamp (dd_meta dd) = None")
        case True
        then obtain dd where dd: "D ?k = Inr dd" "om_deletionTimestamp (dd_meta dd) = None" by blast
        then have "activeUser D ns p" using False by (auto simp: activeUser_def key)
        moreover have "wp (activeFrom E ns ps (?k # seen)) (\<lambda>r. case r of Inl e \<Rightarrow> (\<lambda>t. False)
            | Inr v \<Rightarrow> (\<lambda>t. issued (\<lambda>c. \<not> is_write c) (st_history s) (st_history t))) ?s"
          by (rule wp_mono [OF rest]) (auto split: sum.splits)
        then have "wp (activeFrom E ns (p # ps) seen) (\<lambda>r t. (\<exists>v. r = Inr (dd # v)) \<and> issued (\<lambda>c. \<not> is_write c) (st_history s) (st_history t)) s"
          using False new ref dd by (auto simp: wp_simps Let_def assms(1) elim!: wp_mono split: sum.splits)
        ultimately show ?thesis
          using new key by (auto elim!: wp_mono)
      next
        case inactive: False
        then have "\<not> activeUser D ns p" by (auto simp: activeUser_def key)
        then show ?thesis
          using False new ref key inactive rest [of seen] assms(2) [of ?k]
          by (auto simp: wp_simps Let_def assms(1) split: sum.splits)
      qed
    qed
  qed
qed (simp add: wp_simps)

lemma serveTemplates_other [simp]:
  "a_getConfig (mgmt (serveTemplates ts0 E)) = a_getConfig (mgmt E)"
  "a_listCRs (mgmt (serveTemplates ts0 E)) = a_listCRs (mgmt E)"
  "a_getDPUDeployment (mgmt (serveTemplates ts0 E)) = a_getDPUDeployment (mgmt E)"
  by (simp_all add: serveTemplates_def)

lemma held_quiet: "issued (\<lambda>c. \<not> is_write c) h h' \<Longrightarrow> templatesHeld ts0 h' = templatesHeld ts0 h"
proof -
  have "templateWrite c \<Longrightarrow> is_write c" for c by (cases c) auto
  then show "issued (\<lambda>c. \<not> is_write c) h h' \<Longrightarrow> templatesHeld ts0 h' = templatesHeld ts0 h"
    by (intro served.store_quiet) (auto elim!: issued_mono [rotated])
qed


subsection \<open>What a reconcile may touch\<close>

lemma footprint_request_bind:
  assumes "P c" and "\<And>h. footprint M S W P (f (reply h))"
  shows "footprint M S W P (State_Monad.bind (request c reply) f)"
  unfolding footprint_def
proof (intro allI impI)
  fix s :: st assume s: "cr_meta (st_cr s) = M" "cr_spec (st_cr s) = S"
  let ?s = "s\<lparr>st_history := c # st_history s\<rparr>"
  have "wp (f (reply (st_history s))) (\<lambda>_ t. agree_outside W (st_cr ?s) (st_cr t) \<and> issued P (st_history ?s) (st_history t)) ?s"
    using s by (intro footprintD [OF assms(2)]) simp_all
  then show "wp (State_Monad.bind (request c reply) f) (\<lambda>_ t. agree_outside W (st_cr s) (st_cr t) \<and> issued P (st_history s) (st_history t)) s"
    unfolding wp_bind wp_request by (rule wp_mono) (use assms(1) in \<open>auto intro: issued_Cons_before [of P c]\<close>)
qed

text \<open>A get answers with the object of that name, as the API guarantees.\<close>

definition answersByKey :: "env \<Rightarrow> bool" where
  "answersByKey E \<longleftrightarrow> (\<forall>h k t. a_getTemplate (mgmt E) h k = Inr t \<longrightarrow> templateKey t = k)"

lemma footprint_createOrUpdateTemplate:
  assumes "templateKey obj = k" and "\<And>t. templateKey t = k \<Longrightarrow> managed t \<Longrightarrow> P (CreateTemplate t) \<and> P (UpdateTemplate t)"
    and "P (GetTemplate k)"
  shows "footprint M S W P (CreateOrUpdate E tpl_meta (getTemplate E) same CreateTemplate UpdateTemplate obj
    (\<lambda>t. Inr (mutateTemplate service repo chart ver json reqs annots t)))"
  unfolding CreateOrUpdate_def Let_def mutate_def getTemplate_def
  using assms by (intro footprint_intros) (auto simp: templateKey_def [symmetric] split: sum.splits if_splits)

lemma footprint_ensureTemplate:
  assumes "answersByKey E" and "\<And>t. templateKey t = NN ns name \<Longrightarrow> managed t \<Longrightarrow> P (CreateTemplate t)"
    and "\<And>t. templateKey t = NN ns name \<Longrightarrow> managed t \<Longrightarrow> P (UpdateTemplate t)" and "P (GetTemplate (NN ns name))"
  shows "footprint M S W P (ensureTemplate E ns name service repo chart ver values reqs annots)"
proof -
  let ?go = "\<lambda>json template. bindE (wrapE (''creating or updating DPUServiceTemplate '' @ name)
                 (CreateOrUpdate E tpl_meta (getTemplate E) sameServiceTemplate CreateTemplate UpdateTemplate template
                    (\<lambda>t. Inr (mutateTemplate service repo chart ver json reqs annots t)))) (\<lambda>_. pureE (Inr ()))"
  have go: "footprint M S W P (?go json template)" if "templateKey template = NN ns name" for json template
    by (intro footprint_E footprint_createOrUpdateTemplate) (use that assms in auto)
  show ?thesis
    unfolding ensureTemplate_def Let_def getTemplate_def [of E "NN ns name"]
    by (rule footprint_E(1) [OF footprint_E(4)], rule footprint_request_bind, rule assms(4))
      (use assms(1) in \<open>auto intro!: footprint_case_sum footprint_if go footprint_E(3,4) simp: answersByKey_def\<close>)
qed

lemma footprint_deleteEach:
  "(\<And>t. t \<in> set ts \<Longrightarrow> P (DeleteTemplate t)) \<Longrightarrow> footprint M S W P (deleteEach E ns ts)"
  by (induction ts) (auto intro!: footprint_intros)

definition templateKeys :: "string \<Rightarrow> NamespacedName set" where
  "templateKeys ns = {NN ns templateNameOVNK, NN ns templateNameDTS, NN ns templateNameHBN}"

text \<open>The requests of a reconcile of namespace \<open>ns\<close>.\<close>

fun templateRequest :: "env \<Rightarrow> string \<Rightarrow> call \<Rightarrow> bool" where
  "templateRequest E ns (CreateTemplate t) \<longleftrightarrow> managed t \<and> templateKey t \<in> templateKeys ns"
| "templateRequest E ns (UpdateTemplate t) \<longleftrightarrow> managed t \<and> templateKey t \<in> templateKeys ns"
| "templateRequest E ns (DeleteTemplate t) \<longleftrightarrow> (\<exists>h ts. a_listTemplates (mgmt E) h ns managedSelector = Inr ts \<and> t \<in> set ts)"
| "templateRequest E ns c \<longleftrightarrow> \<not> is_write c"

lemma footprint_DeleteTemplates: "footprint M S W (templateRequest E ns) (DeleteTemplates E ns)"
  unfolding footprint_def
proof (intro allI impI)
  fix s :: st assume s: "cr_meta (st_cr s) = M" "cr_spec (st_cr s) = S"
  let ?l = "ListTemplates ns managedSelector" and ?P = "templateRequest E ns"
  show "wp (DeleteTemplates E ns) (\<lambda>_ t. agree_outside W (st_cr s) (st_cr t) \<and> issued ?P (st_history s) (st_history t)) s"
  proof (cases "a_listTemplates (mgmt E) (st_history s) ns managedSelector")
    case (Inr ts)
    then have "footprint M S W ?P (deleteEach E ns ts)" by (intro footprint_deleteEach) auto
    then have "wp (deleteEach E ns ts) (\<lambda>_ t. agree_outside W (st_cr s) (st_cr t) \<and> issued ?P (?l # st_history s) (st_history t))
        (s\<lparr>st_history := ?l # st_history s\<rparr>)"
      using footprintD [of M S W ?P "deleteEach E ns ts" "s\<lparr>st_history := ?l # st_history s\<rparr>"] s by simp
    then have "wp (deleteEach E ns ts) (\<lambda>_ t. agree_outside W (st_cr s) (st_cr t) \<and> issued ?P (st_history s) (st_history t))
        (s\<lparr>st_history := ?l # st_history s\<rparr>)"
      by (rule wp_mono) (auto intro: issued_Cons_before [of ?P ?l])
    then show ?thesis using Inr by (simp add: DeleteTemplates_def wp_simps)
  qed (simp add: DeleteTemplates_def wp_simps)
qed

lemma footprint_EnsureTemplates:
  assumes "answersByKey E"
  shows "footprint M S W (templateRequest E ns) (EnsureTemplates E ns cfg)"
proof -
  have "footprint M S W (templateRequest E ns) (ensureTemplate E ns name service repo chart ver vals reqs annots)"
    if "NN ns name \<in> templateKeys ns" for name service repo chart ver vals reqs annots
    using that by (intro footprint_ensureTemplate assms) auto
  then have ens: "footprint M S W (templateRequest E ns) (ensureTemplate E ns templateNameOVNK service repo chart ver vals reqs annots)"
    "footprint M S W (templateRequest E ns) (ensureTemplate E ns templateNameDTS service repo chart ver vals reqs annots)"
    "footprint M S W (templateRequest E ns) (ensureTemplate E ns templateNameHBN service repo chart ver vals reqs annots)"
    for service repo chart ver vals reqs annots by (simp_all add: templateKeys_def)
  show ?thesis
    unfolding EnsureTemplates_def ensureDTSTemplate_def ensureHBNTemplate_def ensureOVNTemplate_def publishOVN_def writeOVNTemplate_def
    by (intro footprint_intros ens; simp)
qed

lemma footprint_activeFrom [footprint_intros]:
  "(\<And>k. P (GetDPUDeployment k)) \<Longrightarrow> footprint M S W P (activeFrom E ns ps seen)"
  by (induction ps arbitrary: seen) (auto intro!: footprint_intros simp: Let_def)


subsection \<open>Instances\<close>

definition liveDeployment :: DPUDeployment where
  "liveDeployment = \<lparr>dd_meta = newMeta ''dpf'' ''deploy'', dd_flavor = None, dd_bfb = None\<rparr>"

definition deployingCR :: DPFHCPProvisioner where
  "deployingCR = sampleCR\<lparr>cr_spec := sampleSpec\<lparr>sp_dpuDeploymentRef := Some \<lparr>ref_name = ''deploy'', ref_namespace = ''dpf''\<rparr>\<rparr>\<rparr>"

definition idleEnv :: env where
  "idleEnv = templateEnv\<lparr>mgmt := (mgmt templateEnv)\<lparr>a_getConfig := \<lambda>_ _. Inr templateConfig\<rparr>\<rparr>"

definition deployingEnv :: env where
  "deployingEnv = idleEnv\<lparr>mgmt := (mgmt idleEnv)\<lparr>a_listCRs := \<lambda>_. Inr [deployingCR],
     a_getDPUDeployment := \<lambda>_ _. Inr liveDeployment\<rparr>\<rparr>"

lemma dpuDeploymentToNamespace_exact_instance:
  "set (fst (run_state (dpuDeploymentToNamespace deployingEnv liveDeployment) (startState sampleCR))) = {NN [] ''dpf''}"
proof -
  obtain r s' where run: "run_state (dpuDeploymentToNamespace deployingEnv liveDeployment) (startState sampleCR) = (r, s')"
    by (rule prod.exhaust)
  have "a_listCRs (mgmt deployingEnv) (st_history (startState sampleCR)) = Inr [deployingCR]"
    by (simp add: deployingEnv_def)
  moreover have "refersTo liveDeployment deployingCR" "ref_namespace (sp_dpuClusterRef (cr_spec deployingCR)) = ''dpf''" by code_simp+
  ultimately show ?thesis using dpuDeploymentToNamespace_exact [OF run] by (auto simp: run)
qed


lemma answersByKey_served: "answersByKey (serveTemplates ts0 E)"
  unfolding answersByKey_def
proof (intro allI impI)
  fix h k t assume "a_getTemplate (mgmt (serveTemplates ts0 E)) h k = Inr t"
  then show "templateKey t = k"
    by (auto simp: serveTemplates_def lookupTemplate_def split: option.splits dest: find_SomeD)
qed


end
