(* ===== verification/Setup.thy ===== *)
theory Setup
  imports Watches Template_Controller
begin

section \<open>Registration of the controllers\<close>

text \<open>
  The three \<^verbatim>\<open>SetupWithManager\<close> functions (\<^verbatim>\<open>dpfhcpprovisioner_controller.go\<close>, \<^verbatim>\<open>csrapproval/controller.go\<close>,
  \<^verbatim>\<open>dpuservicetemplate/controller.go\<close>): which handler answers an event of which kind of object, with
  which predicate, and what it puts into the work queue of its controller. The handlers and the work
  queue are those of \<^verbatim>\<open>controller-runtime\<close>; the predicates and mapping functions come from \<open>Watches\<close> and
  \<open>Template_Controller\<close>. The lemmas show that an event never removes work from a queue, that a request
  is added for exactly the resources the mapping function names, and that events of a HostedCluster
  come back to the resource that created it.
\<close>

subsection \<open>Work queues\<close>

text \<open>
  The requests that can be taken now, oldest first, and those that become ready later (after a delay
  or a rate limit).
\<close>

record workqueue =
  wq_ready :: "NamespacedName list"
  wq_waiting :: "NamespacedName list"

definition emptyQueue :: workqueue where
  "emptyQueue = \<lparr>wq_ready = [], wq_waiting = []\<rparr>"

definition Add :: "NamespacedName \<Rightarrow> workqueue \<Rightarrow> workqueue" where
  "Add k q = (if k \<in> set (wq_ready q) then q else q\<lparr>wq_ready := wq_ready q @ [k]\<rparr>)"

definition AddLater :: "NamespacedName \<Rightarrow> workqueue \<Rightarrow> workqueue" where
  "AddLater k q = (if k \<in> set (wq_waiting q) then q else q\<lparr>wq_waiting := wq_waiting q @ [k]\<rparr>)"

definition queued :: "workqueue \<Rightarrow> NamespacedName set" where
  "queued q = set (wq_ready q) \<union> set (wq_waiting q)"

text \<open>What the controller does with the result of a reconcile; a success drops the request.\<close>

definition reconcileHandler :: "NamespacedName \<Rightarrow> step_result \<Rightarrow> workqueue \<Rightarrow> workqueue" where
  "reconcileHandler req r q =
     (case snd r of
        Some _ \<Rightarrow> AddLater req q
      | None \<Rightarrow>
          if 0 < RequeueAfter (fst r) then AddLater req q
          else if Requeue (fst r) then AddLater req q
          else q)"

subsection \<open>Event handlers\<close>

definition enqueueOnce :: "NamespacedName \<Rightarrow> NamespacedName list \<times> workqueue \<Rightarrow> NamespacedName list \<times> workqueue" where
  "enqueueOnce req x = (if req \<in> set (fst x) then x else (req # fst x, Add req (snd x)))"

definition mapAndEnqueue ::
    "('a \<Rightarrow> NamespacedName list io) \<Rightarrow> 'a \<Rightarrow> NamespacedName list \<times> workqueue \<Rightarrow> (NamespacedName list \<times> workqueue) io" where
  "mapAndEnqueue toRequests obj x = do {
     reqs \<leftarrow> toRequests obj;
     State_Monad.return (fold enqueueOnce reqs x)
   }"

fun EnqueueRequestsFromMapFunc ::
    "('a \<Rightarrow> NamespacedName list io) \<Rightarrow> 'a watchEvent \<Rightarrow> workqueue \<Rightarrow> workqueue io" where
  "EnqueueRequestsFromMapFunc f (CreateEvent obj) q = do {
     x \<leftarrow> mapAndEnqueue f obj ([], q); State_Monad.return (snd x) }"
| "EnqueueRequestsFromMapFunc f (UpdateEvent objOld objNew) q = do {
     x \<leftarrow> mapAndEnqueue f objOld ([], q);
     y \<leftarrow> mapAndEnqueue f objNew x;
     State_Monad.return (snd y) }"
| "EnqueueRequestsFromMapFunc f (DeleteEvent obj) q = do {
     x \<leftarrow> mapAndEnqueue f obj ([], q); State_Monad.return (snd x) }"
| "EnqueueRequestsFromMapFunc f (GenericEvent obj) q = do {
     x \<leftarrow> mapAndEnqueue f obj ([], q); State_Monad.return (snd x) }"

fun EnqueueRequestForObject :: "('a \<Rightarrow> ObjectMeta) \<Rightarrow> 'a watchEvent \<Rightarrow> workqueue \<Rightarrow> workqueue" where
  "EnqueueRequestForObject md (CreateEvent obj) q = Add (meta_key (md obj)) q"
| "EnqueueRequestForObject md (UpdateEvent _ objNew) q = Add (meta_key (md objNew)) q"
| "EnqueueRequestForObject md (DeleteEvent obj) q = Add (meta_key (md obj)) q"
| "EnqueueRequestForObject md (GenericEvent obj) q = Add (meta_key (md obj)) q"

text \<open>
  \<^verbatim>\<open>EnqueueRequestForOwner\<close> with \<^verbatim>\<open>OnlyControllerOwner\<close> and owner kind DPFHCPProvisioner. \<open>scope\<close> is the
  REST mapper: for a version of the kind an error, or whether the kind is namespaced.
\<close>

definition apiVersionOf :: "string \<Rightarrow> string" where
  "apiVersionOf v = last (Split v (CHR ''/''))"

definition provisionerGroup :: string where
  "provisionerGroup = ''provisioning.dpu.hcp.io''"

definition getOwnerReconcileRequest :: "(string \<Rightarrow> goerror + bool) \<Rightarrow> ObjectMeta \<Rightarrow> NamespacedName list" where
  "getOwnerReconcileRequest scope obj =
     (case GetControllerOf (om_ownerReferences obj) of
        None \<Rightarrow> []
      | Some ref \<Rightarrow>
          (case apiGroup (or_apiVersion ref) of
             None \<Rightarrow> []
           | Some grp \<Rightarrow>
               if or_kind ref = ''DPFHCPProvisioner'' \<and> grp = provisionerGroup then
                 (case scope (apiVersionOf (or_apiVersion ref)) of
                    Inl _ \<Rightarrow> []
                  | Inr namespaced \<Rightarrow> [NN (if namespaced then om_namespace obj else []) (or_name ref)])
               else []))"

fun EnqueueRequestForOwner ::
    "(string \<Rightarrow> goerror + bool) \<Rightarrow> ('a \<Rightarrow> ObjectMeta) \<Rightarrow> 'a watchEvent \<Rightarrow> workqueue \<Rightarrow> workqueue" where
  "EnqueueRequestForOwner scope md (CreateEvent obj) q = fold Add (getOwnerReconcileRequest scope (md obj)) q"
| "EnqueueRequestForOwner scope md (UpdateEvent objOld objNew) q =
     fold Add (remdups (getOwnerReconcileRequest scope (md objOld) @ getOwnerReconcileRequest scope (md objNew))) q"
| "EnqueueRequestForOwner scope md (DeleteEvent obj) q = fold Add (getOwnerReconcileRequest scope (md obj)) q"
| "EnqueueRequestForOwner scope md (GenericEvent obj) q = fold Add (getOwnerReconcileRequest scope (md obj)) q"

text \<open>A watch with a predicate.\<close>

definition watched ::
    "('a watchEvent \<Rightarrow> bool) \<Rightarrow> ('a watchEvent \<Rightarrow> workqueue \<Rightarrow> workqueue io) \<Rightarrow> 'a watchEvent \<Rightarrow> workqueue \<Rightarrow> workqueue io" where
  "watched accepts handle e q = (if accepts e then handle e q else State_Monad.return q)"

fun IsHostedClusterKubeconfigSecretPredicate :: "Secret watchEvent \<Rightarrow> bool" where
  "IsHostedClusterKubeconfigSecretPredicate (CreateEvent obj) = isHostedClusterKubeconfigSecret obj"
| "IsHostedClusterKubeconfigSecretPredicate (UpdateEvent _ objNew) = isHostedClusterKubeconfigSecret objNew"
| "IsHostedClusterKubeconfigSecretPredicate (DeleteEvent obj) = isHostedClusterKubeconfigSecret obj"
| "IsHostedClusterKubeconfigSecretPredicate (GenericEvent _) = False"

definition kubeconfigSecretToRequests :: "env \<Rightarrow> Secret \<Rightarrow> NamespacedName list io" where
  "kubeconfigSecretToRequests E obj = FindProvisionerForKubeconfigSecret E obj"

definition toAllProvisionerNamespaces :: "env \<Rightarrow> 'a \<Rightarrow> NamespacedName list io" where
  "toAllProvisionerNamespaces E obj = allProvisionerDPUClusterNamespaces E"

subsection \<open>The watches of the three controllers\<close>

text \<open>An event of one of the watched kinds. Of configurations and DaemonSets only the metadata matter.\<close>

datatype clusterEvent =
    ProvisionerEvent "DPFHCPProvisioner watchEvent"
  | DPUClusterEvent "DPUCluster watchEvent"
  | SecretEvent "Secret watchEvent"
  | HostedClusterEvent "HostedCluster watchEvent"
  | ConfigEvent "ObjectMeta watchEvent"
  | ConfigMapEvent "ConfigMap watchEvent"
  | DPUDeploymentEvent "DPUDeployment watchEvent"
  | DPUFlavorEvent "DPUFlavor watchEvent"
  | DaemonSetEvent "ObjectMeta watchEvent"
  | TemplateEvent "DPUServiceTemplate watchEvent"

fun setupProvisioner :: "(string \<Rightarrow> goerror + bool) \<Rightarrow> env \<Rightarrow> clusterEvent \<Rightarrow> workqueue \<Rightarrow> workqueue io" where
  "setupProvisioner scope E (ProvisionerEvent e) q = State_Monad.return (EnqueueRequestForObject cr_meta e q)"
| "setupProvisioner scope E (DPUClusterEvent e) q =
     watched dpuClusterPredicate (EnqueueRequestsFromMapFunc (dpuClusterToRequests E)) e q"
| "setupProvisioner scope E (SecretEvent e) q = do {
     q \<leftarrow> watched secretPredicate (EnqueueRequestsFromMapFunc (secretToRequests E)) e q;
     watched IsHostedClusterKubeconfigSecretPredicate
       (EnqueueRequestsFromMapFunc (kubeconfigSecretToRequests E)) e q }"
| "setupProvisioner scope E (HostedClusterEvent e) q =
     watched hostedClusterPredicate (\<lambda>e q. State_Monad.return (EnqueueRequestForOwner scope hc_meta e q)) e q"
| "setupProvisioner scope E (ConfigEvent e) q =
     watched configPredicate (EnqueueRequestsFromMapFunc (\<lambda>_. configToRequests E)) e q"
| "setupProvisioner scope E (ConfigMapEvent e) q =
     watched ignitionConfigMapPredicate (EnqueueRequestsFromMapFunc (ignitionConfigMapToRequests E)) e q"
| "setupProvisioner scope E (DPUDeploymentEvent e) q =
     watched (GenerationChangedPredicate dd_meta) (EnqueueRequestsFromMapFunc (dpuDeploymentToRequests E)) e q"
| "setupProvisioner scope E (DPUFlavorEvent e) q =
     watched (GenerationChangedPredicate df_meta) (EnqueueRequestsFromMapFunc (dpuFlavorToRequests E)) e q"
| "setupProvisioner scope E _ q = State_Monad.return q"

fun setupCSRApproval :: "clusterEvent \<Rightarrow> workqueue \<Rightarrow> workqueue io" where
  "setupCSRApproval (ProvisionerEvent e) q = State_Monad.return (EnqueueRequestForObject cr_meta e q)"
| "setupCSRApproval _ q = State_Monad.return q"

fun setupTemplates :: "env \<Rightarrow> clusterEvent \<Rightarrow> workqueue \<Rightarrow> workqueue io" where
  "setupTemplates E (ProvisionerEvent e) q =
     EnqueueRequestsFromMapFunc (\<lambda>p. State_Monad.return (provisionerToNamespace p)) e q"
| "setupTemplates E (DPUDeploymentEvent e) q = EnqueueRequestsFromMapFunc (dpuDeploymentToNamespace E) e q"
| "setupTemplates E (DaemonSetEvent e) q =
     watched ovnDaemonSetPredicate (EnqueueRequestsFromMapFunc (toAllProvisionerNamespaces E)) e q"
| "setupTemplates E (ConfigEvent e) q =
     watched (GenerationChangedPredicate (\<lambda>m. m)) (EnqueueRequestsFromMapFunc (toAllProvisionerNamespaces E)) e q"
| "setupTemplates E (ConfigMapEvent e) q =
     watched (\<lambda>e. overridesConfigMapPredicate OperatorNamespace (map_watchEvent cm_meta e))
       (EnqueueRequestsFromMapFunc (toAllProvisionerNamespaces E)) e q"
| "setupTemplates E (TemplateEvent e) q =
     EnqueueRequestsFromMapFunc (\<lambda>t. State_Monad.return (templateToNamespace t)) e q"
| "setupTemplates E _ q = State_Monad.return q"

subsection \<open>Queues only grow\<close>

lemma queued_simps [simp]:
  "queued (Add k q) = insert k (queued q)" "queued (AddLater k q) = insert k (queued q)"
  "queued emptyQueue = {}"
  by (auto simp: queued_def Add_def AddLater_def emptyQueue_def)

lemma Add_simps [simp]:
  "set (wq_ready (Add k q)) = insert k (set (wq_ready q))" "wq_waiting (Add k q) = wq_waiting q"
  by (auto simp: Add_def)

lemma fold_Add [simp]:
  "set (wq_ready (fold Add ks q)) = set ks \<union> set (wq_ready q)" "wq_waiting (fold Add ks q) = wq_waiting q"
  by (induction ks arbitrary: q) auto

lemma queued_reconcileHandler:
  "queued (reconcileHandler k r q) =
     (if snd r \<noteq> None \<or> 0 < RequeueAfter (fst r) \<or> Requeue (fst r) then insert k (queued q) else queued q)"
  by (auto simp: reconcileHandler_def split: option.splits)

text \<open>\<open>adds ks q q'\<close>: \<open>q'\<close> is \<open>q\<close> with the requests \<open>ks\<close> made ready.\<close>

definition adds :: "NamespacedName set \<Rightarrow> workqueue \<Rightarrow> workqueue \<Rightarrow> bool" where
  "adds ks q q' \<longleftrightarrow> set (wq_ready q') = ks \<union> set (wq_ready q) \<and> wq_waiting q' = wq_waiting q"

lemma adds_refl [simp]: "adds {} q q"
  by (simp add: adds_def)

lemma adds_Add [simp]: "adds {k} q (Add k q)" "adds (set ks) q (fold Add ks q)"
  by (simp_all add: adds_def)

lemma adds_trans: "adds ks q q' \<Longrightarrow> adds ls q' q'' \<Longrightarrow> adds (ks \<union> ls) q q''"
  by (auto simp: adds_def)

lemma adds_queued: "adds ks q q' \<Longrightarrow> queued q' = ks \<union> queued q"
  by (auto simp: adds_def queued_def)

lemma fold_enqueueOnce:
  assumes "set seen \<subseteq> set (wq_ready q)"
  shows "set (fst (fold enqueueOnce reqs (seen, q))) = set reqs \<union> set seen
    \<and> adds (set reqs) q (snd (fold enqueueOnce reqs (seen, q)))"
  using assms
proof (induction reqs arbitrary: seen q)
  case (Cons k reqs)
  show ?case
  proof (cases "k \<in> set seen")
    case True
    then show ?thesis using Cons by (auto simp: enqueueOnce_def adds_def)
  next
    case False
    then show ?thesis
      using Cons.IH [of "k # seen" "Add k q"] Cons.prems by (auto simp: enqueueOnce_def adds_def)
  qed
qed simp

text \<open>The requests a mapping function names for an event, run in state \<open>s\<close>.\<close>

fun mapped :: "('a \<Rightarrow> NamespacedName list io) \<Rightarrow> 'a watchEvent \<Rightarrow> st \<Rightarrow> NamespacedName set" where
  "mapped f (UpdateEvent objOld objNew) s =
     (case run_state (f objOld) s of (reqs, t) \<Rightarrow> set reqs \<union> set (fst (run_state (f objNew) t)))"
| "mapped f (CreateEvent obj) s = set (fst (run_state (f obj) s))"
| "mapped f (DeleteEvent obj) s = set (fst (run_state (f obj) s))"
| "mapped f (GenericEvent obj) s = set (fst (run_state (f obj) s))"

lemma fold_enqueueOnce_adds: "adds (set reqs) q (snd (fold enqueueOnce reqs ([], q)))"
  by (simp add: fold_enqueueOnce)

lemma fold_enqueueOnce_twice:
  "adds (set reqs \<union> set rest) q (snd (fold enqueueOnce rest (fold enqueueOnce reqs ([], q))))"
proof -
  let ?x = "fold enqueueOnce reqs ([], q)"
  have first: "set (fst ?x) = set reqs" "adds (set reqs) q (snd ?x)"
    using fold_enqueueOnce [of "[]" q reqs] by auto
  then have "set (fst ?x) \<subseteq> set (wq_ready (snd ?x))" by (auto simp: adds_def)
  from conjunct2 [OF fold_enqueueOnce [OF this]] show ?thesis
    using first(2) by (auto intro: adds_trans)
qed

lemma EnqueueRequestsFromMapFunc_adds:
  "adds (mapped f e s) q (fst (run_state (EnqueueRequestsFromMapFunc f e q) s))"
  by (cases e) (auto simp: mapAndEnqueue_def fold_enqueueOnce_adds fold_enqueueOnce_twice split: prod.splits)

lemma watched_adds:
  "adds (if accepts e then mapped f e s else {}) q (fst (run_state (watched accepts (EnqueueRequestsFromMapFunc f) e q) s))"
  by (simp add: watched_def EnqueueRequestsFromMapFunc_adds)

lemma EnqueueRequestForObject_adds: "\<exists>ks. adds ks q (EnqueueRequestForObject md e q)"
  by (cases e) (auto intro: adds_Add)

lemma EnqueueRequestForOwner_adds: "\<exists>ks. adds ks q (EnqueueRequestForOwner scope md e q)"
  by (cases e) (auto simp del: fold_append set_remdups intro: adds_Add)

text \<open>No event takes a request out of a queue.\<close>

lemma setup_adds:
  "\<exists>ks. adds ks q (fst (run_state (setupProvisioner scope E ev q) s))"
  "\<exists>ks. adds ks q (fst (run_state (setupCSRApproval ev q) s))"
  "\<exists>ks. adds ks q (fst (run_state (setupTemplates E ev q) s))"
proof -
  note [intro] = EnqueueRequestsFromMapFunc_adds watched_adds adds_refl
  show "\<exists>ks. adds ks q (fst (run_state (setupCSRApproval ev q) s))"
    by (cases ev) (auto simp: EnqueueRequestForObject_adds)
  show "\<exists>ks. adds ks q (fst (run_state (setupTemplates E ev q) s))"
    by (cases ev) auto
  show "\<exists>ks. adds ks q (fst (run_state (setupProvisioner scope E ev q) s))"
  proof (cases ev)
    case (SecretEvent e)
    obtain q' t where first: "run_state (watched secretPredicate (EnqueueRequestsFromMapFunc (secretToRequests E)) e q) s = (q', t)"
      by (rule prod.exhaust)
    show ?thesis
      using adds_trans [OF watched_adds [of secretPredicate e "secretToRequests E" s q, unfolded first fst_conv]
          watched_adds [of IsHostedClusterKubeconfigSecretPredicate e "kubeconfigSecretToRequests E" t]]
      by (auto simp: SecretEvent first)
  qed (auto simp: EnqueueRequestForObject_adds EnqueueRequestForOwner_adds watched_def)
qed

text \<open>Handlers only read.\<close>

lemma footprint_EnqueueRequestsFromMapFunc [footprint_intros]:
  assumes "\<And>obj. footprint M S W P (f obj)"
  shows "footprint M S W P (EnqueueRequestsFromMapFunc f e q)"
  by (cases e) (auto simp: mapAndEnqueue_def intro!: footprint_intros assms)

lemma footprint_watched [footprint_intros]:
  "(\<And>e q. footprint M S W P (h e q)) \<Longrightarrow> footprint M S W P (watched accepts h e q)"
  by (simp add: watched_def footprint_intros)

lemma footprint_flavorUsers [footprint_intros]:
  "(\<And>k. P (GetDPUDeployment k)) \<Longrightarrow> footprint M S W P (flavorUsers E obj ps)"
  by (induction ps) (auto intro!: footprint_intros split: option.splits)

lemma footprint_setup:
  "footprint M S {} (\<lambda>c. \<not> is_write c) (setupProvisioner scope E ev q)"
  "footprint M S {} (\<lambda>c. \<not> is_write c) (setupCSRApproval ev q)"
  "footprint M S {} (\<lambda>c. \<not> is_write c) (setupTemplates E ev q)"
  by (cases ev; auto simp: requestsFor_def dpuClusterToRequests_def secretToRequests_def configToRequests_def
      ignitionConfigMapToRequests_def dpuDeploymentToRequests_def dpuFlavorToRequests_def Let_def
      kubeconfigSecretToRequests_def FindProvisionerForKubeconfigSecret_def toAllProvisionerNamespaces_def
      allProvisionerDPUClusterNamespaces_def dpuDeploymentToNamespace_def intro!: footprint_intros)+

subsection \<open>Events of a created HostedCluster\<close>

text \<open>
  A HostedCluster that carries the owner reference the operator sets comes back to its resource.
\<close>

lemma getOwnerReconcileRequest_owner:
  assumes "GetControllerOf (om_ownerReferences m) = Some (ownerRefFor M)" and "om_namespace m = om_namespace M"
    and "scope ''v1alpha1'' = Inr True"
  shows "getOwnerReconcileRequest scope m = [meta_key M]"
proof -
  have "Split provisionerApiVersion (CHR ''/'') = [provisionerGroup, ''v1alpha1'']" by code_simp
  then show ?thesis
    using assms by (simp add: getOwnerReconcileRequest_def ownerRefFor_def apiGroup_def apiVersionOf_def meta_key_def)
qed

end
