(* ===== verification/Operator.thy ===== *)
theory Operator
  imports Setup CSR_Approval
begin

section \<open>The operator as a whole\<close>

text \<open>
  The running process: the memory its managers share, the three work queues, and the moves it makes.
  An event of the cluster is delivered to all controllers; a controller takes the oldest ready request
  and reconciles it; a delayed request becomes ready. Reconciles of different controllers follow each
  other in any order, each one a whole run (between its requests the servers may change as they like,
  since every answer depends on the history only through the environment). Every controller has one
  worker, as \<^verbatim>\<open>controller-runtime\<close> starts by default.

  The theorems hold for every state such a process can reach, by induction over its moves: what the
  per-run theorems of \<open>CSR_Approval\<close> and \<open>Reconciler\<close> promise holds for the whole life of the process and
  for all controllers together, and no request is lost.
\<close>

record operator =
  op_mem :: st
  op_provisioner :: workqueue
  op_csr :: workqueue
  op_templates :: workqueue

text \<open>A fresh process; \<open>cr\<close> is the content of a pointer nobody has set yet.\<close>

definition startOperator :: "DPFHCPProvisioner \<Rightarrow> operator" where
  "startOperator cr = \<lparr>op_mem = startState cr, op_provisioner = emptyQueue, op_csr = emptyQueue, op_templates = emptyQueue\<rparr>"

definition deliver :: "(string \<Rightarrow> goerror + bool) \<Rightarrow> env \<Rightarrow> clusterEvent \<Rightarrow> operator \<Rightarrow> operator" where
  "deliver scope E ev op =
     (let (q1, s1) = run_state (setupProvisioner scope E ev (op_provisioner op)) (op_mem op);
          (q2, s2) = run_state (setupCSRApproval ev (op_csr op)) s1;
          (q3, s3) = run_state (setupTemplates E ev (op_templates op)) s2
      in \<lparr>op_mem = s3, op_provisioner = q1, op_csr = q2, op_templates = q3\<rparr>)"

datatype move =
    Deliver clusterEvent
  | WorkProvisioner NamespacedName step_result
  | WorkCSR NamespacedName step_result
  | WorkTemplates NamespacedName step_result
  | Elapse

text \<open>Taking the oldest ready request; a delayed request that becomes ready.\<close>

definition pop :: "workqueue \<Rightarrow> (NamespacedName \<times> workqueue) option" where
  "pop q = (case wq_ready q of [] \<Rightarrow> None | k # ks \<Rightarrow> Some (k, q\<lparr>wq_ready := ks\<rparr>))"

definition ripen :: "NamespacedName \<Rightarrow> workqueue \<Rightarrow> workqueue" where
  "ripen k q = (if k \<in> set (wq_waiting q) then Add k (q\<lparr>wq_waiting := remove1 k (wq_waiting q)\<rparr>) else q)"

inductive moves :: "(string \<Rightarrow> goerror + bool) \<Rightarrow> env \<Rightarrow> operator \<Rightarrow> move \<Rightarrow> operator \<Rightarrow> bool" for scope E where
  deliver: "moves scope E op (Deliver ev) (deliver scope E ev op)"
| provisioner: "pop (op_provisioner op) = Some (k, q) \<Longrightarrow> run_state (Reconcile E k) (op_mem op) = (r, s') \<Longrightarrow>
    moves scope E op (WorkProvisioner k r) (op\<lparr>op_mem := s', op_provisioner := reconcileHandler k r q\<rparr>)"
| csr: "pop (op_csr op) = Some (k, q) \<Longrightarrow> run_state (ReconcileCSR E k) (op_mem op) = (r, s') \<Longrightarrow>
    moves scope E op (WorkCSR k r) (op\<lparr>op_mem := s', op_csr := reconcileHandler k r q\<rparr>)"
| templates: "pop (op_templates op) = Some (k, q) \<Longrightarrow> run_state (ReconcileTemplates E (nn_name k)) (op_mem op) = (r, s') \<Longrightarrow>
    moves scope E op (WorkTemplates k r) (op\<lparr>op_mem := s', op_templates := reconcileHandler k r q\<rparr>)"
| elapse_provisioner: "moves scope E op Elapse (op\<lparr>op_provisioner := ripen k (op_provisioner op)\<rparr>)"
| elapse_csr: "moves scope E op Elapse (op\<lparr>op_csr := ripen k (op_csr op)\<rparr>)"
| elapse_templates: "moves scope E op Elapse (op\<lparr>op_templates := ripen k (op_templates op)\<rparr>)"

inductive runs :: "(string \<Rightarrow> goerror + bool) \<Rightarrow> env \<Rightarrow> operator \<Rightarrow> move list \<Rightarrow> operator \<Rightarrow> bool" for scope E where
  start: "runs scope E op [] op"
| more: "runs scope E op ms op' \<Longrightarrow> moves scope E op' m op'' \<Longrightarrow> runs scope E op (ms @ [m]) op''"

inductive_cases deliverE: "moves scope E op (Deliver ev) op'"

subsection \<open>Queues\<close>

lemma queued_pop: "pop q = Some (k, q') \<Longrightarrow> queued q = insert k (queued q')"
  by (auto simp: pop_def queued_def split: list.splits)

lemma queued_ripen [simp]: "queued (ripen k q) = queued q"
  by (auto simp: ripen_def queued_def Add_def dest: notin_set_remove1)
    (metis in_set_remove1)

text \<open>A reconcile that asks for nothing more.\<close>

definition settled :: "step_result \<Rightarrow> bool" where
  "settled r \<longleftrightarrow> snd r = None \<and> RequeueAfter (fst r) = 0 \<and> \<not> Requeue (fst r)"

lemma queued_handled:
  "pop q = Some (k, q') \<Longrightarrow> queued q \<subseteq> queued (reconcileHandler k r q') \<union> (if settled r then {k} else {})"
  by (auto simp: queued_pop queued_reconcileHandler settled_def split: if_splits)

lemma deliver_queued:
  "queued (op_provisioner op) \<subseteq> queued (op_provisioner (deliver scope E ev op))"
  "queued (op_csr op) \<subseteq> queued (op_csr (deliver scope E ev op))"
  "queued (op_templates op) \<subseteq> queued (op_templates (deliver scope E ev op))"
  using setup_adds(1) [of "op_provisioner op" scope E ev "op_mem op"]
    setup_adds(2) [of "op_csr op" ev] setup_adds(3) [of "op_templates op" E ev]
  by (auto simp: deliver_def Let_def dest: adds_queued split: prod.splits) (metis UnI2 adds_queued fst_conv)+

lemma moves_queued:
  assumes "moves scope E op m op'"
  shows "k \<in> queued (op_provisioner op) \<Longrightarrow> k \<in> queued (op_provisioner op') \<or> (\<exists>r. m = WorkProvisioner k r \<and> settled r)"
    and "k \<in> queued (op_csr op) \<Longrightarrow> k \<in> queued (op_csr op') \<or> (\<exists>r. m = WorkCSR k r \<and> settled r)"
    and "k \<in> queued (op_templates op) \<Longrightarrow> k \<in> queued (op_templates op') \<or> (\<exists>r. m = WorkTemplates k r \<and> settled r)"
  using assms deliver_queued
  by (cases; fastforce dest: queued_handled split: if_splits)+

subsection \<open>Requests\<close>

text \<open>\<open>sends P m\<close>: every request of \<open>m\<close> satisfies \<open>P\<close>, whatever becomes of the resource in memory.\<close>

definition sends :: "(call \<Rightarrow> bool) \<Rightarrow> 'a io \<Rightarrow> bool" where
  "sends P m \<longleftrightarrow> (\<forall>s. wp m (\<lambda>_ t. issued P (st_history s) (st_history t)) s)"

named_theorems sends_intros \<open>compositional rules for the requests of a computation\<close>

lemma sends_footprint: "(\<And>M S. footprint M S UNIV P m) \<Longrightarrow> sends P m"
  unfolding sends_def by (intro allI, rule wp_mono [OF footprintD [OF _ refl refl]]) auto

lemma sends_run: "sends P m \<Longrightarrow> run_state m s = (r, t) \<Longrightarrow> issued P (st_history s) (st_history t)"
  unfolding sends_def by (blast dest: wp_run)

lemma sends_bind [sends_intros]: "sends P m \<Longrightarrow> (\<And>a. sends P (f a)) \<Longrightarrow> sends P (State_Monad.bind m f)"
  unfolding sends_def wp_bind
proof (intro allI)
  fix s
  assume m: "\<forall>s. wp m (\<lambda>_ t. issued P (st_history s) (st_history t)) s"
    and f: "\<And>a. \<forall>s. wp (f a) (\<lambda>_ t. issued P (st_history s) (st_history t)) s"
  show "wp m (\<lambda>a. wp (f a) (\<lambda>_ t. issued P (st_history s) (st_history t))) s"
    by (rule wp_mono [OF m [rule_format]], rule wp_mono [OF f [rule_format]]) (rule issued_trans)
qed

lemma sends_basic [sends_intros]:
  "sends P (State_Monad.return x)" "sends P (modify_cr f)" "(\<And>c. sends P (g c)) \<Longrightarrow> sends P (with_cr g)"
  by (simp_all add: sends_def wp_simps)

lemma sends_cases [sends_intros]:
  "(b \<Longrightarrow> sends P m) \<Longrightarrow> (\<not> b \<Longrightarrow> sends P n) \<Longrightarrow> sends P (if b then m else n)"
  "(\<And>e. sends P (f e)) \<Longrightarrow> (\<And>v. sends P (g v)) \<Longrightarrow> sends P (case x of Inl e \<Rightarrow> f e | Inr v \<Rightarrow> g v)"
  "sends P u \<Longrightarrow> (\<And>v. sends P (g v)) \<Longrightarrow> sends P (case y of None \<Rightarrow> u | Some v \<Rightarrow> g v)"
  by (auto split: sum.splits option.splits)

lemma sends_RetryOnConflict [sends_intros]: "sends P fn \<Longrightarrow> sends P (RetryOnConflict n e fn)"
  by (induction n arbitrary: e) (auto intro!: sends_intros)

fun csrRequest :: "call \<Rightarrow> bool" where
  "csrRequest (HostedApproveCSR _ _) = True" | "csrRequest (UpdateCRStatus _) = True"
| "csrRequest c = (\<not> is_write c)"

lemma sends_ReconcileCSR: "sends csrRequest (ReconcileCSR E k)"
proof -
  have set: "sends csrRequest (setConditionCSR E status reason message)" for status reason message
    unfolding setConditionCSR_def setConditionAttempt_def
    by (intro sends_intros sends_footprint footprint_intros; simp)
  have pending: "sends csrRequest (processPendingCSRs E hc)" for hc
    unfolding processPendingCSRs_def by (intro sends_footprint footprint_intros processEach_footprint; simp)
  show ?thesis
    unfolding ReconcileCSR_def ProcessCSRs_def StopCSRWatch_def isKubeconfigAvailable_def unreachable_def pollAgain_def Let_def
    by (intro sends_intros set pending; (intro sends_footprint footprint_intros; simp))
qed

definition templateWrite :: "call \<Rightarrow> bool" where
  "templateWrite c \<longleftrightarrow> (is_write c \<longrightarrow> foreign c \<and> (\<forall>cl a. c \<noteq> HostedApproveCSR cl a))"

lemma sends_ReconcileTemplates: "sends templateWrite (ReconcileTemplates E ns)"
proof -
  have ens: "footprint M S W templateWrite (ensureTemplate E ns name service repo chart ver vals reqs annots)"
    for M S W name service repo chart ver vals reqs annots
    unfolding ensureTemplate_def Let_def
    by (intro footprint_intros footprint_CreateOrUpdate; simp add: templateWrite_def)
  have each: "footprint M S W templateWrite (deleteEach E ns ts)" for M S W ts
    by (rule footprint_deleteEach) (simp add: templateWrite_def)
  show ?thesis
    unfolding ReconcileTemplates_def syncTemplates_def activeDPUDeployments_def DeleteTemplates_def EnsureTemplates_def
      ensureDTSTemplate_def ensureHBNTemplate_def ensureOVNTemplate_def publishOVN_def writeOVNTemplate_def
    by (intro sends_footprint footprint_intros ens each; simp add: templateWrite_def)
qed

text \<open>What each move sends, given the history \<open>h\<close> before it.\<close>

fun sentBy :: "env \<Rightarrow> history \<Rightarrow> move \<Rightarrow> history \<Rightarrow> bool" where
  "sentBy E h (Deliver ev) h' \<longleftrightarrow> issued (\<lambda>c. \<not> is_write c) h h'"
| "sentBy E h (WorkProvisioner k r) h' \<longleftrightarrow> issued (warranted E k h) (GetCR k # h) h'"
| "sentBy E h (WorkCSR k r) h' \<longleftrightarrow> issued csrRequest h h'"
| "sentBy E h (WorkTemplates k r) h' \<longleftrightarrow> issued templateWrite h h'"
| "sentBy E h Elapse h' \<longleftrightarrow> h' = h"

lemma deliver_sent: "issued (\<lambda>c. \<not> is_write c) (st_history (op_mem op)) (st_history (op_mem (deliver scope E ev op)))"
proof -
  have sends: "sends (\<lambda>c. \<not> is_write c) (setupProvisioner scope E ev q)" "sends (\<lambda>c. \<not> is_write c) (setupCSRApproval ev q)"
    "sends (\<lambda>c. \<not> is_write c) (setupTemplates E ev q)" for q
    by (rule sends_footprint, rule footprint_mono [OF footprint_setup(1)] footprint_mono [OF footprint_setup(2)]
        footprint_mono [OF footprint_setup(3)]; simp)+
  show ?thesis
    using sends_run [OF sends(1)] sends_run [OF sends(2)] sends_run [OF sends(3)]
    by (auto simp: deliver_def Let_def split: prod.splits) (meson issued_trans)
qed

lemma moves_sent:
  "moves scope E op m op' \<Longrightarrow> sentBy E (st_history (op_mem op)) m (st_history (op_mem op'))"
  by (induction rule: moves.cases)
    (auto intro: deliver_sent sends_run [OF sends_ReconcileCSR] sends_run [OF sends_ReconcileTemplates]
      dest: wp_run [OF wp_Reconcile_warranted])

lemma moves_history: "moves scope E op m op' \<Longrightarrow> \<exists>later. st_history (op_mem op') = later @ st_history (op_mem op)"
  by (drule moves_sent, cases m) (auto simp: issued_def)

subsection \<open>Properties\<close>

text \<open>
  \<open>approvalWarranted E cl a h\<close>: in the history \<open>h\<close> a live resource with its kubeconfig reference was read,
  the approved request was pending in a list of hosted cluster \<open>cl\<close>, its contents are those of the node
  it names, and the DPUs listed for that resource vouch for the node.
\<close>

definition approvalWarranted :: "env \<Rightarrow> HostedClient \<Rightarrow> CSR \<Rightarrow> history \<Rightarrow> bool" where
  "approvalWarranted E cl a h \<longleftrightarrow> (\<exists>req cr items csr host kind.
     answered (\<lambda>h. a_getCR (mgmt E) h req) (GetCR req) h (Inr cr)
     \<and> om_deletionTimestamp (cr_meta cr) = None \<and> stt_kubeConfigSecretRef (cr_status cr) \<noteq> None
     \<and> answered (\<lambda>h. s_hostedListCSRs (srv E) h cl) (HostedListCSRs cl) h (Inr items)
     \<and> csr \<in> set items \<and> IsPending csr \<and> a = approvalOf csr host kind \<and> acceptable E csr host
     \<and> vouched_in E cl (ref_namespace (sp_dpuClusterRef (cr_spec cr))) (csr_signerName csr = SignerBootstrap) host h)"

lemma approvalWarranted_later: "approvalWarranted E cl a h \<Longrightarrow> approvalWarranted E cl a (later @ h)"
  unfolding approvalWarranted_def by (blast intro: answered_later vouched_in_later)

lemma ReconcileCSR_warranted:
  assumes "run_state (ReconcileCSR E k) s = (r, s')" and "HostedApproveCSR cl a \<in> set (st_history s')"
    and "HostedApproveCSR cl a \<notin> set (st_history s)"
  shows "approvalWarranted E cl a (st_history s')"
  using wp_run [OF ReconcileCSR_sound assms(1)]
proof (elim disjE exE conjE)
  fix cr
  assume cr: "a_getCR (mgmt E) (st_history s) k = Inr cr"
    "om_deletionTimestamp (cr_meta cr) = None" "stt_kubeConfigSecretRef (cr_status cr) \<noteq> None"
    and "sound_run E cr (GetCR k # st_history s) (st_history s')"
  then obtain l where l: "st_history s' = l @ GetCR k # st_history s"
    and a: "\<forall>cl a. (cl, a) \<in> set (approvals l) \<longrightarrow> (\<exists>items.
        answered (\<lambda>h. s_hostedListCSRs (srv E) h cl) (HostedListCSRs cl) (st_history s') (Inr items)
        \<and> sound_approval E cl (ref_namespace (sp_dpuClusterRef (cr_spec cr)))
             {csr \<in> set items. IsPending csr} (st_history s') (cl, a))"
    unfolding sound_run_def by blast
  have "(cl, a) \<in> set (approvals l)" using assms(2,3) l by (auto simp: approvals_mem)
  moreover have "answered (\<lambda>h. a_getCR (mgmt E) h k) (GetCR k) (st_history s') (Inr cr)"
    unfolding l using cr(1) by (rule answered_append)
  ultimately show ?thesis using a cr unfolding approvalWarranted_def sound_approval_def by blast
qed (use assms in auto)

lemma moves_approvals:
  assumes "moves scope E op m op'" and "HostedApproveCSR cl a \<in> set (st_history (op_mem op'))"
  shows "HostedApproveCSR cl a \<in> set (st_history (op_mem op)) \<or> approvalWarranted E cl a (st_history (op_mem op'))"
proof (cases "\<exists>k r. m = WorkCSR k r")
  case True
  with assms show ?thesis by (auto elim!: moves.cases dest: ReconcileCSR_warranted)
next
  case False
  then show ?thesis
    using moves_sent [OF assms(1)] assms(2)
    by (cases m) (auto simp: warranted_def templateWrite_def dest: issued_member)
qed

text \<open>
  C1: At any time in the life of the process, whatever its controllers did in whatever order and
  whatever the servers answered: every certificate request it ever approved was pending in a list of
  that hosted cluster, names a node whose identity its contents match, and is vouched for by the DPUs
  (and nodes) listed for a live resource with a kubeconfig reference. The other two controllers
  approve nothing.
\<close>

theorem operator_approves_only_vouched:
  assumes "runs scope E (startOperator cr) ms op" and "HostedApproveCSR cl a \<in> set (st_history (op_mem op))"
  shows "approvalWarranted E cl a (st_history (op_mem op))"
  using assms
proof (induction op0 \<equiv> "startOperator cr" ms op arbitrary: cl a rule: runs.induct)
  case start
  then show ?case by (simp add: startOperator_def)
next
  case (more ms op' m op'')
  then show ?case
    using moves_approvals [OF more(3)] moves_history [OF more(3)] approvalWarranted_later by metis
qed

lemma runs_kept:
  assumes "runs scope E op ms op'"
    and step: "\<And>op m op'. moves scope E op m op' \<Longrightarrow> k \<in> Q op \<Longrightarrow> k \<in> Q op' \<or> (\<exists>r. m = W k r \<and> settled r)"
    and "k \<in> Q op"
  shows "k \<in> Q op' \<or> (\<exists>r. W k r \<in> set ms \<and> settled r)"
  using assms(1,3)
proof (induction rule: runs.induct)
  case (more op ms op' m op'')
  then show ?case using step [OF more.hyps(2)] by auto
qed simp


text \<open>
  The two halves of the finalizer protocol: an object may be created, and the finalizer may be taken
  off, on the strength of what the history \<open>h\<close> shows.
\<close>

definition creationWarranted :: "env \<Rightarrow> call \<Rightarrow> history \<Rightarrow> bool" where
  "creationWarranted E c h \<longleftrightarrow> (\<exists>req cr. answered (\<lambda>h. a_getCR (mgmt E) h req) (GetCR req) h (Inr cr)
     \<and> ContainsFinalizer (cr_meta cr) FinalizerName \<and> om_deletionTimestamp (cr_meta cr) = None
     \<and> creates_own (cr_meta cr) (cr_spec cr) c)"

definition releaseWarranted :: "env \<Rightarrow> history \<Rightarrow> bool" where
  "releaseWarranted E h \<longleftrightarrow> (\<exists>req cr. answered (\<lambda>h. a_getCR (mgmt E) h req) (GetCR req) h (Inr cr)
     \<and> om_deletionTimestamp (cr_meta cr) \<noteq> None \<and> hostedClusterGone E cr h)"

definition takesFinalizer :: "call \<Rightarrow> bool" where
  "takesFinalizer c \<longleftrightarrow> (\<exists>x. c = UpdateCR x \<and> \<not> ContainsFinalizer (cr_meta x) FinalizerName)"

lemma hostedClusterGone_later: "hostedClusterGone E cr h \<Longrightarrow> hostedClusterGone E cr (later @ h)"
  by (erule hostedClusterGone_issued [where P = "\<lambda>_. True"]) (simp add: issued_def)

lemma warrants_later:
  "creationWarranted E c h \<Longrightarrow> creationWarranted E c (later @ h)"
  "releaseWarranted E h \<Longrightarrow> releaseWarranted E (later @ h)"
  unfolding creationWarranted_def releaseWarranted_def by (blast intro: answered_later hostedClusterGone_later)+

lemma protocol_writes:
  "is_create c \<Longrightarrow> is_write c \<and> \<not> csrRequest c \<and> \<not> templateWrite c"
  "takesFinalizer c \<Longrightarrow> is_write c \<and> \<not> csrRequest c \<and> \<not> templateWrite c"
  by (cases c; auto simp: templateWrite_def takesFinalizer_def)+

lemma moves_protocol:
  assumes "moves scope E op m op'" and "c \<in> set (st_history (op_mem op'))" and "c \<notin> set (st_history (op_mem op))"
  shows "(is_create c \<longrightarrow> creationWarranted E c (st_history (op_mem op')))
    \<and> (takesFinalizer c \<longrightarrow> releaseWarranted E (st_history (op_mem op')))"
proof (cases "\<exists>k r. m = WorkProvisioner k r")
  case True
  then obtain k r where m: "m = WorkProvisioner k r" by blast
  let ?h = "st_history (op_mem op)" and ?h' = "st_history (op_mem op')"
  have sent: "issued (warranted E k ?h) (GetCR k # ?h) ?h'"
    using moves_sent [OF assms(1)] by (simp add: m)
  then obtain later where later: "?h' = later @ GetCR k # ?h" by (auto simp: issued_def)
  have "\<exists>s'. run_state (Reconcile E k) (op_mem op) = (r, s') \<and> s' = op_mem op'"
    using assms(1) by (auto simp: m elim: moves.cases)
  then have rel: "releasedLast E k ?h ?h'" using wp_run [OF wp_Reconcile_released] by blast
  have "releaseWarranted E ?h'" if "takesFinalizer c"
  proof -
    from that rel assms(2,3) obtain cr mid where "a_getCR (mgmt E) ?h k = Inr cr"
      "om_deletionTimestamp (cr_meta cr) \<noteq> None" "?h' = c # mid" "hostedClusterGone E cr mid"
      unfolding takesFinalizer_def releasedLast_def by blast
    then show ?thesis
      using hostedClusterGone_later [of E cr mid "[c]"] later unfolding releaseWarranted_def
      by (metis answered_append append_Cons append_Nil)
  qed
  moreover have "c \<in> set ?h \<or> c = GetCR k \<or> warranted E k ?h c" using issued_member [OF sent assms(2)] by auto
  ultimately show ?thesis
    using assms(3) protocol_writes(1)
    by (auto simp: warranted_def creationWarranted_def later intro: answered_append)
next
  case False
  then show ?thesis
    using moves_sent [OF assms(1)] assms(2,3) protocol_writes [of c]
    by (cases m) (auto dest: issued_member)
qed


subsection \<open>Certificate polling\<close>

text \<open>The resource an event of the provisioner kind is about.\<close>

fun provisionerKey :: "clusterEvent \<Rightarrow> NamespacedName option" where
  "provisionerKey (ProvisionerEvent (UpdateEvent _ p)) = Some (meta_key (cr_meta p))"
| "provisionerKey (ProvisionerEvent (CreateEvent p)) = Some (meta_key (cr_meta p))"
| "provisionerKey (ProvisionerEvent (DeleteEvent p)) = Some (meta_key (cr_meta p))"
| "provisionerKey (ProvisionerEvent (GenericEvent p)) = Some (meta_key (cr_meta p))"
| "provisionerKey _ = None"

lemma setupCSRApproval_queued:
  "queued (fst (run_state (setupCSRApproval ev q) s)) = set_option (provisionerKey ev) \<union> queued q"
  by (cases ev rule: provisionerKey.cases) auto

lemma moves_csr_silent:
  assumes "moves scope E op m op'" and "k \<notin> queued (op_csr op)"
    and "\<And>ev. m = Deliver ev \<Longrightarrow> provisionerKey ev \<noteq> Some k"
  shows "k \<notin> queued (op_csr op') \<and> (\<forall>r. m \<noteq> WorkCSR k r)"
  using assms(1)
proof cases
  case (deliver ev)
  let ?s = "snd (run_state (setupProvisioner scope E ev (op_provisioner op)) (op_mem op))"
  have "op_csr op' = fst (run_state (setupCSRApproval ev (op_csr op)) ?s)"
    by (simp add: deliver deliver_def Let_def split: prod.splits)
  then show ?thesis
    using assms(2,3) deliver(1) by (auto simp: setupCSRApproval_queued elem_set)
next
  case (csr k' q r s')
  then show ?thesis
    using assms(2) queued_pop [OF csr(3)] by (auto simp: queued_reconcileHandler)
qed (use assms in auto)

lemma runs_csr_silent:
  assumes "runs scope E op ms op'" and "k \<notin> queued (op_csr op)"
    and "\<And>ev. Deliver ev \<in> set ms \<Longrightarrow> provisionerKey ev \<noteq> Some k"
  shows "k \<notin> queued (op_csr op') \<and> (\<forall>r. WorkCSR k r \<notin> set ms)"
  using assms
proof (induction rule: runs.induct)
  case (more op ms op' m op'')
  have "k \<notin> queued (op_csr op') \<and> (\<forall>r. WorkCSR k r \<notin> set ms)" using more.IH more.prems by auto
  then show ?case using moves_csr_silent [OF more(2)] more.prems by auto
qed simp

text \<open>
  The hosted cluster does not answer, while the management cluster works.
\<close>

definition outOfReach :: "env \<Rightarrow> bool" where
  "outOfReach E \<longleftrightarrow> (\<forall>h cl. s_hostedServerVersion (srv E) h cl \<noteq> None)
     \<and> (\<forall>h k. \<exists>c. a_getCR (mgmt E) h k = Inr c) \<and> (\<forall>h x. a_write (mgmt E) h (UpdateCRStatus x) = None)"

lemma wp_any: "(\<And>a t. wp (f a) Q t) \<Longrightarrow> wp (State_Monad.bind m f) Q s"
  unfolding wp_bind by (rule wp_runI)

lemma wp_setConditionCSR_reports:
  assumes "outOfReach E"
  shows "wp (setConditionCSR E status reason message) (\<lambda>r _. r = None) s"
proof -
  have "wp (setConditionAttempt E k status reason message) (\<lambda>r _. r = None) t" for k t
    using assms unfolding setConditionAttempt_def outOfReach_def
    by (auto simp: wp_simps split: sum.splits option.splits) (metis Inl_Inr_False)
  then have "wp (RetryOnConflict (Suc n) e (setConditionAttempt E k status reason message)) (\<lambda>r _. r = None) t" for n e k t
    unfolding RetryOnConflict.simps wp_bind by (rule wp_mono) (simp add: wp_simps)
  then show ?thesis
    unfolding setConditionCSR_def DefaultRetrySteps_def wp_with_cr by (simp add: eval_nat_numeral del: RetryOnConflict.simps)
qed

lemma ReconcileCSR_outOfReach:
  assumes "outOfReach E"
  shows "wp (ReconcileCSR E k) (\<lambda>r _. settled r) s"
proof -
  have down: "wp (unreachable E err) (\<lambda>r _. settled r) t" for err t
    unfolding unreachable_def Let_def wp_bind
    by (rule wp_mono [OF wp_setConditionCSR_reports [OF assms]]) (simp add: wp_simps settled_def ok_def Done_def)
  have test: "wp (TestConnection E hc) (\<lambda>r _. \<exists>err. r = Some err) t" for hc t
    using assms by (simp add: TestConnection_def wp_simps outOfReach_def)
  have "wp (ProcessCSRs E) (\<lambda>r _. settled r) t" for t
    unfolding ProcessCSRs_def wp_with_cr
    by (auto simp: wp_if wp_return wp_case_sum wp_case_option wp_bind [of "TestConnection E hc" for hc]
        wp_bind [of "setConditionCSR E a b c" for a b c] settled_def done_or_failed_def ok_def Done_def
        intro!: wp_any down [unfolded settled_def] wp_mono [OF test] wp_mono [OF wp_setConditionCSR_reports [OF assms]]
        split: sum.splits option.splits)
  then have "wp (State_Monad.bind (ProcessCSRs E) (\<lambda>res. State_Monad.return (case snd res of
      Some _ \<Rightarrow> (After CSRPollingInterval, None) | None \<Rightarrow> res))) (\<lambda>r _. settled r) t" for t
    unfolding wp_bind by (rule wp_mono) (auto simp: wp_return settled_def)
  moreover have "a_getCR (mgmt E) h k \<noteq> Inl e" for h k e
    using assms unfolding outOfReach_def by (metis Inl_Inr_False)
  ultimately show ?thesis
    unfolding ReconcileCSR_def StopCSRWatch_def wp_bind [of "getCR E k"]
    by (auto simp: getCR_def wp_request wp_return wp_if wp_with_cr wp_modify_cr wp_bind [of "modify_cr f" for f]
        settled_def ok_def Done_def intro!: wp_any split: sum.splits)
qed

text \<open>
  C34: Polling for certificate requests does not survive an outage of the hosted cluster. If it does not
  answer when a resource is polled (and the management cluster works), the poll ends without asking
  for another one; from then on, whatever else happens, the resource is not polled again until an
  event of the resource itself arrives: neither the passing of time nor events of HostedClusters,
  secrets or other objects start it, even when the hosted cluster is back.
\<close>

theorem unreachable_ends_polling:
  assumes "outOfReach E" and "moves scope E op (WorkCSR k r) op1" and "pop (op_csr op) = Some (k, q)" and "k \<notin> queued q"
    and "runs scope E op1 ms op2" and "\<And>ev. Deliver ev \<in> set ms \<Longrightarrow> provisionerKey ev \<noteq> Some k"
  shows "settled r \<and> (\<forall>r'. WorkCSR k r' \<notin> set ms)"
proof -
  from assms(2) obtain s' where run: "run_state (ReconcileCSR E k) (op_mem op) = (r, s')"
    and op1: "op_csr op1 = reconcileHandler k r q"
    using assms(3) by (auto elim!: moves.cases)
  have "settled r" using wp_run [OF ReconcileCSR_outOfReach [OF assms(1)] run] .
  then have "k \<notin> queued (op_csr op1)" using assms(4) by (simp add: op1 queued_reconcileHandler settled_def)
  with \<open>settled r\<close> show ?thesis using runs_csr_silent [OF assms(5) _ assms(6)] by blast
qed

subsection \<open>Events of a created HostedCluster\<close>

definition carriesOwner :: "ObjectMeta \<Rightarrow> ObjectMeta \<Rightarrow> bool" where
  "carriesOwner M m \<longleftrightarrow> om_ownerReferences m = [ownerRefFor M] \<and> om_namespace m = om_namespace M"

lemma SetControllerReference_carries:
  "SetControllerReference M (newMeta (om_namespace M) n) = Inr m \<Longrightarrow> carriesOwner M m"
  by (auto simp: SetControllerReference_def carriesOwner_def newMeta_def)

lemma CreateOrUpdateHostedCluster_owner:
  "footprint M S W (\<lambda>c. \<forall>hc. c = CreateHC hc \<longrightarrow> carriesOwner M (hc_meta hc)) (CreateOrUpdateHostedCluster E)"
proof -
  have "footprint M S W (\<lambda>c. \<forall>hc. c = CreateHC hc \<longrightarrow> carriesOwner M (hc_meta hc)) (createHostedCluster E cr addr)"
    if "cr_meta cr = M" "cr_spec cr = S" for cr addr
    using that unfolding footprint_def createHostedCluster_def buildHostedCluster_def infraID_def
    by (auto simp: wp_simps issued_def split: sum.splits dest: SetControllerReference_carries)
  then show ?thesis
    unfolding CreateOrUpdateHostedCluster_def detectNodeAddress_def by (intro footprint_intros; simp)
qed

text \<open>
  C35: The events of a HostedCluster come back to the resource it was created for. Take any
  HostedCluster that \<^verbatim>\<open>CreateOrUpdateHostedCluster\<close> creates, and any accepted event about an object in its
  namespace with its owner references: when the event is delivered, the resource is ready in the queue
  of the main controller. (Hypothesis: the REST mapper knows the kind as namespaced.)
\<close>

theorem hostedCluster_event_reaches_owner:
  assumes "run_state (CreateOrUpdateHostedCluster E) s = (r, s')"
    and "CreateHC hc \<in> set (st_history s')" and "CreateHC hc \<notin> set (st_history s)"
    and "scope ''v1alpha1'' = Inr True" and "hostedClusterPredicate e" and "hc' \<in> set_watchEvent e"
    and "om_namespace (hc_meta hc') = om_namespace (hc_meta hc)"
    and "om_ownerReferences (hc_meta hc') = om_ownerReferences (hc_meta hc)"
  shows "cr_key (st_cr s) \<in> set (wq_ready (op_provisioner (deliver scope E' (HostedClusterEvent e) op)))"
proof -
  have "carriesOwner (cr_meta (st_cr s)) (hc_meta hc)"
    using issued_member [OF conjunct2 [OF footprint_run [OF CreateOrUpdateHostedCluster_owner assms(1)]] assms(2)] assms(3)
    by blast
  then have "getOwnerReconcileRequest scope (hc_meta hc') = [cr_key (st_cr s)]"
    using getOwnerReconcileRequest_owner [of "hc_meta hc'" "cr_meta (st_cr s)" scope] assms(4,7,8)
    by (simp add: carriesOwner_def ownerRefFor_def meta_key_def cr_key_def)
  then show ?thesis
    using assms(5,6) by (cases e) (auto simp: deliver_def Let_def watched_def split: prod.splits)
qed

subsection \<open>Instances\<close>

text \<open>A process to which one resource was announced.\<close>

definition toldAbout :: "env \<Rightarrow> DPFHCPProvisioner \<Rightarrow> operator" where
  "toldAbout E cr = deliver (\<lambda>_. Inr True) E (ProvisionerEvent (CreateEvent cr)) (startOperator sampleCR)"

lemma toldAbout_simps:
  "op_mem (toldAbout E cr) = startState sampleCR"
  "op_provisioner (toldAbout E cr) = \<lparr>wq_ready = [meta_key (cr_meta cr)], wq_waiting = []\<rparr>"
  "op_csr (toldAbout E cr) = \<lparr>wq_ready = [meta_key (cr_meta cr)], wq_waiting = []\<rparr>"
  by (simp_all add: toldAbout_def deliver_def startOperator_def emptyQueue_def Add_def mapAndEnqueue_def Let_def)

lemma runs_toldAbout: "runs (\<lambda>_. Inr True) E (startOperator sampleCR) [Deliver (ProvisionerEvent (CreateEvent cr))] (toldAbout E cr)"
  using runs.more [OF runs.start moves.deliver] by (simp add: toldAbout_def)

text \<open>The process of \<open>toldAbout\<close> after one reconcile by the certificate or the main controller.\<close>

lemma runs_csr:
  assumes "run_state (ReconcileCSR E (meta_key (cr_meta cr))) (startState sampleCR) = (r, s')"
  shows "\<exists>op. op_mem op = s' \<and> moves (\<lambda>_. Inr True) E (toldAbout E cr) (WorkCSR (meta_key (cr_meta cr)) r) op
    \<and> runs (\<lambda>_. Inr True) E (startOperator sampleCR)
         [Deliver (ProvisionerEvent (CreateEvent cr)), WorkCSR (meta_key (cr_meta cr)) r] op"
proof -
  let ?q = "\<lparr>wq_ready = [], wq_waiting = []\<rparr>" and ?k = "meta_key (cr_meta cr)"
  let ?op = "(toldAbout E cr)\<lparr>op_mem := s', op_csr := reconcileHandler ?k r ?q\<rparr>"
  have "moves (\<lambda>_. Inr True) E (toldAbout E cr) (WorkCSR ?k r) ?op"
    by (rule moves.csr) (simp_all add: toldAbout_simps pop_def assms)
  moreover from runs.more [OF runs_toldAbout this] have "runs (\<lambda>_. Inr True) E (startOperator sampleCR)
      [Deliver (ProvisionerEvent (CreateEvent cr)), WorkCSR ?k r] ?op" by simp
  ultimately show ?thesis by (intro exI [of _ ?op]) simp
qed

lemma runs_provisioner:
  assumes "run_state (Reconcile E (meta_key (cr_meta cr))) (startState sampleCR) = (r, s')"
  shows "\<exists>op. op_mem op = s' \<and> moves (\<lambda>_. Inr True) E (toldAbout E cr) (WorkProvisioner (meta_key (cr_meta cr)) r) op
    \<and> runs (\<lambda>_. Inr True) E (startOperator sampleCR)
         [Deliver (ProvisionerEvent (CreateEvent cr)), WorkProvisioner (meta_key (cr_meta cr)) r] op"
proof -
  let ?q = "\<lparr>wq_ready = [], wq_waiting = []\<rparr>" and ?k = "meta_key (cr_meta cr)"
  let ?op = "(toldAbout E cr)\<lparr>op_mem := s', op_provisioner := reconcileHandler ?k r ?q\<rparr>"
  have "moves (\<lambda>_. Inr True) E (toldAbout E cr) (WorkProvisioner ?k r) ?op"
    by (rule moves.provisioner) (simp_all add: toldAbout_simps pop_def assms)
  moreover from runs.more [OF runs_toldAbout this] have "runs (\<lambda>_. Inr True) E (startOperator sampleCR)
      [Deliver (ProvisionerEvent (CreateEvent cr)), WorkProvisioner ?k r] ?op" by simp
  ultimately show ?thesis by (intro exI [of _ ?op]) simp
qed

theorem operator_approves_only_vouched_witness:
  "\<exists>ms op cl a. runs (\<lambda>_. Inr True) csrEnv (startOperator sampleCR) ms op
     \<and> HostedApproveCSR cl a \<in> set (st_history (op_mem op)) \<and> approvalWarranted csrEnv cl a (st_history (op_mem op))"
proof -
  obtain r s' where run: "csrRun = (r, s')" by (rule prod.exhaust)
  have "meta_key (cr_meta sampleCR) = NN ''clusters'' ''hcp''" by (simp add: sample_defs meta_key_def)
  then obtain op where op: "op_mem op = s'" "runs (\<lambda>_. Inr True) csrEnv (startOperator sampleCR)
      [Deliver (ProvisionerEvent (CreateEvent sampleCR)), WorkCSR (NN ''clusters'' ''hcp'') r] op"
    using runs_csr [of csrEnv sampleCR r s'] run by (auto simp: csrRun_def)
  obtain cl a where "HostedApproveCSR cl a \<in> set (st_history (op_mem op))"
    using csrRun_approves by (auto simp: run op(1))
  with operator_approves_only_vouched [OF op(2) this] op(2) show ?thesis by blast
qed

definition brokenEnv :: env where
  "brokenEnv = emptyEnv\<lparr>mgmt := emptyMgmt\<lparr>a_getCR := \<lambda>_ _. Inl (Errorf ''timeout'')\<rparr>\<rparr>"



definition deafEnv :: env where
  "deafEnv = csrEnv\<lparr>srv := (srv csrEnv)\<lparr>s_hostedServerVersion := \<lambda>_ _. Some (Errorf ''timeout'')\<rparr>\<rparr>"

theorem unreachable_ends_polling_witness:
  "\<exists>r op1 ms op2. moves (\<lambda>_. Inr True) deafEnv (toldAbout deafEnv sampleCR) (WorkCSR (meta_key (cr_meta sampleCR)) r) op1
     \<and> runs (\<lambda>_. Inr True) deafEnv op1 ms op2 \<and> ms \<noteq> [] \<and> (\<forall>r'. WorkCSR (meta_key (cr_meta sampleCR)) r' \<notin> set ms)"
proof -
  let ?k = "meta_key (cr_meta sampleCR)" and ?ev = "ConfigEvent (CreateEvent (newMeta [] ''default''))"
  have out: "outOfReach deafEnv"
    by (simp add: outOfReach_def deafEnv_def csrEnv_def kubeconfigEnv_def env_defs)
  obtain r s' where run: "run_state (ReconcileCSR deafEnv ?k) (startState sampleCR) = (r, s')" by (rule prod.exhaust)
  obtain op1 where op1: "moves (\<lambda>_. Inr True) deafEnv (toldAbout deafEnv sampleCR) (WorkCSR ?k r) op1"
    using runs_csr [OF run] by blast
  obtain op2 where op2: "runs (\<lambda>_. Inr True) deafEnv op1 [Deliver ?ev] op2"
    using runs.more [OF runs.start moves.deliver] by fastforce
  have "settled r \<and> (\<forall>r'. WorkCSR ?k r' \<notin> set [Deliver ?ev])"
    by (rule unreachable_ends_polling [OF out op1 _ _ op2, where q = "\<lparr>wq_ready = [], wq_waiting = []\<rparr>"])
      (auto simp: toldAbout_simps pop_def queued_def)
  with op1 op2 show ?thesis by blast
qed

theorem hostedCluster_event_reaches_owner_witness:
  "\<exists>hc. CreateHC hc \<in> set (st_history (snd (run_state (CreateOrUpdateHostedCluster emptyEnv) (startState sampleCR))))
     \<and> cr_key sampleCR \<in> set (wq_ready (op_provisioner
          (deliver (\<lambda>_. Inr True) emptyEnv (HostedClusterEvent (DeleteEvent hc)) (startOperator sampleCR))))"
proof -
  obtain r s' where run: "run_state (CreateOrUpdateHostedCluster emptyEnv) (startState sampleCR) = (r, s')"
    by (rule prod.exhaust)
  have get: "a_getHC (mgmt emptyEnv) h k = Inl notFoundErr" and wr: "a_write (mgmt emptyEnv) h c = None" for h k c
    by (simp_all add: env_defs)
  have "wp (CreateOrUpdateHostedCluster emptyEnv) (\<lambda>_ t. \<exists>hc. CreateHC hc \<in> set (st_history t)) (startState sampleCR)"
    using SetControllerReference_newMeta [of "cr_meta sampleCR"]
    by (simp add: CreateOrUpdateHostedCluster_def wp_simps get wr notFoundErr_def IsNotFound_def
        ShouldExposeThroughLoadBalancer_def createHostedCluster_def buildHostedCluster_def infraID_def)
      (simp add: sample_defs)
  then obtain hc where hc: "CreateHC hc \<in> set (st_history s')" using run by (blast dest: wp_run)
  have "cr_key (st_cr (startState sampleCR)) \<in> set (wq_ready (op_provisioner
          (deliver (\<lambda>_. Inr True) emptyEnv (HostedClusterEvent (DeleteEvent hc)) (startOperator sampleCR))))"
    by (rule hostedCluster_event_reaches_owner [OF run hc]) simp_all
  with hc show ?thesis by (auto simp: run)
qed

end
