(* ===== verification/Startup.thy ===== *)
theory Startup
  imports Setup
begin

section \<open>Process start\<close>

text \<open>
  \<^verbatim>\<open>cmd/main.go\<close>: the command line, the TLS options of the two servers, the options of the manager with
  the selection of its ConfigMap cache, the registration of the three controllers, and the exits. What
  the manager, the certificate watchers and the logger's flags do is a parameter (\<open>runtime\<close>); the order
  of the calls, what is passed to them and what happens when one fails is the program's.

  The TLS options are Go slices: two of them start as one and are appended to separately. They are
  modelled with their backing arrays, since whether the two servers keep their own certificates
  depends on when an append moves to a new array.
\<close>

subsection \<open>Command line\<close>

record flags =
  fl_metricsAddr :: string
  fl_probeAddr :: string
  fl_enableLeaderElection :: bool
  fl_secureMetrics :: bool
  fl_webhookCertPath :: string
  fl_webhookCertName :: string
  fl_webhookCertKey :: string
  fl_metricsCertPath :: string
  fl_metricsCertName :: string
  fl_metricsCertKey :: string
  fl_enableHTTP2 :: bool

definition defaultFlags :: flags where
  "defaultFlags = \<lparr>fl_metricsAddr = ''0'', fl_probeAddr = '':8081'', fl_enableLeaderElection = False,
     fl_secureMetrics = True, fl_webhookCertPath = [], fl_webhookCertName = ''tls.crt'', fl_webhookCertKey = ''tls.key'',
     fl_metricsCertPath = [], fl_metricsCertName = ''tls.crt'', fl_metricsCertKey = ''tls.key'', fl_enableHTTP2 = False\<rparr>"

text \<open>\<^verbatim>\<open>flag.StringVar\<close> and \<^verbatim>\<open>flag.BoolVar\<close>: the names and what they set.\<close>

datatype flagVar = StringVar "string \<Rightarrow> flags \<Rightarrow> flags" | BoolVar "bool \<Rightarrow> flags \<Rightarrow> flags"

definition formal :: "(string \<times> flagVar) list" where
  "formal =
     [(''metrics-bind-address'', StringVar (\<lambda>v f. f\<lparr>fl_metricsAddr := v\<rparr>)),
      (''health-probe-bind-address'', StringVar (\<lambda>v f. f\<lparr>fl_probeAddr := v\<rparr>)),
      (''leader-elect'', BoolVar (\<lambda>v f. f\<lparr>fl_enableLeaderElection := v\<rparr>)),
      (''metrics-secure'', BoolVar (\<lambda>v f. f\<lparr>fl_secureMetrics := v\<rparr>)),
      (''webhook-cert-path'', StringVar (\<lambda>v f. f\<lparr>fl_webhookCertPath := v\<rparr>)),
      (''webhook-cert-name'', StringVar (\<lambda>v f. f\<lparr>fl_webhookCertName := v\<rparr>)),
      (''webhook-cert-key'', StringVar (\<lambda>v f. f\<lparr>fl_webhookCertKey := v\<rparr>)),
      (''metrics-cert-path'', StringVar (\<lambda>v f. f\<lparr>fl_metricsCertPath := v\<rparr>)),
      (''metrics-cert-name'', StringVar (\<lambda>v f. f\<lparr>fl_metricsCertName := v\<rparr>)),
      (''metrics-cert-key'', StringVar (\<lambda>v f. f\<lparr>fl_metricsCertKey := v\<rparr>)),
      (''enable-http2'', BoolVar (\<lambda>v f. f\<lparr>fl_enableHTTP2 := v\<rparr>))]"

text \<open>\<^verbatim>\<open>strconv.ParseBool\<close>.\<close>

definition ParseBool :: "string \<Rightarrow> bool option" where
  "ParseBool s =
     (if s \<in> set [''1'', ''t'', ''T'', ''true'', ''TRUE'', ''True''] then Some True
      else if s \<in> set [''0'', ''f'', ''F'', ''false'', ''FALSE'', ''False''] then Some False
      else None)"

text \<open>
  The rest of the process: the flags of the logger (\<open>rt_zapFlag n\<close>: not a flag, or whether it is boolean;
  \<open>rt_zapSet n v\<close>: whether \<open>v\<close> is accepted), the result of each call that can fail, and how many elements
  the runtime reserves when a slice of one capacity has to hold so many elements.
\<close>

datatype controllerName = ProvisionerController | CSRApprovalController | TemplateController

datatype certWatcher = WebhookCertWatcher | MetricsCertWatcher

record cacheSelector =
  cs_labelled :: "string gomap"
  cs_namespaces :: "string list"

record managerOptions =
  mo_metricsAddr :: string
  mo_secureServing :: bool
  mo_authenticated :: bool
  mo_probeAddr :: string
  mo_leaderElection :: bool
  mo_leaderElectionID :: string
  mo_configMapCache :: cacheSelector

record runtime =
  rt_zapFlag :: "string \<Rightarrow> bool option"
  rt_zapSet :: "string \<Rightarrow> string \<Rightarrow> bool"
  rt_certwatcher :: "string \<Rightarrow> string \<Rightarrow> goerror option"
  rt_restConfig :: "goerror option"
  rt_newManager :: "managerOptions \<Rightarrow> goerror option"
  rt_setup :: "controllerName \<Rightarrow> goerror option"
  rt_addWatcher :: "certWatcher \<Rightarrow> goerror option"
  rt_addHealthzCheck :: "goerror option"
  rt_addReadyzCheck :: "goerror option"
  rt_start :: "goerror option"
  rt_grow :: "nat \<Rightarrow> nat \<Rightarrow> nat"

text \<open>\<^verbatim>\<open>flag.Parse\<close>; an error is the exit code.\<close>

definition setFlag :: "runtime \<Rightarrow> string \<Rightarrow> string option \<Rightarrow> string list \<Rightarrow> flags \<Rightarrow> nat + (string list \<times> flags)" where
  "setFlag R name val args f =
     (case map_of formal name of
        Some (BoolVar put) \<Rightarrow>
          (case val of
             None \<Rightarrow> Inr (args, put True f)
           | Some v \<Rightarrow> (case ParseBool v of None \<Rightarrow> Inl 2 | Some b \<Rightarrow> Inr (args, put b f)))
      | Some (StringVar put) \<Rightarrow>
          (case val of
             Some v \<Rightarrow> Inr (args, put v f)
           | None \<Rightarrow> (case args of [] \<Rightarrow> Inl 2 | v # args \<Rightarrow> Inr (args, put v f)))
      | None \<Rightarrow>
          (case rt_zapFlag R name of
             None \<Rightarrow> Inl (if name = ''help'' \<or> name = ''h'' then 0 else 2)
           | Some True \<Rightarrow>
               if rt_zapSet R name (case val of None \<Rightarrow> ''true'' | Some v \<Rightarrow> v) then Inr (args, f) else Inl 2
           | Some False \<Rightarrow>
               (case val of
                  Some v \<Rightarrow> if rt_zapSet R name v then Inr (args, f) else Inl 2
                | None \<Rightarrow> (case args of
                    [] \<Rightarrow> Inl 2
                  | v # args \<Rightarrow> if rt_zapSet R name v then Inr (args, f) else Inl 2))))"

text \<open>The first equals sign after the first character separates name and value.\<close>

definition splitFlag :: "string \<Rightarrow> string \<times> string option" where
  "splitFlag name =
     (case Index (tl name) (CHR ''='') of
        None \<Rightarrow> (name, None)
      | Some i \<Rightarrow> (take (Suc i) name, Some (drop (i + 2) name)))"

lemma setFlag_args: "setFlag R name val args f = Inr (args', f') \<Longrightarrow> length args' \<le> length args"
  by (auto simp: setFlag_def split: option.splits flagVar.splits list.splits if_splits bool.splits)

function parseFlags :: "runtime \<Rightarrow> string list \<Rightarrow> flags \<Rightarrow> nat + flags" where
  "parseFlags R [] f = Inr f"
| "parseFlags R (s # args) f =
     (if length s < 2 \<or> hd s \<noteq> CHR ''-'' then Inr f
      else if s = ''--'' then Inr f
      else
        (let name = (if s ! 1 = CHR ''-'' then drop 2 s else drop 1 s) in
         if name = [] \<or> hd name = CHR ''-'' \<or> hd name = CHR ''='' then Inl 2
         else (case setFlag R (fst (splitFlag name)) (snd (splitFlag name)) args f of
                 Inl code \<Rightarrow> Inl code
               | Inr (args', f') \<Rightarrow> parseFlags R args' f')))"
  by pat_completeness auto

termination parseFlags
  by (relation "measure (\<lambda>(_, args, _). length args)") (auto dest!: setFlag_args)

subsection \<open>Slices\<close>

text \<open>
  A slice is a backing array, a length and a capacity; the arrays stand in a list and are addressed by
  position. \<^verbatim>\<open>append\<close> writes in place as long as the capacity allows and moves to a new array otherwise.
\<close>

datatype tlsOption = disableHTTP2 | getCertificate certWatcher

record slice =
  sl_array :: nat
  sl_len :: nat
  sl_cap :: nat

type_synonym arrays = "tlsOption option list list"

definition nilSlice :: slice where
  "nilSlice = \<lparr>sl_array = 0, sl_len = 0, sl_cap = 0\<rparr>"

definition elements :: "arrays \<Rightarrow> slice \<Rightarrow> tlsOption option list" where
  "elements h s = (if sl_len s = 0 then [] else take (sl_len s) (h ! sl_array s))"

definition append_slice :: "runtime \<Rightarrow> slice \<Rightarrow> tlsOption \<Rightarrow> arrays \<Rightarrow> slice \<times> arrays" where
  "append_slice R s x h =
     (let n = sl_len s in
      if n < sl_cap s then (s\<lparr>sl_len := Suc n\<rparr>, h[sl_array s := (h ! sl_array s)[n := Some x]])
      else (let cap = max (Suc n) (rt_grow R (sl_cap s) (Suc n)) in
        (\<lparr>sl_array = length h, sl_len = Suc n, sl_cap = cap\<rparr>,
         h @ [elements h s @ Some x # replicate (cap - Suc n) None])))"

text \<open>The configuration a server ends up with when it applies its options in order.\<close>

record tlsConfig =
  tc_NextProtos :: "string list"
  tc_certificate :: "certWatcher option"

fun applyOption :: "tlsOption option \<Rightarrow> tlsConfig \<Rightarrow> tlsConfig" where
  "applyOption (Some disableHTTP2) c = c\<lparr>tc_NextProtos := [''http/1.1'']\<rparr>"
| "applyOption (Some (getCertificate w)) c = c\<lparr>tc_certificate := Some w\<rparr>"
| "applyOption None c = c"

definition applyOptions :: "arrays \<Rightarrow> slice \<Rightarrow> tlsConfig \<Rightarrow> tlsConfig" where
  "applyOptions h s c = fold applyOption (elements h s) c"

subsection \<open>Paths\<close>

text \<open>\<^verbatim>\<open>filepath.Join\<close> of two elements on Unix, with \<^verbatim>\<open>Clean\<close> working on the components of the path.\<close>

fun cleanParts :: "bool \<Rightarrow> string list \<Rightarrow> string list \<Rightarrow> string list" where
  "cleanParts rooted [] out = rev out"
| "cleanParts rooted (c # cs) out =
     (if c = [] \<or> c = ''.'' then cleanParts rooted cs out
      else if c = ''..'' then
        (case out of
           [] \<Rightarrow> cleanParts rooted cs (if rooted then [] else [''..''])
         | p # ps \<Rightarrow> cleanParts rooted cs (if p = ''..'' then ''..'' # out else ps))
      else cleanParts rooted cs (c # out))"

definition Clean :: "string \<Rightarrow> string" where
  "Clean path =
     (if path = [] then ''.''
      else let rooted = (hd path = CHR ''/''); body = Join (cleanParts rooted (Split path (CHR ''/'')) []) ''/'' in
        if rooted then CHR ''/'' # body else if body = [] then ''.'' else body)"

definition filepathJoin :: "string \<Rightarrow> string \<Rightarrow> string" where
  "filepathJoin dir name = (if dir \<noteq> [] then Clean (dir @ CHR ''/'' # name) else if name \<noteq> [] then Clean name else [])"

subsection \<open>The options of the manager\<close>

definition configMapCache :: cacheSelector where
  "configMapCache = \<lparr>cs_labelled = [(BfcfgTemplateLabel, ''true'')], cs_namespaces = [OperatorNamespace]\<rparr>"

definition managerOptionsFor :: "flags \<Rightarrow> managerOptions" where
  "managerOptionsFor f = \<lparr>mo_metricsAddr = fl_metricsAddr f, mo_secureServing = fl_secureMetrics f,
     mo_authenticated = fl_secureMetrics f, mo_probeAddr = fl_probeAddr f, mo_leaderElection = fl_enableLeaderElection f,
     mo_leaderElectionID = ''4ebdb3db.dpu.hcp.io'', mo_configMapCache = configMapCache\<rparr>"

text \<open>
  What the cache of the manager holds, as documented for \<^verbatim>\<open>cache.ByObject\<close>: all ConfigMaps of a listed
  namespace, and of the other namespaces those with the labels.
\<close>

definition cacheHolds :: "cacheSelector \<Rightarrow> ConfigMap \<Rightarrow> bool" where
  "cacheHolds sel cm \<longleftrightarrow> om_namespace (cm_meta cm) \<in> set (cs_namespaces sel)
     \<or> list_all (\<lambda>(k, v). map_of (om_labels (cm_meta cm)) k = Some v) (cs_labelled sel)"

subsection \<open>main\<close>

datatype startStep =
    GetConfigOrDie
  | NewManager managerOptions
  | SetupController controllerName
  | AddCertWatcher certWatcher
  | AddHealthzCheck
  | AddReadyzCheck
  | StartManager

fun answer :: "runtime \<Rightarrow> startStep \<Rightarrow> goerror option" where
  "answer R GetConfigOrDie = rt_restConfig R"
| "answer R (NewManager opts) = rt_newManager R opts"
| "answer R (SetupController c) = rt_setup R c"
| "answer R (AddCertWatcher w) = rt_addWatcher R w"
| "answer R AddHealthzCheck = rt_addHealthzCheck R"
| "answer R AddReadyzCheck = rt_addReadyzCheck R"
| "answer R StartManager = rt_start R"

text \<open>How the process ends, and the calls it made; each of them exits with code 1 when it fails.\<close>

datatype outcome = Exit nat | Returned

fun perform :: "runtime \<Rightarrow> startStep list \<Rightarrow> startStep list \<Rightarrow> outcome \<times> startStep list" where
  "perform R [] made = (Returned, made)"
| "perform R (s # ss) made =
     (case answer R s of Some e \<Rightarrow> (Exit 1, made @ [s]) | None \<Rightarrow> perform R ss (made @ [s]))"

definition startSteps :: "flags \<Rightarrow> startStep list" where
  "startSteps f = [GetConfigOrDie, NewManager (managerOptionsFor f),
       SetupController ProvisionerController, SetupController CSRApprovalController, SetupController TemplateController]
     @ (if fl_metricsCertPath f \<noteq> [] then [AddCertWatcher MetricsCertWatcher] else [])
     @ (if fl_webhookCertPath f \<noteq> [] then [AddCertWatcher WebhookCertWatcher] else [])
     @ [AddHealthzCheck, AddReadyzCheck, StartManager]"

record servers =
  sv_arrays :: arrays
  sv_webhookTLS :: slice
  sv_metricsTLS :: slice

definition withCertificate ::
    "runtime \<Rightarrow> string \<Rightarrow> string \<Rightarrow> string \<Rightarrow> certWatcher \<Rightarrow> slice \<Rightarrow> arrays \<Rightarrow> goerror + slice \<times> arrays" where
  "withCertificate R certPath certName certKey w opts h =
     (if certPath = [] then Inr (opts, h)
      else (case rt_certwatcher R (filepathJoin certPath certName) (filepathJoin certPath certKey) of
              Some e \<Rightarrow> Inl e
            | None \<Rightarrow> Inr (append_slice R opts (getCertificate w) h)))"

definition tlsServers :: "runtime \<Rightarrow> flags \<Rightarrow> goerror + servers" where
  "tlsServers R f =
     (let (tlsOpts, h) = (if \<not> fl_enableHTTP2 f then append_slice R nilSlice disableHTTP2 [] else (nilSlice, [])) in
      case withCertificate R (fl_webhookCertPath f) (fl_webhookCertName f) (fl_webhookCertKey f) WebhookCertWatcher tlsOpts h of
        Inl e \<Rightarrow> Inl e
      | Inr (webhookTLSOpts, h) \<Rightarrow>
          (case withCertificate R (fl_metricsCertPath f) (fl_metricsCertName f) (fl_metricsCertKey f) MetricsCertWatcher tlsOpts h of
             Inl e \<Rightarrow> Inl e
           | Inr (metricsTLSOpts, h) \<Rightarrow>
               Inr \<lparr>sv_arrays = h, sv_webhookTLS = webhookTLSOpts, sv_metricsTLS = metricsTLSOpts\<rparr>))"

definition main :: "runtime \<Rightarrow> string list \<Rightarrow> outcome \<times> startStep list" where
  "main R args =
     (case parseFlags R args defaultFlags of
        Inl code \<Rightarrow> (Exit code, [])
      | Inr f \<Rightarrow> (case tlsServers R f of Inl e \<Rightarrow> (Exit 1, []) | Inr _ \<Rightarrow> perform R (startSteps f) []))"

subsection \<open>The order of the start\<close>

lemma perform_Cons: "perform R ss made = (fst (perform R ss []), made @ snd (perform R ss []))"
proof (induction ss arbitrary: made)
  case (Cons s ss)
  show ?case
    using Cons [of "made @ [s]"] Cons [of "[s]"] by (auto split: option.splits)
qed simp

lemma perform_trace:
  "\<exists>n. snd (perform R ss []) = take n ss \<and> (\<forall>s \<in> set (butlast (take n ss)). answer R s = None)
     \<and> (fst (perform R ss []) = Returned \<longrightarrow> take n ss = ss \<and> (\<forall>s \<in> set ss. answer R s = None))
     \<and> (fst (perform R ss []) \<noteq> Returned \<longrightarrow> fst (perform R ss []) = Exit 1 \<and> take n ss \<noteq> [] \<and> answer R (last (take n ss)) \<noteq> None)"
proof (induction ss)
  case (Cons s ss)
  show ?case
  proof (cases "answer R s")
    case None
    from Cons obtain n where "snd (perform R ss []) = take n ss \<and> (\<forall>s \<in> set (butlast (take n ss)). answer R s = None)
      \<and> (fst (perform R ss []) = Returned \<longrightarrow> take n ss = ss \<and> (\<forall>s \<in> set ss. answer R s = None))
      \<and> (fst (perform R ss []) \<noteq> Returned \<longrightarrow> fst (perform R ss []) = Exit 1 \<and> take n ss \<noteq> [] \<and> answer R (last (take n ss)) \<noteq> None)" ..
    then show ?thesis
      using None perform_Cons [of R ss "[s]"] by (intro exI [of _ "Suc n"]) auto
  next
    case (Some e)
    then show ?thesis by (intro exI [of _ "1"]) auto
  qed
qed simp

lemma last_startSteps: "startSteps f \<noteq> [] \<and> last (startSteps f) = StartManager \<and> StartManager \<notin> set (butlast (startSteps f))"
  by (simp add: startSteps_def butlast_append)

lemma take_last:
  assumes "xs \<noteq> []" and "last xs \<notin> set (butlast xs)" and "last xs \<in> set (take n xs)"
  shows "take n xs = xs"
proof (rule ccontr)
  assume "take n xs \<noteq> xs"
  then have "n \<le> length (butlast xs)" by (auto simp: not_le)
  then have "take n xs = take n (butlast xs)"
    using assms(1) by (metis append_butlast_last_id append_take_drop_id take_append take0 diff_is_0_eq append_Nil2)
  then show False using assms(2,3) by (auto dest: in_set_takeD)
qed


subsection \<open>The TLS options\<close>

lemma take_reserved: "Suc 0 < n \<Longrightarrow> take (Suc 0) ((replicate (n - Suc 0) x)[0 := y]) = [y]"
  by (cases "n - Suc 0") simp_all


text \<open>
  With a runtime that reserves more than one element at the first append, the two slices share their
  array and the webhook server would present the certificate of the metrics server.
\<close>

lemma tlsServers_alias:
  assumes "1 < rt_grow R 0 1" and "tlsServers R f = Inr sv" and "\<not> fl_enableHTTP2 f"
    and "fl_webhookCertPath f \<noteq> []" and "fl_metricsCertPath f \<noteq> []"
  shows "tc_certificate (applyOptions (sv_arrays sv) (sv_webhookTLS sv) c) = Some MetricsCertWatcher"
  using assms
  by (auto simp: tlsServers_def withCertificate_def append_slice_def nilSlice_def elements_def applyOptions_def Let_def
      nth_append max_def take_reserved split: sum.splits option.splits prod.splits if_splits)

subsection \<open>The command line\<close>

text \<open>The arguments that state every flag.\<close>

definition argFor :: "string \<Rightarrow> string \<Rightarrow> string" where
  "argFor name v = ''--'' @ name @ CHR ''='' # v"

definition showBool :: "bool \<Rightarrow> string" where
  "showBool b = (if b then ''true'' else ''false'')"

definition printFlags :: "flags \<Rightarrow> string list" where
  "printFlags f =
     [argFor ''metrics-bind-address'' (fl_metricsAddr f), argFor ''health-probe-bind-address'' (fl_probeAddr f),
      argFor ''leader-elect'' (showBool (fl_enableLeaderElection f)), argFor ''metrics-secure'' (showBool (fl_secureMetrics f)),
      argFor ''webhook-cert-path'' (fl_webhookCertPath f), argFor ''webhook-cert-name'' (fl_webhookCertName f),
      argFor ''webhook-cert-key'' (fl_webhookCertKey f), argFor ''metrics-cert-path'' (fl_metricsCertPath f),
      argFor ''metrics-cert-name'' (fl_metricsCertName f), argFor ''metrics-cert-key'' (fl_metricsCertKey f),
      argFor ''enable-http2'' (showBool (fl_enableHTTP2 f))]"

lemma ParseBool_showBool [simp]: "ParseBool (showBool b) = Some b"
  by (simp add: ParseBool_def showBool_def)

lemma splitFlag_argFor:
  assumes "name \<noteq> []" and "CHR ''='' \<notin> set name"
  shows "splitFlag (name @ CHR ''='' # v) = (name, Some v)"
proof -
  obtain c cs where name: "name = c # cs" using assms(1) by (cases name) auto
  then show ?thesis using assms(2) by (simp add: splitFlag_def Index_append)
qed

lemma parseFlags_argFor:
  assumes "name \<noteq> []" and "CHR ''='' \<notin> set name" and "hd name \<noteq> CHR ''-''"
  shows "parseFlags R (argFor name v # args) f =
    (case setFlag R name (Some v) args f of Inl code \<Rightarrow> Inl code | Inr (args', f') \<Rightarrow> parseFlags R args' f')"
proof -
  have "hd name \<noteq> CHR ''=''" using assms(1,2) by (cases name) auto
  then show ?thesis
    using assms splitFlag_argFor [OF assms(1,2), of v] by (simp add: argFor_def Let_def)
qed

lemma flags_complete:
  "g\<lparr>fl_metricsAddr := fl_metricsAddr f, fl_probeAddr := fl_probeAddr f,
     fl_enableLeaderElection := fl_enableLeaderElection f, fl_secureMetrics := fl_secureMetrics f,
     fl_webhookCertPath := fl_webhookCertPath f, fl_webhookCertName := fl_webhookCertName f,
     fl_webhookCertKey := fl_webhookCertKey f, fl_metricsCertPath := fl_metricsCertPath f,
     fl_metricsCertName := fl_metricsCertName f, fl_metricsCertKey := fl_metricsCertKey f,
     fl_enableHTTP2 := fl_enableHTTP2 f\<rparr> = (f :: flags)"
  by (cases f, cases g) simp

text \<open>
  C39: The command line reaches every setting and nothing else: the arguments that state all eleven
  flags, with any strings as values, are read back as exactly these settings, whatever the settings
  were before, and what follows them is read as usual.
\<close>

theorem parseFlags_roundtrip:
  "parseFlags R (printFlags f @ args) g = parseFlags R args f"
  by (simp add: printFlags_def parseFlags_argFor setFlag_def formal_def flags_complete del: parseFlags.simps(2))

subsection \<open>The ConfigMap cache\<close>

lemma labelled_held: "om_labels (cm_meta cm) = [(BfcfgTemplateLabel, ''true'')] \<Longrightarrow> cacheHolds configMapCache cm"
  by (simp add: cacheHolds_def configMapCache_def)

lemma footprint_writes_held:
  "footprint M S UNIV (\<lambda>c. \<forall>cm. writtenCM c = Some cm \<longrightarrow> cacheHolds configMapCache cm) (GenerateIgnition E)"
  unfolding GenerateIgnition_def runGenerator_def publishIgnition_def createOrUpdateConfigMap_def writeConfigMap_def
  by (intro footprint_intros) (auto simp: ignitionConfigMap_labels intro!: labelled_held)


text \<open>
  A ConfigMap that lost its label (or was made by someone else under that name) is not in the cache.
  The server holds it, the client does not see it: the generator tries to create it, is told that it
  exists, and never reaches the update that would put the label back.
\<close>

definition cachedGet :: "(NamespacedName \<Rightarrow> ConfigMap option) \<Rightarrow> NamespacedName \<Rightarrow> goerror + ConfigMap" where
  "cachedGet cms k = (case cms k of
     None \<Rightarrow> Inl notFoundErr | Some cm \<Rightarrow> if cacheHolds configMapCache cm then Inr cm else Inl notFoundErr)"

lemma hidden_configMap_blocks:
  assumes "\<And>h k. a_getCM (mgmt E) h k = cachedGet cms k"
    and "\<And>h cm. cms (meta_key (cm_meta cm)) \<noteq> None \<Longrightarrow> \<exists>e. a_write (mgmt E) h (CreateCM cm) = Some e"
    and "cms (ignitionCMKey (st_cr s)) = Some old" and "\<not> cacheHolds configMapCache old"
    and "meta_key (cm_meta new) = ignitionCMKey (st_cr s)"
    and "run_state (writeConfigMap E new) s = (r, s')"
  shows "(\<exists>e. r = Inl e) \<and> (\<forall>cm. UpdateCM cm \<in> set (st_history s') \<longrightarrow> UpdateCM cm \<in> set (st_history s))"
proof -
  obtain e where e: "a_write (mgmt E) (GetCM (ignitionCMKey (st_cr s)) # st_history s) (CreateCM new) = Some e"
    using assms(2) [of new "GetCM (ignitionCMKey (st_cr s)) # st_history s"] assms(3,5) by auto
  have "wp (writeConfigMap E new) (\<lambda>r t. (\<exists>e. r = Inl e) \<and> (\<forall>cm. UpdateCM cm \<in> set (st_history t) \<longrightarrow> UpdateCM cm \<in> set (st_history s))) s"
    using assms(1,3,4) e by (simp add: writeConfigMap_def wp_simps cachedGet_def IsNotFound_notFoundErr)
  then show ?thesis using assms(6) by (rule wp_run)
qed

subsection \<open>Instances\<close>

definition plainRuntime :: runtime where
  "plainRuntime = \<lparr>rt_zapFlag = \<lambda>_. None, rt_zapSet = \<lambda>_ _. False, rt_certwatcher = \<lambda>_ _. None, rt_restConfig = None,
     rt_newManager = \<lambda>_. None, rt_setup = \<lambda>_. None, rt_addWatcher = \<lambda>_. None, rt_addHealthzCheck = None,
     rt_addReadyzCheck = None, rt_start = Some (Errorf ''leader election lost''), rt_grow = \<lambda>cap n. max n (2 * cap)\<rparr>"




end
