(* ===== verification/Heap_Copy.thy ===== *)
theory Heap_Copy
  imports Prelude "HOL-Library.Word"
begin

section \<open>Structures in a heap and their copies\<close>

text \<open>
  The custom resources as the program has them: structures with pointers, maps and slices in a heap, and
  what it means to copy them deeply. An allocation is an array of structures of one Go type, or a map;
  \<^verbatim>\<open>new(T)\<close> allocates an array of one element. A pointer names an array and a position in it, a slice an
  array, an offset and a length. \<open>cp_copy\<close> of a \<open>copier\<close> is the code, \<open>cp_view\<close> what a reader sees
  (\<open>None\<close>: a dangling reference, which Go excludes) and \<open>cp_reach\<close> the allocations it can get to. The
  locale \<open>deep_copier\<close> relates the three; pointers, slices, maps and structures are copied in ways that
  keep it.
\<close>

subsection \<open>Structures\<close>

type_synonym pointer = "(nat \<times> nat) option"
type_synonym goslice = "(nat \<times> nat \<times> nat) option"
type_synonym mapref = "nat option"

text \<open>From the vendored libraries; a time is a number, since \<^verbatim>\<open>Time.DeepCopyInto\<close> is an assignment.\<close>

record TypeMetaStruct =
  tms_kind :: string
  tms_apiVersion :: string

record OwnerReferenceStruct =
  ors_apiVersion :: string
  ors_kind :: string
  ors_name :: string
  ors_uid :: string
  ors_controller :: pointer
  ors_blockOwnerDeletion :: pointer

record FieldsV1Struct =
  fvs_raw :: goslice

record ManagedFieldsEntryStruct =
  mfs_manager :: string
  mfs_operation :: string
  mfs_apiVersion :: string
  mfs_time :: pointer
  mfs_fieldsType :: string
  mfs_fieldsV1 :: pointer
  mfs_subresource :: string

record ObjectMetaStruct =
  oms_name :: string
  oms_generateName :: string
  oms_namespace :: string
  oms_selfLink :: string
  oms_uid :: string
  oms_resourceVersion :: string
  oms_generation :: int
  oms_creationTimestamp :: nat
  oms_deletionTimestamp :: pointer
  oms_deletionGracePeriodSeconds :: pointer
  oms_labels :: mapref
  oms_annotations :: mapref
  oms_ownerReferences :: goslice
  oms_finalizers :: goslice
  oms_managedFields :: goslice

record ListMetaStruct =
  lms_selfLink :: string
  lms_resourceVersion :: string
  lms_continue :: string
  lms_remainingItemCount :: pointer

record ConditionStruct =
  cos_type :: string
  cos_status :: string
  cos_observedGeneration :: int
  cos_lastTransitionTime :: nat
  cos_reason :: string
  cos_message :: string

record IPNetStruct =
  ips_IP :: goslice
  ips_Mask :: goslice

record NetworkEntryStruct =
  nes_CIDR :: IPNetStruct

record ClusterNetworkEntryStruct =
  cnes_CIDR :: IPNetStruct
  cnes_hostPrefix :: "32 word"

record ObjectReferenceStruct =
  obs_kind :: string
  obs_namespace :: string
  obs_name :: string
  obs_uid :: string
  obs_apiVersion :: string
  obs_resourceVersion :: string
  obs_fieldPath :: string

text \<open>From \<^verbatim>\<open>api/v1alpha1\<close>. Both references of the package have a name and a namespace.\<close>

record ReferenceStruct =
  rfs_name :: string
  rfs_namespace :: string

record ClusterNetworkConfigStruct =
  cncs_serviceNetwork :: goslice
  cncs_clusterNetwork :: goslice
  cncs_machineNetwork :: goslice

record SpecStruct =
  sps_dpuClusterRef :: ReferenceStruct
  sps_baseDomain :: string
  sps_ocpReleaseImage :: string
  sps_sshKeySecretRef :: string
  sps_pullSecretRef :: string
  sps_etcdStorageClass :: string
  sps_controlPlaneAvailabilityPolicy :: string
  sps_virtualIP :: string
  sps_nodeSelector :: mapref
  sps_flannelEnabled :: pointer
  sps_dpuDeploymentRef :: pointer
  sps_machineOSURL :: string
  sps_networking :: pointer

record StatusStruct =
  sts_phase :: string
  sts_conditions :: goslice
  sts_hostedClusterRef :: pointer
  sts_kubeConfigSecretRef :: pointer
  sts_blueFieldOCPLayerImage :: string

record ProvisionerStruct =
  prs_typeMeta :: TypeMetaStruct
  prs_objectMeta :: ObjectMetaStruct
  prs_spec :: SpecStruct
  prs_status :: StatusStruct

record ListStruct =
  lis_typeMeta :: TypeMetaStruct
  lis_listMeta :: ListMetaStruct
  lis_items :: goslice

record ConfigSpecStruct =
  css_blueFieldOCPLayerRepo :: string
  css_disableMetalLB :: bool
  css_manageDPUServiceTemplates :: bool
  css_dpuServicesImagePullSecret :: string
  css_ovsHugepagesSize :: string
  css_ovsHugepagesAmount :: "32 word"

record ConfigStruct =
  cfs_typeMeta :: TypeMetaStruct
  cfs_objectMeta :: ObjectMetaStruct
  cfs_spec :: ConfigSpecStruct

subsection \<open>The heap\<close>

datatype cell =
    Entries "string gomap"
  | Bools "bool list" | Int64s "64 word list" | Times "nat list" | Bytes "8 word list" | Strings "string list"
  | OwnerReferences "OwnerReferenceStruct list" | FieldsV1s "FieldsV1Struct list"
  | ManagedFieldsEntries "ManagedFieldsEntryStruct list" | Conditions "ConditionStruct list"
  | ServiceNetworkEntries "NetworkEntryStruct list" | MachineNetworkEntries "NetworkEntryStruct list"
  | ClusterNetworkEntries "ClusterNetworkEntryStruct list" | ClusterNetworkConfigs "ClusterNetworkConfigStruct list"
  | ObjectReferences "ObjectReferenceStruct list" | LocalObjectReferences "string list"
  | DPUClusterReferences "ReferenceStruct list" | DPUDeploymentReferences "ReferenceStruct list"
  | Specs "SpecStruct list" | Statuses "StatusStruct list" | Provisioners "ProvisionerStruct list"
  | ProvisionerLists "ListStruct list" | ConfigSpecs "ConfigSpecStruct list" | Configs "ConfigStruct list"
  | ConfigLists "ListStruct list"

type_synonym heap = "cell list"

text \<open>
  \<open>grows A h h'\<close>: from \<open>h\<close> to \<open>h'\<close> allocations were made and existing ones written only inside \<open>A\<close>.
\<close>

definition grows :: "nat set \<Rightarrow> heap \<Rightarrow> heap \<Rightarrow> bool" where
  "grows A h h' \<longleftrightarrow> length h \<le> length h' \<and> (\<forall>i < length h. i \<notin> A \<longrightarrow> h' ! i = h ! i)"

lemma grows_refl [simp]: "grows A h h"
  by (simp add: grows_def)

lemma grows_trans: "grows A h h1 \<Longrightarrow> grows A h1 h2 \<Longrightarrow> grows A h h2"
  by (simp add: grows_def)

lemma grows_mono: "grows A h h' \<Longrightarrow> A \<subseteq> B \<Longrightarrow> grows B h h'"
  by (auto simp: grows_def)

lemma grows_alloc [simp]: "grows A h (h @ [c])"
  by (simp add: grows_def nth_append)

lemma grows_update [simp]: "grows {b} h (h[b := c])"
  by (simp add: grows_def)

lemma grows_length: "grows A h h' \<Longrightarrow> length h \<le> length h'"
  by (simp add: grows_def)

text \<open>Writes to an allocation younger than \<open>h\<close> do not count.\<close>

lemma grows_younger: "grows A h h1 \<Longrightarrow> grows {b} h1 h2 \<Longrightarrow> length h \<le> b \<Longrightarrow> grows A h h2"
  by (auto simp: grows_def)

subsection \<open>Copiers\<close>

record ('v, 'a) copier =
  cp_copy :: "'v \<Rightarrow> (heap, 'v) state"
  cp_view :: "heap \<Rightarrow> 'v \<Rightarrow> 'a option"
  cp_reach :: "heap \<Rightarrow> 'v \<Rightarrow> nat set"

locale deep_copier =
  fixes C :: "('v, 'a) copier"
  assumes copy_law: "cp_view C h v = Some a \<Longrightarrow> run_state (cp_copy C v) h = (v', h') \<Longrightarrow>
      grows {} h h' \<and> cp_view C h' v' = Some a \<and> cp_reach C h' v' \<subseteq> {length h ..< length h'}"
    and frame_law: "cp_view C h v = Some a \<Longrightarrow> grows A h h' \<Longrightarrow> cp_reach C h v \<inter> A = {} \<Longrightarrow>
      cp_view C h' v = Some a \<and> cp_reach C h' v = cp_reach C h v"
    and bounded_law: "cp_view C h v = Some a \<Longrightarrow> cp_reach C h v \<subseteq> {..< length h}"
begin

lemma original_kept:
  assumes "cp_view C h v = Some a" and "run_state (cp_copy C v) h = (v', h')"
  shows "cp_view C h' v = Some a \<and> cp_reach C h' v = cp_reach C h v"
  using frame_law [OF assms(1) conjunct1 [OF copy_law [OF assms]]] by simp

lemma copy_disjoint:
  assumes "cp_view C h v = Some a" and "run_state (cp_copy C v) h = (v', h')"
  shows "cp_reach C h' v' \<inter> cp_reach C h' v = {}"
  using copy_law [OF assms] bounded_law [OF assms(1)] original_kept [OF assms] by fastforce

text \<open>Whatever is written through the one does not show in the other.\<close>

lemma copy_independent:
  assumes "cp_view C h v = Some a" and "run_state (cp_copy C v) h = (v', h')"
  shows "grows (cp_reach C h' v') h' h'' \<Longrightarrow> cp_view C h'' v = Some a"
    and "grows (cp_reach C h' v) h' h'' \<Longrightarrow> cp_view C h'' v' = Some a"
  using frame_law [of h' v a "cp_reach C h' v'"] frame_law [of h' v' a "cp_reach C h' v"]
    original_kept [OF assms] copy_law [OF assms] copy_disjoint [OF assms] by blast+

end

subsection \<open>Plain data\<close>

definition plain :: "('v, 'v) copier" where
  "plain = \<lparr>cp_copy = State_Monad.return, cp_view = \<lambda>h v. Some v, cp_reach = \<lambda>h v. {}\<rparr>"

interpretation plain: deep_copier plain
  by unfold_locales (auto simp: plain_def State_Monad.return_def)

lemma state_simps [simp]:
  "run_state (State_Monad.return x) h = (x, h)"
  "run_state (State_Monad.bind m f) h = (case run_state m h of (x, h') \<Rightarrow> run_state (f x) h')"
  "run_state State_Monad.get h = (h, h)" "run_state (State_Monad.set h') h = ((), h')"
  by (simp_all add: State_Monad.return_def State_Monad.bind_def State_Monad.get_def State_Monad.set_def)

subsection \<open>Pairs, and structures through pairs\<close>

definition both :: "('v, 'a) copier \<Rightarrow> ('w, 'b) copier \<Rightarrow> ('v \<times> 'w, 'a \<times> 'b) copier" where
  "both C D =
     \<lparr>cp_copy = \<lambda>(x, y). do { x' \<leftarrow> cp_copy C x; y' \<leftarrow> cp_copy D y; State_Monad.return (x', y') },
      cp_view = \<lambda>h (x, y). (case (cp_view C h x, cp_view D h y) of (Some a, Some b) \<Rightarrow> Some (a, b) | _ \<Rightarrow> None),
      cp_reach = \<lambda>h (x, y). cp_reach C h x \<union> cp_reach D h y\<rparr>"

lemma both_deep [intro]:
  assumes "deep_copier C" and "deep_copier D"
  shows "deep_copier (both C D)"
proof
  fix h :: heap and v a v' h'
  assume view: "cp_view (both C D) h v = Some a" and run: "run_state (cp_copy (both C D) v) h = (v', h')"
  obtain x y a1 a2 where v: "v = (x, y)" "a = (a1, a2)" "cp_view C h x = Some a1" "cp_view D h y = Some a2"
    using view by (cases v) (auto simp: both_def split: option.splits)
  obtain x' h1 y' where runs: "run_state (cp_copy C x) h = (x', h1)" "run_state (cp_copy D y) h1 = (y', h')" "v' = (x', y')"
    using run by (auto simp: both_def v split: prod.splits)
  note C = deep_copier.copy_law [OF assms(1) v(3) runs(1)]
  then have y: "cp_view D h1 y = Some a2" using deep_copier.frame_law [OF assms(2) v(4)] by blast
  note D = deep_copier.copy_law [OF assms(2) y runs(2)]
  have x': "cp_view C h' x' = Some a1 \<and> cp_reach C h' x' = cp_reach C h1 x'"
    using deep_copier.frame_law [OF assms(1), of h1 x' a1 "{}" h'] C D by blast
  have "length h \<le> length h1" "length h1 \<le> length h'" using C D grows_length by blast+
  then have "cp_reach C h1 x' \<union> cp_reach D h' y' \<subseteq> {length h ..< length h'}" using C D by fastforce
  then show "grows {} h h' \<and> cp_view (both C D) h' v' = Some a \<and> cp_reach (both C D) h' v' \<subseteq> {length h ..< length h'}"
    using C D x' grows_trans [of "{}" h h1 h'] by (simp add: both_def v runs)
next
  fix h :: heap and v a A h'
  assume "cp_view (both C D) h v = Some a" "grows A h h'" "cp_reach (both C D) h v \<inter> A = {}"
  then show "cp_view (both C D) h' v = Some a \<and> cp_reach (both C D) h' v = cp_reach (both C D) h v"
    by (cases v)
      (auto simp: both_def Int_Un_distrib2 split: option.splits
        dest: deep_copier.frame_law [OF assms(1)] deep_copier.frame_law [OF assms(2)])
next
  fix h :: heap and v a
  assume "cp_view (both C D) h v = Some a"
  then show "cp_reach (both C D) h v \<subseteq> {..< length h}"
    by (cases v)
      (auto simp: both_def split: option.splits
        dest: deep_copier.bounded_law [OF assms(1)] deep_copier.bounded_law [OF assms(2)])
qed

text \<open>
  A structure that is copied part by part: \<open>parts\<close> takes it apart, \<open>whole\<close> puts the copied parts together,
  \<open>f\<close> reads the value of the structure off the values of its parts.
\<close>

definition through :: "('s \<Rightarrow> 'v) \<Rightarrow> ('v \<Rightarrow> 's) \<Rightarrow> ('a \<Rightarrow> 'b) \<Rightarrow> ('v, 'a) copier \<Rightarrow> ('s, 'b) copier" where
  "through parts whole f C =
     \<lparr>cp_copy = \<lambda>s. do { t \<leftarrow> cp_copy C (parts s); State_Monad.return (whole t) },
      cp_view = \<lambda>h s. map_option f (cp_view C h (parts s)),
      cp_reach = \<lambda>h s. cp_reach C h (parts s)\<rparr>"

lemma through_deep:
  assumes "deep_copier C"
    and rejoin: "\<And>s h t h'. run_state (cp_copy C (parts s)) h = (t, h') \<Longrightarrow> parts (whole t) = t"
  shows "deep_copier (through parts whole f C)"
proof
  fix h :: heap and s a s' h'
  assume "cp_view (through parts whole f C) h s = Some a" and run: "run_state (cp_copy (through parts whole f C) s) h = (s', h')"
  then obtain a0 where a: "cp_view C h (parts s) = Some a0" "a = f a0" by (auto simp: through_def)
  obtain t where t: "run_state (cp_copy C (parts s)) h = (t, h')" "s' = whole t"
    using run by (auto simp: through_def split: prod.splits)
  show "grows {} h h' \<and> cp_view (through parts whole f C) h' s' = Some a
      \<and> cp_reach (through parts whole f C) h' s' \<subseteq> {length h ..< length h'}"
    using deep_copier.copy_law [OF assms(1) a(1) t(1)] rejoin [OF t(1)] by (simp add: through_def a t)
next
  fix h :: heap and s a A h'
  assume "cp_view (through parts whole f C) h s = Some a" "grows A h h'" "cp_reach (through parts whole f C) h s \<inter> A = {}"
  then show "cp_view (through parts whole f C) h' s = Some a
      \<and> cp_reach (through parts whole f C) h' s = cp_reach (through parts whole f C) h s"
    by (auto simp: through_def dest: deep_copier.frame_law [OF assms(1)])
next
  fix h :: heap and s a
  assume "cp_view (through parts whole f C) h s = Some a"
  then show "cp_reach (through parts whole f C) h s \<subseteq> {..< length h}"
    by (auto simp: through_def dest: deep_copier.bounded_law [OF assms(1)])
qed

subsection \<open>Arrays, slices and pointers\<close>

text \<open>How arrays of one type stand in the heap.\<close>

record 'v kind =
  array_of :: "'v list \<Rightarrow> cell"
  elems_of :: "cell \<Rightarrow> 'v list option"
  zero_of :: 'v

definition lawful :: "'v kind \<Rightarrow> bool" where
  "lawful k \<longleftrightarrow> (\<forall>xs. elems_of k (array_of k xs) = Some xs)"

definition load :: "'v kind \<Rightarrow> heap \<Rightarrow> nat \<Rightarrow> 'v list option" where
  "load k h a = (if a < length h then elems_of k (h ! a) else None)"

definition make_array :: "'v kind \<Rightarrow> nat \<Rightarrow> (heap, nat) state" where
  "make_array k n = do {
     h \<leftarrow> State_Monad.get;
     State_Monad.set (h @ [array_of k (replicate n (zero_of k))]);
     State_Monad.return (length h)
   }"

definition store :: "'v kind \<Rightarrow> nat \<Rightarrow> nat \<Rightarrow> 'v \<Rightarrow> (heap, unit) state" where
  "store k b i x = do {
     h \<leftarrow> State_Monad.get;
     (case load k h b of
        None \<Rightarrow> State_Monad.return ()
      | Some ys \<Rightarrow> State_Monad.set (h[b := array_of k (ys[i := x])]))
   }"

text \<open>The loop of the generated code: \<^verbatim>\<open>for i := range *in { (*in)[i].DeepCopyInto(&(*out)[i]) }\<close>.\<close>

fun copyElems :: "'v kind \<Rightarrow> ('v, 'a) copier \<Rightarrow> nat \<Rightarrow> nat \<Rightarrow> 'v list \<Rightarrow> (heap, unit) state" where
  "copyElems k C b i [] = State_Monad.return ()"
| "copyElems k C b i (x # xs) = do {
     x' \<leftarrow> cp_copy C x;
     store k b i x';
     copyElems k C b (Suc i) xs
   }"

definition sliceElems :: "'v kind \<Rightarrow> heap \<Rightarrow> nat \<times> nat \<times> nat \<Rightarrow> 'v list" where
  "sliceElems k h = (\<lambda>(a, off, n). case load k h a of None \<Rightarrow> [] | Some xs \<Rightarrow> take n (drop off xs))"

definition copySlice :: "'v kind \<Rightarrow> ('v, 'a) copier \<Rightarrow> goslice \<Rightarrow> (heap, goslice) state" where
  "copySlice k C s =
     (case s of
        None \<Rightarrow> State_Monad.return None
      | Some (a, off, n) \<Rightarrow> do {
          h \<leftarrow> State_Monad.get;
          b \<leftarrow> make_array k n;
          copyElems k C b 0 (sliceElems k h (a, off, n));
          State_Monad.return (Some (b, 0, n))
        })"

definition slice :: "'v kind \<Rightarrow> ('v, 'a) copier \<Rightarrow> (goslice, 'a list option) copier" where
  "slice k C =
     \<lparr>cp_copy = copySlice k C,
      cp_view = \<lambda>h s. (case s of
         None \<Rightarrow> Some None
       | Some (a, off, n) \<Rightarrow>
           if length (sliceElems k h (a, off, n)) = n \<and> a < length h
           then map_option Some (those (map (cp_view C h) (sliceElems k h (a, off, n)))) else None),
      cp_reach = \<lambda>h s. (case s of
         None \<Rightarrow> {}
       | Some (a, off, n) \<Rightarrow> insert a (\<Union>x \<in> set (sliceElems k h (a, off, n)). cp_reach C h x))\<rparr>"


lemma load_alloc:
  "load k h a = Some xs \<Longrightarrow> load k (h @ [c]) a = Some xs"
  "lawful k \<Longrightarrow> load k (h @ [array_of k xs]) (length h) = Some xs"
  by (auto simp: load_def nth_append lawful_def split: if_splits)

lemma load_update: "lawful k \<Longrightarrow> b < length h \<Longrightarrow> load k (h[b := array_of k xs]) b = Some xs"
  by (simp add: load_def lawful_def)

lemma load_grows: "load k h a = Some xs \<Longrightarrow> grows A h h' \<Longrightarrow> a \<notin> A \<Longrightarrow> load k h' a = Some xs"
  by (auto simp: load_def grows_def split: if_splits)

lemma load_bounded: "load k h a = Some xs \<Longrightarrow> a < length h"
  by (auto simp: load_def split: if_splits)

lemma those_Some_iff: "those xs = Some ys \<longleftrightarrow> xs = map Some ys"
  by (induction xs arbitrary: ys) (auto split: option.splits)

lemma views_member: "map f xs = map Some as \<Longrightarrow> x \<in> set xs \<Longrightarrow> \<exists>a. f x = Some a"
  by (induction xs arbitrary: as) auto

lemma views_frame:
  assumes "deep_copier C" and "map (cp_view C h) xs = map Some as" and "grows A h h'"
    and "\<And>x. x \<in> set xs \<Longrightarrow> cp_reach C h x \<inter> A = {}"
  shows "map (cp_view C h') xs = map Some as \<and> (\<forall>x \<in> set xs. cp_reach C h' x = cp_reach C h x)"
  using assms(2,4)
proof (induction xs arbitrary: as)
  case (Cons x xs)
  then obtain a as' where as: "as = a # as'" "cp_view C h x = Some a" by auto
  then show ?case
    using Cons deep_copier.frame_law [OF assms(1) as(2) assms(3)] by simp
qed simp

lemma copyElems_spec:
  assumes "deep_copier C" and "lawful k" and "load k h b = Some ys" and "i + length xs \<le> length ys"
    and "map (cp_view C h) xs = map Some as" and "\<And>x. x \<in> set xs \<Longrightarrow> b \<notin> cp_reach C h x"
    and "run_state (copyElems k C b i xs) h = (u, h')"
  shows "grows {b} h h' \<and> (\<exists>zs. load k h' b = Some (take i ys @ zs @ drop (i + length xs) ys)
    \<and> length zs = length xs \<and> map (cp_view C h') zs = map Some as
    \<and> (\<forall>z \<in> set zs. cp_reach C h' z \<subseteq> {length h ..< length h'}))"
  using assms(3-7)
proof (induction xs arbitrary: i h ys as)
  case (Cons x xs)
  note C = assms(1)
  from Cons.prems(3) obtain a as' where as: "as = a # as'" "cp_view C h x = Some a" "map (cp_view C h) xs = map Some as'"
    by auto
  obtain x' h1 where x': "run_state (cp_copy C x) h = (x', h1)" by (rule prod.exhaust)
  note copied = deep_copier.copy_law [OF C as(2) x']
  let ?ys = "ys[i := x']" and ?h2 = "h1[b := array_of k (ys[i := x'])]"
  have b: "b < length h" "b < length h1"
    using load_bounded [OF Cons.prems(1)] grows_length [of "{}" h h1] copied by auto
  have h2: "grows {b} h1 ?h2" "grows {b} h ?h2"
    using grows_trans [OF grows_mono [of "{}" h h1 "{b}"]] copied by auto
  have ys: "load k h1 b = Some ys" using load_grows [OF Cons.prems(1), of "{}"] copied by auto
  then have rest: "run_state (copyElems k C b (Suc i) xs) ?h2 = (u, h')"
    using Cons.prems(5) by (simp add: x' store_def)
  have xs: "map (cp_view C ?h2) xs = map Some as' \<and> (\<forall>x \<in> set xs. cp_reach C ?h2 x = cp_reach C h x)"
    using views_frame [OF C as(3) h2(2)] Cons.prems(4) by simp
  have "grows {b} ?h2 h' \<and> (\<exists>zs. load k h' b = Some (take (Suc i) ?ys @ zs @ drop (Suc i + length xs) ?ys)
      \<and> length zs = length xs \<and> map (cp_view C h') zs = map Some as'
      \<and> (\<forall>z \<in> set zs. cp_reach C h' z \<subseteq> {length ?h2 ..< length h'}))"
    using Cons.IH [OF load_update [OF assms(2) b(2)] _ conjunct1 [OF xs] _ rest] Cons.prems(2,4) xs by simp
  then obtain zs where zs: "grows {b} ?h2 h'" "load k h' b = Some (take (Suc i) ?ys @ zs @ drop (Suc i + length xs) ?ys)"
    "length zs = length xs" "map (cp_view C h') zs = map Some as'"
    "\<forall>z \<in> set zs. cp_reach C h' z \<subseteq> {length h1 ..< length h'}" by auto
  have "cp_reach C h1 x' \<inter> {b} = {}" using copied b(1) by auto
  then have new: "cp_view C h' x' = Some a \<and> cp_reach C h' x' = cp_reach C h1 x'"
    using deep_copier.frame_law [OF C _ grows_trans [OF h2(1) zs(1)]] copied by blast
  have len: "length h \<le> length h1" "length h1 \<le> length h'"
    using copied grows_length [of "{}" h h1] grows_length [OF zs(1)] by auto
  have "take (Suc i) ?ys = take i ys @ [x']" "drop (Suc i + length xs) ?ys = drop (i + length (x # xs)) ys"
    using Cons.prems(2) by (simp_all add: take_Suc_conv_app_nth)
  then have "load k h' b = Some (take i ys @ (x' # zs) @ drop (i + length (x # xs)) ys)"
    using zs(2) by simp
  moreover have "\<forall>z \<in> set (x' # zs). cp_reach C h' z \<subseteq> {length h ..< length h'}"
    using zs(5) new copied len by fastforce
  moreover have "grows {b} h h'" using grows_trans [OF h2(2) zs(1)] .
  ultimately show ?case
    using zs(3,4) new as(1) by (metis length_Cons list.simps(9))
qed auto

lemma slice_copy:
  assumes C: "deep_copier C" and k: "lawful k"
    and view: "cp_view (slice k C) h s = Some a" and run: "run_state (cp_copy (slice k C) s) h = (s', h')"
  shows "grows {} h h' \<and> cp_view (slice k C) h' s' = Some a \<and> cp_reach (slice k C) h' s' \<subseteq> {length h ..< length h'}"
proof (cases s)
  case None
  then show ?thesis using view run by (simp add: slice_def copySlice_def)
next
  case (Some t)
  obtain arr off n where s: "s = Some (arr, off, n)" using Some by (cases t) auto
  let ?xs = "sliceElems k h (arr, off, n)" and ?h1 = "h @ [array_of k (replicate n (zero_of k))]"
  obtain as where as: "length ?xs = n" "map (cp_view C h) ?xs = map Some as" "a = Some as"
    using view by (auto simp: slice_def s those_Some_iff split: if_splits)
  obtain u where loop: "run_state (copyElems k C (length h) 0 ?xs) ?h1 = (u, h')" and s': "s' = Some (length h, 0, n)"
    using run by (auto simp: slice_def copySlice_def make_array_def s split: prod.splits)
  have below: "\<And>x. x \<in> set ?xs \<Longrightarrow> \<exists>a. cp_view C h x = Some a"
    by (rule views_member [OF as(2)])
  have xs: "map (cp_view C ?h1) ?xs = map Some as \<and> (\<forall>x \<in> set ?xs. cp_reach C ?h1 x = cp_reach C h x)"
    by (rule views_frame [OF C as(2), of "{}"]) simp_all
  have "length h \<notin> cp_reach C ?h1 x" if "x \<in> set ?xs" for x
    using below [OF that] deep_copier.bounded_law [OF C] xs that by fastforce
  from copyElems_spec [OF C k load_alloc(2) [OF k] _ conjunct1 [OF xs] this loop] as(1)
  obtain zs where zs: "grows {length h} ?h1 h'" "load k h' (length h) = Some zs" "length zs = n"
    "map (cp_view C h') zs = map Some as" "\<forall>z \<in> set zs. cp_reach C h' z \<subseteq> {length ?h1 ..< length h'}"
    by auto
  have "grows {} h h'" using grows_younger [OF grows_alloc zs(1)] by simp
  moreover have "sliceElems k h' (length h, 0, n) = zs" using zs(2,3) by (simp add: sliceElems_def)
  moreover have "length h < length h'" using load_bounded [OF zs(2)] .
  moreover have "insert (length h) (\<Union>z \<in> set zs. cp_reach C h' z) \<subseteq> {length h ..< length h'}"
    using zs(5) calculation(3) by (auto dest!: bspec)
  ultimately show ?thesis using zs as by (simp add: slice_def s' those_Some_iff)
qed

lemma slice_frame:
  assumes C: "deep_copier C"
    and view: "cp_view (slice k C) h s = Some a" and grow: "grows A h h'" and out: "cp_reach (slice k C) h s \<inter> A = {}"
  shows "cp_view (slice k C) h' s = Some a \<and> cp_reach (slice k C) h' s = cp_reach (slice k C) h s"
proof (cases s)
  case None
  then show ?thesis using view by (simp add: slice_def)
next
  case (Some t)
  obtain arr off n where s: "s = Some (arr, off, n)" using Some by (cases t) auto
  let ?xs = "sliceElems k h (arr, off, n)"
  obtain as where as: "length ?xs = n" "arr < length h" "map (cp_view C h) ?xs = map Some as" "a = Some as"
    using view by (auto simp: slice_def s those_Some_iff split: if_splits)
  have "arr \<notin> A" and parts: "\<And>x. x \<in> set ?xs \<Longrightarrow> cp_reach C h x \<inter> A = {}" using out by (auto simp: slice_def s)
  then have "sliceElems k h' (arr, off, n) = ?xs" "arr < length h'"
    using grow as(2) by (auto simp: sliceElems_def load_def grows_def)
  then show ?thesis
    using views_frame [OF C as(3) grow parts] as by (simp add: slice_def s those_Some_iff)
qed

lemma slice_bounded:
  assumes C: "deep_copier C" and view: "cp_view (slice k C) h s = Some a"
  shows "cp_reach (slice k C) h s \<subseteq> {..< length h}"
proof (cases s)
  case (Some t)
  then obtain arr off n where s: "s = Some (arr, off, n)" by (cases t) auto
  then obtain as where "map (cp_view C h) (sliceElems k h (arr, off, n)) = map Some as" and "arr < length h"
    using view by (auto simp: slice_def those_Some_iff split: if_splits)
  then have "\<forall>x \<in> set (sliceElems k h (arr, off, n)). \<exists>a. cp_view C h x = Some a" and "arr < length h"
    by (auto dest: views_member)
  then show ?thesis using deep_copier.bounded_law [OF C] by (fastforce simp: slice_def s)
qed (simp add: slice_def)

lemma slice_deep: "deep_copier C \<Longrightarrow> lawful k \<Longrightarrow> deep_copier (slice k C)"
  by (rule deep_copier.intro; erule slice_copy slice_frame slice_bounded; assumption)

text \<open>\<^verbatim>\<open>*out = new(T)\<close> and a copy into it; the receiver of \<^verbatim>\<open>DeepCopy\<close> is treated the same way.\<close>

definition copyPointer :: "'v kind \<Rightarrow> ('v, 'a) copier \<Rightarrow> pointer \<Rightarrow> (heap, pointer) state" where
  "copyPointer k C p =
     (case p of
        None \<Rightarrow> State_Monad.return None
      | Some (a, i) \<Rightarrow> do {
          h \<leftarrow> State_Monad.get;
          b \<leftarrow> make_array k 1;
          copyElems k C b 0 (sliceElems k h (a, i, 1));
          State_Monad.return (Some (b, 0))
        })"

definition target :: "pointer \<Rightarrow> goslice" where
  "target p = map_option (\<lambda>(a, i). (a, i, 1)) p"

definition points :: "goslice \<Rightarrow> pointer" where
  "points s = map_option (\<lambda>(a, i, n). (a, i)) s"

definition ptr :: "'v kind \<Rightarrow> ('v, 'a) copier \<Rightarrow> (pointer, 'a option) copier" where
  "ptr k C = (through target points (map_option hd) (slice k C))\<lparr>cp_copy := copyPointer k C\<rparr>"

lemma cp_copy_ptr: "cp_copy (through target points f (slice k C)) = copyPointer k C"
  by (rule ext)
    (auto simp: through_def slice_def copySlice_def copyPointer_def target_def points_def intro!: state.expand ext
      split: option.splits prod.splits)

lemma ptr_through: "ptr k C = through target points (map_option hd) (slice k C)"
  unfolding ptr_def cp_copy_ptr [symmetric, where f = "map_option hd"] by simp

lemma ptr_deep:
  assumes "deep_copier C" and "lawful k"
  shows "deep_copier (ptr k C)"
  unfolding ptr_through
proof (rule through_deep [OF slice_deep [OF assms]])
  fix s h t h'
  assume "run_state (cp_copy (slice k C) (target s)) h = (t, h')"
  then show "target (points t) = t"
    by (auto simp: slice_def copySlice_def target_def points_def split: option.splits prod.splits)
qed

subsection \<open>Maps and byte strings\<close>

definition loadMap :: "heap \<Rightarrow> nat \<Rightarrow> string gomap option" where
  "loadMap h a = (if a < length h then (case h ! a of Entries m \<Rightarrow> Some m | _ \<Rightarrow> None) else None)"

text \<open>\<^verbatim>\<open>for key, val := range *in { (*out)[key] = val }\<close>.\<close>

fun assignAll :: "nat \<Rightarrow> string gomap \<Rightarrow> (heap, unit) state" where
  "assignAll b [] = State_Monad.return ()"
| "assignAll b ((key, val) # es) = do {
     h \<leftarrow> State_Monad.get;
     (case loadMap h b of
        None \<Rightarrow> State_Monad.return ()
      | Some m \<Rightarrow> State_Monad.set (h[b := Entries (mset_key m key val)]));
     assignAll b es
   }"

definition copyMap :: "mapref \<Rightarrow> (heap, mapref) state" where
  "copyMap m =
     (case m of
        None \<Rightarrow> State_Monad.return None
      | Some a \<Rightarrow> do {
          h \<leftarrow> State_Monad.get;
          State_Monad.set (h @ [Entries []]);
          assignAll (length h) (case loadMap h a of None \<Rightarrow> [] | Some es \<Rightarrow> es);
          State_Monad.return (Some (length h))
        })"

definition gostringmap :: "(mapref, (string \<Rightarrow> string option) option) copier" where
  "gostringmap =
     \<lparr>cp_copy = copyMap,
      cp_view = \<lambda>h m. (case m of
         None \<Rightarrow> Some None
       | Some a \<Rightarrow> (case loadMap h a of
           None \<Rightarrow> None
         | Some es \<Rightarrow> if distinct (map fst es) then Some (Some (map_of es)) else None)),
      cp_reach = \<lambda>h m. set_option m\<rparr>"

lemma assignAll_spec:
  "run_state (assignAll (length h) es) (h @ [Entries m]) = ((), h @ [Entries (fold (\<lambda>(k, v) m. mset_key m k v) es m)])"
  by (induction es arbitrary: m) (auto simp: loadMap_def)

lemma fold_mset_key:
  "distinct (map fst es) \<Longrightarrow> map_of (fold (\<lambda>(k, v) m. mset_key m k v) es m) = map_of m ++ map_of es"
proof (induction es arbitrary: m)
  case (Cons e es)
  then have "map_of es (fst e) = None" by (simp add: map_of_eq_None_iff)
  with Cons show ?case by (cases e) (auto simp: fun_eq_iff map_add_def split: option.splits)
qed simp

lemma fold_mset_key_distinct:
  "distinct (map fst m) \<Longrightarrow> distinct (map fst (fold (\<lambda>(k, v) m. mset_key m k v) es m))"
  by (induction es arbitrary: m) (auto simp: mset_key_def distinct_update)

interpretation gostringmap: deep_copier gostringmap
proof
  fix h :: heap and v a v' h'
  assume view: "cp_view gostringmap h v = Some a" and run: "run_state (cp_copy gostringmap v) h = (v', h')"
  show "grows {} h h' \<and> cp_view gostringmap h' v' = Some a \<and> cp_reach gostringmap h' v' \<subseteq> {length h ..< length h'}"
  proof (cases v)
    case (Some arr)
    with view obtain es where es: "loadMap h arr = Some es" "distinct (map fst es)" "a = Some (map_of es)"
      by (auto simp: gostringmap_def split: option.splits if_splits)
    let ?m = "fold (\<lambda>(k, v) m. mset_key m k v) es []"
    have "v' = Some (length h)" "h' = h @ [Entries ?m]"
      using run by (auto simp: gostringmap_def copyMap_def Some es assignAll_spec)
    then show ?thesis
      using fold_mset_key [OF es(2), of "[]"] fold_mset_key_distinct [of "[]" es]
      by (simp add: gostringmap_def es loadMap_def)
  qed (use view run in \<open>auto simp: gostringmap_def copyMap_def\<close>)
qed (auto simp: gostringmap_def loadMap_def grows_def split: option.splits if_splits)

text \<open>The kinds of arrays.\<close>

definition boolKind :: "bool kind" where
  "boolKind = \<lparr>array_of = Bools, elems_of = \<lambda>c. case c of Bools xs \<Rightarrow> Some xs | _ \<Rightarrow> None, zero_of = False\<rparr>"

definition int64Kind :: "64 word kind" where
  "int64Kind = \<lparr>array_of = Int64s, elems_of = \<lambda>c. case c of Int64s xs \<Rightarrow> Some xs | _ \<Rightarrow> None, zero_of = 0\<rparr>"

definition timeKind :: "nat kind" where
  "timeKind = \<lparr>array_of = Times, elems_of = \<lambda>c. case c of Times xs \<Rightarrow> Some xs | _ \<Rightarrow> None, zero_of = 0\<rparr>"

definition byteKind :: "8 word kind" where
  "byteKind = \<lparr>array_of = Bytes, elems_of = \<lambda>c. case c of Bytes xs \<Rightarrow> Some xs | _ \<Rightarrow> None, zero_of = 0\<rparr>"

definition stringKind :: "string kind" where
  "stringKind = \<lparr>array_of = Strings, elems_of = \<lambda>c. case c of Strings xs \<Rightarrow> Some xs | _ \<Rightarrow> None, zero_of = []\<rparr>"

lemma lawful_basic [simp]: "lawful boolKind" "lawful int64Kind" "lawful timeKind" "lawful byteKind" "lawful stringKind"
  by (simp_all add: lawful_def boolKind_def int64Kind_def timeKind_def byteKind_def stringKind_def)

text \<open>\<^verbatim>\<open>append([]byte{}, in...)\<close>: never nil, so a nil slice and an empty one read alike.\<close>

definition appendBytes :: "goslice \<Rightarrow> (heap, goslice) state" where
  "appendBytes s = do {
     h \<leftarrow> State_Monad.get;
     (let xs = (case s of None \<Rightarrow> [] | Some t \<Rightarrow> sliceElems byteKind h t) in do {
        State_Monad.set (h @ [Bytes xs]);
        State_Monad.return (Some (length h, 0, length xs))
      })
   }"

definition byteString :: "(goslice, 8 word list) copier" where
  "byteString =
     \<lparr>cp_copy = appendBytes,
      cp_view = \<lambda>h s. map_option (\<lambda>xs. case xs of None \<Rightarrow> [] | Some xs \<Rightarrow> xs) (cp_view (slice byteKind plain) h s),
      cp_reach = cp_reach (slice byteKind plain)\<rparr>"

lemma those_plain [simp]: "those (map (cp_view plain h) xs) = Some xs"
  by (simp add: those_Some_iff plain_def)

lemma view_byteString:
  "cp_view byteString h None = Some []"
  "cp_view byteString h (Some t) = Some a \<Longrightarrow> a = sliceElems byteKind h t"
  by (cases t; simp add: byteString_def slice_def split: if_splits)+

lemmas bytes_deep = slice_deep [OF plain.deep_copier_axioms lawful_basic(4)]

interpretation byteString: deep_copier byteString
proof
  fix h :: heap and v a v' h'
  assume view: "cp_view byteString h v = Some a" and run: "run_state (cp_copy byteString v) h = (v', h')"
  have a: "a = (case v of None \<Rightarrow> [] | Some t \<Rightarrow> sliceElems byteKind h t)"
    using view view_byteString by (cases v) auto
  then have "v' = Some (length h, 0, length a)" "h' = h @ [Bytes a]"
    using run by (auto simp: byteString_def appendBytes_def Let_def)
  then show "grows {} h h' \<and> cp_view byteString h' v' = Some a \<and> cp_reach byteString h' v' \<subseteq> {length h ..< length h'}"
    by (simp add: byteString_def slice_def sliceElems_def load_def byteKind_def) (simp add: plain_def)
next
  fix h :: heap and v a A h'
  assume "cp_view byteString h v = Some a" "grows A h h'" "cp_reach byteString h v \<inter> A = {}"
  then show "cp_view byteString h' v = Some a \<and> cp_reach byteString h' v = cp_reach byteString h v"
    by (auto simp: byteString_def dest: deep_copier.frame_law [OF bytes_deep])
next
  fix h :: heap and v a
  assume "cp_view byteString h v = Some a"
  then show "cp_reach byteString h v \<subseteq> {..< length h}"
    by (auto simp: byteString_def dest: deep_copier.bounded_law [OF bytes_deep])
qed

text \<open>The copying functions of composed copiers.\<close>

lemma cp_copy_plain [simp]: "cp_copy plain = State_Monad.return"
  by (simp add: plain_def)

lemma cp_copy_ptr_def [simp]: "cp_copy (ptr k C) = copyPointer k C"
  by (simp add: ptr_def)

lemma cp_copy_slice_def [simp]: "cp_copy (slice k C) = copySlice k C"
  by (simp add: slice_def)

lemma cp_copy_both: "cp_copy (both C D) (x, y) = do { x' \<leftarrow> cp_copy C x; y' \<leftarrow> cp_copy D y; State_Monad.return (x', y') }"
  by (simp add: both_def)

lemma cp_copy_through: "cp_copy (through parts whole f C) s = do { t \<leftarrow> cp_copy C (parts s); State_Monad.return (whole t) }"
  by (simp add: through_def)

lemmas struct_copy = cp_copy_both cp_copy_through

end
