(* ===== verification/Deep_Copy.thy ===== *)
theory Deep_Copy
  imports Heap_Copy
begin

section \<open>Deep copies\<close>

text \<open>
  The generated \<^verbatim>\<open>DeepCopy\<close> functions of the custom resources (\<^verbatim>\<open>api/v1alpha1/zz_generated.deepcopy.go\<close>) and
  the ones they call in the vendored libraries. Everywhere else in the development a resource is a
  value; in the program it is a structure with references, and the client hands the reconcile a deep
  copy of the object in its cache. The theorem shows that a copy reads as the original, shares nothing
  with it, and that writing to one never shows in the other, which is what lets the rest of the
  development treat resources as values.
\<close>

subsection \<open>Structures of the libraries\<close>

text \<open>
  Every \<^verbatim>\<open>DeepCopyInto\<close> starts with the assignment \<^verbatim>\<open>*out = *in\<close> and then replaces the references: the result is
  the structure with these fields replaced. The copier beside it says which parts are copied how;
  its copying function is the code.
\<close>

named_theorems deep_intros

lemmas [deep_intros] = both_deep ptr_deep slice_deep plain.deep_copier_axioms gostringmap.deep_copier_axioms
  byteString.deep_copier_axioms lawful_basic

lemma copy_gostringmap [simp]: "cp_copy gostringmap = copyMap"
  by (simp add: gostringmap_def)

lemma copy_byteString [simp]: "cp_copy byteString = appendBytes"
  by (simp add: byteString_def)

definition DeepCopyInto_OwnerReference :: "OwnerReferenceStruct \<Rightarrow> (heap,
  OwnerReferenceStruct) state" where
  "DeepCopyInto_OwnerReference src = do {
     controller \<leftarrow> copyPointer boolKind plain (ors_controller src);
     blockOwnerDeletion \<leftarrow> copyPointer boolKind plain (ors_blockOwnerDeletion src);
     State_Monad.return (src\<lparr>ors_controller := controller,
       ors_blockOwnerDeletion := blockOwnerDeletion\<rparr>)
   }"

definition ownerReference where
  "ownerReference = through
     (\<lambda>s. (s\<lparr>ors_controller := None, ors_blockOwnerDeletion := None\<rparr>, ors_controller s,
       ors_blockOwnerDeletion s))
     (\<lambda>(s, controller, blockOwnerDeletion). s\<lparr>ors_controller := controller,
       ors_blockOwnerDeletion := blockOwnerDeletion\<rparr>) (\<lambda>a. a)
     (both plain (both (ptr boolKind plain) (ptr boolKind plain)))"

lemma copy_ownerReference [simp]: "cp_copy ownerReference = DeepCopyInto_OwnerReference"
  by (rule ext) (simp add: ownerReference_def DeepCopyInto_OwnerReference_def struct_copy)

lemma ownerReference_deep [deep_intros]: "deep_copier ownerReference"
  unfolding ownerReference_def
  by (rule through_deep) (auto intro!: deep_intros simp: struct_copy split: prod.splits)

definition DeepCopyInto_FieldsV1 :: "FieldsV1Struct \<Rightarrow> (heap, FieldsV1Struct) state" where
  "DeepCopyInto_FieldsV1 src = do {
     raw \<leftarrow> copySlice byteKind plain (fvs_raw src);
     State_Monad.return (src\<lparr>fvs_raw := raw\<rparr>)
   }"

definition fieldsV1 where
  "fieldsV1 = through
     (\<lambda>s. (s\<lparr>fvs_raw := None\<rparr>, fvs_raw s))
     (\<lambda>(s, raw). s\<lparr>fvs_raw := raw\<rparr>) (\<lambda>a. a)
     (both plain (slice byteKind plain))"

lemma copy_fieldsV1 [simp]: "cp_copy fieldsV1 = DeepCopyInto_FieldsV1"
  by (rule ext) (simp add: fieldsV1_def DeepCopyInto_FieldsV1_def struct_copy)

lemma fieldsV1_deep [deep_intros]: "deep_copier fieldsV1"
  unfolding fieldsV1_def
  by (rule through_deep) (auto intro!: deep_intros simp: struct_copy split: prod.splits)

definition fieldsV1Kind :: "FieldsV1Struct kind" where
  "fieldsV1Kind = \<lparr>array_of = FieldsV1s,
    elems_of = \<lambda>c. case c of FieldsV1s xs \<Rightarrow> Some xs | _ \<Rightarrow> None,
      zero_of = \<lparr>fvs_raw = None\<rparr>\<rparr>"

lemma lawful_fieldsV1Kind [deep_intros]: "lawful fieldsV1Kind"
  by (simp add: lawful_def fieldsV1Kind_def)

definition DeepCopyInto_ManagedFieldsEntry :: "ManagedFieldsEntryStruct \<Rightarrow> (heap,
  ManagedFieldsEntryStruct) state" where
  "DeepCopyInto_ManagedFieldsEntry src = do {
     time \<leftarrow> copyPointer timeKind plain (mfs_time src);
     fields \<leftarrow> copyPointer fieldsV1Kind fieldsV1 (mfs_fieldsV1 src);
     State_Monad.return (src\<lparr>mfs_time := time, mfs_fieldsV1 := fields\<rparr>)
   }"

definition managedFieldsEntry where
  "managedFieldsEntry = through
     (\<lambda>s. (s\<lparr>mfs_time := None, mfs_fieldsV1 := None\<rparr>, mfs_time s, mfs_fieldsV1 s))
     (\<lambda>(s, time, fields). s\<lparr>mfs_time := time, mfs_fieldsV1 := fields\<rparr>) (\<lambda>a. a)
     (both plain (both (ptr timeKind plain) (ptr fieldsV1Kind fieldsV1)))"

lemma copy_managedFieldsEntry [simp]: "cp_copy managedFieldsEntry = DeepCopyInto_ManagedFieldsEntry"
  by (rule ext) (simp add: managedFieldsEntry_def DeepCopyInto_ManagedFieldsEntry_def struct_copy)

lemma managedFieldsEntry_deep [deep_intros]: "deep_copier managedFieldsEntry"
  unfolding managedFieldsEntry_def
  by (rule through_deep) (auto intro!: deep_intros simp: struct_copy split: prod.splits)

definition ownerReferenceKind :: "OwnerReferenceStruct kind" where
  "ownerReferenceKind = \<lparr>array_of = OwnerReferences,
    elems_of = \<lambda>c. case c of OwnerReferences xs \<Rightarrow> Some xs | _ \<Rightarrow> None,
      zero_of = \<lparr>ors_apiVersion = [], ors_kind = [], ors_name = [], ors_uid = [],
     ors_controller = None, ors_blockOwnerDeletion = None\<rparr>\<rparr>"

lemma lawful_ownerReferenceKind [deep_intros]: "lawful ownerReferenceKind"
  by (simp add: lawful_def ownerReferenceKind_def)

definition managedFieldsEntryKind :: "ManagedFieldsEntryStruct kind" where
  "managedFieldsEntryKind = \<lparr>array_of = ManagedFieldsEntries,
    elems_of = \<lambda>c. case c of ManagedFieldsEntries xs \<Rightarrow> Some xs | _ \<Rightarrow> None,
      zero_of = \<lparr>mfs_manager = [], mfs_operation = [], mfs_apiVersion = [],
     mfs_time = None, mfs_fieldsType = [], mfs_fieldsV1 = None, mfs_subresource = []\<rparr>\<rparr>"

lemma lawful_managedFieldsEntryKind [deep_intros]: "lawful managedFieldsEntryKind"
  by (simp add: lawful_def managedFieldsEntryKind_def)

definition DeepCopyInto_ObjectMeta :: "ObjectMetaStruct \<Rightarrow> (heap, ObjectMetaStruct) state" where
  "DeepCopyInto_ObjectMeta src = do {
     deletionTimestamp \<leftarrow> copyPointer timeKind plain (oms_deletionTimestamp src);
     gracePeriod \<leftarrow> copyPointer int64Kind plain (oms_deletionGracePeriodSeconds src);
     labels \<leftarrow> copyMap (oms_labels src);
     annotations \<leftarrow> copyMap (oms_annotations src);
     ownerReferences \<leftarrow> copySlice ownerReferenceKind ownerReference (oms_ownerReferences src);
     finalizers \<leftarrow> copySlice stringKind plain (oms_finalizers src);
     managedFields \<leftarrow> copySlice managedFieldsEntryKind managedFieldsEntry (oms_managedFields src);
     State_Monad.return (src\<lparr>oms_deletionTimestamp := deletionTimestamp,
       oms_deletionGracePeriodSeconds := gracePeriod, oms_labels := labels, oms_annotations := annotations,
       oms_ownerReferences := ownerReferences, oms_finalizers := finalizers,
       oms_managedFields := managedFields\<rparr>)
   }"

definition objectMeta where
  "objectMeta = through
     (\<lambda>s. (s\<lparr>oms_deletionTimestamp := None, oms_deletionGracePeriodSeconds := None,
       oms_labels := None, oms_annotations := None, oms_ownerReferences := None, oms_finalizers := None,
       oms_managedFields := None\<rparr>, oms_deletionTimestamp s, oms_deletionGracePeriodSeconds s, oms_labels s,
       oms_annotations s, oms_ownerReferences s, oms_finalizers s, oms_managedFields s))
     (\<lambda>(s, deletionTimestamp, gracePeriod, labels, annotations, ownerReferences, finalizers,
       managedFields). s\<lparr>oms_deletionTimestamp := deletionTimestamp,
       oms_deletionGracePeriodSeconds := gracePeriod, oms_labels := labels, oms_annotations := annotations,
       oms_ownerReferences := ownerReferences, oms_finalizers := finalizers,
       oms_managedFields := managedFields\<rparr>) (\<lambda>a. a)
     (both plain (both (ptr timeKind plain) (both (ptr int64Kind plain) (both gostringmap (both gostringmap
           (both (slice ownerReferenceKind ownerReference) (both (slice stringKind plain)
           (slice managedFieldsEntryKind managedFieldsEntry))))))))"

lemma copy_objectMeta [simp]: "cp_copy objectMeta = DeepCopyInto_ObjectMeta"
  by (rule ext) (simp add: objectMeta_def DeepCopyInto_ObjectMeta_def struct_copy)

lemma objectMeta_deep [deep_intros]: "deep_copier objectMeta"
  unfolding objectMeta_def
  by (rule through_deep) (auto intro!: deep_intros simp: struct_copy split: prod.splits)

definition DeepCopyInto_ListMeta :: "ListMetaStruct \<Rightarrow> (heap, ListMetaStruct) state" where
  "DeepCopyInto_ListMeta src = do {
     remainingItemCount \<leftarrow> copyPointer int64Kind plain (lms_remainingItemCount src);
     State_Monad.return (src\<lparr>lms_remainingItemCount := remainingItemCount\<rparr>)
   }"

definition listMeta where
  "listMeta = through
     (\<lambda>s. (s\<lparr>lms_remainingItemCount := None\<rparr>, lms_remainingItemCount s))
     (\<lambda>(s, remainingItemCount). s\<lparr>lms_remainingItemCount := remainingItemCount\<rparr>) (\<lambda>a. a)
     (both plain (ptr int64Kind plain))"

lemma copy_listMeta [simp]: "cp_copy listMeta = DeepCopyInto_ListMeta"
  by (rule ext) (simp add: listMeta_def DeepCopyInto_ListMeta_def struct_copy)

lemma listMeta_deep [deep_intros]: "deep_copier listMeta"
  unfolding listMeta_def
  by (rule through_deep) (auto intro!: deep_intros simp: struct_copy split: prod.splits)

text \<open>\<^verbatim>\<open>IPNet.DeepCopyInto\<close>; the clone it makes on the way is garbage and left out.\<close>

definition DeepCopyInto_IPNet :: "IPNetStruct \<Rightarrow> (heap, IPNetStruct) state" where
  "DeepCopyInto_IPNet src = do {
     ip \<leftarrow> appendBytes (ips_IP src);
     mask \<leftarrow> appendBytes (ips_Mask src);
     State_Monad.return (src\<lparr>ips_IP := ip, ips_Mask := mask\<rparr>)
   }"

definition ipNet where
  "ipNet = through
     (\<lambda>s. (s\<lparr>ips_IP := None, ips_Mask := None\<rparr>, ips_IP s, ips_Mask s))
     (\<lambda>(s, ip, mask). s\<lparr>ips_IP := ip, ips_Mask := mask\<rparr>) (\<lambda>a. a)
     (both plain (both byteString (byteString)))"

lemma copy_ipNet [simp]: "cp_copy ipNet = DeepCopyInto_IPNet"
  by (rule ext) (simp add: ipNet_def DeepCopyInto_IPNet_def struct_copy)

lemma ipNet_deep [deep_intros]: "deep_copier ipNet"
  unfolding ipNet_def
  by (rule through_deep) (auto intro!: deep_intros simp: struct_copy split: prod.splits)

definition zeroIPNet :: IPNetStruct where
  "zeroIPNet = \<lparr>ips_IP = None, ips_Mask = None\<rparr>"

text \<open>\<^verbatim>\<open>ServiceNetworkEntry\<close> and \<^verbatim>\<open>MachineNetworkEntry\<close>.\<close>

definition DeepCopyInto_NetworkEntry :: "NetworkEntryStruct \<Rightarrow> (heap, NetworkEntryStruct) state" where
  "DeepCopyInto_NetworkEntry src = do {
     cidr \<leftarrow> DeepCopyInto_IPNet (nes_CIDR src);
     State_Monad.return (src\<lparr>nes_CIDR := cidr\<rparr>)
   }"

definition networkEntry where
  "networkEntry = through
     (\<lambda>s. (s\<lparr>nes_CIDR := zeroIPNet\<rparr>, nes_CIDR s))
     (\<lambda>(s, cidr). s\<lparr>nes_CIDR := cidr\<rparr>) (\<lambda>a. a)
     (both plain ipNet)"

lemma copy_networkEntry [simp]: "cp_copy networkEntry = DeepCopyInto_NetworkEntry"
  by (rule ext) (simp add: networkEntry_def DeepCopyInto_NetworkEntry_def struct_copy)

lemma networkEntry_deep [deep_intros]: "deep_copier networkEntry"
  unfolding networkEntry_def
  by (rule through_deep) (auto intro!: deep_intros simp: struct_copy split: prod.splits)

definition DeepCopyInto_ClusterNetworkEntry :: "ClusterNetworkEntryStruct \<Rightarrow> (heap,
  ClusterNetworkEntryStruct) state" where
  "DeepCopyInto_ClusterNetworkEntry src = do {
     cidr \<leftarrow> DeepCopyInto_IPNet (cnes_CIDR src);
     State_Monad.return (src\<lparr>cnes_CIDR := cidr\<rparr>)
   }"

definition clusterNetworkEntry where
  "clusterNetworkEntry = through
     (\<lambda>s. (s\<lparr>cnes_CIDR := zeroIPNet\<rparr>, cnes_CIDR s))
     (\<lambda>(s, cidr). s\<lparr>cnes_CIDR := cidr\<rparr>) (\<lambda>a. a)
     (both plain ipNet)"

lemma copy_clusterNetworkEntry [simp]: "cp_copy clusterNetworkEntry = DeepCopyInto_ClusterNetworkEntry"
  by (rule ext) (simp add: clusterNetworkEntry_def DeepCopyInto_ClusterNetworkEntry_def struct_copy)

lemma clusterNetworkEntry_deep [deep_intros]: "deep_copier clusterNetworkEntry"
  unfolding clusterNetworkEntry_def
  by (rule through_deep) (auto intro!: deep_intros simp: struct_copy split: prod.splits)

definition serviceNetworkKind :: "NetworkEntryStruct kind" where
  "serviceNetworkKind = \<lparr>array_of = ServiceNetworkEntries,
    elems_of = \<lambda>c. case c of ServiceNetworkEntries xs \<Rightarrow> Some xs | _ \<Rightarrow> None,
      zero_of = \<lparr>nes_CIDR = zeroIPNet\<rparr>\<rparr>"

lemma lawful_serviceNetworkKind [deep_intros]: "lawful serviceNetworkKind"
  by (simp add: lawful_def serviceNetworkKind_def)

definition machineNetworkKind :: "NetworkEntryStruct kind" where
  "machineNetworkKind = \<lparr>array_of = MachineNetworkEntries,
    elems_of = \<lambda>c. case c of MachineNetworkEntries xs \<Rightarrow> Some xs | _ \<Rightarrow> None,
      zero_of = \<lparr>nes_CIDR = zeroIPNet\<rparr>\<rparr>"

lemma lawful_machineNetworkKind [deep_intros]: "lawful machineNetworkKind"
  by (simp add: lawful_def machineNetworkKind_def)

definition clusterNetworkKind :: "ClusterNetworkEntryStruct kind" where
  "clusterNetworkKind = \<lparr>array_of = ClusterNetworkEntries,
    elems_of = \<lambda>c. case c of ClusterNetworkEntries xs \<Rightarrow> Some xs | _ \<Rightarrow> None,
      zero_of = \<lparr>cnes_CIDR = zeroIPNet, cnes_hostPrefix = 0\<rparr>\<rparr>"

lemma lawful_clusterNetworkKind [deep_intros]: "lawful clusterNetworkKind"
  by (simp add: lawful_def clusterNetworkKind_def)

definition conditionKind :: "ConditionStruct kind" where
  "conditionKind = \<lparr>array_of = Conditions,
    elems_of = \<lambda>c. case c of Conditions xs \<Rightarrow> Some xs | _ \<Rightarrow> None,
      zero_of = \<lparr>cos_type = [], cos_status = [], cos_observedGeneration = 0,
     cos_lastTransitionTime = 0, cos_reason = [], cos_message = []\<rparr>\<rparr>"

lemma lawful_conditionKind [deep_intros]: "lawful conditionKind"
  by (simp add: lawful_def conditionKind_def)

definition objectReferenceKind :: "ObjectReferenceStruct kind" where
  "objectReferenceKind = \<lparr>array_of = ObjectReferences,
    elems_of = \<lambda>c. case c of ObjectReferences xs \<Rightarrow> Some xs | _ \<Rightarrow> None,
      zero_of = \<lparr>obs_kind = [], obs_namespace = [], obs_name = [], obs_uid = [],
     obs_apiVersion = [], obs_resourceVersion = [], obs_fieldPath = []\<rparr>\<rparr>"

lemma lawful_objectReferenceKind [deep_intros]: "lawful objectReferenceKind"
  by (simp add: lawful_def objectReferenceKind_def)

definition localObjectReferenceKind :: "string kind" where
  "localObjectReferenceKind = \<lparr>array_of = LocalObjectReferences,
    elems_of = \<lambda>c. case c of LocalObjectReferences xs \<Rightarrow> Some xs | _ \<Rightarrow> None,
      zero_of = []\<rparr>"

lemma lawful_localObjectReferenceKind [deep_intros]: "lawful localObjectReferenceKind"
  by (simp add: lawful_def localObjectReferenceKind_def)

subsection \<open>References and network configuration\<close>

definition zeroReference :: ReferenceStruct where
  "zeroReference = \<lparr>rfs_name = [], rfs_namespace = []\<rparr>"

definition dpuClusterReferenceKind :: "ReferenceStruct kind" where
  "dpuClusterReferenceKind = \<lparr>array_of = DPUClusterReferences,
    elems_of = \<lambda>c. case c of DPUClusterReferences xs \<Rightarrow> Some xs | _ \<Rightarrow> None,
      zero_of = zeroReference\<rparr>"

lemma lawful_dpuClusterReferenceKind [deep_intros]: "lawful dpuClusterReferenceKind"
  by (simp add: lawful_def dpuClusterReferenceKind_def)

definition dpuDeploymentReferenceKind :: "ReferenceStruct kind" where
  "dpuDeploymentReferenceKind = \<lparr>array_of = DPUDeploymentReferences,
    elems_of = \<lambda>c. case c of DPUDeploymentReferences xs \<Rightarrow> Some xs | _ \<Rightarrow> None,
      zero_of = zeroReference\<rparr>"

lemma lawful_dpuDeploymentReferenceKind [deep_intros]: "lawful dpuDeploymentReferenceKind"
  by (simp add: lawful_def dpuDeploymentReferenceKind_def)

definition DeepCopyInto_ClusterNetworkConfig :: "ClusterNetworkConfigStruct \<Rightarrow> (heap,
  ClusterNetworkConfigStruct) state" where
  "DeepCopyInto_ClusterNetworkConfig src = do {
     serviceNetwork \<leftarrow> copySlice serviceNetworkKind networkEntry (cncs_serviceNetwork src);
     clusterNetwork \<leftarrow> copySlice clusterNetworkKind clusterNetworkEntry (cncs_clusterNetwork src);
     machineNetwork \<leftarrow> copySlice machineNetworkKind networkEntry (cncs_machineNetwork src);
     State_Monad.return (src\<lparr>cncs_serviceNetwork := serviceNetwork, cncs_clusterNetwork := clusterNetwork,
       cncs_machineNetwork := machineNetwork\<rparr>)
   }"

definition clusterNetworkConfig where
  "clusterNetworkConfig = through
     (\<lambda>s. (s\<lparr>cncs_serviceNetwork := None, cncs_clusterNetwork := None,
       cncs_machineNetwork := None\<rparr>, cncs_serviceNetwork s, cncs_clusterNetwork s, cncs_machineNetwork s))
     (\<lambda>(s, serviceNetwork, clusterNetwork, machineNetwork). s\<lparr>cncs_serviceNetwork := serviceNetwork,
       cncs_clusterNetwork := clusterNetwork, cncs_machineNetwork := machineNetwork\<rparr>) (\<lambda>a. a)
     (both plain (both (slice serviceNetworkKind networkEntry)
           (both (slice clusterNetworkKind clusterNetworkEntry) (slice machineNetworkKind networkEntry))))"

lemma copy_clusterNetworkConfig [simp]: "cp_copy clusterNetworkConfig = DeepCopyInto_ClusterNetworkConfig"
  by (rule ext) (simp add: clusterNetworkConfig_def DeepCopyInto_ClusterNetworkConfig_def struct_copy)

lemma clusterNetworkConfig_deep [deep_intros]: "deep_copier clusterNetworkConfig"
  unfolding clusterNetworkConfig_def
  by (rule through_deep) (auto intro!: deep_intros simp: struct_copy split: prod.splits)

definition clusterNetworkConfigKind :: "ClusterNetworkConfigStruct kind" where
  "clusterNetworkConfigKind = \<lparr>array_of = ClusterNetworkConfigs,
    elems_of = \<lambda>c. case c of ClusterNetworkConfigs xs \<Rightarrow> Some xs | _ \<Rightarrow> None,
      zero_of = \<lparr>cncs_serviceNetwork = None, cncs_clusterNetwork = None,
     cncs_machineNetwork = None\<rparr>\<rparr>"

lemma lawful_clusterNetworkConfigKind [deep_intros]: "lawful clusterNetworkConfigKind"
  by (simp add: lawful_def clusterNetworkConfigKind_def)

subsection \<open>Specification and status\<close>

definition DeepCopyInto_Spec :: "SpecStruct \<Rightarrow> (heap, SpecStruct) state" where
  "DeepCopyInto_Spec src = do {
     nodeSelector \<leftarrow> copyMap (sps_nodeSelector src);
     flannelEnabled \<leftarrow> copyPointer boolKind plain (sps_flannelEnabled src);
     dpuDeploymentRef \<leftarrow> copyPointer dpuDeploymentReferenceKind plain (sps_dpuDeploymentRef src);
     networking \<leftarrow> copyPointer clusterNetworkConfigKind clusterNetworkConfig (sps_networking src);
     State_Monad.return (src\<lparr>sps_nodeSelector := nodeSelector, sps_flannelEnabled := flannelEnabled,
       sps_dpuDeploymentRef := dpuDeploymentRef, sps_networking := networking\<rparr>)
   }"

definition specC where
  "specC = through
     (\<lambda>s. (s\<lparr>sps_nodeSelector := None, sps_flannelEnabled := None, sps_dpuDeploymentRef := None,
       sps_networking := None\<rparr>, sps_nodeSelector s, sps_flannelEnabled s, sps_dpuDeploymentRef s,
       sps_networking s))
     (\<lambda>(s, nodeSelector, flannelEnabled, dpuDeploymentRef,
       networking). s\<lparr>sps_nodeSelector := nodeSelector, sps_flannelEnabled := flannelEnabled,
       sps_dpuDeploymentRef := dpuDeploymentRef, sps_networking := networking\<rparr>) (\<lambda>a. a)
     (both plain (both gostringmap (both (ptr boolKind plain)
           (both (ptr dpuDeploymentReferenceKind plain) (ptr clusterNetworkConfigKind clusterNetworkConfig)))))"

lemma copy_specC [simp]: "cp_copy specC = DeepCopyInto_Spec"
  by (rule ext) (simp add: specC_def DeepCopyInto_Spec_def struct_copy)

lemma specC_deep [deep_intros]: "deep_copier specC"
  unfolding specC_def
  by (rule through_deep) (auto intro!: deep_intros simp: struct_copy split: prod.splits)

definition DeepCopyInto_Status :: "StatusStruct \<Rightarrow> (heap, StatusStruct) state" where
  "DeepCopyInto_Status src = do {
     conditions \<leftarrow> copySlice conditionKind plain (sts_conditions src);
     hostedClusterRef \<leftarrow> copyPointer objectReferenceKind plain (sts_hostedClusterRef src);
     kubeConfigSecretRef \<leftarrow> copyPointer localObjectReferenceKind plain (sts_kubeConfigSecretRef src);
     State_Monad.return (src\<lparr>sts_conditions := conditions, sts_hostedClusterRef := hostedClusterRef,
       sts_kubeConfigSecretRef := kubeConfigSecretRef\<rparr>)
   }"

definition statusC where
  "statusC = through
     (\<lambda>s. (s\<lparr>sts_conditions := None, sts_hostedClusterRef := None,
       sts_kubeConfigSecretRef := None\<rparr>, sts_conditions s, sts_hostedClusterRef s, sts_kubeConfigSecretRef s))
     (\<lambda>(s, conditions, hostedClusterRef, kubeConfigSecretRef). s\<lparr>sts_conditions := conditions,
       sts_hostedClusterRef := hostedClusterRef,
       sts_kubeConfigSecretRef := kubeConfigSecretRef\<rparr>) (\<lambda>a. a)
     (both plain (both (slice conditionKind plain)
           (both (ptr objectReferenceKind plain) (ptr localObjectReferenceKind plain))))"

lemma copy_statusC [simp]: "cp_copy statusC = DeepCopyInto_Status"
  by (rule ext) (simp add: statusC_def DeepCopyInto_Status_def struct_copy)

lemma statusC_deep [deep_intros]: "deep_copier statusC"
  unfolding statusC_def
  by (rule through_deep) (auto intro!: deep_intros simp: struct_copy split: prod.splits)

definition zeroTypeMeta :: TypeMetaStruct where
  "zeroTypeMeta = \<lparr>tms_kind = [], tms_apiVersion = []\<rparr>"

definition zeroObjectMeta :: ObjectMetaStruct where
  "zeroObjectMeta = \<lparr>oms_name = [], oms_generateName = [], oms_namespace = [], oms_selfLink = [], oms_uid = [],
     oms_resourceVersion = [], oms_generation = 0, oms_creationTimestamp = 0, oms_deletionTimestamp = None,
     oms_deletionGracePeriodSeconds = None, oms_labels = None, oms_annotations = None, oms_ownerReferences = None,
     oms_finalizers = None, oms_managedFields = None\<rparr>"

definition zeroListMeta :: ListMetaStruct where
  "zeroListMeta = \<lparr>lms_selfLink = [], lms_resourceVersion = [], lms_continue = [],
    lms_remainingItemCount = None\<rparr>"

definition zeroSpec :: SpecStruct where
  "zeroSpec = \<lparr>sps_dpuClusterRef = zeroReference, sps_baseDomain = [], sps_ocpReleaseImage = [],
    sps_sshKeySecretRef = [],
     sps_pullSecretRef = [], sps_etcdStorageClass = [], sps_controlPlaneAvailabilityPolicy = [], sps_virtualIP = [],
     sps_nodeSelector = None, sps_flannelEnabled = None, sps_dpuDeploymentRef = None, sps_machineOSURL = [],
     sps_networking = None\<rparr>"

definition zeroStatus :: StatusStruct where
  "zeroStatus = \<lparr>sts_phase = [], sts_conditions = None, sts_hostedClusterRef = None,
    sts_kubeConfigSecretRef = None,
     sts_blueFieldOCPLayerImage = []\<rparr>"

definition zeroConfigSpec :: ConfigSpecStruct where
  "zeroConfigSpec = \<lparr>css_blueFieldOCPLayerRepo = [], css_disableMetalLB = False,
    css_manageDPUServiceTemplates = False,
     css_dpuServicesImagePullSecret = [], css_ovsHugepagesSize = [], css_ovsHugepagesAmount = 0\<rparr>"

definition zeroProvisioner :: ProvisionerStruct where
  "zeroProvisioner = \<lparr>prs_typeMeta = zeroTypeMeta, prs_objectMeta = zeroObjectMeta, prs_spec = zeroSpec,
    prs_status = zeroStatus\<rparr>"

definition zeroConfig :: ConfigStruct where
  "zeroConfig = \<lparr>cfs_typeMeta = zeroTypeMeta, cfs_objectMeta = zeroObjectMeta,
    cfs_spec = zeroConfigSpec\<rparr>"

definition zeroList :: ListStruct where
  "zeroList = \<lparr>lis_typeMeta = zeroTypeMeta, lis_listMeta = zeroListMeta, lis_items = None\<rparr>"

definition specKind :: "SpecStruct kind" where
  "specKind = \<lparr>array_of = Specs,
    elems_of = \<lambda>c. case c of Specs xs \<Rightarrow> Some xs | _ \<Rightarrow> None,
      zero_of = zeroSpec\<rparr>"

lemma lawful_specKind [deep_intros]: "lawful specKind"
  by (simp add: lawful_def specKind_def)

definition statusKind :: "StatusStruct kind" where
  "statusKind = \<lparr>array_of = Statuses,
    elems_of = \<lambda>c. case c of Statuses xs \<Rightarrow> Some xs | _ \<Rightarrow> None,
      zero_of = zeroStatus\<rparr>"

lemma lawful_statusKind [deep_intros]: "lawful statusKind"
  by (simp add: lawful_def statusKind_def)

definition provisionerKind :: "ProvisionerStruct kind" where
  "provisionerKind = \<lparr>array_of = Provisioners,
    elems_of = \<lambda>c. case c of Provisioners xs \<Rightarrow> Some xs | _ \<Rightarrow> None,
      zero_of = zeroProvisioner\<rparr>"

lemma lawful_provisionerKind [deep_intros]: "lawful provisionerKind"
  by (simp add: lawful_def provisionerKind_def)

definition provisionerListKind :: "ListStruct kind" where
  "provisionerListKind = \<lparr>array_of = ProvisionerLists,
    elems_of = \<lambda>c. case c of ProvisionerLists xs \<Rightarrow> Some xs | _ \<Rightarrow> None,
      zero_of = zeroList\<rparr>"

lemma lawful_provisionerListKind [deep_intros]: "lawful provisionerListKind"
  by (simp add: lawful_def provisionerListKind_def)

definition configSpecKind :: "ConfigSpecStruct kind" where
  "configSpecKind = \<lparr>array_of = ConfigSpecs,
    elems_of = \<lambda>c. case c of ConfigSpecs xs \<Rightarrow> Some xs | _ \<Rightarrow> None,
      zero_of = zeroConfigSpec\<rparr>"

lemma lawful_configSpecKind [deep_intros]: "lawful configSpecKind"
  by (simp add: lawful_def configSpecKind_def)

definition configKind :: "ConfigStruct kind" where
  "configKind = \<lparr>array_of = Configs,
    elems_of = \<lambda>c. case c of Configs xs \<Rightarrow> Some xs | _ \<Rightarrow> None,
      zero_of = zeroConfig\<rparr>"

lemma lawful_configKind [deep_intros]: "lawful configKind"
  by (simp add: lawful_def configKind_def)

definition configListKind :: "ListStruct kind" where
  "configListKind = \<lparr>array_of = ConfigLists,
    elems_of = \<lambda>c. case c of ConfigLists xs \<Rightarrow> Some xs | _ \<Rightarrow> None,
      zero_of = zeroList\<rparr>"

lemma lawful_configListKind [deep_intros]: "lawful configListKind"
  by (simp add: lawful_def configListKind_def)

subsection \<open>The resources\<close>

definition DeepCopyInto_DPFHCPProvisioner :: "ProvisionerStruct \<Rightarrow> (heap, ProvisionerStruct) state" where
  "DeepCopyInto_DPFHCPProvisioner src = do {
     objectMeta' \<leftarrow> DeepCopyInto_ObjectMeta (prs_objectMeta src);
     spec \<leftarrow> DeepCopyInto_Spec (prs_spec src);
     status \<leftarrow> DeepCopyInto_Status (prs_status src);
     State_Monad.return (src\<lparr>prs_objectMeta := objectMeta', prs_spec := spec, prs_status := status\<rparr>)
   }"

definition provisionerC where
  "provisionerC = through
     (\<lambda>s. (s\<lparr>prs_objectMeta := zeroObjectMeta, prs_spec := zeroSpec,
       prs_status := zeroStatus\<rparr>, prs_objectMeta s, prs_spec s, prs_status s))
     (\<lambda>(s, objectMeta', spec, status). s\<lparr>prs_objectMeta := objectMeta', prs_spec := spec,
       prs_status := status\<rparr>) (\<lambda>a. a)
     (both plain (both objectMeta (both specC (statusC))))"

lemma copy_provisionerC [simp]: "cp_copy provisionerC = DeepCopyInto_DPFHCPProvisioner"
  by (rule ext) (simp add: provisionerC_def DeepCopyInto_DPFHCPProvisioner_def struct_copy)

lemma provisionerC_deep [deep_intros]: "deep_copier provisionerC"
  unfolding provisionerC_def
  by (rule through_deep) (auto intro!: deep_intros simp: struct_copy split: prod.splits)

definition DeepCopyInto_DPFHCPProvisionerConfig :: "ConfigStruct \<Rightarrow> (heap, ConfigStruct) state" where
  "DeepCopyInto_DPFHCPProvisionerConfig src = do {
     objectMeta' \<leftarrow> DeepCopyInto_ObjectMeta (cfs_objectMeta src);
     State_Monad.return (src\<lparr>cfs_objectMeta := objectMeta'\<rparr>)
   }"

definition configC where
  "configC = through
     (\<lambda>s. (s\<lparr>cfs_objectMeta := zeroObjectMeta\<rparr>, cfs_objectMeta s))
     (\<lambda>(s, objectMeta'). s\<lparr>cfs_objectMeta := objectMeta'\<rparr>) (\<lambda>a. a)
     (both plain objectMeta)"

lemma copy_configC [simp]: "cp_copy configC = DeepCopyInto_DPFHCPProvisionerConfig"
  by (rule ext) (simp add: configC_def DeepCopyInto_DPFHCPProvisionerConfig_def struct_copy)

lemma configC_deep [deep_intros]: "deep_copier configC"
  unfolding configC_def
  by (rule through_deep) (auto intro!: deep_intros simp: struct_copy split: prod.splits)

definition DeepCopyInto_DPFHCPProvisionerList :: "ListStruct \<Rightarrow> (heap, ListStruct) state" where
  "DeepCopyInto_DPFHCPProvisionerList src = do {
     listMeta' \<leftarrow> DeepCopyInto_ListMeta (lis_listMeta src);
     items \<leftarrow> copySlice provisionerKind provisionerC (lis_items src);
     State_Monad.return (src\<lparr>lis_listMeta := listMeta', lis_items := items\<rparr>)
   }"

definition provisionerListC where
  "provisionerListC = through
     (\<lambda>s. (s\<lparr>lis_listMeta := zeroListMeta, lis_items := None\<rparr>, lis_listMeta s, lis_items s))
     (\<lambda>(s, listMeta', items). s\<lparr>lis_listMeta := listMeta', lis_items := items\<rparr>) (\<lambda>a. a)
     (both plain (both listMeta (slice provisionerKind provisionerC)))"

lemma copy_provisionerListC [simp]: "cp_copy provisionerListC = DeepCopyInto_DPFHCPProvisionerList"
  by (rule ext) (simp add: provisionerListC_def DeepCopyInto_DPFHCPProvisionerList_def struct_copy)

lemma provisionerListC_deep [deep_intros]: "deep_copier provisionerListC"
  unfolding provisionerListC_def
  by (rule through_deep) (auto intro!: deep_intros simp: struct_copy split: prod.splits)

definition DeepCopyInto_DPFHCPProvisionerConfigList :: "ListStruct \<Rightarrow> (heap, ListStruct) state" where
  "DeepCopyInto_DPFHCPProvisionerConfigList src = do {
     listMeta' \<leftarrow> DeepCopyInto_ListMeta (lis_listMeta src);
     items \<leftarrow> copySlice configKind configC (lis_items src);
     State_Monad.return (src\<lparr>lis_listMeta := listMeta', lis_items := items\<rparr>)
   }"

definition configListC where
  "configListC = through
     (\<lambda>s. (s\<lparr>lis_listMeta := zeroListMeta, lis_items := None\<rparr>, lis_listMeta s, lis_items s))
     (\<lambda>(s, listMeta', items). s\<lparr>lis_listMeta := listMeta', lis_items := items\<rparr>) (\<lambda>a. a)
     (both plain (both listMeta (slice configKind configC)))"

lemma copy_configListC [simp]: "cp_copy configListC = DeepCopyInto_DPFHCPProvisionerConfigList"
  by (rule ext) (simp add: configListC_def DeepCopyInto_DPFHCPProvisionerConfigList_def struct_copy)

lemma configListC_deep [deep_intros]: "deep_copier configListC"
  unfolding configListC_def
  by (rule through_deep) (auto intro!: deep_intros simp: struct_copy split: prod.splits)

subsection \<open>DeepCopy\<close>

text \<open>Each \<^verbatim>\<open>DeepCopy\<close> returns nil for nil and otherwise copies into a new structure.\<close>

definition DeepCopy_ClusterNetworkConfig :: "pointer \<Rightarrow> (heap, pointer) state" where
  "DeepCopy_ClusterNetworkConfig = copyPointer clusterNetworkConfigKind clusterNetworkConfig"

definition DeepCopy_DPFHCPProvisioner :: "pointer \<Rightarrow> (heap, pointer) state" where
  "DeepCopy_DPFHCPProvisioner = copyPointer provisionerKind provisionerC"

definition DeepCopy_DPFHCPProvisionerConfig :: "pointer \<Rightarrow> (heap, pointer) state" where
  "DeepCopy_DPFHCPProvisionerConfig = copyPointer configKind configC"

definition DeepCopy_DPFHCPProvisionerConfigList :: "pointer \<Rightarrow> (heap, pointer) state" where
  "DeepCopy_DPFHCPProvisionerConfigList = copyPointer configListKind configListC"

definition DeepCopy_DPFHCPProvisionerConfigSpec :: "pointer \<Rightarrow> (heap, pointer) state" where
  "DeepCopy_DPFHCPProvisionerConfigSpec = copyPointer configSpecKind plain"

definition DeepCopy_DPFHCPProvisionerList :: "pointer \<Rightarrow> (heap, pointer) state" where
  "DeepCopy_DPFHCPProvisionerList = copyPointer provisionerListKind provisionerListC"

definition DeepCopy_DPFHCPProvisionerSpec :: "pointer \<Rightarrow> (heap, pointer) state" where
  "DeepCopy_DPFHCPProvisionerSpec = copyPointer specKind specC"

definition DeepCopy_DPFHCPProvisionerStatus :: "pointer \<Rightarrow> (heap, pointer) state" where
  "DeepCopy_DPFHCPProvisionerStatus = copyPointer statusKind statusC"

definition DeepCopy_DPUClusterReference :: "pointer \<Rightarrow> (heap, pointer) state" where
  "DeepCopy_DPUClusterReference = copyPointer dpuClusterReferenceKind plain"

definition DeepCopy_DPUDeploymentReference :: "pointer \<Rightarrow> (heap, pointer) state" where
  "DeepCopy_DPUDeploymentReference = copyPointer dpuDeploymentReferenceKind plain"

text \<open>\<^verbatim>\<open>DeepCopyObject\<close> makes an interface value of the copy; a nil pointer becomes a nil interface.\<close>

definition DeepCopyObject_DPFHCPProvisioner :: "pointer \<Rightarrow> (heap, pointer) state" where
  "DeepCopyObject_DPFHCPProvisioner src = do {
     c \<leftarrow> DeepCopy_DPFHCPProvisioner src;
     (if c \<noteq> None then State_Monad.return c else State_Monad.return None)
   }"

definition DeepCopyObject_DPFHCPProvisionerConfig :: "pointer \<Rightarrow> (heap, pointer) state" where
  "DeepCopyObject_DPFHCPProvisionerConfig src = do {
     c \<leftarrow> DeepCopy_DPFHCPProvisionerConfig src;
     (if c \<noteq> None then State_Monad.return c else State_Monad.return None)
   }"

definition DeepCopyObject_DPFHCPProvisionerConfigList :: "pointer \<Rightarrow> (heap, pointer) state" where
  "DeepCopyObject_DPFHCPProvisionerConfigList src = do {
     c \<leftarrow> DeepCopy_DPFHCPProvisionerConfigList src;
     (if c \<noteq> None then State_Monad.return c else State_Monad.return None)
   }"

definition DeepCopyObject_DPFHCPProvisionerList :: "pointer \<Rightarrow> (heap, pointer) state" where
  "DeepCopyObject_DPFHCPProvisionerList src = do {
     c \<leftarrow> DeepCopy_DPFHCPProvisionerList src;
     (if c \<noteq> None then State_Monad.return c else State_Monad.return None)
   }"

lemma nil_interface: "(if c \<noteq> None then State_Monad.return c else State_Monad.return None) = State_Monad.return c"
  by (cases c) simp_all

lemma DeepCopyObject_copies:
  "run_state (DeepCopyObject_DPFHCPProvisioner src) h = run_state (cp_copy (ptr provisionerKind provisionerC) src) h"
  "run_state (DeepCopyObject_DPFHCPProvisionerConfig src) h = run_state (cp_copy (ptr configKind configC) src) h"
  "run_state (DeepCopyObject_DPFHCPProvisionerConfigList src) h = run_state (cp_copy (ptr configListKind configListC) src) h"
  "run_state (DeepCopyObject_DPFHCPProvisionerList src) h = run_state (cp_copy (ptr provisionerListKind provisionerListC) src) h"
  unfolding DeepCopyObject_DPFHCPProvisioner_def DeepCopyObject_DPFHCPProvisionerConfig_def
    DeepCopyObject_DPFHCPProvisionerConfigList_def DeepCopyObject_DPFHCPProvisionerList_def nil_interface
  by (simp_all add: DeepCopy_DPFHCPProvisioner_def DeepCopy_DPFHCPProvisionerConfig_def
      DeepCopy_DPFHCPProvisionerConfigList_def DeepCopy_DPFHCPProvisionerList_def split: prod.splits)

interpretation provisioner: deep_copier "ptr provisionerKind provisionerC"
  by (intro deep_intros)

interpretation config: deep_copier "ptr configKind configC"
  by (intro deep_intros)

interpretation configList: deep_copier "ptr configListKind configListC"
  by (intro deep_intros)

interpretation provisionerList: deep_copier "ptr provisionerListKind provisionerListC"
  by (intro deep_intros)

interpretation networking: deep_copier "ptr clusterNetworkConfigKind clusterNetworkConfig"
  by (intro deep_intros)

interpretation spec: deep_copier "ptr specKind specC"
  by (intro deep_intros)

interpretation status: deep_copier "ptr statusKind statusC"
  by (intro deep_intros)

text \<open>
  C36: The copy of a DPFHCPProvisioner that the cache hands to a reconcile is independent of the cached
  object. Both read the same afterwards, down to the bytes of the network addresses; no allocation can
  be reached from both; and whatever is later written through the one, with any allocations in
  between, the other still reads the same.
\<close>

theorem DeepCopyObject_independent:
  assumes "cp_view (ptr provisionerKind provisionerC) h p = Some a"
    and "run_state (DeepCopyObject_DPFHCPProvisioner p) h = (q, h')"
  shows "cp_view (ptr provisionerKind provisionerC) h' q = Some a
    \<and> cp_view (ptr provisionerKind provisionerC) h' p = Some a
    \<and> cp_reach (ptr provisionerKind provisionerC) h' q \<inter> cp_reach (ptr provisionerKind provisionerC) h' p = {}
    \<and> (\<forall>h''. grows (cp_reach (ptr provisionerKind provisionerC) h' q) h' h'' \<longrightarrow>
         cp_view (ptr provisionerKind provisionerC) h'' p = Some a)
    \<and> (\<forall>h''. grows (cp_reach (ptr provisionerKind provisionerC) h' p) h' h'' \<longrightarrow>
         cp_view (ptr provisionerKind provisionerC) h'' q = Some a)"
proof -
  note run = assms(2) [unfolded DeepCopyObject_copies]
  show ?thesis
    using provisioner.copy_law [OF assms(1) run] provisioner.original_kept [OF assms(1) run]
      provisioner.copy_disjoint [OF assms(1) run] provisioner.copy_independent [OF assms(1) run] by blast
qed

text \<open>The same for a list of resources, whose items are copied one by one.\<close>

lemma DeepCopyObject_list_independent:
  assumes "cp_view (ptr provisionerListKind provisionerListC) h p = Some a"
    and "run_state (DeepCopyObject_DPFHCPProvisionerList p) h = (q, h')"
  shows "cp_view (ptr provisionerListKind provisionerListC) h' q = Some a"
    and "grows (cp_reach (ptr provisionerListKind provisionerListC) h' q) h' h'' \<Longrightarrow>
      cp_view (ptr provisionerListKind provisionerListC) h'' p = Some a"
proof -
  note run = assms(2) [unfolded DeepCopyObject_copies]
  show "cp_view (ptr provisionerListKind provisionerListC) h' q = Some a"
    using provisionerList.copy_law [OF assms(1) run] by blast
  show "grows (cp_reach (ptr provisionerListKind provisionerListC) h' q) h' h'' \<Longrightarrow>
      cp_view (ptr provisionerListKind provisionerListC) h'' p = Some a"
    by (rule provisionerList.copy_independent(1) [OF assms(1) run])
qed

subsection \<open>Instances\<close>

text \<open>A resource with labels, a finalizer, a condition, a node selector and a service network.\<close>

definition sampleHeap :: heap where
  "sampleHeap =
     [Entries [(''app'', ''dpf'')], Strings [''x'', ''cleanup''], Entries [(''role'', ''dpu''), (''zone'', ''a'')],
      Bytes [10, 0, 0, 0], Bytes [255, 0, 0, 0],
      ServiceNetworkEntries [\<lparr>nes_CIDR = \<lparr>ips_IP = Some (3, 0, 4), ips_Mask = Some (4, 0,
        4)\<rparr>\<rparr>],
      ClusterNetworkConfigs [\<lparr>cncs_serviceNetwork = Some (5, 0, 1), cncs_clusterNetwork = None,
        cncs_machineNetwork = None\<rparr>],
      Provisioners [zeroProvisioner\<lparr>
        prs_objectMeta := zeroObjectMeta\<lparr>oms_name := ''p'', oms_labels := Some 0, oms_finalizers := Some (1,
        1, 1)\<rparr>,
        prs_spec := zeroSpec\<lparr>sps_nodeSelector := Some 2, sps_networking := Some (6, 0)\<rparr>\<rparr>]]"

lemma view_sample: "cp_view (ptr provisionerKind provisionerC) sampleHeap (Some (7, 0)) \<noteq> None"
  by code_simp

theorem DeepCopyObject_independent_witness:
  "\<exists>q h' a. run_state (DeepCopyObject_DPFHCPProvisioner (Some (7, 0))) sampleHeap = (q, h')
     \<and> cp_view (ptr provisionerKind provisionerC) h' q = Some a
     \<and> (\<forall>b \<in> cp_reach (ptr provisionerKind provisionerC) h' q. \<forall>c.
          cp_view (ptr provisionerKind provisionerC) (h'[b := c]) (Some (7, 0)) = Some a)"
proof -
  obtain q h' where run: "run_state (DeepCopyObject_DPFHCPProvisioner (Some (7, 0))) sampleHeap = (q, h')"
    by (rule prod.exhaust)
  obtain a where view: "cp_view (ptr provisionerKind provisionerC) sampleHeap (Some (7, 0)) = Some a"
    using view_sample by blast
  have "grows A h' (h'[b := c])" if "b \<in> A" for A b c
    using grows_mono [OF grows_update] that by simp
  then show ?thesis using DeepCopyObject_independent [OF view run] run by blast
qed

end
