(* ===== verification/Spec2Isabelle.thy ===== *)
theory Spec2Isabelle
  imports DPUCluster_Validation Secrets_Validation Image_Lookup Finalizer MetalLB Hosted_Cluster
    Hosted_Cleanup Kubeconfig_Injection CSR_Approval Phase Upgrade Ignition OVS_Hugepages
    Ignition_Generator Reconciler Watches Template_Controller Operator Startup Deep_Copy
begin

text \<open>
  \<^bold>\<open>The program.\<close> The DPF HCP provisioner operator (Go, \<^verbatim>\<open>src/internal\<close>, \<^verbatim>\<open>src/api\<close>) keeps, for every
  \<^verbatim>\<open>DPFHCPProvisioner\<close> resource, an OpenShift hosted control plane for a cluster of DPUs: it validates the
  resource, creates the HostedCluster and its secrets, exposes it through MetalLB, hands its kubeconfig
  to the DPUCluster, publishes the ignition the DPUs boot with, approves the certificate requests of
  the joining nodes, reserves huge pages on them, upgrades the control plane, and takes everything down
  again on deletion.

  \<^bold>\<open>The model.\<close> A controller of such an operator is a program that reads and writes a shared resource in
  memory and talks to servers whose answers it does not control. It is modelled as an \<open>io\<close> computation:
  a state monad over the record \<open>st\<close>, which holds the resource of the current reconcile, the objects
  the managers keep between reconciles (client cache, pause images, registry address, the
  once-per-process flag of the ignition check) and the history of all requests so far. A server is a
  function from the history and the request to the answer (\<open>env\<close>: the management cluster \<open>mgmt\<close>, hosted
  clusters, registries, HTTP and random numbers \<open>srv\<close>, and the pure third-party codecs \<open>cod\<close>). The
  theorems quantify over all environments, so over every behaviour of the servers, including answers
  that change between two requests of one run. Errors are values (\<open>goerror\<close>, \<open>goerror + 'a\<close>), a result
  of a step is the pair of \<^verbatim>\<open>ctrl.Result\<close> and error that the Go functions return, and a Go panic is an error
  of reason \<open>Panic\<close>. All computations are total: loops are structural recursions, so every theorem about
  a run is a theorem about a run that ends.

  \<^bold>\<open>The library.\<close>
  \<^item> \<open>Prelude\<close>: strings as the Go code uses them, errors, results, the weakest precondition \<open>wp\<close> of a
    computation and its rules (collection \<open>wp_simps\<close>).
  \<^item> \<open>Api_Types\<close>, \<open>Kube_Objects\<close>: the custom resources and the objects of other groups as records.
  \<^item> \<open>Kube_API\<close>: the requests, the environment, the client operations and \<open>stage\<close>, the chaining of steps.
  \<^item> \<open>Kube_Meta\<close>: conditions, owner references and finalizers of the vendored Kubernetes libraries, the
    locale of a store of conditions, and footprints (\<open>footprint\<close>, collection \<open>footprint_intros\<close>): which
    parts of the resource a step writes and which requests it sends.
  \<^item> \<open>Common\<close>: \<^verbatim>\<open>internal/common\<close>; \<open>Steps\<close>: the locale \<open>reconcile_step\<close>, the contract every feature of the
    controller keeps; \<open>Scenario\<close>: concrete environments and resources for the witnesses.
  \<^item> \<open>Controller_Util\<close>: \<^verbatim>\<open>controllerutil.CreateOrUpdate\<close> for any kind of object; \<open>Events\<close>: watch events and
    the predicate on generations, shared by the two controllers.
  \<^item> \<open>Sha256\<close>, \<open>Encoding\<close>: SHA-256, FNV-1a, base64 and percent encoding, as the standard library has them,
    with their round trips.

  \<^bold>\<open>The components\<close>, one theory each, every step of the controller an interpretation of \<open>reconcile_step\<close>.
  \<^item> \<open>DPUCluster_Validation\<close> (\<^verbatim>\<open>dpucluster/validator.go\<close>), \<open>Secrets_Validation\<close> (\<^verbatim>\<open>secrets/validator.go\<close>):
    the conditions a validator sets say exactly what the API server answered.
  \<^item> \<open>Image_Lookup\<close> (\<^verbatim>\<open>bfocplookup\<close>): the BlueField layer image that is recorded exists in the registry.
  \<^item> \<open>Finalizer\<close>, \<open>Hosted_Cleanup\<close>, and the cleanup handlers in \<open>MetalLB\<close> and \<open>Kubeconfig_Injection\<close>:
    deletion happens in order and touches only objects of this resource.
  \<^item> \<open>MetalLB\<close> (\<^verbatim>\<open>metallb\<close>): only labelled objects are touched; a pool in the desired state is left alone.
  \<^item> \<open>Hosted_Secrets\<close>, \<open>Hosted_Cluster\<close> (\<^verbatim>\<open>hostedcluster\<close>): copies of the credentials and their rotation,
    the HostedCluster and the NodePool, service publishing, mirrored conditions.
  \<^item> \<open>Kubeconfig_Injection\<close> (\<^verbatim>\<open>kubeconfiginjection\<close>): when the condition is True the copy and the reference
    are in place; the watch mapping inverts the naming.
  \<^item> \<open>Hosted_Client\<close> (\<^verbatim>\<open>internal/hostedclient\<close>): cached clients talk to the internal endpoint.
  \<^item> \<open>CSR_Approval\<close> (\<^verbatim>\<open>csrapproval\<close>): only vouched-for certificate requests are approved, and with stable
    answers all of them.
  \<^item> \<open>Phase\<close>, \<open>Upgrade\<close> (\<^verbatim>\<open>dpfhcpprovisioner_controller.go\<close>): the Ready condition and the phase; the order
    of an upgrade.
  \<^item> \<open>Ignition\<close> (\<^verbatim>\<open>internal/ignition\<close>): encoding and editing of ignition configurations, the embedded content.
  \<^item> \<open>Ignition_Generator\<close> (\<^verbatim>\<open>ignitiongenerator\<close>): only configuration downloaded with the synchronised token
    is published; the outcomes of a run.
  \<^item> \<open>OVS_Hugepages\<close> (\<^verbatim>\<open>ovs-hugepages\<close>): the reservation DaemonSet in the hosted cluster.

  \<^item> \<open>Reconciler\<close> (\<^verbatim>\<open>dpfhcpprovisioner_controller.go\<close>): \<^verbatim>\<open>Reconcile\<close> with all its features chained, and deletion.
    The footprints of the features compose: nothing is created for an unprotected resource, every
    created object can be recognised by the cleanup, the finalizer goes last, and change detection
    agrees with generation.

  \<^item> \<open>Watches\<close> (\<^verbatim>\<open>dpfhcpprovisioner_controller.go\<close>): event predicates and mapping functions; updates of the
    HostedCluster are dropped only if nothing that is read has changed, and the deletion of a published ignition
    ConfigMap starts a reconcile of its resource.

  \<^item> \<open>Semver\<close> (\<^verbatim>\<open>blang/semver\<close>), \<open>Release_Image\<close>, \<open>Dpf_Defaults\<close> (\<^verbatim>\<open>release_image.go\<close>, \<^verbatim>\<open>dpfdefaults\<close>): versions,
    components of a release payload, the values of the service templates and the overrides of the user.
  \<^item> \<open>Service_Template\<close>, \<open>Template_Server\<close>, \<open>Template_Controller\<close> (\<^verbatim>\<open>dpuservicetemplate\<close>): the second controller of
    the process, which keeps three DPUServiceTemplates per DPUCluster namespace. The API server is a locale
    with the laws of a store; on every such server the manager implements an abstract update of three
    entries, and what it does not manage stays as it is.

  \<^item> \<open>Setup\<close> (the three \<^verbatim>\<open>SetupWithManager\<close> functions): which events reach which work queue, through the
    handlers of \<^verbatim>\<open>controller-runtime\<close>.
  \<^item> \<open>Operator\<close>: the running process as a step relation: events are delivered, the three controllers take
    requests from their queues in any order, delayed requests come back. By induction over its runs: what
    the theorems of \<open>CSR_Approval\<close> and \<open>Reconciler\<close> say about one reconcile holds for the whole life of the
    process, no request is lost before a reconcile of it has settled, and events of a HostedCluster come
    back to its resource.
  \<^item> \<open>Startup\<close> (\<^verbatim>\<open>cmd/main.go\<close>): command line, TLS options with the slices they are kept in, options of the
    manager, the order of the start, and what the restricted ConfigMap cache can see.
  \<^item> \<open>Heap_Copy\<close>, \<open>Deep_Copy\<close> (\<^verbatim>\<open>zz_generated.deepcopy.go\<close>): the resources as structures with pointers, maps and
    slices in a heap. A copy shares nothing with its original, which is why the rest of the development
    can treat the resource of a reconcile as a value that no other code sees.

  \<^bold>\<open>Hypotheses about code that is not modelled\<close> stand in the statements that use them: that a
  decompressor inverts the compressor and that a JSON or ignition reader inverts its writer. PEM and X.509
  parsing, kubeconfig parsing, registry access, the ignition validator and merger, template rendering and
  the embedded files are fields of the environment without any assumption.

  \<^bold>\<open>Simplifications.\<close> Logging, metrics, contexts and transition times are left out. Go maps are association
  lists; where the order of a map matters the theorem quantifies over the orders
  (\<open>mirror_order_irrelevant\<close>). A reconcile is one run, also in \<open>Operator\<close>: the reconciles of the three
  controllers are interleaved as wholes, and other writers show up as answers that change between two
  requests. Every controller has one worker. Work queues have no priorities and no back-off times; a
  delayed request may become ready at any time. A panic ends the run with an error of reason \<open>Panic\<close>, as
  the controller runtime reports it. Mutexes are not modelled. Resource versions are not modelled; a
  conflict is an error a write may return at any time.

  \<^bold>\<open>Not modelled.\<close> The registration of types with the scheme (\<^verbatim>\<open>init\<close> in \<^verbatim>\<open>cmd/main.go\<close>,
  \<^verbatim>\<open>groupversion_info.go\<close>), the set-up of the logger, and the validation markers of the custom resources,
  which the API server enforces.
\<close>

end
